(* ===== verification/Prelude.thy ===== *)
theory Prelude
  imports Main "HOL-Library.Word"
begin

text \<open>
  Shared vocabulary of the development: the machine types of the contracts, the
  state-and-abort monad in which every entry point is written, and the rewrite rules
  (collection \<open>run\<close>) by which the simplifier executes a monadic body symbolically.
\<close>

section \<open>Machine types\<close>

type_synonym u8 = "8 word"
type_synonym u16 = "16 word"
type_synonym u32 = "32 word"
type_synonym u64 = "64 word"

text \<open>\<open>BytesN<32>\<close> is exactly 32 bytes, so a 256-bit word.\<close>

type_synonym bytes32 = "256 word"

text \<open>
  An \<open>Address\<close> is an opaque host object that the contracts only compare for equality,
  print with \<open>to_string\<close> and authorize: the payload is the identity of that object.
\<close>

datatype address = Address nat

named_theorems run \<open>rules that execute a monadic body symbolically\<close>
named_theorems wf_intro \<open>how the primitive writes keep a well-formedness invariant\<close>

section \<open>Checked arithmetic\<close>

text \<open>Rust's \<open>u32::checked_add\<close>.\<close>

definition checked_add :: "u32 \<Rightarrow> u32 \<Rightarrow> u32 option" where
  "checked_add a b = (if unat a + unat b < 2 ^ 32 then Some (a + b) else None)"

lemma checked_add_Some_unat: "checked_add a b = Some c \<Longrightarrow> unat c = unat a + unat b"
  by (auto simp: checked_add_def unat_word_ariths split: if_splits)

lemma checked_add_one_None: "checked_add a 1 = None \<longleftrightarrow> a = - 1"
proof -
  have "unat a < 2 ^ LENGTH(32)"
    by (rule unsigned_less)
  moreover have "unat (- 1 :: u32) = 2 ^ 32 - 1"
    by (simp add: unsigned_minus_1_eq_mask mask_eq_exp_minus_1)
  ultimately have "unat a + 1 < 2 ^ 32 \<longleftrightarrow> unat a \<noteq> unat (- 1 :: u32)"
    by (simp, arith)
  then show ?thesis
    by (simp add: checked_add_def word_unat_eq_iff)
qed

lemma checked_add_one: "checked_add a 1 = (if a = - 1 then None else Some (a + 1))"
  using checked_add_one_None [of a] unfolding checked_add_def
  by (cases "unat a + unat (1 :: u32) < 2 ^ 32") auto

lemma checked_add_one_less: "checked_add a 1 = Some c \<Longrightarrow> a < c"
  by (drule checked_add_Some_unat) (simp add: word_less_nat_alt)

lemma checked_add_one_nonzero: "checked_add a 1 = Some c \<Longrightarrow> c \<noteq> 0"
  by (drule checked_add_Some_unat) auto

lemma nonzero_facts: "a \<noteq> - 1 \<Longrightarrow> (a :: u32) + 1 \<noteq> 0" "\<not> (b :: u32) \<le> c \<Longrightarrow> b \<noteq> 0"
  by (auto simp: add_eq_0_iff2)

section \<open>Aborts and the contract monad\<close>

text \<open>
  How an invocation can fail: an entry point returns \<open>Err e\<close>, panics with a message,
  fails \<open>require_auth\<close> for an address, reads a stored value at the wrong type, or is
  trapped by the host. Every failure is a value; the state reached at the failure is
  kept by the monad, so that the host's rollback (\<open>invoke\<close>) is a separate step.
\<close>

datatype 'e abort =
    Err 'e
  | Panic string
  | AuthFailure address
  | ConversionError
  | HostTrap

type_synonym ('s, 'e, 'a) contract_m = "'s \<Rightarrow> ('e abort + 'a) \<times> 's"

definition ret :: "'a \<Rightarrow> ('s, 'e, 'a) contract_m" where
  "ret x = (\<lambda>s. (Inr x, s))"

definition abort_with :: "'e abort \<Rightarrow> ('s, 'e, 'a) contract_m" where
  "abort_with a = (\<lambda>s. (Inl a, s))"

definition bind_m :: "('s, 'e, 'a) contract_m \<Rightarrow> ('a \<Rightarrow> ('s, 'e, 'b) contract_m)
    \<Rightarrow> ('s, 'e, 'b) contract_m" where
  "bind_m m f = (\<lambda>s. case m s of (Inl a, s') \<Rightarrow> (Inl a, s') | (Inr x, s') \<Rightarrow> f x s')"

abbreviation seq_m :: "('s, 'e, unit) contract_m \<Rightarrow> ('s, 'e, 'b) contract_m
    \<Rightarrow> ('s, 'e, 'b) contract_m" where
  "seq_m m k \<equiv> bind_m m (\<lambda>_. k)"

text \<open>\<open>Result::map_err\<close>, \<open>Option::ok_or\<close>, \<open>Option::expect\<close>, \<open>Result::expect\<close> and a
  \<open>match\<close> on the \<open>Result\<close> of a call inside the same contract.\<close>

definition map_err :: "('e \<Rightarrow> 'f) \<Rightarrow> ('s, 'e, 'a) contract_m \<Rightarrow> ('s, 'f, 'a) contract_m" where
  "map_err f m = (\<lambda>s. case m s of (r, s') \<Rightarrow> (map_sum (map_abort f) id r, s'))"

definition ok_or :: "'e \<Rightarrow> 'a option \<Rightarrow> ('s, 'e, 'a) contract_m" where
  "ok_or e v = (case v of None \<Rightarrow> abort_with (Err e) | Some x \<Rightarrow> ret x)"

definition expect_some :: "string \<Rightarrow> 'a option \<Rightarrow> ('s, 'e, 'a) contract_m" where
  "expect_some msg v = (case v of None \<Rightarrow> abort_with (Panic msg) | Some x \<Rightarrow> ret x)"

text \<open>\<open>Option::unwrap_or\<close>.\<close>

definition unwrap_or :: "'a \<Rightarrow> 'a option \<Rightarrow> 'a" where
  "unwrap_or d v = (case v of None \<Rightarrow> d | Some x \<Rightarrow> x)"

text \<open>
  At the contract boundary an error value is its numeric code; \<open>with_codes\<close> is the result of
  a body as the caller sees it, with the value returned by a read left out.
\<close>

definition with_codes :: "('e \<Rightarrow> u32) \<Rightarrow> ('s, 'e, 'a) contract_m \<Rightarrow> ('s, u32, unit) contract_m" where
  "with_codes code m = (\<lambda>s. case m s of (r, s') \<Rightarrow> (map_sum (map_abort code) (\<lambda>_. ()) r, s'))"

definition discard :: "('s, 'e, 'a) contract_m \<Rightarrow> ('s, 'e, unit) contract_m" where
  "discard m = bind_m m (\<lambda>_. ret ())"

fun expect_abort :: "string \<Rightarrow> 'e abort \<Rightarrow> 'f abort" where
  "expect_abort msg (Err e) = Panic msg"
| "expect_abort msg (Panic m) = Panic m"
| "expect_abort msg (AuthFailure a) = AuthFailure a"
| "expect_abort msg ConversionError = ConversionError"
| "expect_abort msg HostTrap = HostTrap"

definition expect_ok :: "string \<Rightarrow> ('s, 'e, 'a) contract_m \<Rightarrow> ('s, 'f, 'a) contract_m" where
  "expect_ok msg m = (\<lambda>s. case m s of (r, s') \<Rightarrow> (map_sum (expect_abort msg) id r, s'))"

fun reify_abort :: "'e abort \<Rightarrow> 'f abort + ('e + 'a)" where
  "reify_abort (Err e) = Inr (Inl e)"
| "reify_abort (Panic m) = Inl (Panic m)"
| "reify_abort (AuthFailure a) = Inl (AuthFailure a)"
| "reify_abort ConversionError = Inl ConversionError"
| "reify_abort HostTrap = Inl HostTrap"

definition match_result :: "('s, 'e, 'a) contract_m \<Rightarrow> ('s, 'f, 'e + 'a) contract_m" where
  "match_result m = (\<lambda>s. case m s of
      (Inl a, s') \<Rightarrow> (reify_abort a, s')
    | (Inr x, s') \<Rightarrow> (Inr (Inr x), s'))"

section \<open>Symbolic execution\<close>

lemma ret_apply [run]: "ret x s = (Inr x, s)"
  by (simp add: ret_def)

lemma abort_apply [run]: "abort_with a s = (Inl a, s)"
  by (simp add: abort_with_def)

lemma bind_ret [run]: "bind_m (ret x) f s = f x s"
  by (simp add: bind_m_def ret_def)

lemma bind_abort [run]: "bind_m (abort_with a) f s = (Inl a, s)"
  by (simp add: bind_m_def abort_with_def)

lemma bind_assoc [run]: "bind_m (bind_m m f) g = bind_m m (\<lambda>x. bind_m (f x) g)"
  by (rule ext) (auto simp: bind_m_def split: prod.splits sum.splits)

lemma bind_if [run]:
  "bind_m (if b then m else n) f s = (if b then bind_m m f s else bind_m n f s)"
  by simp

lemma bind_case_option [run]:
  "bind_m (case v of None \<Rightarrow> m | Some x \<Rightarrow> n x) f s =
     (case v of None \<Rightarrow> bind_m m f s | Some x \<Rightarrow> bind_m (n x) f s)"
  by (simp split: option.split)

lemma bind_ok_or [run]:
  "bind_m (ok_or e v) f s = (case v of None \<Rightarrow> (Inl (Err e), s) | Some x \<Rightarrow> f x s)"
  by (simp add: ok_or_def run split: option.split)

lemma ok_or_apply [run]:
  "ok_or e v s = (case v of None \<Rightarrow> (Inl (Err e), s) | Some x \<Rightarrow> (Inr x, s))"
  by (simp add: ok_or_def run split: option.split)

lemma bind_expect_some [run]:
  "bind_m (expect_some msg v) f s =
     (case v of None \<Rightarrow> (Inl (Panic msg), s) | Some x \<Rightarrow> f x s)"
  by (simp add: expect_some_def run split: option.split)

lemma map_err_bind [run]: "map_err h (bind_m m f) = bind_m (map_err h m) (\<lambda>x. map_err h (f x))"
  by (rule ext) (auto simp: bind_m_def map_err_def split: prod.splits sum.splits)

lemma map_err_ok_or [run]: "map_err h (ok_or e v) = ok_or (h e) v"
  by (rule ext) (simp add: map_err_def ok_or_def run split: option.split)

lemma expect_ok_bind [run]:
  "expect_ok msg (bind_m m f) = bind_m (expect_ok msg m) (\<lambda>x. expect_ok msg (f x))"
  by (rule ext) (auto simp: bind_m_def expect_ok_def split: prod.splits sum.splits)

lemma expect_ok_ok_or [run]: "expect_ok msg (ok_or e v) = expect_some msg v"
  by (rule ext) (simp add: expect_ok_def ok_or_def expect_some_def run split: option.split)

lemma unwrap_or_simps [simp]: "unwrap_or d None = d" "unwrap_or d (Some x) = x"
  by (simp_all add: unwrap_or_def)

lemma with_codes_apply [run]:
  "with_codes code m s = (case m s of (r, s') \<Rightarrow> (map_sum (map_abort code) (\<lambda>_. ()) r, s'))"
  by (simp add: with_codes_def)

lemma discard_apply [run]: "discard m s = (case m s of (r, s') \<Rightarrow> (map_sum id (\<lambda>_. ()) r, s'))"
  by (simp add: discard_def bind_m_def ret_def split: prod.split sum.split)

lemma bind_match_result [run]:
  "bind_m (match_result m) f s = (case m s of
      (Inl (Err e), s') \<Rightarrow> f (Inl e) s'
    | (Inl (Panic p), s') \<Rightarrow> (Inl (Panic p), s')
    | (Inl (AuthFailure a), s') \<Rightarrow> (Inl (AuthFailure a), s')
    | (Inl ConversionError, s') \<Rightarrow> (Inl ConversionError, s')
    | (Inl HostTrap, s') \<Rightarrow> (Inl HostTrap, s')
    | (Inr x, s') \<Rightarrow> f (Inr x) s')"
  by (simp add: bind_m_def match_result_def split: prod.splits sum.splits abort.splits)

section \<open>Generic facts on maps\<close>

lemma map_upd_ran_forall:
  "(\<forall>k v. (m(a \<mapsto> b)) k = Some v \<longrightarrow> P k v) \<longleftrightarrow>
     P a b \<and> (\<forall>k v. k \<noteq> a \<longrightarrow> m k = Some v \<longrightarrow> P k v)"
  by auto

end
