(* ===== verification/Host.thy ===== *)
theory Host
  imports Prelude
begin

text \<open>
  The Soroban host as the contracts see it. What the host decides is a parameter: the
  record \<open>env\<close> carries, per invocation, which addresses have authorized the call, the
  ledger clock, the printed form of an address, how \<open>extend_ttl\<close> moves an entry's
  live-until ledger, and which code hashes are uploaded; the flag \<open>cfg_test\<close> says whether the
  contracts run as the test build or as the deployed one. The state of one contract
  (instance storage, persistent storage, the live-until ledgers, the events it has
  published and its installed code) is the record \<open>contract_state\<close>, passed explicitly. The host
  calls work on every extension of that record, so a contract that calls others can carry
  their state as a further field.
\<close>

section \<open>The invocation environment\<close>

record env =
  authorized :: "address \<Rightarrow> bool"
  ledger_timestamp :: u64
  ledger_sequence :: u32
  current_contract_address :: address
  addr_string :: "address \<Rightarrow> u8 list"
  ttl_extend :: "u32 \<Rightarrow> u32 \<Rightarrow> u32 \<Rightarrow> u32"
  ttl_initial :: u32
  wasm_uploaded :: "bytes32 \<Rightarrow> bool"
  cfg_test :: bool

text \<open>
  The documented behaviour of \<open>extend_ttl(threshold, extend_to)\<close>
  (\<open>docs/storage-ttl.md\<close>): an entry is never shortened; one whose remaining lifetime is
  at or below the threshold lives until \<open>sequence + extend_to\<close>, any other is unchanged.
\<close>

definition ttl_law :: "env \<Rightarrow> bool" where
  "ttl_law e \<longleftrightarrow> (\<forall>thr ext lu. unat (ledger_sequence e) + unat ext < 2 ^ 32 \<longrightarrow>
     unat (ttl_extend e thr ext lu) =
       (if unat lu \<le> unat (ledger_sequence e) + unat thr
        then max (unat lu) (unat (ledger_sequence e) + unat ext) else unat lu))"

section \<open>The state of one contract\<close>

record ('k, 'v, 'ev) contract_state =
  inst :: "'k \<Rightarrow> 'v option"
  inst_until :: u32
  pers :: "'k \<Rightarrow> 'v option"
  pers_until :: "'k \<Rightarrow> u32"
  events :: "'ev list"
  wasm :: bytes32

definition fresh_contract :: "u32 \<Rightarrow> bytes32 \<Rightarrow> ('k, 'v, 'ev) contract_state" where
  "fresh_contract lu w = \<lparr>inst = (\<lambda>_. None), inst_until = lu, pers = (\<lambda>_. None),
     pers_until = (\<lambda>_. 0), events = [], wasm = w\<rparr>"

lemma fresh_contract_simps [simp]:
  "inst (fresh_contract lu w) = (\<lambda>_. None)" "inst_until (fresh_contract lu w) = lu"
  "pers (fresh_contract lu w) = (\<lambda>_. None)" "pers_until (fresh_contract lu w) = (\<lambda>_. 0)"
  "events (fresh_contract lu w) = []" "wasm (fresh_contract lu w) = w"
  by (simp_all add: fresh_contract_def)

section \<open>Host calls\<close>

text \<open>\<open>Address::require_auth\<close> aborts the invocation unless the address authorized it.\<close>

definition host_require_auth :: "env \<Rightarrow> address \<Rightarrow> ('s, 'e, unit) contract_m" where
  "host_require_auth e a = (if authorized e a then ret () else abort_with (AuthFailure a))"

definition inst_has :: "'k \<Rightarrow> (('k, 'v, 'ev, 'z) contract_state_scheme, 'e, bool) contract_m" where
  "inst_has k = (\<lambda>s. (Inr (inst s k \<noteq> None), s))"

text \<open>A typed read decodes the stored value; a value of another type traps.\<close>

definition decode_value :: "('v \<Rightarrow> 'a option) \<Rightarrow> 'v option \<Rightarrow> 's \<Rightarrow> ('e abort + 'a option) \<times> 's" where
  "decode_value dec r s = (case r of None \<Rightarrow> (Inr None, s)
     | Some v \<Rightarrow> (case dec v of None \<Rightarrow> (Inl ConversionError, s) | Some x \<Rightarrow> (Inr (Some x), s)))"

definition inst_get :: "('v \<Rightarrow> 'a option) \<Rightarrow> 'k
    \<Rightarrow> (('k, 'v, 'ev, 'z) contract_state_scheme, 'e, 'a option) contract_m" where
  "inst_get dec k = (\<lambda>s. decode_value dec (inst s k) s)"

definition inst_set :: "'k \<Rightarrow> 'v \<Rightarrow> (('k, 'v, 'ev, 'z) contract_state_scheme, 'e, unit) contract_m" where
  "inst_set k v = (\<lambda>s. (Inr (), s\<lparr>inst := (inst s)(k \<mapsto> v)\<rparr>))"

definition inst_remove :: "'k \<Rightarrow> (('k, 'v, 'ev, 'z) contract_state_scheme, 'e, unit) contract_m" where
  "inst_remove k = (\<lambda>s. (Inr (), s\<lparr>inst := (inst s)(k := None)\<rparr>))"

text \<open>The instance entry exists as soon as the contract is deployed, so extending it never
  traps.\<close>

definition inst_extend_ttl :: "env \<Rightarrow> u32 \<Rightarrow> u32
    \<Rightarrow> (('k, 'v, 'ev, 'z) contract_state_scheme, 'e, unit) contract_m" where
  "inst_extend_ttl e thr ext =
     (\<lambda>s. (Inr (), s\<lparr>inst_until := ttl_extend e thr ext (inst_until s)\<rparr>))"

definition pers_has :: "'k \<Rightarrow> (('k, 'v, 'ev, 'z) contract_state_scheme, 'e, bool) contract_m" where
  "pers_has k = (\<lambda>s. (Inr (pers s k \<noteq> None), s))"

definition pers_get :: "('v \<Rightarrow> 'a option) \<Rightarrow> 'k
    \<Rightarrow> (('k, 'v, 'ev, 'z) contract_state_scheme, 'e, 'a option) contract_m" where
  "pers_get dec k = (\<lambda>s. decode_value dec (pers s k) s)"

text \<open>A new persistent entry starts with the host's minimum lifetime; overwriting keeps the
  lifetime.\<close>

definition pers_set :: "env \<Rightarrow> 'k \<Rightarrow> 'v
    \<Rightarrow> (('k, 'v, 'ev, 'z) contract_state_scheme, 'e, unit) contract_m" where
  "pers_set e k v = (\<lambda>s. (Inr (), s\<lparr>pers := (pers s)(k \<mapsto> v),
     pers_until := (pers_until s)(k := if pers s k = None then ttl_initial e else pers_until s k)\<rparr>))"

definition pers_remove :: "'k \<Rightarrow> (('k, 'v, 'ev, 'z) contract_state_scheme, 'e, unit) contract_m" where
  "pers_remove k = (\<lambda>s. (Inr (), s\<lparr>pers := (pers s)(k := None)\<rparr>))"

text \<open>Extending the lifetime of an entry that does not exist traps.\<close>

definition pers_extend_ttl :: "env \<Rightarrow> 'k \<Rightarrow> u32 \<Rightarrow> u32
    \<Rightarrow> (('k, 'v, 'ev, 'z) contract_state_scheme, 'e, unit) contract_m" where
  "pers_extend_ttl e k thr ext = (\<lambda>s. if pers s k = None then (Inl HostTrap, s)
     else (Inr (), s\<lparr>pers_until := (pers_until s)(k := ttl_extend e thr ext (pers_until s k))\<rparr>))"

definition publish :: "'ev \<Rightarrow> (('k, 'v, 'ev, 'z) contract_state_scheme, 'e, unit) contract_m" where
  "publish ev = (\<lambda>s. (Inr (), s\<lparr>events := events s @ [ev]\<rparr>))"

text \<open>\<open>update_current_contract_wasm\<close> traps when the code has not been uploaded.\<close>

definition update_wasm :: "env \<Rightarrow> bytes32
    \<Rightarrow> (('k, 'v, 'ev, 'z) contract_state_scheme, 'e, unit) contract_m" where
  "update_wasm e h = (\<lambda>s. if wasm_uploaded e h then (Inr (), s\<lparr>wasm := h\<rparr>) else (Inl HostTrap, s))"

text \<open>A statement under \<open>#[cfg(not(test))]\<close> is left out of the test build.\<close>

definition cfg_not_test :: "env \<Rightarrow> ('s, 'e, unit) contract_m \<Rightarrow> ('s, 'e, unit) contract_m" where
  "cfg_not_test e m = (if cfg_test e then ret () else m)"

text \<open>An invocation commits on success and is rolled back, events included, on any abort.\<close>

definition invoke :: "('s, 'e, 'a) contract_m \<Rightarrow> ('s, 'e, 'a) contract_m" where
  "invoke m = (\<lambda>s. case m s of (Inl a, s') \<Rightarrow> (Inl a, s) | (Inr x, s') \<Rightarrow> (Inr x, s'))"

section \<open>Symbolic execution of the host calls\<close>

lemma bind_require_auth [run]:
  "bind_m (host_require_auth e a) f s =
     (if authorized e a then f () s else (Inl (AuthFailure a), s))"
  by (simp add: host_require_auth_def run)

lemma bind_inst_has [run]: "bind_m (inst_has k) f s = f (inst s k \<noteq> None) s"
  by (simp add: inst_has_def bind_m_def)

lemma inst_has_apply [run]: "inst_has k s = (Inr (inst s k \<noteq> None), s)"
  by (simp add: inst_has_def)

lemma bind_pers_has [run]: "bind_m (pers_has k) f s = f (pers s k \<noteq> None) s"
  by (simp add: pers_has_def bind_m_def)

lemma bind_inst_get [run]:
  "bind_m (inst_get dec k) f s = (case inst s k of None \<Rightarrow> f None s
     | Some v \<Rightarrow> (case dec v of None \<Rightarrow> (Inl ConversionError, s) | Some x \<Rightarrow> f (Some x) s))"
  by (simp add: inst_get_def decode_value_def bind_m_def split: option.split)

lemma bind_pers_get [run]:
  "bind_m (pers_get dec k) f s = (case pers s k of None \<Rightarrow> f None s
     | Some v \<Rightarrow> (case dec v of None \<Rightarrow> (Inl ConversionError, s) | Some x \<Rightarrow> f (Some x) s))"
  by (simp add: pers_get_def decode_value_def bind_m_def split: option.split)

lemma map_err_inst_get [run]: "map_err h (inst_get dec k) = inst_get dec k"
  by (rule ext) (simp add: map_err_def inst_get_def decode_value_def split: option.split)

lemma expect_ok_inst_get [run]: "expect_ok msg (inst_get dec k) = inst_get dec k"
  by (rule ext) (simp add: expect_ok_def inst_get_def decode_value_def split: option.split)

lemma bind_inst_set [run]: "bind_m (inst_set k v) f s = f () (s\<lparr>inst := (inst s)(k \<mapsto> v)\<rparr>)"
  by (simp add: inst_set_def bind_m_def)

lemma bind_inst_remove [run]:
  "bind_m (inst_remove k) f s = f () (s\<lparr>inst := (inst s)(k := None)\<rparr>)"
  by (simp add: inst_remove_def bind_m_def)

lemma bind_inst_extend_ttl [run]:
  "bind_m (inst_extend_ttl e thr ext) f s =
     f () (s\<lparr>inst_until := ttl_extend e thr ext (inst_until s)\<rparr>)"
  by (simp add: inst_extend_ttl_def bind_m_def)

lemma inst_extend_ttl_apply [run]:
  "inst_extend_ttl e thr ext s =
     (Inr (), s\<lparr>inst_until := ttl_extend e thr ext (inst_until s)\<rparr>)"
  by (simp add: inst_extend_ttl_def)

lemma bind_pers_set [run]:
  "bind_m (pers_set e k v) f s = f () (s\<lparr>pers := (pers s)(k \<mapsto> v),
     pers_until := (pers_until s)(k := if pers s k = None then ttl_initial e else pers_until s k)\<rparr>)"
  by (simp add: pers_set_def bind_m_def)

lemma bind_pers_remove [run]:
  "bind_m (pers_remove k) f s = f () (s\<lparr>pers := (pers s)(k := None)\<rparr>)"
  by (simp add: pers_remove_def bind_m_def)

lemma bind_pers_extend_ttl [run]:
  "bind_m (pers_extend_ttl e k thr ext) f s = (if pers s k = None then (Inl HostTrap, s)
     else f () (s\<lparr>pers_until := (pers_until s)(k := ttl_extend e thr ext (pers_until s k))\<rparr>))"
  by (simp add: pers_extend_ttl_def bind_m_def)

lemma pers_extend_ttl_apply [run]:
  "pers_extend_ttl e k thr ext s = (if pers s k = None then (Inl HostTrap, s)
     else (Inr (), s\<lparr>pers_until := (pers_until s)(k := ttl_extend e thr ext (pers_until s k))\<rparr>))"
  by (simp add: pers_extend_ttl_def)

lemma bind_publish [run]: "bind_m (publish ev) f s = f () (s\<lparr>events := events s @ [ev]\<rparr>)"
  by (simp add: publish_def bind_m_def)

lemma publish_apply [run]: "publish ev s = (Inr (), s\<lparr>events := events s @ [ev]\<rparr>)"
  by (simp add: publish_def)

lemma bind_update_wasm [run]:
  "bind_m (update_wasm e h) f s =
     (if wasm_uploaded e h then f () (s\<lparr>wasm := h\<rparr>) else (Inl HostTrap, s))"
  by (simp add: update_wasm_def bind_m_def)

lemma bind_cfg_update_wasm [run]:
  "bind_m (cfg_not_test e (update_wasm e h)) f s =
     (if cfg_test e then f () s
      else if wasm_uploaded e h then f () (s\<lparr>wasm := h\<rparr>) else (Inl HostTrap, s))"
  by (simp add: cfg_not_test_def run)

section \<open>Invocations\<close>

lemma invoke_Inl_state: "invoke m s = (Inl a, s') \<Longrightarrow> s' = s"
  by (auto simp: invoke_def split: prod.splits sum.splits)

lemma invoke_Inr_iff: "invoke m s = (Inr x, s') \<longleftrightarrow> m s = (Inr x, s')"
  by (auto simp: invoke_def split: prod.splits sum.splits)

lemma invoke_Inl_iff: "invoke m s = (Inl a, s') \<longleftrightarrow> s' = s \<and> (\<exists>t. m s = (Inl a, t))"
  by (auto simp: invoke_def split: prod.splits sum.splits)

lemma invoke_cases:
  obtains (committed) x s' where "m s = (Inr x, s')" and "invoke m s = (Inr x, s')"
    | (rolled_back) a t where "m s = (Inl a, t)" and "invoke m s = (Inl a, s)"
proof (cases "fst (m s)")
  case (Inl a)
  then show ?thesis
    by (intro rolled_back [of a "snd (m s)"]) (auto simp: invoke_def prod_eq_iff split: prod.splits)
next
  case (Inr x)
  then show ?thesis
    by (intro committed [of x "snd (m s)"]) (auto simp: invoke_def prod_eq_iff split: prod.splits)
qed


section \<open>Well-formed storage\<close>

text \<open>
  The shape all three contracts give their storage: every stored value fits its key, nothing
  is stored before the administrator key is written, and from then on the required instance
  keys are present.
\<close>

definition storage_ok :: "('k \<Rightarrow> 'v \<Rightarrow> bool) \<Rightarrow> ('k \<Rightarrow> 'v \<Rightarrow> bool) \<Rightarrow> 'k \<Rightarrow> 'k set
    \<Rightarrow> ('k \<Rightarrow> 'v option) \<Rightarrow> ('k \<Rightarrow> 'v option) \<Rightarrow> bool" where
  "storage_ok iok pok adm req i p \<longleftrightarrow>
     (\<forall>k v. i k = Some v \<longrightarrow> iok k v) \<and> (\<forall>k v. p k = Some v \<longrightarrow> pok k v) \<and>
     (i adm = None \<longrightarrow> i = (\<lambda>_. None) \<and> p = (\<lambda>_. None)) \<and>
     (i adm \<noteq> None \<longrightarrow> (\<forall>k \<in> req. i k \<noteq> None))"

lemma storage_ok_inst: "storage_ok iok pok adm req i p \<Longrightarrow> i k = Some v \<Longrightarrow> iok k v"
  by (simp add: storage_ok_def)

lemma storage_ok_pers: "storage_ok iok pok adm req i p \<Longrightarrow> p k = Some v \<Longrightarrow> pok k v"
  by (simp add: storage_ok_def)

lemma storage_ok_uninit:
  "storage_ok iok pok adm req i p \<Longrightarrow> i adm = None \<Longrightarrow> i k = None \<and> p k = None"
  by (simp add: storage_ok_def)

lemma storage_ok_required:
  "storage_ok iok pok adm req i p \<Longrightarrow> i adm \<noteq> None \<Longrightarrow> k \<in> req \<Longrightarrow> i k \<noteq> None"
  by (simp add: storage_ok_def)

lemma storage_ok_empty: "storage_ok iok pok adm req (\<lambda>_. None) (\<lambda>_. None)"
  by (simp add: storage_ok_def)

lemma storage_ok_put [wf_intro]:
  "storage_ok iok pok adm req i p \<Longrightarrow> i adm \<noteq> None \<Longrightarrow> iok k v \<Longrightarrow>
     storage_ok iok pok adm req (i(k \<mapsto> v)) p"
  unfolding storage_ok_def by auto

lemma storage_ok_drop [wf_intro]:
  "storage_ok iok pok adm req i p \<Longrightarrow> i adm \<noteq> None \<Longrightarrow> k \<noteq> adm \<Longrightarrow> k \<notin> req \<Longrightarrow>
     storage_ok iok pok adm req (i(k := None)) p"
  unfolding storage_ok_def by auto

lemma storage_ok_put_pers [wf_intro]:
  "storage_ok iok pok adm req i p \<Longrightarrow> i adm \<noteq> None \<Longrightarrow> pok k v \<Longrightarrow>
     storage_ok iok pok adm req i (p(k \<mapsto> v))"
  unfolding storage_ok_def by auto

lemma storage_ok_drop_pers [wf_intro]:
  "storage_ok iok pok adm req i p \<Longrightarrow> i adm \<noteq> None \<Longrightarrow>
     storage_ok iok pok adm req i (p(k := None))"
  unfolding storage_ok_def by auto

end
