(* ===== verification/Shared_Types.thy ===== *)
theory Shared_Types
  imports Host
begin

text \<open>
  The crate \<open>packages/shared\<close> (\<open>src/packages/shared/src/lib.rs\<close>): the lifetime
  constants, the validation of principal addresses, the three public error enums with
  their numeric codes, and the issuer and proof records. Every value a contract stores is
  one of the constructors of \<open>stored_value\<close>, and a typed read decodes one of them.
\<close>

section \<open>Lifetime constants\<close>

definition TTL_THRESHOLD_LEDGERS :: u32 where
  "TTL_THRESHOLD_LEDGERS = 50000"

definition TTL_EXTEND_TO_LEDGERS :: u32 where
  "TTL_EXTEND_TO_LEDGERS = 500000"

section \<open>Addresses of principals\<close>

definition STRKEY_ADDRESS_LEN :: nat where
  "STRKEY_ADDRESS_LEN = 56"

text \<open>A byte-string literal.\<close>

definition ascii :: "string \<Rightarrow> u8 list" where
  "ascii s = map of_char s"

definition address_bytes :: "env \<Rightarrow> address \<Rightarrow> u8 list" where
  "address_bytes e a =
     (let value = addr_string e a; buf = replicate STRKEY_ADDRESS_LEN 0
      in if length value = STRKEY_ADDRESS_LEN then value else buf)"

definition ZERO_PAYLOAD_STRKEY :: "u8 list" where
  "ZERO_PAYLOAD_STRKEY = ascii ''GAAAAAAAAAAAAAAAAAAAAAAAAAAAAAAAAAAAAAAAAAAAAAAAAAAAAWHF''"

definition is_zero_or_sentinel_address :: "env \<Rightarrow> address \<Rightarrow> bool" where
  "is_zero_or_sentinel_address e a = (address_bytes e a = ZERO_PAYLOAD_STRKEY)"

text \<open>\<open>matches!(byte, b'A'..=b'Z' | b'2'..=b'7')\<close>.\<close>

definition base32_byte :: "u8 \<Rightarrow> bool" where
  "base32_byte b \<longleftrightarrow> (65 \<le> b \<and> b \<le> 90) \<or> (50 \<le> b \<and> b \<le> 55)"

definition is_valid_principal_address :: "env \<Rightarrow> address \<Rightarrow> bool" where
  "is_valid_principal_address e a =
     (let value = addr_string e a in
      if value = [] \<or> length value \<noteq> STRKEY_ADDRESS_LEN then False
      else let bytes = address_bytes e a in
        if is_zero_or_sentinel_address e a then False
        else list_all base32_byte bytes)"

section \<open>Error codes\<close>

datatype contract_error =
    AlreadyInitialized
  | NotInitialized
  | Unauthorized
  | AlreadyExists
  | NotFound
  | InvalidState
  | InvalidInput
  | CE_InvalidAddress
  | ProtocolPaused

datatype issuer_error =
    IssuerAlreadyRegistered
  | IssuerNotFound
  | IssuerAddressAlreadyRegistered
  | IssuerAddressNotFound
  | IssuerIsRevoked
  | IssuerInactive
  | InvalidTransition
  | IE_InvalidAddress

datatype proof_error =
    ProofAlreadyRegistered
  | ProofNotFound
  | ProofAlreadyRevoked
  | ProofExpired
  | InvalidSchemaVersion
  | SchemaVersionNotApproved
  | PE_InvalidAddress

primrec contract_error_code :: "contract_error \<Rightarrow> u32" where
  "contract_error_code AlreadyInitialized = 1"
| "contract_error_code NotInitialized = 2"
| "contract_error_code Unauthorized = 20"
| "contract_error_code AlreadyExists = 40"
| "contract_error_code NotFound = 41"
| "contract_error_code InvalidState = 42"
| "contract_error_code InvalidInput = 60"
| "contract_error_code CE_InvalidAddress = 61"
| "contract_error_code ProtocolPaused = 80"

primrec issuer_error_code :: "issuer_error \<Rightarrow> u32" where
  "issuer_error_code IssuerAlreadyRegistered = 200"
| "issuer_error_code IssuerNotFound = 201"
| "issuer_error_code IssuerAddressAlreadyRegistered = 202"
| "issuer_error_code IssuerAddressNotFound = 203"
| "issuer_error_code IssuerIsRevoked = 204"
| "issuer_error_code IssuerInactive = 205"
| "issuer_error_code InvalidTransition = 206"
| "issuer_error_code IE_InvalidAddress = 207"

primrec proof_error_code :: "proof_error \<Rightarrow> u32" where
  "proof_error_code ProofAlreadyRegistered = 300"
| "proof_error_code ProofNotFound = 301"
| "proof_error_code ProofAlreadyRevoked = 302"
| "proof_error_code ProofExpired = 303"
| "proof_error_code InvalidSchemaVersion = 304"
| "proof_error_code SchemaVersionNotApproved = 305"
| "proof_error_code PE_InvalidAddress = 306"

section \<open>Records\<close>

datatype issuer_status = IssuerActive | IssuerSuspended | IssuerRevoked

datatype proof_status = ProofActive | ProofRevoked

record issuer_record =
  ir_issuer_id_hash :: bytes32
  ir_issuer_address :: address
  ir_metadata_hash :: bytes32
  ir_status :: issuer_status
  ir_created_at :: u64
  ir_updated_at :: u64

record proof_record =
  pr_proof_id_hash :: bytes32
  pr_commitment_hash :: bytes32
  pr_issuer_address :: address
  pr_status :: proof_status
  pr_schema_version :: u32
  pr_expires_at :: u64
  pr_created_at :: u64
  pr_revoked_at :: u64

section \<open>Stored values\<close>

datatype stored_value =
    AddressV address
  | BoolV bool
  | U32V u32
  | Bytes32V bytes32
  | IssuerV issuer_record
  | ProofV proof_record

fun as_address :: "stored_value \<Rightarrow> address option" where
  "as_address (AddressV a) = Some a"
| "as_address _ = None"

fun as_bool :: "stored_value \<Rightarrow> bool option" where
  "as_bool (BoolV b) = Some b"
| "as_bool _ = None"

fun as_u32 :: "stored_value \<Rightarrow> u32 option" where
  "as_u32 (U32V n) = Some n"
| "as_u32 _ = None"

fun as_bytes32 :: "stored_value \<Rightarrow> bytes32 option" where
  "as_bytes32 (Bytes32V h) = Some h"
| "as_bytes32 _ = None"

fun as_issuer :: "stored_value \<Rightarrow> issuer_record option" where
  "as_issuer (IssuerV r) = Some r"
| "as_issuer _ = None"

fun as_proof :: "stored_value \<Rightarrow> proof_record option" where
  "as_proof (ProofV r) = Some r"
| "as_proof _ = None"

lemma as_Some_iff [simp]:
  "as_address v = Some a \<longleftrightarrow> v = AddressV a"
  "as_bool v = Some b \<longleftrightarrow> v = BoolV b"
  "as_u32 v = Some n \<longleftrightarrow> v = U32V n"
  "as_bytes32 v = Some h \<longleftrightarrow> v = Bytes32V h"
  "as_issuer v = Some r \<longleftrightarrow> v = IssuerV r"
  "as_proof v = Some p \<longleftrightarrow> v = ProofV p"
  by (cases v; auto)+

lemma decode_encoded [simp]:
  "Option.bind (map_option AddressV x) as_address = x"
  "Option.bind (map_option BoolV b) as_bool = b"
  "Option.bind (map_option U32V n) as_u32 = n"
  "Option.bind (map_option Bytes32V h) as_bytes32 = h"
  "Option.bind (map_option IssuerV r) as_issuer = r"
  "Option.bind (map_option ProofV p) as_proof = p"
  by (simp_all add: option.map_comp bind_map_option comp_def)

text \<open>A stored value of the right type is what its decoded view says.\<close>

lemma encoded_view:
  "(\<And>v. r = Some v \<Longrightarrow> as_address v \<noteq> None) \<Longrightarrow> r = map_option AddressV (Option.bind r as_address)"
  "(\<And>v. r = Some v \<Longrightarrow> as_bool v \<noteq> None) \<Longrightarrow> r = map_option BoolV (Option.bind r as_bool)"
  "(\<And>v. r = Some v \<Longrightarrow> as_u32 v \<noteq> None) \<Longrightarrow> r = map_option U32V (Option.bind r as_u32)"
  "(\<And>v. r = Some v \<Longrightarrow> as_bytes32 v \<noteq> None) \<Longrightarrow> r = map_option Bytes32V (Option.bind r as_bytes32)"
  "(\<And>v. r = Some v \<Longrightarrow> as_issuer v \<noteq> None) \<Longrightarrow> r = map_option IssuerV (Option.bind r as_issuer)"
  "(\<And>v. r = Some v \<Longrightarrow> as_proof v \<noteq> None) \<Longrightarrow> r = map_option ProofV (Option.bind r as_proof)"
  by (cases r; fastforce)+

section \<open>Ordering of the error enums\<close>

text \<open>\<open>derive(PartialOrd, Ord)\<close> orders a field-less enum by its discriminants.\<close>

lemma contract_error_code_inject [simp]:
  "contract_error_code x = contract_error_code y \<longleftrightarrow> x = y"
  by (cases x; cases y) simp_all

lemma issuer_error_code_inject [simp]:
  "issuer_error_code x = issuer_error_code y \<longleftrightarrow> x = y"
  by (cases x; cases y) simp_all

lemma proof_error_code_inject [simp]:
  "proof_error_code x = proof_error_code y \<longleftrightarrow> x = y"
  by (cases x; cases y) simp_all

instantiation contract_error :: linorder
begin

definition less_eq_contract_error :: "contract_error \<Rightarrow> contract_error \<Rightarrow> bool" where
  "less_eq_contract_error x y = (contract_error_code x \<le> contract_error_code y)"

definition less_contract_error :: "contract_error \<Rightarrow> contract_error \<Rightarrow> bool" where
  "less_contract_error x y = (contract_error_code x < contract_error_code y)"

instance
  by standard (auto simp: less_eq_contract_error_def less_contract_error_def order.strict_iff_order)

end

instantiation issuer_error :: linorder
begin

definition less_eq_issuer_error :: "issuer_error \<Rightarrow> issuer_error \<Rightarrow> bool" where
  "less_eq_issuer_error x y = (issuer_error_code x \<le> issuer_error_code y)"

definition less_issuer_error :: "issuer_error \<Rightarrow> issuer_error \<Rightarrow> bool" where
  "less_issuer_error x y = (issuer_error_code x < issuer_error_code y)"

instance
  by standard (auto simp: less_eq_issuer_error_def less_issuer_error_def order.strict_iff_order)

end

instantiation proof_error :: linorder
begin

definition less_eq_proof_error :: "proof_error \<Rightarrow> proof_error \<Rightarrow> bool" where
  "less_eq_proof_error x y = (proof_error_code x \<le> proof_error_code y)"

definition less_proof_error :: "proof_error \<Rightarrow> proof_error \<Rightarrow> bool" where
  "less_proof_error x y = (proof_error_code x < proof_error_code y)"

instance
  by standard (auto simp: less_eq_proof_error_def less_proof_error_def order.strict_iff_order)

end

section \<open>Principal addresses\<close>

lemma length_address_bytes [simp]: "length (address_bytes e a) = STRKEY_ADDRESS_LEN"
  by (simp add: address_bytes_def Let_def)

lemma zero_strkey_base32: "list_all base32_byte ZERO_PAYLOAD_STRKEY"
  by (simp add: ZERO_PAYLOAD_STRKEY_def ascii_def base32_byte_def of_char_Char)

lemma length_zero_strkey: "length ZERO_PAYLOAD_STRKEY = STRKEY_ADDRESS_LEN"
  by (simp add: ZERO_PAYLOAD_STRKEY_def STRKEY_ADDRESS_LEN_def ascii_def)

lemma valid_principal_iff:
  "is_valid_principal_address e a \<longleftrightarrow>
     length (addr_string e a) = 56 \<and> list_all base32_byte (addr_string e a) \<and>
     addr_string e a \<noteq> ZERO_PAYLOAD_STRKEY"
  by (auto simp: is_valid_principal_address_def is_zero_or_sentinel_address_def
      address_bytes_def STRKEY_ADDRESS_LEN_def Let_def)


section \<open>Lifetimes under the contracts' policy\<close>

lemma policy_ttl:
  assumes "ttl_law e" and "unat (ledger_sequence e) + 500000 < 2 ^ 32"
  shows "unat (ledger_sequence e) + 50000 \<le>
      unat (ttl_extend e TTL_THRESHOLD_LEDGERS TTL_EXTEND_TO_LEDGERS lu)"
    and "unat lu \<le> unat (ttl_extend e TTL_THRESHOLD_LEDGERS TTL_EXTEND_TO_LEDGERS lu)"
proof -
  have "unat TTL_EXTEND_TO_LEDGERS = 500000" "unat TTL_THRESHOLD_LEDGERS = 50000"
    by (simp_all add: TTL_EXTEND_TO_LEDGERS_def TTL_THRESHOLD_LEDGERS_def)
  then have *: "unat (ttl_extend e TTL_THRESHOLD_LEDGERS TTL_EXTEND_TO_LEDGERS lu) =
      (if unat lu \<le> unat (ledger_sequence e) + 50000
       then max (unat lu) (unat (ledger_sequence e) + 500000) else unat lu)"
    using assms by (simp add: ttl_law_def)
  show "unat (ledger_sequence e) + 50000 \<le>
      unat (ttl_extend e TTL_THRESHOLD_LEDGERS TTL_EXTEND_TO_LEDGERS lu)"
    and "unat lu \<le> unat (ttl_extend e TTL_THRESHOLD_LEDGERS TTL_EXTEND_TO_LEDGERS lu)"
    unfolding * by auto
qed

section \<open>A concrete environment\<close>

text \<open>
  An environment in which every address has authorized the call, the clock stands at 1000
  (ledger 100), lifetimes follow the documented rule, and the first four addresses print as
  the account and contract addresses the repository's tests use. It shows that the
  hypotheses on the host can hold together.
\<close>

definition sample_strkey :: "address \<Rightarrow> u8 list" where
  "sample_strkey a =
     (if a = Address 101 then ascii ''GCFIRY65OQE7DFP5KLNS2PF2LVZMUZYJX4OZIEQ36N2IQANUB5XVYOJR''
      else if a = Address 102 then ascii ''GCATS5YOVB6ROX2WUNKGNQ2MP3GMXDMKSG2O4N5CLX3A6W4PZGZZI55U''
      else if a = Address 103 then ascii ''GDWUSKGGFDI4FRXK5EBTRECZSVQSSWJHHJOGH6JWG3AUMFFMQ435DIAG''
      else if a = Address 104 then ascii ''GBXHUHG5FGYLPD6RHL2MKWMP572O6KUXCZXDZJXS4T57ZTMAKBN7DWXN''
      else if a = Address 105 then ascii ''GAAAAAAAAAAAAAAAAAAAAAAAAAAAAAAAAAAAAAAAAAAAAAAAAAAAAWHF''
      else [])"

definition sample_env :: env where
  "sample_env = \<lparr>authorized = (\<lambda>_. True), ledger_timestamp = 1000, ledger_sequence = 100,
     current_contract_address = Address 10, addr_string = sample_strkey,
     ttl_extend = (\<lambda>thr ext lu. if unat lu \<le> 100 + unat thr then max lu (100 + ext) else lu),
     ttl_initial = 4195, wasm_uploaded = (\<lambda>_. True), cfg_test = False\<rparr>"

lemma sample_env_simps [simp]:
  "authorized sample_env a" "ledger_timestamp sample_env = 1000" "ledger_sequence sample_env = 100"
  "current_contract_address sample_env = Address 10" "addr_string sample_env = sample_strkey"
  "ttl_initial sample_env = 4195" "wasm_uploaded sample_env h" "\<not> cfg_test sample_env"
  by (simp_all add: sample_env_def)

lemma sample_ttl_law: "ttl_law sample_env"
proof -
  have "unat (max lu (100 + ext)) = max (unat lu) (100 + unat ext)"
    if "100 + unat ext < 2 ^ 32" for lu ext :: u32
  proof -
    have "unat (100 + ext) = 100 + unat ext"
      using that by (simp add: unat_word_ariths)
    then show ?thesis
      by (simp add: max_def word_le_nat_alt)
  qed
  then show ?thesis
    by (simp add: ttl_law_def sample_env_def)
qed

lemma sample_valid [simp]:
  "is_valid_principal_address sample_env (Address 101)" "is_valid_principal_address sample_env (Address 102)"
  "is_valid_principal_address sample_env (Address 103)" "is_valid_principal_address sample_env (Address 104)"
  by (simp_all add: valid_principal_iff sample_strkey_def ascii_def base32_byte_def ZERO_PAYLOAD_STRKEY_def
      of_char_Char)

end
