(* ===== verification/Error_Catalog.thy ===== *)
theory Error_Catalog
  imports Shared_Types
begin

text \<open>
  The reviewed error catalog (\<open>src/packages/shared/src/error_catalog.rs\<close>): the published
  entry of every code, the classification of an arbitrary \<open>u32\<close> by range and the retry
  answer a client may rely on. The lemmas show that lookup is exact, that ranges and
  entries agree, which declared codes the catalog does not publish and which it lets a client repeat.
\<close>

section \<open>Vocabulary\<close>

datatype status = StatusReturned | StatusReserved

primrec status_as_str :: "status \<Rightarrow> string" where
  "status_as_str StatusReturned = ''returned''"
| "status_as_str StatusReserved = ''reserved''"

datatype retry = RetryNever | RetryAfterOperatorAction | RetryAfterCallerChange

primrec retry_as_str :: "retry \<Rightarrow> string" where
  "retry_as_str RetryNever = ''never''"
| "retry_as_str RetryAfterOperatorAction = ''after-operator-action''"
| "retry_as_str RetryAfterCallerChange = ''after-caller-change''"

datatype domain =
    DomainCommon
  | DomainProtocolConfig
  | DomainIssuerRegistry
  | DomainProofRegistry
  | DomainUnallocated

primrec domain_as_str :: "domain \<Rightarrow> string" where
  "domain_as_str DomainCommon = ''common''"
| "domain_as_str DomainProtocolConfig = ''protocol-config''"
| "domain_as_str DomainIssuerRegistry = ''issuer-registry''"
| "domain_as_str DomainProofRegistry = ''proof-registry''"
| "domain_as_str DomainUnallocated = ''unallocated''"

primrec domain_range :: "domain \<Rightarrow> (u32 \<times> u32) option" where
  "domain_range DomainCommon = Some (1, 99)"
| "domain_range DomainProtocolConfig = Some (100, 199)"
| "domain_range DomainIssuerRegistry = Some (200, 299)"
| "domain_range DomainProofRegistry = Some (300, 399)"
| "domain_range DomainUnallocated = None"

record error_spec =
  es_code :: u32
  es_name :: string
  es_enum_name :: string
  es_domain :: domain
  es_status :: status
  es_cause :: string
  es_retry :: retry
  es_remediation :: string
  es_http_status :: u16
  es_client_message :: string

section \<open>The catalog\<close>

definition common_errors :: "error_spec list" where
  "common_errors = [
     \<lparr>es_code = 1,
       es_name = ''AlreadyInitialized'',
       es_enum_name = ''ContractError'',
       es_domain = DomainCommon,
       es_status = StatusReturned,
       es_cause = ''initialize was called on a contract that already has an admin.'',
       es_retry = RetryNever,
       es_remediation = ''Treat the deployment as already provisioned. Verify the recorded admin before assuming the deployment is the one you expected.'',
       es_http_status = 409,
       es_client_message = ''Contract is already initialized''\<rparr>,
     \<lparr>es_code = 2,
       es_name = ''NotInitialized'',
       es_enum_name = ''ContractError'',
       es_domain = DomainCommon,
       es_status = StatusReturned,
       es_cause = ''A call read instance state on a contract that was never initialized.'',
       es_retry = RetryAfterOperatorAction,
       es_remediation = ''Initialize the contract, or point the client at the correct deployed address. Do not retry against the same uninitialized contract.'',
       es_http_status = 500,
       es_client_message = ''Service temporarily unavailable''\<rparr>,
     \<lparr>es_code = 20,
       es_name = ''Unauthorized'',
       es_enum_name = ''ContractError'',
       es_domain = DomainCommon,
       es_status = StatusReserved,
       es_cause = ''Reserved for an explicit authorization rejection. The contracts currently enforce authorization through require_auth, which aborts the invocation with a host authorization error rather than returning this code.'',
       es_retry = RetryNever,
       es_remediation = ''Sign with the address the operation requires. Clients must treat a host authorization abort and this code as the same outcome, and neither reveals which address would have been accepted.'',
       es_http_status = 403,
       es_client_message = ''Insufficient permissions''\<rparr>,
     \<lparr>es_code = 40,
       es_name = ''AlreadyExists'',
       es_enum_name = ''ContractError'',
       es_domain = DomainCommon,
       es_status = StatusReserved,
       es_cause = ''Reserved for a generic duplicate-write rejection. The registries return their own specific codes instead: 200, 202, and 300.'',
       es_retry = RetryNever,
       es_remediation = ''Read the existing record instead of rewriting it. Handle the specific codes 200, 202, and 300, and treat this one as a forward-compatible synonym.'',
       es_http_status = 409,
       es_client_message = ''Resource already exists''\<rparr>,
     \<lparr>es_code = 41,
       es_name = ''NotFound'',
       es_enum_name = ''ContractError'',
       es_domain = DomainCommon,
       es_status = StatusReserved,
       es_cause = ''Reserved for a generic missing-record rejection. The registries return their own specific codes instead: 201, 203, and 301.'',
       es_retry = RetryAfterCallerChange,
       es_remediation = ''Confirm the identifier hash was derived with the documented hashing rules. Handle the specific codes 201, 203, and 301, and treat this one as a forward-compatible synonym.'',
       es_http_status = 404,
       es_client_message = ''Resource not found''\<rparr>,
     \<lparr>es_code = 42,
       es_name = ''InvalidState'',
       es_enum_name = ''ContractError'',
       es_domain = DomainCommon,
       es_status = StatusReserved,
       es_cause = ''Reserved for a generic lifecycle rejection. The issuer registry returns 204 and 206 instead, and the proof registry returns 302.'',
       es_retry = RetryNever,
       es_remediation = ''Read the current status and choose an operation the lifecycle allows. Handle the specific codes 204, 206, and 302, and treat this one as a forward-compatible synonym.'',
       es_http_status = 400,
       es_client_message = ''Operation not permitted in current state''\<rparr>,
     \<lparr>es_code = 60,
       es_name = ''InvalidInput'',
       es_enum_name = ''ContractError'',
       es_domain = DomainCommon,
       es_status = StatusReturned,
       es_cause = ''An argument failed validation, such as a zero schema version.'',
       es_retry = RetryAfterCallerChange,
       es_remediation = ''Correct the argument. Retrying the identical request will fail identically.'',
       es_http_status = 400,
       es_client_message = ''Invalid input provided''\<rparr>,
     \<lparr>es_code = 80,
       es_name = ''ProtocolPaused'',
       es_enum_name = ''ContractError'',
       es_domain = DomainCommon,
       es_status = StatusReserved,
       es_cause = ''Reserved for the pause rejection. A paused protocol is currently reported by the proof registry as 304, not as this code.'',
       es_retry = RetryAfterOperatorAction,
       es_remediation = ''Poll is_paused rather than waiting for this code: a paused protocol surfaces as 304 in the current release. Treat both as the same operator-action outcome.'',
       es_http_status = 503,
       es_client_message = ''Service temporarily paused''\<rparr>]"

definition issuer_errors :: "error_spec list" where
  "issuer_errors = [
     \<lparr>es_code = 200,
       es_name = ''IssuerAlreadyRegistered'',
       es_enum_name = ''IssuerError'',
       es_domain = DomainIssuerRegistry,
       es_status = StatusReturned,
       es_cause = ''register_issuer was called with an issuer_id_hash that already has a record.'',
       es_retry = RetryNever,
       es_remediation = ''Use update_issuer to change metadata, or rotate_issuer_address to change the address. Registration is one-time per identifier.'',
       es_http_status = 409,
       es_client_message = ''Issuer already registered''\<rparr>,
     \<lparr>es_code = 201,
       es_name = ''IssuerNotFound'',
       es_enum_name = ''IssuerError'',
       es_domain = DomainIssuerRegistry,
       es_status = StatusReturned,
       es_cause = ''A call referenced an issuer_id_hash with no record, or the registry has no admin yet.'',
       es_retry = RetryAfterCallerChange,
       es_remediation = ''Register the issuer first, or confirm the identifier hash. If the registry is uninitialized, every call returns this code until an admin is set.'',
       es_http_status = 404,
       es_client_message = ''Issuer not found''\<rparr>,
     \<lparr>es_code = 202,
       es_name = ''IssuerAddressAlreadyRegistered'',
       es_enum_name = ''IssuerError'',
       es_domain = DomainIssuerRegistry,
       es_status = StatusReturned,
       es_cause = ''A registration or rotation targeted a Stellar address already bound to an issuer.'',
       es_retry = RetryNever,
       es_remediation = ''Choose an unused address. An address maps to at most one issuer so that address-based lookups stay unambiguous.'',
       es_http_status = 409,
       es_client_message = ''Issuer address already registered''\<rparr>,
     \<lparr>es_code = 203,
       es_name = ''IssuerAddressNotFound'',
       es_enum_name = ''IssuerError'',
       es_domain = DomainIssuerRegistry,
       es_status = StatusReturned,
       es_cause = ''An address lookup found no entry in the reverse index.'',
       es_retry = RetryAfterCallerChange,
       es_remediation = ''The address is not a registered issuer. Note that a rotated-away address returns this code, because the old index entry is removed.'',
       es_http_status = 404,
       es_client_message = ''Issuer address not found''\<rparr>,
     \<lparr>es_code = 204,
       es_name = ''IssuerRevoked'',
       es_enum_name = ''IssuerError'',
       es_domain = DomainIssuerRegistry,
       es_status = StatusReturned,
       es_cause = ''The operation targeted an issuer whose status is Revoked.'',
       es_retry = RetryNever,
       es_remediation = ''Revocation is terminal. Register a new issuer identifier if the party is to be readmitted.'',
       es_http_status = 403,
       es_client_message = ''Issuer has been revoked''\<rparr>,
     \<lparr>es_code = 205,
       es_name = ''IssuerInactive'',
       es_enum_name = ''IssuerError'',
       es_domain = DomainIssuerRegistry,
       es_status = StatusReserved,
       es_cause = ''Reserved for the suspended-issuer rejection. A suspended issuer is currently reported by the proof registry as 304, not as this code.'',
       es_retry = RetryAfterOperatorAction,
       es_remediation = ''Call is_active_address before registering rather than waiting for this code: a suspended issuer surfaces as 304 in the current release. An admin must reactivate the issuer; suspension is reversible, revocation is not.'',
       es_http_status = 403,
       es_client_message = ''Issuer is not active''\<rparr>,
     \<lparr>es_code = 206,
       es_name = ''InvalidTransition'',
       es_enum_name = ''IssuerError'',
       es_domain = DomainIssuerRegistry,
       es_status = StatusReturned,
       es_cause = ''A status change was requested that the lifecycle does not allow, such as reactivating a revoked issuer.'',
       es_retry = RetryNever,
       es_remediation = ''Read the current status and choose a permitted transition.'',
       es_http_status = 400,
       es_client_message = ''Invalid status transition''\<rparr>]"

definition proof_errors :: "error_spec list" where
  "proof_errors = [
     \<lparr>es_code = 300,
       es_name = ''ProofAlreadyRegistered'',
       es_enum_name = ''ProofError'',
       es_domain = DomainProofRegistry,
       es_status = StatusReturned,
       es_cause = ''register_proof was called with a proof_id_hash that already has a record.'',
       es_retry = RetryNever,
       es_remediation = ''Proof records are immutable once written, including after archival and restoration. Register a new identifier rather than replacing a commitment.'',
       es_http_status = 409,
       es_client_message = ''Proof already registered''\<rparr>,
     \<lparr>es_code = 301,
       es_name = ''ProofNotFound'',
       es_enum_name = ''ProofError'',
       es_domain = DomainProofRegistry,
       es_status = StatusReturned,
       es_cause = ''A call referenced a proof_id_hash with no record, or the proof registry has no instance state to read its dependencies from.'',
       es_retry = RetryAfterCallerChange,
       es_remediation = ''Confirm the identifier hash. If register_proof returns this code, the registry itself is uninitialized and no write took place.'',
       es_http_status = 404,
       es_client_message = ''Proof not found''\<rparr>,
     \<lparr>es_code = 302,
       es_name = ''ProofAlreadyRevoked'',
       es_enum_name = ''ProofError'',
       es_domain = DomainProofRegistry,
       es_status = StatusReturned,
       es_cause = ''A revocation targeted a proof already in the Revoked state.'',
       es_retry = RetryNever,
       es_remediation = ''Treat the revocation as complete. Revocation is terminal and idempotent in effect, though not in return value.'',
       es_http_status = 400,
       es_client_message = ''Proof already revoked''\<rparr>,
     \<lparr>es_code = 303,
       es_name = ''ProofExpired'',
       es_enum_name = ''ProofError'',
       es_domain = DomainProofRegistry,
       es_status = StatusReturned,
       es_cause = ''register_proof was given an expires_at at or before the current ledger timestamp.'',
       es_retry = RetryAfterCallerChange,
       es_remediation = ''Send an expiration in the future relative to ledger time, not to wall-clock time on the calling host.'',
       es_http_status = 400,
       es_client_message = ''Invalid proof expiration''\<rparr>,
     \<lparr>es_code = 304,
       es_name = ''InvalidSchemaVersion'',
       es_enum_name = ''ProofError'',
       es_domain = DomainProofRegistry,
       es_status = StatusReturned,
       es_cause = ''register_proof was given schema version zero, or a precondition that the registry currently reports through this same code failed: the protocol is paused, or the issuer address is not active.'',
       es_retry = RetryAfterOperatorAction,
       es_remediation = ''Check three things in order: that the schema version is non-zero, that is_paused is false, and that is_active_address is true for the issuer. This code is overloaded in the current release; see the ambiguity note in docs/errors.md.'',
       es_http_status = 400,
       es_client_message = ''Invalid schema version''\<rparr>,
     \<lparr>es_code = 305,
       es_name = ''SchemaVersionNotApproved'',
       es_enum_name = ''ProofError'',
       es_domain = DomainProofRegistry,
       es_status = StatusReturned,
       es_cause = ''The schema version is non-zero but is not approved in protocol-config, either because it was never approved or because it was deprecated.'',
       es_retry = RetryAfterOperatorAction,
       es_remediation = ''A protocol operator must approve the version. A registry pointed at an uninitialized protocol config also returns this code, because no version can be approved there.'',
       es_http_status = 400,
       es_client_message = ''Schema version not approved''\<rparr>]"

definition ERROR_CATALOG :: "error_spec list" where
  "ERROR_CATALOG = common_errors @ issuer_errors @ proof_errors"

text \<open>\<open>spec\<close> in the source.\<close>

definition error_spec_for :: "u32 \<Rightarrow> error_spec option" where
  "error_spec_for code = find (\<lambda>entry. es_code entry = code) ERROR_CATALOG"

definition domain_for :: "u32 \<Rightarrow> domain" where
  "domain_for code =
     (if 1 \<le> code \<and> code \<le> 99 then DomainCommon
      else if 100 \<le> code \<and> code \<le> 199 then DomainProtocolConfig
      else if 200 \<le> code \<and> code \<le> 299 then DomainIssuerRegistry
      else if 300 \<le> code \<and> code \<le> 399 then DomainProofRegistry
      else DomainUnallocated)"

definition retry_for :: "u32 \<Rightarrow> retry" where
  "retry_for code = (case error_spec_for code of Some entry \<Rightarrow> es_retry entry | None \<Rightarrow> RetryNever)"

section \<open>The declared error variants\<close>

datatype error_variant = CommonVariant contract_error | IssuerVariant issuer_error | ProofVariant proof_error

primrec contract_error_name :: "contract_error \<Rightarrow> string" where
  "contract_error_name AlreadyInitialized = ''AlreadyInitialized''"
| "contract_error_name NotInitialized = ''NotInitialized''"
| "contract_error_name Unauthorized = ''Unauthorized''"
| "contract_error_name AlreadyExists = ''AlreadyExists''"
| "contract_error_name NotFound = ''NotFound''"
| "contract_error_name InvalidState = ''InvalidState''"
| "contract_error_name InvalidInput = ''InvalidInput''"
| "contract_error_name CE_InvalidAddress = ''InvalidAddress''"
| "contract_error_name ProtocolPaused = ''ProtocolPaused''"

primrec issuer_error_name :: "issuer_error \<Rightarrow> string" where
  "issuer_error_name IssuerAlreadyRegistered = ''IssuerAlreadyRegistered''"
| "issuer_error_name IssuerNotFound = ''IssuerNotFound''"
| "issuer_error_name IssuerAddressAlreadyRegistered = ''IssuerAddressAlreadyRegistered''"
| "issuer_error_name IssuerAddressNotFound = ''IssuerAddressNotFound''"
| "issuer_error_name IssuerIsRevoked = ''IssuerRevoked''"
| "issuer_error_name IssuerInactive = ''IssuerInactive''"
| "issuer_error_name InvalidTransition = ''InvalidTransition''"
| "issuer_error_name IE_InvalidAddress = ''InvalidAddress''"

primrec proof_error_name :: "proof_error \<Rightarrow> string" where
  "proof_error_name ProofAlreadyRegistered = ''ProofAlreadyRegistered''"
| "proof_error_name ProofNotFound = ''ProofNotFound''"
| "proof_error_name ProofAlreadyRevoked = ''ProofAlreadyRevoked''"
| "proof_error_name ProofExpired = ''ProofExpired''"
| "proof_error_name InvalidSchemaVersion = ''InvalidSchemaVersion''"
| "proof_error_name SchemaVersionNotApproved = ''SchemaVersionNotApproved''"
| "proof_error_name PE_InvalidAddress = ''InvalidAddress''"

primrec variant_code :: "error_variant \<Rightarrow> u32" where
  "variant_code (CommonVariant e) = contract_error_code e"
| "variant_code (IssuerVariant e) = issuer_error_code e"
| "variant_code (ProofVariant e) = proof_error_code e"

primrec variant_name :: "error_variant \<Rightarrow> string" where
  "variant_name (CommonVariant e) = contract_error_name e"
| "variant_name (IssuerVariant e) = issuer_error_name e"
| "variant_name (ProofVariant e) = proof_error_name e"

primrec variant_enum :: "error_variant \<Rightarrow> string" where
  "variant_enum (CommonVariant e) = ''ContractError''"
| "variant_enum (IssuerVariant e) = ''IssuerError''"
| "variant_enum (ProofVariant e) = ''ProofError''"

text \<open>All variants, in declaration order.\<close>

definition error_variants :: "error_variant list" where
  "error_variants =
     map CommonVariant [AlreadyInitialized, NotInitialized, Unauthorized, AlreadyExists, NotFound,
       InvalidState, InvalidInput, CE_InvalidAddress, ProtocolPaused] @
     map IssuerVariant [IssuerAlreadyRegistered, IssuerNotFound, IssuerAddressAlreadyRegistered,
       IssuerAddressNotFound, IssuerIsRevoked, IssuerInactive, InvalidTransition, IE_InvalidAddress] @
     map ProofVariant [ProofAlreadyRegistered, ProofNotFound, ProofAlreadyRevoked, ProofExpired,
       InvalidSchemaVersion, SchemaVersionNotApproved, PE_InvalidAddress]"

lemma error_variants_complete: "set error_variants = UNIV"
proof -
  have "v \<in> set error_variants" for v
    by (cases v; rename_tac e; case_tac e) (simp_all add: error_variants_def)
  then show ?thesis by blast
qed

section \<open>The columns of the catalog\<close>

lemma catalog_codes:
  "map es_code ERROR_CATALOG =
     [1, 2, 20, 40, 41, 42, 60, 80, 200, 201, 202, 203, 204, 205, 206, 300, 301, 302, 303, 304, 305]"
  by (simp add: ERROR_CATALOG_def common_errors_def issuer_errors_def proof_errors_def)

lemma catalog_domains:
  "map es_domain ERROR_CATALOG =
     replicate 8 DomainCommon @ replicate 7 DomainIssuerRegistry @ replicate 6 DomainProofRegistry"
  by (simp add: ERROR_CATALOG_def common_errors_def issuer_errors_def proof_errors_def
      eval_nat_numeral)

lemma catalog_distinct: "distinct (map es_code ERROR_CATALOG)"
  by (simp add: catalog_codes)

lemma find_distinct_key:
  "distinct (map key xs) \<Longrightarrow> find (\<lambda>x. key x = k) xs = Some y \<longleftrightarrow> y \<in> set xs \<and> key y = k"
  by (induction xs) (auto simp: image_iff)

lemma error_spec_for_None_iff: "error_spec_for c = None \<longleftrightarrow> c \<notin> set (map es_code ERROR_CATALOG)"
  by (auto simp: error_spec_for_def find_None_iff)

lemma domain_for_iff:
  "domain_for c = DomainCommon \<longleftrightarrow> 1 \<le> c \<and> c \<le> 99"
  "domain_for c = DomainProtocolConfig \<longleftrightarrow> 100 \<le> c \<and> c \<le> 199"
  "domain_for c = DomainIssuerRegistry \<longleftrightarrow> 200 \<le> c \<and> c \<le> 299"
  "domain_for c = DomainProofRegistry \<longleftrightarrow> 300 \<le> c \<and> c \<le> 399"
  by (auto simp: domain_for_def word_le_nat_alt split: if_splits)

lemma domain_for_range:
  "domain_range d = Some (lo, hi) \<Longrightarrow> domain_for c = d \<longleftrightarrow> lo \<le> c \<and> c \<le> hi"
  by (cases d) (auto simp: domain_for_iff)

lemma domain_range_None_iff: "domain_range d = None \<longleftrightarrow> d = DomainUnallocated"
  by (cases d) simp_all

lemma error_spec_for_lookup:
  "error_spec_for c = Some e \<longleftrightarrow> e \<in> set ERROR_CATALOG \<and> es_code e = c"
  unfolding error_spec_for_def by (rule find_distinct_key [OF catalog_distinct])

text \<open>
  The catalog publishes, in order, the declared error variants other than the three
  \<open>InvalidAddress\<close> ones, each under its own name, enum and code, and filed under the domain its
  code falls in.
\<close>

lemma catalog_is_declared_variants:
  "map (\<lambda>e. (es_code e, es_name e, es_enum_name e, es_domain e)) ERROR_CATALOG =
     map (\<lambda>v. (variant_code v, variant_name v, variant_enum v, domain_for (variant_code v)))
       (filter (\<lambda>v. variant_name v \<noteq> ''InvalidAddress'') error_variants)"
  by (simp add: ERROR_CATALOG_def common_errors_def issuer_errors_def proof_errors_def
      error_variants_def domain_for_def)

lemma variant_code_inj: "inj variant_code"
proof -
  have "distinct (map variant_code error_variants)"
    by (simp add: error_variants_def)
  then show ?thesis
    by (metis distinct_map error_variants_complete)
qed

lemma uncatalogued_variants:
  "(error_spec_for (variant_code v) = None) = (variant_name v = ''InvalidAddress'')"
  by (cases v; rename_tac e; case_tac e) (simp_all add: error_spec_for_None_iff catalog_codes)

lemma operator_action_codes: "{c. retry_for c = RetryAfterOperatorAction} = {2, 80, 205, 304, 305}"
proof -
  have "retry_for c = RetryAfterOperatorAction \<longleftrightarrow>
      (\<exists>e. error_spec_for c = Some e \<and> es_retry e = RetryAfterOperatorAction)" for c
    by (simp add: retry_for_def split: option.split)
  then have "{c. retry_for c = RetryAfterOperatorAction} =
      set (map es_code (filter (\<lambda>e. es_retry e = RetryAfterOperatorAction) ERROR_CATALOG))"
    by (auto simp: error_spec_for_lookup)
  then show ?thesis
    by (simp add: ERROR_CATALOG_def common_errors_def issuer_errors_def proof_errors_def)
qed

section \<open>Properties\<close>

text \<open>
  C39: \<open>domain_for\<close> and \<open>Domain::range\<close> agree on every \<open>u32\<close>: a code is attributed to a
  domain with a range exactly when it lies in that range, so the ranges are disjoint, and it
  is unallocated exactly when no range holds it.
\<close>

theorem domain_for_matches_ranges:
  "domain_for c = d \<longleftrightarrow>
     (case domain_range d of
        Some (lo, hi) \<Rightarrow> lo \<le> c \<and> c \<le> hi
      | None \<Rightarrow> \<not> (\<exists>d' lo hi. domain_range d' = Some (lo, hi) \<and> lo \<le> c \<and> c \<le> hi))"
proof (cases "domain_range d")
  case None
  have "domain_for c = DomainUnallocated \<longleftrightarrow> domain_range (domain_for c) = None"
    by (simp add: domain_range_None_iff)
  also have "\<dots> \<longleftrightarrow> \<not> (\<exists>d' lo hi. domain_range d' = Some (lo, hi) \<and> lo \<le> c \<and> c \<le> hi)"
    using domain_for_range [of _ _ _ c] by (metis not_Some_eq surj_pair)
  finally show ?thesis
    using None by (simp add: domain_range_None_iff)
next
  case (Some r)
  then show ?thesis
    by (cases r) (simp add: domain_for_range)
qed

end
