(* ===== verification/Contract_Machine.thy ===== *)
theory Contract_Machine
  imports Host
begin

text \<open>
  What the three contracts have in common, as interfaces. A contract is a \<open>call\<close>
  function from an environment and an entry point to a monadic body; a history is a list
  of invocations, each committed or rolled back by the host. The locales state the laws a
  contract provides (its invariant is kept, its events describe its changes, its upgrade
  entry points follow the allowlist discipline, it implements an abstract specification)
  and derive, once, what follows for every history. Each contract interprets them in its
  own theory.
\<close>

section \<open>Histories of invocations\<close>

type_synonym ('op, 's, 'e) contract_call = "env \<Rightarrow> 'op \<Rightarrow> ('s, 'e, unit) contract_m"

fun run_calls :: "('op, 's, 'e) contract_call \<Rightarrow> (env \<times> 'op) list \<Rightarrow> 's \<Rightarrow> 's" where
  "run_calls call [] s = s"
| "run_calls call ((e, op) # h) s = run_calls call h (snd (invoke (call e op) s))"

text \<open>The outcomes of a history, in order: what the callers observe.\<close>

fun outcomes :: "('op, 's, 'e) contract_call \<Rightarrow> (env \<times> 'op) list \<Rightarrow> 's \<Rightarrow> ('e abort + unit) list" where
  "outcomes call [] s = []"
| "outcomes call ((e, op) # h) s =
     fst (invoke (call e op) s) # outcomes call h (snd (invoke (call e op) s))"

lemma run_calls_append: "run_calls call (g @ h) s = run_calls call h (run_calls call g s)"
  by (induction call g s rule: run_calls.induct) simp_all

lemma outcomes_append: "outcomes call (g @ h) s = outcomes call g s @ outcomes call h (run_calls call g s)"
  by (induction call g s rule: run_calls.induct) simp_all

lemma snd_invoke:
  "snd (invoke m s) = (case m s of (Inr x, s') \<Rightarrow> s' | (Inl a, s') \<Rightarrow> s)"
  by (simp add: invoke_def split: prod.split sum.split)

section \<open>Machines with an invariant\<close>

locale contract_machine =
  fixes call :: "('op, 's, 'e) contract_call"
    and wf :: "'s \<Rightarrow> bool"
  assumes call_wf: "wf s \<Longrightarrow> call e op s = (Inr (), s') \<Longrightarrow> wf s'"
begin

lemma invoke_wf: "wf s \<Longrightarrow> wf (snd (invoke (call e op) s))"
  by (cases "call e op s" rule: prod.exhaust)
    (auto simp: snd_invoke split: sum.splits dest: call_wf)

lemma run_wf: "wf s \<Longrightarrow> wf (run_calls call h s)"
  by (induction h arbitrary: s) (auto simp: invoke_wf)

text \<open>A reflexive and transitive relation that every committed call respects relates the
  start and the end of every history.\<close>

lemma run_respects:
  assumes refl: "\<And>s. R s s" and trans: "\<And>s t u. R s t \<Longrightarrow> R t u \<Longrightarrow> R s u"
    and step: "\<And>s e op s'. wf s \<Longrightarrow> call e op s = (Inr (), s') \<Longrightarrow> R s s'"
  shows "wf s \<Longrightarrow> R s (run_calls call h s)"
proof (induction h arbitrary: s)
  case Nil
  show ?case by (simp add: refl)
next
  case (Cons c h)
  obtain e op where c: "c = (e, op)" by (cases c)
  have "R s (snd (invoke (call e op) s))"
    using step [OF Cons.prems] by (auto simp: snd_invoke refl split: prod.splits sum.splits)
  moreover have "R (snd (invoke (call e op) s)) (run_calls call h (snd (invoke (call e op) s)))"
    by (rule Cons.IH [OF invoke_wf [OF Cons.prems]])
  ultimately show ?case
    using c trans by auto
qed

end

section \<open>Refinement of an abstract specification\<close>

fun run_spec :: "(env \<Rightarrow> 'op \<Rightarrow> 'a \<Rightarrow> ('e abort + unit) \<times> 'a) \<Rightarrow> (env \<times> 'op) list \<Rightarrow> 'a
    \<Rightarrow> ('e abort + unit) list \<times> 'a" where
  "run_spec step [] a = ([], a)"
| "run_spec step ((e, op) # h) a =
     (case step e op a of (r, a') \<Rightarrow> map_prod (Cons r) id (run_spec step h a'))"

locale contract_refinement = contract_machine call wf
  for call :: "('op, 's, 'e) contract_call" and wf :: "'s \<Rightarrow> bool" +
  fixes abs :: "'s \<Rightarrow> 'a" and step :: "env \<Rightarrow> 'op \<Rightarrow> 'a \<Rightarrow> ('e abort + unit) \<times> 'a"
  assumes call_refines: "wf s \<Longrightarrow> map_prod id abs (invoke (call e op) s) = step e op (abs s)"
begin

lemma run_refines:
  "wf s \<Longrightarrow> (outcomes call h s, abs (run_calls call h s)) = run_spec step h (abs s)"
proof (induction h arbitrary: s)
  case Nil
  show ?case by simp
next
  case (Cons c h)
  obtain e op where c: "c = (e, op)" by (cases c)
  have "step e op (abs s) = (fst (invoke (call e op) s), abs (snd (invoke (call e op) s)))"
    using call_refines [OF Cons.prems, of e op]
    by (cases "invoke (call e op) s") simp
  then show ?case
    using Cons.IH [OF invoke_wf [OF Cons.prems], of e op]
    by (simp add: c flip: Cons.IH [OF invoke_wf [OF Cons.prems]])
qed

end

section \<open>Events as a journal of the state\<close>

text \<open>
  An indexer sees the events only. The law: the events a committed call appends, applied
  to what the indexer knew, give what the state now shows.
\<close>

locale event_journal = contract_machine call wf
  for call :: "('op, 's, 'e) contract_call" and wf :: "'s \<Rightarrow> bool" +
  fixes log :: "'s \<Rightarrow> 'ev list" and view :: "'s \<Rightarrow> 'v" and apply_event :: "'ev \<Rightarrow> 'v \<Rightarrow> 'v"
  assumes call_journal: "wf s \<Longrightarrow> call e op s = (Inr (), s') \<Longrightarrow>
      \<exists>new. log s' = log s @ new \<and> length new \<le> 1 \<and> view s' = fold apply_event new (view s)"
begin

lemma run_journal:
  assumes "wf s"
  shows "\<exists>new. log (run_calls call h s) = log s @ new \<and> length new \<le> length h \<and>
     view (run_calls call h s) = fold apply_event new (view s)"
  using assms
proof (induction h arbitrary: s)
  case Nil
  show ?case by simp
next
  case (Cons c h)
  obtain e op where c: "c = (e, op)" by (cases c)
  let ?t = "snd (invoke (call e op) s)"
  obtain n1 where n1: "log ?t = log s @ n1" "length n1 \<le> 1" "view ?t = fold apply_event n1 (view s)"
  proof (cases "call e op s" rule: prod.exhaust)
    case (Pair r s')
    show ?thesis
    proof (cases r)
      case (Inl a)
      with Pair show ?thesis by (intro that [of "[]"]) (simp_all add: snd_invoke)
    next
      case (Inr x)
      with Pair have eq: "call e op s = (Inr (), s')" and t: "?t = s'"
        by (simp_all add: snd_invoke)
      show ?thesis
        using call_journal [OF Cons.prems eq] by (auto simp: t intro: that)
    qed
  qed
  obtain n2 where n2: "log (run_calls call h ?t) = log ?t @ n2" "length n2 \<le> length h"
      "view (run_calls call h ?t) = fold apply_event n2 (view ?t)"
    using Cons.IH [OF invoke_wf [OF Cons.prems]] by blast
  show ?case
    using n1 n2 by (intro exI [of _ "n1 @ n2"]) (auto simp: c)
qed

lemma replay_from_empty:
  "wf s \<Longrightarrow> log s = [] \<Longrightarrow>
     view (run_calls call h s) = fold apply_event (log (run_calls call h s)) (view s)"
  using run_journal [of s h] by auto

end

section \<open>Upgrade governance\<close>

text \<open>How many committed installations a history contains.\<close>

fun installs_of :: "('op, 's, 'e) contract_call \<Rightarrow> ('op \<Rightarrow> bytes32 option) \<Rightarrow> (env \<times> 'op) list \<Rightarrow> 's \<Rightarrow> nat" where
  "installs_of call installs [] s = 0"
| "installs_of call installs ((e, op) # h) s =
     (if installs op \<noteq> None \<and> \<not> isl (fst (call e op s)) then 1 else 0) +
     installs_of call installs h (snd (invoke (call e op) s))"

text \<open>
  The discipline the three copies of the upgrade entry points share. \<open>approves op\<close> and
  \<open>installs op\<close> say which entry point \<open>op\<close> is. A committed approval names a version
  above the current one; a committed installation consumes the allowlist entry and moves the
  version up to the approved one; no other call adds to the allowlist or changes the version
  of an initialized contract.
\<close>

locale upgrade_governance = contract_machine call wf
  for call :: "('op, 's, 'e) contract_call" and wf :: "'s \<Rightarrow> bool" +
  fixes version :: "'s \<Rightarrow> u32" and allowed :: "'s \<Rightarrow> bytes32 \<Rightarrow> u32 option"
    and approves :: "'op \<Rightarrow> (bytes32 \<times> u32) option" and installs :: "'op \<Rightarrow> bytes32 option"
  assumes call_installs: "wf s \<Longrightarrow> call e op s = (Inr (), s') \<Longrightarrow> installs op = Some h \<Longrightarrow>
      \<exists>v. allowed s h = Some v \<and> version s < v \<and> version s' = v \<and> allowed s' = (allowed s)(h := None)"
    and call_version: "wf s \<Longrightarrow> call e op s = (Inr (), s') \<Longrightarrow> installs op = None \<Longrightarrow>
      version s \<le> version s'"
    and call_allowed: "wf s \<Longrightarrow> call e op s = (Inr (), s') \<Longrightarrow> allowed s' h = Some v \<Longrightarrow>
      allowed s h = Some v \<or> approves op = Some (h, v) \<and> version s < v"
begin

lemma call_version_mono: "wf s \<Longrightarrow> call e op s = (Inr (), s') \<Longrightarrow> version s \<le> version s'"
  using call_installs [of s e op s'] call_version [of s e op s'] by (cases "installs op") auto

lemma run_version_mono: "wf s \<Longrightarrow> version s \<le> version (run_calls call h s)"
  by (rule run_respects [where R = "\<lambda>s t. version s \<le> version t"])
    (auto dest: call_version_mono)

lemma run_allowed_None:
  "wf s \<Longrightarrow> allowed s w = None \<Longrightarrow> (\<And>e op v. (e, op) \<in> set h \<Longrightarrow> approves op \<noteq> Some (w, v)) \<Longrightarrow>
     allowed (run_calls call h s) w = None"
proof (induction h arbitrary: s)
  case Nil
  then show ?case by simp
next
  case (Cons c h)
  obtain e op where c: "c = (e, op)" by (cases c)
  have "allowed (snd (invoke (call e op) s)) w = None"
    using Cons.prems c call_allowed [of s e op _ w]
    by (fastforce simp: snd_invoke split: prod.splits sum.splits)
  then show ?case
    using Cons.IH [OF invoke_wf [OF Cons.prems(1)]] Cons.prems(3) c by (simp, meson list.set_intros(2))
qed

text \<open>A consumed hash cannot be installed again before it is approved again, and a new
  approval must name a version above every version installed before.\<close>

lemma no_replay:
  assumes "wf s" and "call e op s = (Inr (), s1)" and "installs op = Some w"
    and "\<And>e' op' v. (e', op') \<in> set h \<Longrightarrow> approves op' \<noteq> Some (w, v)"
    and "installs op2 = Some w"
  shows "call e2 op2 (run_calls call h s1) \<noteq> (Inr (), s3)"
proof -
  have wf1: "wf s1" by (rule call_wf [OF assms(1,2)])
  have "allowed s1 w = None"
    using call_installs [OF assms(1-3)] by auto
  then have "allowed (run_calls call h s1) w = None"
    using run_allowed_None [OF wf1] assms(4) by blast
  then show ?thesis
    using call_installs [OF run_wf [OF wf1] _ assms(5)] by fastforce
qed

text \<open>The committed installations of a history strictly raise the version each time, so there
  are at most as many as the version has moved.\<close>

lemma installs_bound:
  "wf s \<Longrightarrow> unat (version s) + installs_of call installs h s \<le> unat (version (run_calls call h s))"
proof (induction h arbitrary: s)
  case Nil
  show ?case by simp
next
  case (Cons c h)
  obtain e op where c: "c = (e, op)" by (cases c)
  let ?t = "snd (invoke (call e op) s)"
  have "unat (version s) + (if installs op \<noteq> None \<and> \<not> isl (fst (call e op s)) then 1 else 0)
      \<le> unat (version ?t)"
    using call_installs [OF Cons.prems, of e op] call_version_mono [OF Cons.prems, of e op]
    by (fastforce simp: snd_invoke word_less_nat_alt word_le_nat_alt split: prod.splits sum.splits)
  then show ?case
    using Cons.IH [OF invoke_wf [OF Cons.prems], of e op] by (simp add: c)
qed

end

end
