(* ===== verification/Protocol_Config.thy ===== *)
theory Protocol_Config
  imports Shared_Types Contract_Machine
begin

text \<open>
  The contract \<open>protocol-config\<close> (\<open>src/contracts/protocol-config/src/lib.rs\<close>): the
  administrator, the pause switch, the schema versions and the upgrade allowlist.
\<close>

section \<open>Storage keys and events\<close>

datatype pc_key =
    PcAdmin
  | PcPaused
  | PcConfigVersion
  | PcSchemaVersion u32
  | PcAllowedWasm bytes32
  | PcContractVersion

datatype pc_event =
    EvInitialized address
  | EvAdminChanged address
  | EvPaused bool
  | EvUnpaused bool
  | EvSchemaApproved u32
  | EvSchemaDeprecated u32
  | EvPcUpgradeAllowlisted bytes32 u32 address
  | EvPcUpgradeRevoked bytes32 address
  | EvPcContractUpgraded bytes32 u32 u32 address

type_synonym pc_state = "(pc_key, stored_value, pc_event) contract_state"
type_synonym 'a pc_m = "(pc_state, contract_error, 'a) contract_m"

section \<open>Private helpers\<close>

definition ensure_nonzero_version :: "u32 \<Rightarrow> unit pc_m" where
  "ensure_nonzero_version version =
     (if version = 0 then abort_with (Err InvalidInput) else ret ())"

definition pc_require_valid_principal :: "env \<Rightarrow> address \<Rightarrow> unit pc_m" where
  "pc_require_valid_principal e a =
     (if \<not> is_valid_principal_address e a then abort_with (Err InvalidInput) else ret ())"

definition pc_extend_instance_ttl :: "env \<Rightarrow> unit pc_m" where
  "pc_extend_instance_ttl e = inst_extend_ttl e TTL_THRESHOLD_LEDGERS TTL_EXTEND_TO_LEDGERS"

definition extend_schema_ttl :: "env \<Rightarrow> u32 \<Rightarrow> unit pc_m" where
  "extend_schema_ttl e version =
     pers_extend_ttl e (PcSchemaVersion version) TTL_THRESHOLD_LEDGERS TTL_EXTEND_TO_LEDGERS"

definition pc_require_auth :: "env \<Rightarrow> address \<Rightarrow> unit pc_m" where
  "pc_require_auth e a = host_require_auth e a"

section \<open>Reads\<close>

definition pc_get_admin :: "address pc_m" where
  "pc_get_admin = bind_m (inst_get as_address PcAdmin) (ok_or NotInitialized)"

definition is_paused :: "bool pc_m" where
  "is_paused = bind_m (inst_get as_bool PcPaused) (\<lambda>v. ret (unwrap_or False v))"

definition get_config_version :: "u32 pc_m" where
  "get_config_version = bind_m (inst_get as_u32 PcConfigVersion) (\<lambda>v. ret (unwrap_or 0 v))"

definition pc_get_contract_version :: "u32 pc_m" where
  "pc_get_contract_version = bind_m (inst_get as_u32 PcContractVersion) (\<lambda>v. ret (unwrap_or 0 v))"

definition pc_is_upgrade_allowed :: "bytes32 \<Rightarrow> bool pc_m" where
  "pc_is_upgrade_allowed wasm_hash = inst_has (PcAllowedWasm wasm_hash)"

definition is_schema_version_approved :: "env \<Rightarrow> u32 \<Rightarrow> bool pc_m" where
  "is_schema_version_approved e version =
     (if version = 0 then ret False
      else
        bind_m (pers_get as_bool (PcSchemaVersion version)) (\<lambda>v.
        let approved = unwrap_or False v in
        bind_m (pers_has (PcSchemaVersion version)) (\<lambda>present.
        seq_m (if present
               then pers_extend_ttl e (PcSchemaVersion version)
                      TTL_THRESHOLD_LEDGERS TTL_EXTEND_TO_LEDGERS
               else ret ())
        (ret approved))))"

section \<open>Configuration changes\<close>

definition bump_config_version :: "env \<Rightarrow> unit pc_m" where
  "bump_config_version e =
     bind_m get_config_version (\<lambda>current.
     bind_m (expect_some ''config version overflow: reached maximum'' (checked_add current 1))
       (\<lambda>new_version.
     seq_m (inst_set PcConfigVersion (U32V new_version))
     (pc_extend_instance_ttl e)))"

definition pc_initialize :: "env \<Rightarrow> address \<Rightarrow> unit pc_m" where
  "pc_initialize e admin =
     bind_m (inst_has PcAdmin) (\<lambda>present.
     if present then abort_with (Err AlreadyInitialized)
     else
       seq_m (pc_require_valid_principal e admin) (
       seq_m (pc_require_auth e admin) (
       seq_m (inst_set PcAdmin (AddressV admin)) (
       seq_m (inst_set PcPaused (BoolV False)) (
       seq_m (inst_set PcConfigVersion (U32V 1)) (
       seq_m (inst_set PcContractVersion (U32V 1)) (
       seq_m (pc_extend_instance_ttl e)
       (publish (EvInitialized admin)))))))))"

definition set_admin :: "env \<Rightarrow> address \<Rightarrow> unit pc_m" where
  "set_admin e new_admin =
     bind_m pc_get_admin (\<lambda>admin.
     seq_m (pc_require_valid_principal e new_admin) (
     seq_m (pc_require_auth e admin) (
     seq_m (inst_set PcAdmin (AddressV new_admin)) (
     seq_m (bump_config_version e)
     (publish (EvAdminChanged new_admin))))))"

definition pause :: "env \<Rightarrow> unit pc_m" where
  "pause e =
     bind_m pc_get_admin (\<lambda>admin.
     seq_m (pc_require_auth e admin) (
     seq_m (inst_set PcPaused (BoolV True)) (
     seq_m (bump_config_version e)
     (publish (EvPaused True)))))"

definition unpause :: "env \<Rightarrow> unit pc_m" where
  "unpause e =
     bind_m pc_get_admin (\<lambda>admin.
     seq_m (pc_require_auth e admin) (
     seq_m (inst_set PcPaused (BoolV False)) (
     seq_m (bump_config_version e)
     (publish (EvUnpaused False)))))"

definition approve_schema_version :: "env \<Rightarrow> u32 \<Rightarrow> unit pc_m" where
  "approve_schema_version e version =
     bind_m pc_get_admin (\<lambda>admin.
     seq_m (pc_require_auth e admin) (
     seq_m (ensure_nonzero_version version) (
     seq_m (pers_set e (PcSchemaVersion version) (BoolV True)) (
     seq_m (extend_schema_ttl e version) (
     seq_m (bump_config_version e)
     (publish (EvSchemaApproved version)))))))"

definition deprecate_schema_version :: "env \<Rightarrow> u32 \<Rightarrow> unit pc_m" where
  "deprecate_schema_version e version =
     bind_m pc_get_admin (\<lambda>admin.
     seq_m (pc_require_auth e admin) (
     seq_m (ensure_nonzero_version version) (
     seq_m (pers_set e (PcSchemaVersion version) (BoolV False)) (
     seq_m (extend_schema_ttl e version) (
     seq_m (bump_config_version e)
     (publish (EvSchemaDeprecated version)))))))"

section \<open>Upgrade governance\<close>

definition pc_approve_upgrade :: "env \<Rightarrow> bytes32 \<Rightarrow> u32 \<Rightarrow> unit pc_m" where
  "pc_approve_upgrade e wasm_hash new_version =
     bind_m (expect_ok ''contract not initialized'' pc_get_admin) (\<lambda>admin.
     seq_m (pc_require_auth e admin) (
     bind_m pc_get_contract_version (\<lambda>current.
     if new_version \<le> current
     then abort_with (Panic ''new_version must be greater than current contract version'')
     else
       seq_m (inst_set (PcAllowedWasm wasm_hash) (U32V new_version)) (
       seq_m (pc_extend_instance_ttl e)
       (publish (EvPcUpgradeAllowlisted wasm_hash new_version admin))))))"

definition pc_revoke_upgrade :: "env \<Rightarrow> bytes32 \<Rightarrow> unit pc_m" where
  "pc_revoke_upgrade e wasm_hash =
     bind_m (expect_ok ''contract not initialized'' pc_get_admin) (\<lambda>admin.
     seq_m (pc_require_auth e admin) (
     seq_m (inst_remove (PcAllowedWasm wasm_hash))
     (publish (EvPcUpgradeRevoked wasm_hash admin))))"

definition pc_upgrade_contract :: "env \<Rightarrow> bytes32 \<Rightarrow> unit pc_m" where
  "pc_upgrade_contract e wasm_hash =
     bind_m (expect_ok ''contract not initialized'' pc_get_admin) (\<lambda>admin.
     seq_m (pc_require_auth e admin) (
     bind_m (inst_get as_u32 (PcAllowedWasm wasm_hash)) (\<lambda>entry.
     bind_m (expect_some ''wasm hash not on allowlist'' entry) (\<lambda>new_version.
     bind_m pc_get_contract_version (\<lambda>old_version.
     if new_version \<le> old_version
     then abort_with (Panic ''upgrade would not advance contract version'')
     else
       seq_m (inst_remove (PcAllowedWasm wasm_hash)) (
       seq_m (cfg_not_test e (update_wasm e wasm_hash)) (
       seq_m (inst_set PcContractVersion (U32V new_version)) (
       seq_m (pc_extend_instance_ttl e)
       (publish (EvPcContractUpgraded wasm_hash old_version new_version admin))))))))))"

section \<open>The entry points as one call\<close>

datatype pc_op =
    PcInitialize address
  | PcGetAdmin
  | PcSetAdmin address
  | PcIsPaused
  | PcPause
  | PcUnpause
  | PcApproveSchema u32
  | PcDeprecateSchema u32
  | PcIsSchemaApproved u32
  | PcGetConfigVersion
  | PcGetContractVersion
  | PcApproveUpgrade bytes32 u32
  | PcRevokeUpgrade bytes32
  | PcIsUpgradeAllowed bytes32
  | PcUpgradeContract bytes32

fun pc_call :: "env \<Rightarrow> pc_op \<Rightarrow> unit pc_m" where
  "pc_call e (PcInitialize admin) = pc_initialize e admin"
| "pc_call e PcGetAdmin = discard pc_get_admin"
| "pc_call e (PcSetAdmin new_admin) = set_admin e new_admin"
| "pc_call e PcIsPaused = discard is_paused"
| "pc_call e PcPause = pause e"
| "pc_call e PcUnpause = unpause e"
| "pc_call e (PcApproveSchema v) = approve_schema_version e v"
| "pc_call e (PcDeprecateSchema v) = deprecate_schema_version e v"
| "pc_call e (PcIsSchemaApproved v) = discard (is_schema_version_approved e v)"
| "pc_call e PcGetConfigVersion = discard get_config_version"
| "pc_call e PcGetContractVersion = discard pc_get_contract_version"
| "pc_call e (PcApproveUpgrade h v) = pc_approve_upgrade e h v"
| "pc_call e (PcRevokeUpgrade h) = pc_revoke_upgrade e h"
| "pc_call e (PcIsUpgradeAllowed h) = discard (pc_is_upgrade_allowed h)"
| "pc_call e (PcUpgradeContract h) = pc_upgrade_contract e h"

lemmas pc_defs =
  ensure_nonzero_version_def pc_require_valid_principal_def pc_extend_instance_ttl_def
  extend_schema_ttl_def pc_require_auth_def pc_get_admin_def is_paused_def get_config_version_def
  pc_get_contract_version_def pc_is_upgrade_allowed_def is_schema_version_approved_def
  bump_config_version_def pc_initialize_def set_admin_def pause_def unpause_def
  approve_schema_version_def deprecate_schema_version_def pc_approve_upgrade_def
  pc_revoke_upgrade_def pc_upgrade_contract_def

section \<open>What the storage means\<close>

definition pc_admin :: "pc_state \<Rightarrow> address option" where
  "pc_admin s = Option.bind (inst s PcAdmin) as_address"

definition pc_paused :: "pc_state \<Rightarrow> bool" where
  "pc_paused s = unwrap_or False (Option.bind (inst s PcPaused) as_bool)"

definition pc_config_version :: "pc_state \<Rightarrow> u32" where
  "pc_config_version s = unwrap_or 0 (Option.bind (inst s PcConfigVersion) as_u32)"

definition pc_contract_version :: "pc_state \<Rightarrow> u32" where
  "pc_contract_version s = unwrap_or 0 (Option.bind (inst s PcContractVersion) as_u32)"

definition pc_schema :: "pc_state \<Rightarrow> u32 \<Rightarrow> bool option" where
  "pc_schema s v = Option.bind (pers s (PcSchemaVersion v)) as_bool"

definition pc_allowed :: "pc_state \<Rightarrow> bytes32 \<Rightarrow> u32 option" where
  "pc_allowed s h = Option.bind (inst s (PcAllowedWasm h)) as_u32"

section \<open>Well-formed storage\<close>

fun pc_inst_ok :: "pc_key \<Rightarrow> stored_value \<Rightarrow> bool" where
  "pc_inst_ok PcAdmin v = (as_address v \<noteq> None)"
| "pc_inst_ok PcPaused v = (as_bool v \<noteq> None)"
| "pc_inst_ok PcConfigVersion v = (as_u32 v \<noteq> None \<and> as_u32 v \<noteq> Some 0)"
| "pc_inst_ok PcContractVersion v = (as_u32 v \<noteq> None \<and> as_u32 v \<noteq> Some 0)"
| "pc_inst_ok (PcAllowedWasm h) v = (as_u32 v \<noteq> None \<and> as_u32 v \<noteq> Some 0)"
| "pc_inst_ok (PcSchemaVersion n) v = False"

fun pc_pers_ok :: "pc_key \<Rightarrow> stored_value \<Rightarrow> bool" where
  "pc_pers_ok (PcSchemaVersion n) v = (n \<noteq> 0 \<and> as_bool v \<noteq> None)"
| "pc_pers_ok _ v = False"

definition pc_wf :: "pc_state \<Rightarrow> bool" where
  "pc_wf s \<longleftrightarrow> storage_ok pc_inst_ok pc_pers_ok PcAdmin {PcPaused, PcConfigVersion, PcContractVersion}
     (inst s) (pers s)"


section \<open>An abstract specification\<close>

record config_spec =
  cf_admin :: "address option"
  cf_paused :: bool
  cf_version :: u32
  cf_schema :: "u32 \<Rightarrow> bool option"
  cf_contract_version :: u32
  cf_allowed :: "bytes32 \<Rightarrow> u32 option"

type_synonym cf_result = "(contract_error abort + unit) \<times> config_spec"

definition cf_as_admin :: "env \<Rightarrow> contract_error abort \<Rightarrow> config_spec \<Rightarrow> cf_result \<Rightarrow> cf_result" where
  "cf_as_admin e missing c k = (case cf_admin c of
      None \<Rightarrow> (Inl missing, c)
    | Some a \<Rightarrow> if authorized e a then k else (Inl (AuthFailure a), c))"

definition cf_bump :: "config_spec \<Rightarrow> config_spec \<Rightarrow> cf_result" where
  "cf_bump c c' = (if cf_version c = - 1 then (Inl (Panic ''config version overflow: reached maximum''), c)
     else (Inr (), c'\<lparr>cf_version := cf_version c + 1\<rparr>))"

fun cf_step :: "env \<Rightarrow> pc_op \<Rightarrow> config_spec \<Rightarrow> cf_result" where
  "cf_step e (PcInitialize a) c =
     (if cf_admin c \<noteq> None then (Inl (Err AlreadyInitialized), c)
      else if \<not> is_valid_principal_address e a then (Inl (Err InvalidInput), c)
      else if \<not> authorized e a then (Inl (AuthFailure a), c)
      else (Inr (), \<lparr>cf_admin = Some a, cf_paused = False, cf_version = 1, cf_schema = (\<lambda>_. None),
              cf_contract_version = 1, cf_allowed = (\<lambda>_. None)\<rparr>))"
| "cf_step e (PcSetAdmin a) c =
     (if cf_admin c \<noteq> None \<and> \<not> is_valid_principal_address e a then (Inl (Err InvalidInput), c)
      else cf_as_admin e (Err NotInitialized) c (cf_bump c (c\<lparr>cf_admin := Some a\<rparr>)))"
| "cf_step e PcPause c = cf_as_admin e (Err NotInitialized) c (cf_bump c (c\<lparr>cf_paused := True\<rparr>))"
| "cf_step e PcUnpause c = cf_as_admin e (Err NotInitialized) c (cf_bump c (c\<lparr>cf_paused := False\<rparr>))"
| "cf_step e (PcApproveSchema v) c = cf_as_admin e (Err NotInitialized) c
     (if v = 0 then (Inl (Err InvalidInput), c)
      else cf_bump c (c\<lparr>cf_schema := (cf_schema c)(v \<mapsto> True)\<rparr>))"
| "cf_step e (PcDeprecateSchema v) c = cf_as_admin e (Err NotInitialized) c
     (if v = 0 then (Inl (Err InvalidInput), c)
      else cf_bump c (c\<lparr>cf_schema := (cf_schema c)(v \<mapsto> False)\<rparr>))"
| "cf_step e (PcApproveUpgrade h v) c = cf_as_admin e (Panic ''contract not initialized'') c
     (if v \<le> cf_contract_version c
      then (Inl (Panic ''new_version must be greater than current contract version''), c)
      else (Inr (), c\<lparr>cf_allowed := (cf_allowed c)(h \<mapsto> v)\<rparr>))"
| "cf_step e (PcRevokeUpgrade h) c = cf_as_admin e (Panic ''contract not initialized'') c
     (Inr (), c\<lparr>cf_allowed := (cf_allowed c)(h := None)\<rparr>)"
| "cf_step e (PcUpgradeContract h) c = cf_as_admin e (Panic ''contract not initialized'') c
     (case cf_allowed c h of
        None \<Rightarrow> (Inl (Panic ''wasm hash not on allowlist''), c)
      | Some v \<Rightarrow>
          if v \<le> cf_contract_version c
          then (Inl (Panic ''upgrade would not advance contract version''), c)
          else if \<not> cfg_test e \<and> \<not> wasm_uploaded e h then (Inl HostTrap, c)
          else (Inr (), c\<lparr>cf_contract_version := v, cf_allowed := (cf_allowed c)(h := None)\<rparr>))"
| "cf_step e PcGetAdmin c =
     ((if cf_admin c = None then Inl (Err NotInitialized) else Inr ()), c)"
| "cf_step e _ c = (Inr (), c)"

definition pc_abs :: "pc_state \<Rightarrow> config_spec" where
  "pc_abs s = \<lparr>cf_admin = pc_admin s, cf_paused = pc_paused s, cf_version = pc_config_version s,
     cf_schema = pc_schema s, cf_contract_version = pc_contract_version s, cf_allowed = pc_allowed s\<rparr>"

section \<open>Views of updated storage\<close>

lemma pc_view_updates:
  "pc_admin (s\<lparr>inst := f\<rparr>) = Option.bind (f PcAdmin) as_address"
  "pc_paused (s\<lparr>inst := f\<rparr>) = unwrap_or False (Option.bind (f PcPaused) as_bool)"
  "pc_config_version (s\<lparr>inst := f\<rparr>) = unwrap_or 0 (Option.bind (f PcConfigVersion) as_u32)"
  "pc_contract_version (s\<lparr>inst := f\<rparr>) = unwrap_or 0 (Option.bind (f PcContractVersion) as_u32)"
  "pc_schema (s\<lparr>inst := f\<rparr>) = pc_schema s"
  "pc_allowed (s\<lparr>inst := f\<rparr>) = (\<lambda>h. Option.bind (f (PcAllowedWasm h)) as_u32)"
  "pc_schema (s\<lparr>pers := g\<rparr>) = (\<lambda>v. Option.bind (g (PcSchemaVersion v)) as_bool)"
  "pc_admin (s\<lparr>pers := g\<rparr>) = pc_admin s" "pc_paused (s\<lparr>pers := g\<rparr>) = pc_paused s"
  "pc_config_version (s\<lparr>pers := g\<rparr>) = pc_config_version s"
  "pc_contract_version (s\<lparr>pers := g\<rparr>) = pc_contract_version s"
  "pc_allowed (s\<lparr>pers := g\<rparr>) = pc_allowed s"
  by (auto simp: pc_admin_def pc_paused_def pc_config_version_def pc_contract_version_def
      pc_schema_def pc_allowed_def)

lemma pc_view_frames [simp]:
  "pc_admin (s\<lparr>inst_until := x0\<rparr>) = pc_admin s"
  "pc_admin (s\<lparr>pers_until := x1\<rparr>) = pc_admin s"
  "pc_admin (s\<lparr>events := x2\<rparr>) = pc_admin s"
  "pc_admin (s\<lparr>wasm := x3\<rparr>) = pc_admin s"
  "pc_paused (s\<lparr>inst_until := x0\<rparr>) = pc_paused s"
  "pc_paused (s\<lparr>pers_until := x1\<rparr>) = pc_paused s"
  "pc_paused (s\<lparr>events := x2\<rparr>) = pc_paused s"
  "pc_paused (s\<lparr>wasm := x3\<rparr>) = pc_paused s"
  "pc_config_version (s\<lparr>inst_until := x0\<rparr>) = pc_config_version s"
  "pc_config_version (s\<lparr>pers_until := x1\<rparr>) = pc_config_version s"
  "pc_config_version (s\<lparr>events := x2\<rparr>) = pc_config_version s"
  "pc_config_version (s\<lparr>wasm := x3\<rparr>) = pc_config_version s"
  "pc_contract_version (s\<lparr>inst_until := x0\<rparr>) = pc_contract_version s"
  "pc_contract_version (s\<lparr>pers_until := x1\<rparr>) = pc_contract_version s"
  "pc_contract_version (s\<lparr>events := x2\<rparr>) = pc_contract_version s"
  "pc_contract_version (s\<lparr>wasm := x3\<rparr>) = pc_contract_version s"
  "pc_schema (s\<lparr>inst_until := x0\<rparr>) = pc_schema s"
  "pc_schema (s\<lparr>pers_until := x1\<rparr>) = pc_schema s"
  "pc_schema (s\<lparr>events := x2\<rparr>) = pc_schema s"
  "pc_schema (s\<lparr>wasm := x3\<rparr>) = pc_schema s"
  "pc_allowed (s\<lparr>inst_until := x0\<rparr>) = pc_allowed s"
  "pc_allowed (s\<lparr>pers_until := x1\<rparr>) = pc_allowed s"
  "pc_allowed (s\<lparr>events := x2\<rparr>) = pc_allowed s"
  "pc_allowed (s\<lparr>wasm := x3\<rparr>) = pc_allowed s"
  by (auto simp: pc_admin_def pc_paused_def pc_config_version_def pc_contract_version_def
      pc_schema_def pc_allowed_def)

lemmas pc_wf_inst = storage_ok_inst [OF pc_wf_def [THEN iffD1]]
lemmas pc_wf_pers = storage_ok_pers [OF pc_wf_def [THEN iffD1]]

lemma pc_stored:
  assumes "pc_wf s"
  shows "inst s PcAdmin = map_option AddressV (pc_admin s)"
    and "inst s (PcAllowedWasm h) = map_option U32V (pc_allowed s h)"
    and "pers s (PcSchemaVersion n) = map_option BoolV (pc_schema s n)"
  unfolding pc_admin_def pc_allowed_def pc_schema_def
  by (rule encoded_view; fastforce dest: pc_wf_inst [OF assms] pc_wf_pers [OF assms])+

lemma pc_stored_uninit:
  assumes "pc_wf s" and "pc_admin s = None"
  shows "inst s k = None" "pers s k = None"
  using storage_ok_uninit [OF pc_wf_def [THEN iffD1, OF assms(1)]] pc_stored(1) [OF assms(1)] assms(2)
  by simp_all

lemma pc_stored_init:
  assumes "pc_wf s" and "pc_admin s = Some a"
  shows "inst s PcPaused = Some (BoolV (pc_paused s))"
    and "inst s PcConfigVersion = Some (U32V (pc_config_version s))"
    and "inst s PcContractVersion = Some (U32V (pc_contract_version s))"
proof -
  have "inst s k \<noteq> None" if "k \<in> {PcPaused, PcConfigVersion, PcContractVersion}" for k
    using storage_ok_required [OF pc_wf_def [THEN iffD1, OF assms(1)] _ that]
      pc_stored(1) [OF assms(1)] assms(2) by simp
  from this [of PcPaused] this [of PcConfigVersion] this [of PcContractVersion]
  obtain p c k where *: "inst s PcPaused = Some p" "inst s PcConfigVersion = Some c"
      "inst s PcContractVersion = Some k"
    by auto
  then show "inst s PcPaused = Some (BoolV (pc_paused s))"
    and "inst s PcConfigVersion = Some (U32V (pc_config_version s))"
    and "inst s PcContractVersion = Some (U32V (pc_contract_version s))"
    using pc_wf_inst [OF assms(1) *(1)] pc_wf_inst [OF assms(1) *(2)] pc_wf_inst [OF assms(1) *(3)]
    by (auto simp: pc_paused_def pc_config_version_def pc_contract_version_def)
qed

lemma pc_views_uninit:
  assumes "pc_wf s" and "pc_admin s = None"
  shows "pc_paused s = False" "pc_config_version s = 0" "pc_contract_version s = 0"
   "pc_schema s = (\<lambda>_. None)" "pc_allowed s = (\<lambda>_. None)"
  using pc_stored_uninit [OF assms] by (auto simp: pc_paused_def pc_config_version_def pc_contract_version_def
      pc_schema_def pc_allowed_def)

lemma pc_folds:
  "(\<lambda>v. Option.bind (if v = n then Some (BoolV b) else pers s (PcSchemaVersion v)) as_bool) = (pc_schema s)(n \<mapsto> b)"
  "(\<lambda>h. Option.bind (if h = w then Some (U32V m) else inst s (PcAllowedWasm h)) as_u32) = (pc_allowed s)(w \<mapsto> m)"
  "(\<lambda>h. Option.bind (if h = w then None else inst s (PcAllowedWasm h)) as_u32) = (pc_allowed s)(w := None)"
  "(\<lambda>h. Option.bind (inst s (PcAllowedWasm h)) as_u32) = pc_allowed s"
  by (auto simp: fun_eq_iff pc_schema_def pc_allowed_def)

section \<open>Every entry point keeps the storage well-formed\<close>

lemma pc_wf_fresh: "pc_wf (fresh_contract lu w)"
  by (simp add: pc_wf_def fresh_contract_def storage_ok_empty)

lemma pc_config_version_pos: "pc_wf s \<Longrightarrow> pc_admin s = Some a \<Longrightarrow> pc_config_version s \<noteq> 0 \<and> pc_contract_version s \<noteq> 0"
  using pc_stored_init [of s a] pc_wf_inst [of s PcConfigVersion]  pc_wf_inst [of s PcContractVersion] by fastforce

lemma pc_ok_initialized:
  "storage_ok pc_inst_ok pc_pers_ok PcAdmin {PcPaused, PcConfigVersion, PcContractVersion}
     [PcAdmin \<mapsto> AddressV a, PcPaused \<mapsto> BoolV False, PcConfigVersion \<mapsto> U32V 1, PcContractVersion \<mapsto> U32V 1]
     (\<lambda>_. None)"
  by (auto simp: storage_ok_def split: if_splits)

lemma pc_call_wf_uninit:
  assumes "pc_wf s" "pc_admin s = None" "pc_call e op s = (Inr (), s')"
  shows "pc_wf s'"
proof -
  have "inst s = (\<lambda>_. None)" "pers s = (\<lambda>_. None)"
    using pc_stored_uninit [OF assms(1,2)] by auto
  then show ?thesis
    using assms
  by (cases op) (auto simp: pc_defs run pc_stored_uninit Let_def pc_wf_def pc_ok_initialized split: if_splits)
qed

lemma pc_call_wf_init:
  assumes "pc_wf s" "pc_admin s = Some a" "pc_call e op s = (Inr (), s')"
  shows "pc_wf s'"
proof -
  have ok: "storage_ok pc_inst_ok pc_pers_ok PcAdmin {PcPaused, PcConfigVersion, PcContractVersion}
     (inst s) (pers s)" using assms(1) by (simp add: pc_wf_def)
  show ?thesis unfolding pc_wf_def
  using assms ok
  by (cases op) (auto simp: pc_defs run pc_stored pc_stored_init Let_def checked_add_one nonzero_facts split: if_splits option.splits intro!: wf_intro)
qed
lemma pc_call_wf: "pc_wf s \<Longrightarrow> pc_call e op s = (Inr (), s') \<Longrightarrow> pc_wf s'"
  by (cases "pc_admin s") (auto dest: pc_call_wf_uninit pc_call_wf_init)

section \<open>Every entry point implements the specification\<close>

lemma pc_call_refines_uninit:
  assumes "pc_wf s" "pc_admin s = None"
  shows "map_prod id pc_abs (invoke (pc_call e op) s) = cf_step e op (pc_abs s)"
  using assms
  by (cases op) (simp_all add: pc_defs run invoke_def pc_stored_uninit pc_views_uninit cf_as_admin_def Let_def pc_abs_def pc_view_updates)

lemma pc_call_refines_init:
  assumes "pc_wf s" "pc_admin s = Some a"
  shows "map_prod id pc_abs (invoke (pc_call e op) s) = cf_step e op (pc_abs s)"
  using assms
  by (cases op) (simp_all add: pc_defs run invoke_def pc_stored pc_stored_init cf_as_admin_def cf_bump_def Let_def pc_abs_def pc_view_updates pc_folds checked_add_one split: option.split)

lemma pc_call_refines:
  "pc_wf s \<Longrightarrow> map_prod id pc_abs (invoke (pc_call e op) s) = cf_step e op (pc_abs s)"
  by (cases "pc_admin s") (auto simp: pc_call_refines_uninit pc_call_refines_init)


lemma pc_abs_simps [simp]:
  "cf_admin (pc_abs s) = pc_admin s" "cf_paused (pc_abs s) = pc_paused s"
  "cf_version (pc_abs s) = pc_config_version s" "cf_schema (pc_abs s) = pc_schema s"
  "cf_contract_version (pc_abs s) = pc_contract_version s" "cf_allowed (pc_abs s) = pc_allowed s"
  by (simp_all add: pc_abs_def)

lemma pc_call_commits:
  assumes "pc_wf s" and "pc_call e op s = (Inr (), s')"
  shows "cf_step e op (pc_abs s) = (Inr (), pc_abs s')"
  using pc_call_refines [OF assms(1), of e op] assms(2) by (simp add: invoke_def)

section \<open>Events as a journal\<close>

definition cf_empty :: config_spec where
  "cf_empty = \<lparr>cf_admin = None, cf_paused = False, cf_version = 0, cf_schema = (\<lambda>_. None),
     cf_contract_version = 0, cf_allowed = (\<lambda>_. None)\<rparr>"

text \<open>What an indexer does with each event of the contract.\<close>

fun cf_apply_event :: "pc_event \<Rightarrow> config_spec \<Rightarrow> config_spec" where
  "cf_apply_event (EvInitialized a) c =
     c\<lparr>cf_admin := Some a, cf_paused := False, cf_version := 1, cf_contract_version := 1\<rparr>"
| "cf_apply_event (EvAdminChanged a) c = c\<lparr>cf_admin := Some a, cf_version := cf_version c + 1\<rparr>"
| "cf_apply_event (EvPaused b) c = c\<lparr>cf_paused := b, cf_version := cf_version c + 1\<rparr>"
| "cf_apply_event (EvUnpaused b) c = c\<lparr>cf_paused := b, cf_version := cf_version c + 1\<rparr>"
| "cf_apply_event (EvSchemaApproved v) c =
     c\<lparr>cf_schema := (cf_schema c)(v \<mapsto> True), cf_version := cf_version c + 1\<rparr>"
| "cf_apply_event (EvSchemaDeprecated v) c =
     c\<lparr>cf_schema := (cf_schema c)(v \<mapsto> False), cf_version := cf_version c + 1\<rparr>"
| "cf_apply_event (EvPcUpgradeAllowlisted h v by_admin) c = c\<lparr>cf_allowed := (cf_allowed c)(h \<mapsto> v)\<rparr>"
| "cf_apply_event (EvPcUpgradeRevoked h by_admin) c = c\<lparr>cf_allowed := (cf_allowed c)(h := None)\<rparr>"
| "cf_apply_event (EvPcContractUpgraded h old new by_admin) c =
     c\<lparr>cf_contract_version := new, cf_allowed := (cf_allowed c)(h := None)\<rparr>"

lemma pc_abs_fresh [simp]: "pc_abs (fresh_contract lu w) = cf_empty"
  by (simp add: pc_abs_def cf_empty_def fresh_contract_def pc_admin_def pc_paused_def
      pc_config_version_def pc_contract_version_def pc_schema_def pc_allowed_def fun_eq_iff)

lemma pc_abs_uninit: "pc_wf s \<Longrightarrow> pc_admin s = None \<Longrightarrow> pc_abs s = cf_empty"
  by (simp add: pc_abs_def cf_empty_def pc_views_uninit)

definition pc_new_events :: "pc_op \<Rightarrow> pc_state \<Rightarrow> pc_event list" where
  "pc_new_events op s = (case op of
      PcInitialize a \<Rightarrow> [EvInitialized a]
    | PcSetAdmin a \<Rightarrow> [EvAdminChanged a]
    | PcPause \<Rightarrow> [EvPaused True]
    | PcUnpause \<Rightarrow> [EvUnpaused False]
    | PcApproveSchema v \<Rightarrow> [EvSchemaApproved v]
    | PcDeprecateSchema v \<Rightarrow> [EvSchemaDeprecated v]
    | PcApproveUpgrade h v \<Rightarrow> [EvPcUpgradeAllowlisted h v (the (pc_admin s))]
    | PcRevokeUpgrade h \<Rightarrow> [EvPcUpgradeRevoked h (the (pc_admin s))]
    | PcUpgradeContract h \<Rightarrow>
        [EvPcContractUpgraded h (pc_contract_version s) (the (pc_allowed s h)) (the (pc_admin s))]
    | _ \<Rightarrow> [])"

lemma pc_call_events:
  assumes "pc_wf s" and "pc_call e op s = (Inr (), s')"
  shows "events s' = events s @ pc_new_events op s"
proof (cases "pc_admin s")
  case None
  then show ?thesis
    using assms by (cases op) (auto simp: pc_defs run pc_stored_uninit pc_new_events_def Let_def split: if_splits)
next
  case (Some a)
  then show ?thesis
    using assms by (cases op) (auto simp: pc_defs run pc_stored pc_stored_init pc_new_events_def Let_def split: if_splits option.splits)
qed

lemma pc_call_journal:
  assumes "pc_wf s" and "pc_call e op s = (Inr (), s')"
  shows "\<exists>new. events s' = events s @ new \<and> length new \<le> 1 \<and>
     pc_abs s' = fold cf_apply_event new (pc_abs s)"
proof -
  have "pc_abs s' = fold cf_apply_event (pc_new_events op s) (pc_abs s)"
    using pc_call_commits [OF assms] pc_abs_uninit [OF assms(1)]
    by (cases op) (auto simp: pc_new_events_def cf_as_admin_def cf_bump_def pc_abs_def cf_empty_def
        split: if_splits option.splits)
  moreover have "length (pc_new_events op s) \<le> 1"
    by (simp add: pc_new_events_def split: pc_op.split)
  ultimately show ?thesis
    using pc_call_events [OF assms] by blast
qed

section \<open>Interpretations\<close>

primrec pc_approves :: "pc_op \<Rightarrow> (bytes32 \<times> u32) option" where
  "pc_approves (PcInitialize a) = None" | "pc_approves PcGetAdmin = None"
| "pc_approves (PcSetAdmin a) = None" | "pc_approves PcIsPaused = None"
| "pc_approves PcPause = None" | "pc_approves PcUnpause = None"
| "pc_approves (PcApproveSchema v) = None" | "pc_approves (PcDeprecateSchema v) = None"
| "pc_approves (PcIsSchemaApproved v) = None" | "pc_approves PcGetConfigVersion = None"
| "pc_approves PcGetContractVersion = None" | "pc_approves (PcApproveUpgrade h v) = Some (h, v)"
| "pc_approves (PcRevokeUpgrade h) = None" | "pc_approves (PcIsUpgradeAllowed h) = None"
| "pc_approves (PcUpgradeContract h) = None"

definition pc_installs :: "pc_op \<Rightarrow> bytes32 option" where
  "pc_installs op = (case op of PcUpgradeContract h \<Rightarrow> Some h | _ \<Rightarrow> None)"

interpretation pcm: contract_refinement pc_call pc_wf pc_abs cf_step
  by unfold_locales (auto dest: pc_call_wf simp: pc_call_refines)

interpretation pcj: event_journal pc_call pc_wf events pc_abs cf_apply_event
  by unfold_locales (rule pc_call_journal)

lemmas cf_commit_simps = cf_as_admin_def cf_bump_def pc_installs_def

lemma cf_step_installs:
  "cf_step e op c = (Inr (), c') \<Longrightarrow> pc_installs op = Some h \<Longrightarrow>
     \<exists>v. cf_allowed c h = Some v \<and> cf_contract_version c < v \<and> cf_contract_version c' = v \<and>
       cf_allowed c' = (cf_allowed c)(h := None)"
  by (cases op) (auto simp: cf_commit_simps split: if_splits option.splits)

lemma cf_step_version:
  "cf_step e op c = (Inr (), c') \<Longrightarrow> pc_installs op = None \<Longrightarrow> (cf_admin c = None \<Longrightarrow> c = cf_empty) \<Longrightarrow>
     cf_contract_version c \<le> cf_contract_version c'"
  by (cases op) (auto simp: cf_commit_simps cf_empty_def split: if_splits option.splits)

lemma cf_step_allowed:
  "cf_step e op c = (Inr (), c') \<Longrightarrow> cf_allowed c' h = Some v \<Longrightarrow>
     cf_allowed c h = Some v \<or> pc_approves op = Some (h, v) \<and> cf_contract_version c < v"
  by (cases op) (auto simp: cf_commit_simps split: if_splits option.splits)

interpretation pcu: upgrade_governance pc_call pc_wf pc_contract_version pc_allowed pc_approves pc_installs
proof unfold_locales
  fix s s' e op h v
  assume *: "pc_wf s" "pc_call e op s = (Inr (), s')"
  note c = pc_call_commits [OF *]
  show "pc_installs op = Some h \<Longrightarrow> \<exists>v. pc_allowed s h = Some v \<and> pc_contract_version s < v \<and>
      pc_contract_version s' = v \<and> pc_allowed s' = (pc_allowed s)(h := None)"
    using cf_step_installs [OF c] by simp
  show "pc_installs op = None \<Longrightarrow> pc_contract_version s \<le> pc_contract_version s'"
    using cf_step_version [OF c] pc_abs_uninit [OF *(1)] by simp
  show "pc_allowed s' h = Some v \<Longrightarrow> pc_allowed s h = Some v \<or>
      pc_approves op = Some (h, v) \<and> pc_contract_version s < v"
    using cf_step_allowed [OF c] by simp
qed


section \<open>Reads, as other contracts see them\<close>

lemma is_paused_read: "pc_wf s \<Longrightarrow> is_paused s = (Inr (pc_paused s), s)"
  by (cases "pc_admin s")
    (simp_all add: is_paused_def run pc_stored_uninit pc_views_uninit pc_stored_init)

lemma is_schema_version_approved_read:
  assumes "pc_wf s"
  shows "is_schema_version_approved e v s =
    (Inr (pc_schema s v = Some True),
     if pc_schema s v = None then s
     else s\<lparr>pers_until := (pers_until s)(PcSchemaVersion v := ttl_extend e TTL_THRESHOLD_LEDGERS
            TTL_EXTEND_TO_LEDGERS (pers_until s (PcSchemaVersion v)))\<rparr>)"
proof (cases "v = 0")
  case True
  have "pers s (PcSchemaVersion 0) = None"
    using pc_wf_pers [OF assms, of "PcSchemaVersion 0"] by fastforce
  then have "pc_schema s 0 = None"
    by (simp add: pc_schema_def)
  with True show ?thesis
    by (simp add: is_schema_version_approved_def run)
next
  case False
  then show ?thesis
    using assms by (auto simp: is_schema_version_approved_def run pc_stored Let_def split: option.split)
qed

section \<open>Helper lemmas of the properties\<close>

abbreviation pc_after :: "(env \<times> pc_op) list \<Rightarrow> u32 \<Rightarrow> bytes32 \<Rightarrow> pc_state" where
  "pc_after h lu w \<equiv> run_calls pc_call h (fresh_contract lu w)"

lemma pc_after_wf: "pc_wf (pc_after h lu w)"
  by (rule pcm.run_wf [OF pc_wf_fresh])

lemma pc_invoke_outcome: "pc_wf s \<Longrightarrow> fst (invoke (pc_call e op) s) = fst (cf_step e op (pc_abs s))"
  and pc_invoke_abs: "pc_wf s \<Longrightarrow> pc_abs (snd (invoke (pc_call e op) s)) = snd (cf_step e op (pc_abs s))"
  by (simp_all flip: pc_call_refines)

lemma cf_step_changes:
  assumes "snd (cf_step e op c) \<noteq> c"
  shows "case cf_admin c of
      Some a \<Rightarrow> authorized e a
    | None \<Rightarrow> (\<exists>a. op = PcInitialize a \<and> authorized e a \<and> is_valid_principal_address e a)"
  using assms
  by (cases op) (auto simp: cf_as_admin_def cf_bump_def split: if_splits option.splits)

lemma cf_step_no_conversion: "fst (cf_step e op c) \<noteq> Inl ConversionError"
  by (cases op) (auto simp: cf_as_admin_def cf_bump_def split: if_splits option.splits)

lemma cf_step_trap:
  "fst (cf_step e op c) = Inl HostTrap \<Longrightarrow> \<exists>h. op = PcUpgradeContract h \<and> \<not> wasm_uploaded e h"
  by (cases op) (auto simp: cf_as_admin_def cf_bump_def split: if_splits option.splits)

lemma cf_step_frozen:
  assumes "cf_step e op c = (Inr (), c')" and "cf_version c = - 1" and "cf_admin c \<noteq> None"
  shows "cf_admin c' = cf_admin c \<and> cf_paused c' = cf_paused c \<and> cf_schema c' = cf_schema c \<and>
     cf_version c' = cf_version c"
  using assms
  by (cases op) (auto simp: cf_as_admin_def cf_bump_def split: if_splits option.splits)

lemma pc_call_frozen:
  assumes "pc_wf s" and "pc_call e op s = (Inr (), s')"
  shows "pc_config_version s = - 1 \<Longrightarrow>
     pc_admin s' = pc_admin s \<and> pc_paused s' = pc_paused s \<and> pc_schema s' = pc_schema s \<and>
     pc_config_version s' = pc_config_version s"
  using cf_step_frozen [OF pc_call_commits [OF assms]] pc_views_uninit [OF assms(1)]
  by (cases "pc_admin s") auto

lemma pc_call_err_state: "pc_call e op s = (Inl (Err x), t) \<Longrightarrow> t = s"
  by (cases op) (auto simp: pc_defs run Let_def split: if_splits option.splits prod.splits)

lemma pc_call_auth_state: "pc_call e op s = (Inl (AuthFailure a), t) \<Longrightarrow> t = s"
  by (cases op) (auto simp: pc_defs run Let_def split: if_splits option.splits prod.splits)

lemma pc_wf_put_version:
  "pc_wf s \<Longrightarrow> pc_admin s \<noteq> None \<Longrightarrow> v \<noteq> 0 \<Longrightarrow> pc_wf (s\<lparr>inst := (inst s)(PcConfigVersion \<mapsto> U32V v)\<rparr>)"
  using pc_stored(1) [of s] by (auto simp: pc_wf_def intro!: wf_intro)

text \<open>Evaluation of concrete histories.\<close>

lemmas pc_eval = pc_defs run invoke_def Let_def checked_add_one word_le_nat_alt word_less_nat_alt

definition sample_config :: "(env \<times> pc_op) list" where
  "sample_config = [(sample_env, PcInitialize (Address 101)), (sample_env, PcApproveSchema 1),
     (sample_env, PcApproveUpgrade 7 2)]"

definition no_wasm_env :: env where
  "no_wasm_env = sample_env\<lparr>wasm_uploaded := (\<lambda>_. False)\<rparr>"

definition saturated_config :: pc_state where
  "saturated_config = (pc_after sample_config 0 0)\<lparr>inst := (inst (pc_after sample_config 0 0))(PcConfigVersion \<mapsto> U32V (- 1))\<rparr>"

lemma cf_step_admin_None:
  "cf_step e op c = (Inr (), c') \<Longrightarrow>
     cf_admin c' = None \<longleftrightarrow> cf_admin c = None \<and> (\<forall>a. op \<noteq> PcInitialize a)"
  by (cases op) (auto simp: cf_as_admin_def cf_bump_def split: if_splits option.splits)

lemma cf_step_initialize: "cf_step e (PcInitialize a) c = (Inr (), c') \<Longrightarrow> cf_admin c = None"
  by (auto split: if_splits)

fun is_initialized_event :: "pc_event \<Rightarrow> bool" where
  "is_initialized_event (EvInitialized a) = True"
| "is_initialized_event _ = False"

definition initializations :: "pc_state \<Rightarrow> nat" where
  "initializations s = length (filter is_initialized_event (events s))"

lemma pc_call_initializations:
  assumes "pc_wf s" and "pc_call e op s = (Inr (), s')"
    and "initializations s = (if pc_admin s = None then 0 else 1)"
  shows "initializations s' = (if pc_admin s' = None then 0 else 1)"
proof -
  have new: "length (filter is_initialized_event (pc_new_events op s)) =
      (if \<exists>a. op = PcInitialize a then 1 else 0)"
    by (cases op) (simp_all add: pc_new_events_def)
  have first: "pc_admin s = None" if "\<exists>a. op = PcInitialize a"
    using that cf_step_initialize [of e] pc_call_commits [OF assms(1,2)] by fastforce
  have "pc_admin s' = None \<longleftrightarrow> pc_admin s = None \<and> \<not> (\<exists>a. op = PcInitialize a)"
    using cf_step_admin_None [OF pc_call_commits [OF assms(1,2)]] by simp
  then show ?thesis
    using new first assms(3) pc_call_events [OF assms(1,2)]
    by (cases "\<exists>a. op = PcInitialize a") (simp_all add: initializations_def)
qed

text \<open>
  \<open>initialize\<close> commits at most once in the life of the contract: the number of
  \<open>Initialized\<close> events ever published is one exactly when an administrator is stored, and
  zero otherwise.
\<close>

lemma config_initialized_once:
  "initializations (pc_after h lu w) = (if pc_admin (pc_after h lu w) = None then 0 else 1)"
proof -
  let ?I = "\<lambda>s. initializations s = (if pc_admin s = None then 0 else 1)"
  have "?I (fresh_contract lu w) \<longrightarrow> ?I (pc_after h lu w)"
  proof (rule pcm.run_respects [where R = "\<lambda>s t. ?I s \<longrightarrow> ?I t"])
    show "?I s \<longrightarrow> ?I s'" if "pc_wf s" and "pc_call e op s = (Inr (), s')" for s e op s'
      using pc_call_initializations [OF that] by (rule impI)
  qed (assumption | rule pc_wf_fresh | blast)+
  moreover have "?I (fresh_contract lu w)"
    by (simp add: initializations_def pc_admin_def)
  ultimately show ?thesis by blast
qed

text \<open>
  A consumed upgrade hash cannot be replayed: after a committed \<open>upgrade_contract\<close> with a
  hash, no later \<open>upgrade_contract\<close> with the same hash commits, whatever calls come in
  between, unless one of them is a new approval of that hash.
\<close>

lemma config_upgrade_no_replay:
  assumes "pc_call e (PcUpgradeContract w') (pc_after h lu w) = (Inr (), s1)"
    and "\<And>e' v. (e', PcApproveUpgrade w' v) \<notin> set h'"
  shows "fst (invoke (pc_call e2 (PcUpgradeContract w')) (run_calls pc_call h' s1)) \<noteq> Inr ()"
proof -
  have "pc_approves op' \<noteq> Some (w', v)" if "(e', op') \<in> set h'" for e' op' v
    using assms(2) that by (cases op') auto
  then have "pc_call e2 (PcUpgradeContract w') (run_calls pc_call h' s1) \<noteq> (Inr (), s3)" for s3
    by (intro pcu.no_replay [OF pc_after_wf assms(1), where w = w']) (auto simp: pc_installs_def)
  then show ?thesis
    by (auto simp: invoke_def split: prod.splits sum.splits)
qed

section \<open>Properties\<close>

text \<open>
  C5: every history of invocations of a freshly deployed protocol-config, whatever the
  callers and entry points, has exactly the outcomes (results, error codes, panics, failed
  authorizations) and ends in exactly the configuration that the abstract specification
  \<open>cf_step\<close> prescribes.
\<close>

theorem config_history_refines_spec:
  "(outcomes pc_call h (fresh_contract lu w), pc_abs (pc_after h lu w)) = run_spec cf_step h cf_empty"
  using pcm.run_refines [OF pc_wf_fresh, of h lu w] by simp

text \<open>
  C17: the events alone determine the configuration: folding the published events over the
  empty configuration gives the administrator, pause flag, schema versions, config version,
  contract version and allowlist that storage holds after any history.
\<close>

theorem config_replayed_from_events:
  "pc_abs (pc_after h lu w) = fold cf_apply_event (events (pc_after h lu w)) cf_empty"
  using pcj.replay_from_empty [OF pc_wf_fresh, of lu w h] by simp

text \<open>
  C32: in every reachable state the stored values have the type their key is read at, so no entry
  point fails on a conversion, and the host traps only an upgrade to code that was never
  uploaded.
\<close>

theorem config_reads_never_trap:
  "pc_wf (pc_after h lu w) \<and>
   fst (invoke (pc_call e op) (pc_after h lu w)) \<noteq> Inl ConversionError \<and>
   (fst (invoke (pc_call e op) (pc_after h lu w)) = Inl HostTrap \<longrightarrow>
      (\<exists>w'. op = PcUpgradeContract w' \<and> \<not> wasm_uploaded e w'))"
  using pc_after_wf [of h lu w] by (simp add: pc_invoke_outcome cf_step_no_conversion cf_step_trap)

text \<open>
  C19: whatever a call changes in the configuration, the administrator stored before the call has
  authorized it; before initialization, the only call that changes anything is an
  \<open>initialize\<close> authorized by a valid administrator address.
\<close>

theorem config_changes_need_admin:
  assumes "pc_abs (snd (invoke (pc_call e op) (pc_after h lu w))) \<noteq> pc_abs (pc_after h lu w)"
  shows "case pc_admin (pc_after h lu w) of
      Some a \<Rightarrow> authorized e a
    | None \<Rightarrow> (\<exists>a. op = PcInitialize a \<and> authorized e a \<and> is_valid_principal_address e a)"
  using cf_step_changes [of e op "pc_abs (pc_after h lu w)"] assms pc_after_wf [of h lu w]
  by (simp add: pc_invoke_abs)

text \<open>
  C28: once the config version counter has reached \<open>u32::MAX\<close>, the checked increment makes every
  configuration change panic and roll back: administrator, pause flag and schema versions stay
  as they are for every further history.
\<close>

theorem config_frozen_at_max_version:
  assumes "pc_wf s" and "pc_config_version s = - 1"
  shows "pc_admin (run_calls pc_call h s) = pc_admin s \<and> pc_paused (run_calls pc_call h s) = pc_paused s \<and>
     pc_schema (run_calls pc_call h s) = pc_schema s \<and> pc_config_version (run_calls pc_call h s) = - 1"
proof -
  have "pc_config_version s = - 1 \<longrightarrow> pc_admin (run_calls pc_call h s) = pc_admin s \<and> pc_paused (run_calls pc_call h s) = pc_paused s \<and>
     pc_schema (run_calls pc_call h s) = pc_schema s \<and> pc_config_version (run_calls pc_call h s) = pc_config_version s"
    by (rule pcm.run_respects [where R = "\<lambda>s t. pc_config_version s = - 1 \<longrightarrow>
      pc_admin t = pc_admin s \<and> pc_paused t = pc_paused s \<and> pc_schema t = pc_schema s \<and>
      pc_config_version t = pc_config_version s"]) (use assms(1) pc_call_frozen in auto)
  with assms(2) show ?thesis by simp
qed


theorem config_reads_never_trap_witness:
  "fst (invoke (pc_call no_wasm_env (PcUpgradeContract 7)) (pc_after sample_config 0 0)) = Inl HostTrap \<and>
   (\<exists>w'. PcUpgradeContract 7 = PcUpgradeContract w' \<and> \<not> wasm_uploaded no_wasm_env w')"
proof -
  have "fst (invoke (pc_call no_wasm_env (PcUpgradeContract 7)) (pc_after sample_config 0 0)) = Inl HostTrap"
    by (simp add: sample_config_def pc_eval no_wasm_env_def)
  then show ?thesis
    using config_reads_never_trap [of sample_config 0 0 no_wasm_env "PcUpgradeContract 7"] by blast
qed

theorem config_changes_need_admin_witness:
  "pc_abs (snd (invoke (pc_call sample_env PcPause) (pc_after sample_config 0 0))) \<noteq> pc_abs (pc_after sample_config 0 0) \<and>
   authorized sample_env (Address 101)"
proof -
  have paused: "pc_paused (snd (invoke (pc_call sample_env PcPause) (pc_after sample_config 0 0)))"
    and unpaused: "\<not> pc_paused (pc_after sample_config 0 0)"
    and admin: "pc_admin (pc_after sample_config 0 0) = Some (Address 101)"
    by (simp_all add: sample_config_def pc_eval pc_paused_def pc_admin_def)
  have "pc_abs (snd (invoke (pc_call sample_env PcPause) (pc_after sample_config 0 0))) \<noteq> pc_abs (pc_after sample_config 0 0)"
    using paused unpaused by (metis pc_abs_simps(2))
  then show ?thesis
    using config_changes_need_admin [of sample_env PcPause sample_config 0 0] admin by simp
qed

theorem config_frozen_at_max_version_witness:
  "pc_wf saturated_config \<and> pc_config_version saturated_config = - 1 \<and>
   \<not> pc_paused (run_calls pc_call [(sample_env, PcPause)] saturated_config)"
proof -
  have admin: "pc_admin (pc_after sample_config 0 0) \<noteq> None"
    by (simp add: sample_config_def pc_eval pc_admin_def)
  have wf: "pc_wf saturated_config"
    unfolding saturated_config_def by (rule pc_wf_put_version [OF pc_after_wf admin]) simp
  have v: "pc_config_version saturated_config = - 1" and p: "\<not> pc_paused saturated_config"
    by (simp_all add: saturated_config_def sample_config_def pc_eval pc_config_version_def pc_paused_def)
  show ?thesis
    using wf v p config_frozen_at_max_version [OF wf v, of "[(sample_env, PcPause)]"] by simp
qed

end
