(* ===== verification/Issuer_Registry.thy ===== *)
theory Issuer_Registry
  imports Shared_Types Contract_Machine
begin

text \<open>
  The contract \<open>issuer-registry\<close> (\<open>src/contracts/issuer-registry/src/lib.rs\<close>): the issuer
  records, the reverse index from addresses to issuers, the issuer lifecycle and the upgrade
  allowlist.
\<close>

section \<open>Storage keys and events\<close>

datatype ir_key =
    IrAdmin
  | IrIssuer bytes32
  | IrAddressIssuer address
  | IrAllowedWasm bytes32
  | IrContractVersion

datatype ir_event =
    EvIrUpgradeAllowlisted bytes32 u32 address
  | EvIrUpgradeRevoked bytes32 address
  | EvIrContractUpgraded bytes32 u32 u32 address
  | EvIssuerRegistered bytes32 address bytes32 u64
  | EvIssuerMetadataUpdated bytes32 bytes32 u64
  | EvIssuerSuspended bytes32 u64
  | EvIssuerReactivated bytes32 u64
  | EvIssuerRevoked bytes32 u64
  | EvIssuerAddressRotated bytes32 address address u64

type_synonym ir_state = "(ir_key, stored_value, ir_event) contract_state"
type_synonym ('e, 'a) ir_m = "(ir_state, 'e, 'a) contract_m"

section \<open>Private helpers\<close>

definition ir_require_valid_admin :: "env \<Rightarrow> address \<Rightarrow> (contract_error, unit) ir_m" where
  "ir_require_valid_admin e a =
     (if \<not> is_valid_principal_address e a then abort_with (Err InvalidInput) else ret ())"

definition ir_require_valid_issuer_address :: "env \<Rightarrow> address \<Rightarrow> (issuer_error, unit) ir_m" where
  "ir_require_valid_issuer_address e a =
     (if \<not> is_valid_principal_address e a then abort_with (Err IE_InvalidAddress) else ret ())"

definition ir_extend_instance_ttl :: "env \<Rightarrow> ('e, unit) ir_m" where
  "ir_extend_instance_ttl e = inst_extend_ttl e TTL_THRESHOLD_LEDGERS TTL_EXTEND_TO_LEDGERS"

definition extend_issuer_key_ttl :: "env \<Rightarrow> ir_key \<Rightarrow> ('e, unit) ir_m" where
  "extend_issuer_key_ttl e key = pers_extend_ttl e key TTL_THRESHOLD_LEDGERS TTL_EXTEND_TO_LEDGERS"

definition extend_issuer_ttl :: "env \<Rightarrow> bytes32 \<Rightarrow> ('e, unit) ir_m" where
  "extend_issuer_ttl e issuer_id_hash = extend_issuer_key_ttl e (IrIssuer issuer_id_hash)"

definition extend_address_ttl :: "env \<Rightarrow> address \<Rightarrow> ('e, unit) ir_m" where
  "extend_address_ttl e issuer_address =
     pers_extend_ttl e (IrAddressIssuer issuer_address) TTL_THRESHOLD_LEDGERS TTL_EXTEND_TO_LEDGERS"

definition ir_require_auth :: "env \<Rightarrow> address \<Rightarrow> ('e, unit) ir_m" where
  "ir_require_auth e a = host_require_auth e a"

section \<open>Initialization and reads\<close>

definition ir_initialize :: "env \<Rightarrow> address \<Rightarrow> (contract_error, unit) ir_m" where
  "ir_initialize e admin =
     bind_m (inst_has IrAdmin) (\<lambda>present.
     if present then abort_with (Err AlreadyInitialized)
     else
       seq_m (ir_require_valid_admin e admin) (
       seq_m (ir_require_auth e admin) (
       seq_m (inst_set IrAdmin (AddressV admin)) (
       seq_m (inst_set IrContractVersion (U32V 1))
       (ir_extend_instance_ttl e)))))"

definition ir_get_admin :: "(contract_error, address) ir_m" where
  "ir_get_admin = bind_m (inst_get as_address IrAdmin) (ok_or NotInitialized)"

definition get_issuer :: "env \<Rightarrow> bytes32 \<Rightarrow> (issuer_error, issuer_record) ir_m" where
  "get_issuer e issuer_id_hash =
     bind_m (pers_get as_issuer (IrIssuer issuer_id_hash)) (\<lambda>stored.
     bind_m (ok_or IssuerNotFound stored) (\<lambda>record.
     seq_m (extend_issuer_key_ttl e (IrIssuer issuer_id_hash))
     (ret record)))"

definition is_active_issuer :: "env \<Rightarrow> bytes32 \<Rightarrow> ('e, bool) ir_m" where
  "is_active_issuer e issuer_id_hash =
     bind_m (match_result (get_issuer e issuer_id_hash)) (\<lambda>result.
     case result of
       Inr record \<Rightarrow> ret (ir_status record = IssuerActive)
     | Inl _ \<Rightarrow> ret False)"

definition is_active_address :: "env \<Rightarrow> address \<Rightarrow> ('e, bool) ir_m" where
  "is_active_address e issuer_address =
     bind_m (pers_get as_bytes32 (IrAddressIssuer issuer_address)) (\<lambda>issuer_id_hash.
     case issuer_id_hash of
       Some issuer_id \<Rightarrow> is_active_issuer e issuer_id
     | None \<Rightarrow> ret False)"

definition get_issuer_by_address :: "env \<Rightarrow> address \<Rightarrow> (issuer_error, issuer_record) ir_m" where
  "get_issuer_by_address e issuer_address =
     bind_m (pers_get as_bytes32 (IrAddressIssuer issuer_address)) (\<lambda>stored_id.
     bind_m (ok_or IssuerAddressNotFound stored_id) (\<lambda>issuer_id_hash.
     bind_m (pers_get as_issuer (IrIssuer issuer_id_hash)) (\<lambda>stored.
     bind_m (ok_or IssuerNotFound stored) (\<lambda>record.
     seq_m (extend_address_ttl e issuer_address)
     (ret record)))))"

section \<open>Issuer lifecycle\<close>

definition register_issuer :: "env \<Rightarrow> bytes32 \<Rightarrow> address \<Rightarrow> bytes32 \<Rightarrow> (issuer_error, unit) ir_m" where
  "register_issuer e issuer_id_hash issuer_address metadata_hash =
     bind_m (map_err (\<lambda>_. IssuerNotFound) ir_get_admin) (\<lambda>admin.
     seq_m (ir_require_valid_issuer_address e issuer_address) (
     seq_m (ir_require_auth e admin) (
     bind_m (pers_has (IrIssuer issuer_id_hash)) (\<lambda>id_taken.
     if id_taken then abort_with (Err IssuerAlreadyRegistered)
     else
     bind_m (pers_has (IrAddressIssuer issuer_address)) (\<lambda>address_taken.
     if address_taken then abort_with (Err IssuerAddressAlreadyRegistered)
     else
       let now = ledger_timestamp e;
           record = \<lparr>ir_issuer_id_hash = issuer_id_hash, ir_issuer_address = issuer_address,
             ir_metadata_hash = metadata_hash, ir_status = IssuerActive,
             ir_created_at = now, ir_updated_at = now\<rparr> in
       seq_m (pers_set e (IrIssuer issuer_id_hash) (IssuerV record)) (
       seq_m (pers_set e (IrAddressIssuer issuer_address) (Bytes32V issuer_id_hash)) (
       seq_m (extend_issuer_ttl e issuer_id_hash) (
       seq_m (extend_address_ttl e issuer_address)
       (publish (EvIssuerRegistered issuer_id_hash issuer_address metadata_hash now))))))))))"

definition update_issuer :: "env \<Rightarrow> bytes32 \<Rightarrow> bytes32 \<Rightarrow> (issuer_error, unit) ir_m" where
  "update_issuer e issuer_id_hash metadata_hash =
     bind_m (map_err (\<lambda>_. IssuerNotFound) ir_get_admin) (\<lambda>admin.
     seq_m (ir_require_auth e admin) (
     bind_m (pers_get as_issuer (IrIssuer issuer_id_hash)) (\<lambda>stored.
     bind_m (ok_or IssuerNotFound stored) (\<lambda>record.
     if ir_status record = IssuerRevoked then abort_with (Err IssuerIsRevoked)
     else
       let now = ledger_timestamp e;
           record = record\<lparr>ir_metadata_hash := metadata_hash, ir_updated_at := now\<rparr> in
       seq_m (pers_set e (IrIssuer issuer_id_hash) (IssuerV record)) (
       seq_m (extend_issuer_key_ttl e (IrIssuer issuer_id_hash))
       (publish (EvIssuerMetadataUpdated issuer_id_hash metadata_hash now)))))))"

definition set_status :: "env \<Rightarrow> bytes32 \<Rightarrow> issuer_status \<Rightarrow> (issuer_error, unit) ir_m" where
  "set_status e issuer_id_hash status =
     bind_m (map_err (\<lambda>_. IssuerNotFound) ir_get_admin) (\<lambda>admin.
     seq_m (ir_require_auth e admin) (
     bind_m (pers_get as_issuer (IrIssuer issuer_id_hash)) (\<lambda>stored.
     bind_m (ok_or IssuerNotFound stored) (\<lambda>record.
     if ir_status record = IssuerRevoked \<and> status \<noteq> IssuerRevoked
     then abort_with (Err InvalidTransition)
     else
       let now = ledger_timestamp e;
           record = record\<lparr>ir_status := status, ir_updated_at := now\<rparr> in
       seq_m (pers_set e (IrIssuer issuer_id_hash) (IssuerV record)) (
       seq_m (extend_issuer_key_ttl e (IrIssuer issuer_id_hash))
       (case status of
          IssuerActive \<Rightarrow> publish (EvIssuerReactivated issuer_id_hash now)
        | IssuerSuspended \<Rightarrow> publish (EvIssuerSuspended issuer_id_hash now)
        | IssuerRevoked \<Rightarrow> publish (EvIssuerRevoked issuer_id_hash now)))))))"

definition suspend_issuer :: "env \<Rightarrow> bytes32 \<Rightarrow> (issuer_error, unit) ir_m" where
  "suspend_issuer e issuer_id_hash = set_status e issuer_id_hash IssuerSuspended"

definition reactivate_issuer :: "env \<Rightarrow> bytes32 \<Rightarrow> (issuer_error, unit) ir_m" where
  "reactivate_issuer e issuer_id_hash = set_status e issuer_id_hash IssuerActive"

definition revoke_issuer :: "env \<Rightarrow> bytes32 \<Rightarrow> (issuer_error, unit) ir_m" where
  "revoke_issuer e issuer_id_hash = set_status e issuer_id_hash IssuerRevoked"

definition rotate_issuer_address :: "env \<Rightarrow> bytes32 \<Rightarrow> address \<Rightarrow> (issuer_error, unit) ir_m" where
  "rotate_issuer_address e issuer_id_hash new_address =
     bind_m (map_err (\<lambda>_. IssuerNotFound) ir_get_admin) (\<lambda>admin.
     seq_m (ir_require_valid_issuer_address e new_address) (
     seq_m (ir_require_auth e admin) (
     bind_m (pers_get as_issuer (IrIssuer issuer_id_hash)) (\<lambda>stored.
     bind_m (ok_or IssuerNotFound stored) (\<lambda>record.
     if ir_status record = IssuerRevoked then abort_with (Err IssuerIsRevoked)
     else if new_address = ir_issuer_address record then abort_with (Err IE_InvalidAddress)
     else
     bind_m (pers_has (IrAddressIssuer new_address)) (\<lambda>address_taken.
     if address_taken then abort_with (Err IssuerAddressAlreadyRegistered)
     else
       let old_address = ir_issuer_address record in
       seq_m (pers_remove (IrAddressIssuer old_address)) (
       let now = ledger_timestamp e;
           record = record\<lparr>ir_issuer_address := new_address, ir_updated_at := now\<rparr> in
       seq_m (pers_set e (IrIssuer issuer_id_hash) (IssuerV record)) (
       seq_m (pers_set e (IrAddressIssuer new_address) (Bytes32V issuer_id_hash)) (
       seq_m (extend_issuer_key_ttl e (IrIssuer issuer_id_hash)) (
       seq_m (extend_address_ttl e new_address)
       (publish (EvIssuerAddressRotated issuer_id_hash old_address new_address now))))))))))))"

section \<open>Upgrade governance\<close>

definition ir_get_contract_version :: "('e, u32) ir_m" where
  "ir_get_contract_version = bind_m (inst_get as_u32 IrContractVersion) (\<lambda>v. ret (unwrap_or 0 v))"

definition ir_approve_upgrade :: "env \<Rightarrow> bytes32 \<Rightarrow> u32 \<Rightarrow> ('e, unit) ir_m" where
  "ir_approve_upgrade e wasm_hash new_version =
     bind_m (expect_ok ''contract not initialized'' ir_get_admin) (\<lambda>admin.
     seq_m (ir_require_auth e admin) (
     bind_m ir_get_contract_version (\<lambda>current.
     if new_version \<le> current
     then abort_with (Panic ''new_version must be greater than current contract version'')
     else
       seq_m (inst_set (IrAllowedWasm wasm_hash) (U32V new_version)) (
       seq_m (ir_extend_instance_ttl e)
       (publish (EvIrUpgradeAllowlisted wasm_hash new_version admin))))))"

definition ir_revoke_upgrade :: "env \<Rightarrow> bytes32 \<Rightarrow> ('e, unit) ir_m" where
  "ir_revoke_upgrade e wasm_hash =
     bind_m (expect_ok ''contract not initialized'' ir_get_admin) (\<lambda>admin.
     seq_m (ir_require_auth e admin) (
     seq_m (inst_remove (IrAllowedWasm wasm_hash))
     (publish (EvIrUpgradeRevoked wasm_hash admin))))"

definition ir_is_upgrade_allowed :: "bytes32 \<Rightarrow> ('e, bool) ir_m" where
  "ir_is_upgrade_allowed wasm_hash = inst_has (IrAllowedWasm wasm_hash)"

definition ir_upgrade_contract :: "env \<Rightarrow> bytes32 \<Rightarrow> ('e, unit) ir_m" where
  "ir_upgrade_contract e wasm_hash =
     bind_m (expect_ok ''contract not initialized'' ir_get_admin) (\<lambda>admin.
     seq_m (ir_require_auth e admin) (
     bind_m (inst_get as_u32 (IrAllowedWasm wasm_hash)) (\<lambda>entry.
     bind_m (expect_some ''wasm hash not on allowlist'' entry) (\<lambda>new_version.
     bind_m ir_get_contract_version (\<lambda>old_version.
     if new_version \<le> old_version
     then abort_with (Panic ''upgrade would not advance contract version'')
     else
       seq_m (inst_remove (IrAllowedWasm wasm_hash)) (
       seq_m (cfg_not_test e (update_wasm e wasm_hash)) (
       seq_m (inst_set IrContractVersion (U32V new_version)) (
       seq_m (ir_extend_instance_ttl e)
       (publish (EvIrContractUpgraded wasm_hash old_version new_version admin))))))))))"

section \<open>The entry points as one call\<close>

datatype ir_op =
    IrInitialize address
  | IrGetAdmin
  | IrRegisterIssuer bytes32 address bytes32
  | IrUpdateIssuer bytes32 bytes32
  | IrSuspendIssuer bytes32
  | IrReactivateIssuer bytes32
  | IrRevokeIssuer bytes32
  | IrRotateIssuerAddress bytes32 address
  | IrGetIssuer bytes32
  | IrIsActiveIssuer bytes32
  | IrIsActiveAddress address
  | IrGetIssuerByAddress address
  | IrGetContractVersion
  | IrApproveUpgrade bytes32 u32
  | IrRevokeUpgrade bytes32
  | IrIsUpgradeAllowed bytes32
  | IrUpgradeContract bytes32

fun ir_call :: "env \<Rightarrow> ir_op \<Rightarrow> (u32, unit) ir_m" where
  "ir_call e (IrInitialize admin) = with_codes contract_error_code (ir_initialize e admin)"
| "ir_call e IrGetAdmin = with_codes contract_error_code ir_get_admin"
| "ir_call e (IrRegisterIssuer i a m) = with_codes issuer_error_code (register_issuer e i a m)"
| "ir_call e (IrUpdateIssuer i m) = with_codes issuer_error_code (update_issuer e i m)"
| "ir_call e (IrSuspendIssuer i) = with_codes issuer_error_code (suspend_issuer e i)"
| "ir_call e (IrReactivateIssuer i) = with_codes issuer_error_code (reactivate_issuer e i)"
| "ir_call e (IrRevokeIssuer i) = with_codes issuer_error_code (revoke_issuer e i)"
| "ir_call e (IrRotateIssuerAddress i a) = with_codes issuer_error_code (rotate_issuer_address e i a)"
| "ir_call e (IrGetIssuer i) = with_codes issuer_error_code (get_issuer e i)"
| "ir_call e (IrIsActiveIssuer i) = discard (is_active_issuer e i)"
| "ir_call e (IrIsActiveAddress a) = discard (is_active_address e a)"
| "ir_call e (IrGetIssuerByAddress a) = with_codes issuer_error_code (get_issuer_by_address e a)"
| "ir_call e IrGetContractVersion = discard ir_get_contract_version"
| "ir_call e (IrApproveUpgrade h v) = ir_approve_upgrade e h v"
| "ir_call e (IrRevokeUpgrade h) = ir_revoke_upgrade e h"
| "ir_call e (IrIsUpgradeAllowed h) = discard (ir_is_upgrade_allowed h)"
| "ir_call e (IrUpgradeContract h) = ir_upgrade_contract e h"

lemmas ir_defs =
  ir_require_valid_admin_def ir_require_valid_issuer_address_def ir_extend_instance_ttl_def
  extend_issuer_key_ttl_def extend_issuer_ttl_def extend_address_ttl_def ir_require_auth_def
  ir_initialize_def ir_get_admin_def get_issuer_def is_active_issuer_def is_active_address_def
  get_issuer_by_address_def register_issuer_def update_issuer_def set_status_def
  suspend_issuer_def reactivate_issuer_def revoke_issuer_def rotate_issuer_address_def
  ir_get_contract_version_def ir_approve_upgrade_def ir_revoke_upgrade_def
  ir_is_upgrade_allowed_def ir_upgrade_contract_def

section \<open>What the storage means\<close>

definition ir_admin :: "ir_state \<Rightarrow> address option" where
  "ir_admin s = Option.bind (inst s IrAdmin) as_address"

definition ir_contract_version :: "ir_state \<Rightarrow> u32" where
  "ir_contract_version s = unwrap_or 0 (Option.bind (inst s IrContractVersion) as_u32)"

definition ir_allowed :: "ir_state \<Rightarrow> bytes32 \<Rightarrow> u32 option" where
  "ir_allowed s h = Option.bind (inst s (IrAllowedWasm h)) as_u32"

definition ir_issuer :: "ir_state \<Rightarrow> bytes32 \<Rightarrow> issuer_record option" where
  "ir_issuer s i = Option.bind (pers s (IrIssuer i)) as_issuer"

definition ir_index :: "ir_state \<Rightarrow> address \<Rightarrow> bytes32 option" where
  "ir_index s a = Option.bind (pers s (IrAddressIssuer a)) as_bytes32"

section \<open>Well-formed storage\<close>

fun ir_inst_ok :: "ir_key \<Rightarrow> stored_value \<Rightarrow> bool" where
  "ir_inst_ok IrAdmin v = (as_address v \<noteq> None)"
| "ir_inst_ok IrContractVersion v = (as_u32 v \<noteq> None \<and> as_u32 v \<noteq> Some 0)"
| "ir_inst_ok (IrAllowedWasm h) v = (as_u32 v \<noteq> None \<and> as_u32 v \<noteq> Some 0)"
| "ir_inst_ok _ v = False"

text \<open>An issuer record is stored under its own identifier.\<close>

fun ir_pers_ok :: "ir_key \<Rightarrow> stored_value \<Rightarrow> bool" where
  "ir_pers_ok (IrIssuer i) v = (case as_issuer v of None \<Rightarrow> False | Some r \<Rightarrow> ir_issuer_id_hash r = i)"
| "ir_pers_ok (IrAddressIssuer a) v = (as_bytes32 v \<noteq> None)"
| "ir_pers_ok _ v = False"

abbreviation ir_storage_ok :: "(ir_key \<Rightarrow> stored_value option) \<Rightarrow> (ir_key \<Rightarrow> stored_value option) \<Rightarrow> bool" where
  "ir_storage_ok \<equiv> storage_ok ir_inst_ok ir_pers_ok IrAdmin {IrContractVersion}"

text \<open>The reverse index is exact: an address points to an issuer exactly when that issuer's
  record holds the address.\<close>

definition index_exact :: "(bytes32 \<Rightarrow> issuer_record option) \<Rightarrow> (address \<Rightarrow> bytes32 option) \<Rightarrow> bool" where
  "index_exact issuers idx \<longleftrightarrow>
     (\<forall>a i. idx a = Some i \<longleftrightarrow> (\<exists>r. issuers i = Some r \<and> ir_issuer_address r = a))"

definition ir_wf :: "ir_state \<Rightarrow> bool" where
  "ir_wf s \<longleftrightarrow> ir_storage_ok (inst s) (pers s) \<and> index_exact (ir_issuer s) (ir_index s)"


section \<open>An abstract specification\<close>

text \<open>
  The specification knows the issuer records only: whether an address is taken is asked of the
  records, not of an index.
\<close>

record registry_spec =
  rg_admin :: "address option"
  rg_issuers :: "bytes32 \<Rightarrow> issuer_record option"
  rg_contract_version :: u32
  rg_allowed :: "bytes32 \<Rightarrow> u32 option"

type_synonym rg_result = "(u32 abort + unit) \<times> registry_spec"

definition rg_taken :: "(bytes32 \<Rightarrow> issuer_record option) \<Rightarrow> address \<Rightarrow> bool" where
  "rg_taken issuers a \<longleftrightarrow> (\<exists>i r. issuers i = Some r \<and> ir_issuer_address r = a)"

definition rg_as_admin :: "env \<Rightarrow> u32 abort \<Rightarrow> registry_spec \<Rightarrow> rg_result \<Rightarrow> rg_result" where
  "rg_as_admin e missing c k = (case rg_admin c of
      None \<Rightarrow> (Inl missing, c)
    | Some a \<Rightarrow> if authorized e a then k else (Inl (AuthFailure a), c))"

abbreviation rg_err :: "issuer_error \<Rightarrow> u32 abort" where
  "rg_err x \<equiv> Err (issuer_error_code x)"

text \<open>An administrative change of one issuer record, subject to a guard on the record.\<close>

definition rg_change :: "env \<Rightarrow> bytes32 \<Rightarrow> (issuer_record \<Rightarrow> issuer_error option)
    \<Rightarrow> (issuer_record \<Rightarrow> issuer_record) \<Rightarrow> registry_spec \<Rightarrow> rg_result" where
  "rg_change e i guard f c = rg_as_admin e (rg_err IssuerNotFound) c
     (case rg_issuers c i of
        None \<Rightarrow> (Inl (rg_err IssuerNotFound), c)
      | Some r \<Rightarrow> (case guard r of
          Some x \<Rightarrow> (Inl (rg_err x), c)
        | None \<Rightarrow> (Inr (), c\<lparr>rg_issuers := (rg_issuers c)(i \<mapsto> f r\<lparr>ir_updated_at := ledger_timestamp e\<rparr>)\<rparr>)))"

definition rg_set_status :: "env \<Rightarrow> bytes32 \<Rightarrow> issuer_status \<Rightarrow> registry_spec \<Rightarrow> rg_result" where
  "rg_set_status e i st = rg_change e i
     (\<lambda>r. if ir_status r = IssuerRevoked \<and> st \<noteq> IssuerRevoked then Some InvalidTransition else None)
     (\<lambda>r. r\<lparr>ir_status := st\<rparr>)"

fun rg_step :: "env \<Rightarrow> ir_op \<Rightarrow> registry_spec \<Rightarrow> rg_result" where
  "rg_step e (IrInitialize a) c =
     (if rg_admin c \<noteq> None then (Inl (Err (contract_error_code AlreadyInitialized)), c)
      else if \<not> is_valid_principal_address e a then (Inl (Err (contract_error_code InvalidInput)), c)
      else if \<not> authorized e a then (Inl (AuthFailure a), c)
      else (Inr (), \<lparr>rg_admin = Some a, rg_issuers = (\<lambda>_. None), rg_contract_version = 1,
              rg_allowed = (\<lambda>_. None)\<rparr>))"
| "rg_step e IrGetAdmin c =
     ((if rg_admin c = None then Inl (Err (contract_error_code NotInitialized)) else Inr ()), c)"
| "rg_step e (IrRegisterIssuer i a m) c =
     (if rg_admin c \<noteq> None \<and> \<not> is_valid_principal_address e a then (Inl (rg_err IE_InvalidAddress), c)
      else rg_as_admin e (rg_err IssuerNotFound) c
        (if rg_issuers c i \<noteq> None then (Inl (rg_err IssuerAlreadyRegistered), c)
         else if rg_taken (rg_issuers c) a then (Inl (rg_err IssuerAddressAlreadyRegistered), c)
         else (Inr (), c\<lparr>rg_issuers := (rg_issuers c)(i \<mapsto>
           \<lparr>ir_issuer_id_hash = i, ir_issuer_address = a, ir_metadata_hash = m, ir_status = IssuerActive,
            ir_created_at = ledger_timestamp e, ir_updated_at = ledger_timestamp e\<rparr>)\<rparr>)))"
| "rg_step e (IrUpdateIssuer i m) c = rg_change e i
     (\<lambda>r. if ir_status r = IssuerRevoked then Some IssuerIsRevoked else None)
     (\<lambda>r. r\<lparr>ir_metadata_hash := m\<rparr>) c"
| "rg_step e (IrSuspendIssuer i) c = rg_set_status e i IssuerSuspended c"
| "rg_step e (IrReactivateIssuer i) c = rg_set_status e i IssuerActive c"
| "rg_step e (IrRevokeIssuer i) c = rg_set_status e i IssuerRevoked c"
| "rg_step e (IrRotateIssuerAddress i a) c =
     (if rg_admin c \<noteq> None \<and> \<not> is_valid_principal_address e a then (Inl (rg_err IE_InvalidAddress), c)
      else rg_change e i
        (\<lambda>r. if ir_status r = IssuerRevoked then Some IssuerIsRevoked
             else if a = ir_issuer_address r then Some IE_InvalidAddress
             else if rg_taken (rg_issuers c) a then Some IssuerAddressAlreadyRegistered else None)
        (\<lambda>r. r\<lparr>ir_issuer_address := a\<rparr>) c)"
| "rg_step e (IrGetIssuer i) c =
     ((if rg_issuers c i = None then Inl (rg_err IssuerNotFound) else Inr ()), c)"
| "rg_step e (IrGetIssuerByAddress a) c =
     ((if rg_taken (rg_issuers c) a then Inr () else Inl (rg_err IssuerAddressNotFound)), c)"
| "rg_step e (IrApproveUpgrade h v) c = rg_as_admin e (Panic ''contract not initialized'') c
     (if v \<le> rg_contract_version c
      then (Inl (Panic ''new_version must be greater than current contract version''), c)
      else (Inr (), c\<lparr>rg_allowed := (rg_allowed c)(h \<mapsto> v)\<rparr>))"
| "rg_step e (IrRevokeUpgrade h) c = rg_as_admin e (Panic ''contract not initialized'') c
     (Inr (), c\<lparr>rg_allowed := (rg_allowed c)(h := None)\<rparr>)"
| "rg_step e (IrUpgradeContract h) c = rg_as_admin e (Panic ''contract not initialized'') c
     (case rg_allowed c h of
        None \<Rightarrow> (Inl (Panic ''wasm hash not on allowlist''), c)
      | Some v \<Rightarrow>
          if v \<le> rg_contract_version c
          then (Inl (Panic ''upgrade would not advance contract version''), c)
          else if \<not> cfg_test e \<and> \<not> wasm_uploaded e h then (Inl HostTrap, c)
          else (Inr (), c\<lparr>rg_contract_version := v, rg_allowed := (rg_allowed c)(h := None)\<rparr>))"
| "rg_step e _ c = (Inr (), c)"

definition ir_abs :: "ir_state \<Rightarrow> registry_spec" where
  "ir_abs s = \<lparr>rg_admin = ir_admin s, rg_issuers = ir_issuer s,
     rg_contract_version = ir_contract_version s, rg_allowed = ir_allowed s\<rparr>"

section \<open>Views of updated storage\<close>

lemmas ir_view_defs = ir_admin_def ir_contract_version_def ir_allowed_def ir_issuer_def ir_index_def

lemma ir_view_updates:
  "ir_admin (s\<lparr>inst := f\<rparr>) = Option.bind (f IrAdmin) as_address"
  "ir_contract_version (s\<lparr>inst := f\<rparr>) = unwrap_or 0 (Option.bind (f IrContractVersion) as_u32)"
  "ir_issuer (s\<lparr>inst := f\<rparr>) = ir_issuer s" "ir_index (s\<lparr>inst := f\<rparr>) = ir_index s"
  "ir_admin (s\<lparr>pers := g\<rparr>) = ir_admin s" "ir_contract_version (s\<lparr>pers := g\<rparr>) = ir_contract_version s"
  "ir_allowed (s\<lparr>pers := g\<rparr>) = ir_allowed s"
  by (auto simp: ir_view_defs)

lemma ir_allowed_updates:
  "ir_allowed (s\<lparr>inst := f(IrAllowedWasm h \<mapsto> U32V v)\<rparr>) = (ir_allowed (s\<lparr>inst := f\<rparr>))(h \<mapsto> v)"
  "ir_allowed (s\<lparr>inst := f(IrAllowedWasm h := None)\<rparr>) = (ir_allowed (s\<lparr>inst := f\<rparr>))(h := None)"
  "ir_allowed (s\<lparr>inst := f(IrAdmin := x)\<rparr>) = ir_allowed (s\<lparr>inst := f\<rparr>)"
  "ir_allowed (s\<lparr>inst := f(IrContractVersion := x)\<rparr>) = ir_allowed (s\<lparr>inst := f\<rparr>)"
  "ir_allowed (s\<lparr>inst := inst s\<rparr>) = ir_allowed s"
  by (auto simp: ir_view_defs fun_eq_iff)

lemma ir_issuer_updates:
  "ir_issuer (s\<lparr>pers := g(IrIssuer i \<mapsto> IssuerV r)\<rparr>) = (ir_issuer (s\<lparr>pers := g\<rparr>))(i \<mapsto> r)"
  "ir_issuer (s\<lparr>pers := g(IrAddressIssuer a := x)\<rparr>) = ir_issuer (s\<lparr>pers := g\<rparr>)"
  "ir_issuer (s\<lparr>pers := pers s\<rparr>) = ir_issuer s"
  "ir_index (s\<lparr>pers := g(IrAddressIssuer a \<mapsto> Bytes32V i)\<rparr>) = (ir_index (s\<lparr>pers := g\<rparr>))(a \<mapsto> i)"
  "ir_index (s\<lparr>pers := g(IrAddressIssuer a := None)\<rparr>) = (ir_index (s\<lparr>pers := g\<rparr>))(a := None)"
  "ir_index (s\<lparr>pers := g(IrIssuer i := y)\<rparr>) = ir_index (s\<lparr>pers := g\<rparr>)"
  "ir_index (s\<lparr>pers := pers s\<rparr>) = ir_index s"
  by (auto simp: ir_view_defs fun_eq_iff)

lemmas ir_updates = ir_view_updates ir_allowed_updates ir_issuer_updates

lemma ir_view_frames [simp]:
  "ir_admin (s\<lparr>inst_until := x0\<rparr>) = ir_admin s" "ir_admin (s\<lparr>pers_until := x1\<rparr>) = ir_admin s"
  "ir_admin (s\<lparr>events := x2\<rparr>) = ir_admin s" "ir_admin (s\<lparr>wasm := x3\<rparr>) = ir_admin s"
  "ir_contract_version (s\<lparr>inst_until := x0\<rparr>) = ir_contract_version s"
  "ir_contract_version (s\<lparr>pers_until := x1\<rparr>) = ir_contract_version s"
  "ir_contract_version (s\<lparr>events := x2\<rparr>) = ir_contract_version s"
  "ir_contract_version (s\<lparr>wasm := x3\<rparr>) = ir_contract_version s"
  "ir_allowed (s\<lparr>inst_until := x0\<rparr>) = ir_allowed s" "ir_allowed (s\<lparr>pers_until := x1\<rparr>) = ir_allowed s"
  "ir_allowed (s\<lparr>events := x2\<rparr>) = ir_allowed s" "ir_allowed (s\<lparr>wasm := x3\<rparr>) = ir_allowed s"
  "ir_issuer (s\<lparr>inst_until := x0\<rparr>) = ir_issuer s" "ir_issuer (s\<lparr>pers_until := x1\<rparr>) = ir_issuer s"
  "ir_issuer (s\<lparr>events := x2\<rparr>) = ir_issuer s" "ir_issuer (s\<lparr>wasm := x3\<rparr>) = ir_issuer s"
  "ir_index (s\<lparr>inst_until := x0\<rparr>) = ir_index s" "ir_index (s\<lparr>pers_until := x1\<rparr>) = ir_index s"
  "ir_index (s\<lparr>events := x2\<rparr>) = ir_index s" "ir_index (s\<lparr>wasm := x3\<rparr>) = ir_index s"
  by (auto simp: ir_view_defs fun_eq_iff)

lemma ir_abs_simps [simp]:
  "rg_admin (ir_abs s) = ir_admin s" "rg_issuers (ir_abs s) = ir_issuer s"
  "rg_contract_version (ir_abs s) = ir_contract_version s" "rg_allowed (ir_abs s) = ir_allowed s"
  by (simp_all add: ir_abs_def)

lemma ir_wf_storage: "ir_wf s \<Longrightarrow> ir_storage_ok (inst s) (pers s)"
  by (simp add: ir_wf_def)

lemmas ir_wf_inst = storage_ok_inst [OF ir_wf_storage]
lemmas ir_wf_pers = storage_ok_pers [OF ir_wf_storage]

lemma ir_stored:
  assumes "ir_wf s"
  shows "inst s IrAdmin = map_option AddressV (ir_admin s)"
    and "inst s (IrAllowedWasm h) = map_option U32V (ir_allowed s h)"
    and "pers s (IrIssuer i) = map_option IssuerV (ir_issuer s i)"
    and "pers s (IrAddressIssuer a) = map_option Bytes32V (ir_index s a)"
  unfolding ir_view_defs
  by (rule encoded_view; fastforce dest: ir_wf_inst [OF assms] ir_wf_pers [OF assms] split: option.splits)+

lemma ir_stored_uninit:
  assumes "ir_wf s" and "ir_admin s = None"
  shows "inst s k = None" "pers s k = None"
  using storage_ok_uninit [OF ir_wf_storage [OF assms(1)]] ir_stored(1) [OF assms(1)] assms(2)
  by simp_all

lemma ir_stored_init:
  assumes "ir_wf s" and "ir_admin s = Some a"
  shows "inst s IrContractVersion = Some (U32V (ir_contract_version s))"
proof -
  have "inst s IrContractVersion \<noteq> None"
    using storage_ok_required [OF ir_wf_storage [OF assms(1)], of IrContractVersion]
      ir_stored(1) [OF assms(1)] assms(2) by simp
  then obtain v where *: "inst s IrContractVersion = Some v" by auto
  then show ?thesis
    using ir_wf_inst [OF assms(1) *] by (auto simp: ir_contract_version_def)
qed

lemma ir_views_uninit:
  assumes "ir_wf s" and "ir_admin s = None"
  shows "ir_contract_version s = 0" "ir_issuer s = (\<lambda>_. None)" "ir_index s = (\<lambda>_. None)"
    "ir_allowed s = (\<lambda>_. None)"
  using ir_stored_uninit [OF assms] by (auto simp: ir_view_defs)

lemma ir_issuer_id: "ir_wf s \<Longrightarrow> ir_issuer s i = Some r \<Longrightarrow> ir_issuer_id_hash r = i"
  using ir_wf_pers [of s "IrIssuer i" "IssuerV r"] ir_stored(3) [of s i] by simp

section \<open>The reverse index\<close>

lemma index_exactD: "index_exact f g \<Longrightarrow> g a = Some i \<longleftrightarrow> (\<exists>r. f i = Some r \<and> ir_issuer_address r = a)"
  by (simp add: index_exact_def)

lemma index_exact_None:
  assumes "index_exact f g"
  shows "g a = None \<longleftrightarrow> (\<forall>i r. f i = Some r \<longrightarrow> ir_issuer_address r \<noteq> a)"
proof -
  have "g a = None \<longleftrightarrow> (\<forall>i. g a \<noteq> Some i)" by auto
  then show ?thesis
    unfolding index_exactD [OF assms] by blast
qed

lemma index_exact_register:
  "index_exact f g \<Longrightarrow> f i = None \<Longrightarrow> g a = None \<Longrightarrow> ir_issuer_address r = a \<Longrightarrow>
     index_exact (f(i \<mapsto> r)) (g(a \<mapsto> i))"
  unfolding index_exact_def by (auto; metis option.distinct(1))

lemma index_exact_update:
  "index_exact f g \<Longrightarrow> f i \<noteq> None \<Longrightarrow> ir_issuer_address r' = ir_issuer_address (the (f i)) \<Longrightarrow>
     index_exact (f(i \<mapsto> r')) g"
  by (auto simp: index_exact_def)

lemma index_exact_rotate:
  assumes "index_exact f g" "f i \<noteq> None" "ir_issuer_address (the (f i)) = b" "g a = None"
    "ir_issuer_address r' = a"
  shows "index_exact (f(i \<mapsto> r')) (g(b := None, a \<mapsto> i))"
  using assms unfolding index_exact_def by (auto; metis option.distinct(1) option.inject)

lemmas index_exact_changes = index_exact_register index_exact_update index_exact_rotate

lemma rg_taken_index: "ir_wf s \<Longrightarrow> rg_taken (ir_issuer s) a \<longleftrightarrow> ir_index s a \<noteq> None"
  using index_exact_None [of "ir_issuer s" "ir_index s" a]
  by (auto simp: ir_wf_def rg_taken_def)

lemma ir_index_issuer: "ir_wf s \<Longrightarrow> ir_index s a = Some i \<Longrightarrow> \<exists>r. ir_issuer s i = Some r \<and> ir_issuer_address r = a"
  using index_exactD [of "ir_issuer s" "ir_index s"] by (simp add: ir_wf_def)

section \<open>Every entry point keeps the storage well-formed\<close>

lemma ir_wf_fresh: "ir_wf (fresh_contract lu w)"
  by (simp add: ir_wf_def storage_ok_empty index_exact_def ir_view_defs)

lemma ir_wf_index: "ir_wf s \<Longrightarrow> index_exact (ir_issuer s) (ir_index s)"
  by (simp add: ir_wf_def)

lemma ir_ok_initialized:
  "ir_storage_ok [IrAdmin \<mapsto> AddressV a, IrContractVersion \<mapsto> U32V 1] (\<lambda>_. None)"
  by (auto simp: storage_ok_def split: if_splits)

lemma ir_call_wf_uninit:
  assumes "ir_wf s" "ir_admin s = None" "ir_call e op s = (Inr (), s')"
  shows "ir_wf s'"
proof -
  have "inst s = (\<lambda>_. None)" "pers s = (\<lambda>_. None)"
    using ir_stored_uninit [OF assms(1,2)] by auto
  then show ?thesis
    using assms
    by (cases op) (auto simp: ir_defs run ir_stored_uninit Let_def ir_wf_def ir_ok_initialized
        ir_updates split: if_splits)
qed

lemma ir_call_storage_init:
  assumes "ir_wf s" "ir_admin s = Some a" "ir_call e op s = (Inr (), s')"
  shows "ir_storage_ok (inst s') (pers s')"
  using assms ir_wf_storage [OF assms(1)] ir_issuer_id [OF assms(1)]
  by (cases op) (auto simp: ir_defs run ir_stored ir_stored_init Let_def nonzero_facts 
    split: if_splits option.splits issuer_status.splits intro!: wf_intro)

lemma ir_call_index_init:
  assumes "ir_wf s" "ir_admin s = Some a" "ir_call e op s = (Inr (), s')"
  shows "index_exact (ir_issuer s') (ir_index s')"
  using assms ir_wf_index [OF assms(1)]
  by (cases op) (auto simp: ir_defs run ir_stored ir_stored_init Let_def ir_updates index_exact_changes
    split: if_splits option.splits issuer_status.splits)


lemma ir_call_wf: "ir_wf s \<Longrightarrow> ir_call e op s = (Inr (), s') \<Longrightarrow> ir_wf s'"
  by (cases "ir_admin s")
    (auto dest: ir_call_wf_uninit simp: ir_wf_def [of s'] dest: ir_call_storage_init ir_call_index_init)

section \<open>Every entry point implements the specification\<close>

lemmas rg_defs = rg_as_admin_def rg_change_def rg_set_status_def


lemma ir_call_refines_uninit:
  assumes "ir_wf s" "ir_admin s = None"
  shows "map_prod id ir_abs (invoke (ir_call e op) s) = rg_step e op (ir_abs s)"
  using assms
  by (cases op) (simp_all add: ir_defs run invoke_def ir_stored_uninit ir_views_uninit rg_defs Let_def ir_abs_def
     ir_updates rg_taken_def)

lemma ir_call_refines_init:
  assumes "ir_wf s" "ir_admin s = Some a"
  shows "map_prod id ir_abs (invoke (ir_call e op) s) = rg_step e op (ir_abs s)"
  using assms
  by (cases op) (auto dest: ir_index_issuer simp: ir_defs run invoke_def ir_stored ir_stored_init rg_defs Let_def ir_abs_def
     rg_taken_index ir_updates split: option.split)

lemma ir_call_refines:
  "ir_wf s \<Longrightarrow> map_prod id ir_abs (invoke (ir_call e op) s) = rg_step e op (ir_abs s)"
  by (cases "ir_admin s") (auto simp: ir_call_refines_uninit ir_call_refines_init)

lemma ir_call_commits:
  assumes "ir_wf s" and "ir_call e op s = (Inr (), s')"
  shows "rg_step e op (ir_abs s) = (Inr (), ir_abs s')"
  using ir_call_refines [OF assms(1), of e op] assms(2) by (simp add: invoke_def)

section \<open>Events as a journal\<close>

record registry_journal =
  rj_issuers :: "bytes32 \<Rightarrow> issuer_record option"
  rj_index :: "address \<Rightarrow> bytes32 option"
  rj_version :: u32
  rj_allowed :: "bytes32 \<Rightarrow> u32 option"

definition rj_empty :: registry_journal where
  "rj_empty = \<lparr>rj_issuers = (\<lambda>_. None), rj_index = (\<lambda>_. None), rj_version = 1, rj_allowed = (\<lambda>_. None)\<rparr>"

text \<open>
  What an indexer keeps. \<open>initialize\<close> publishes nothing, so the administrator is not part of it
  and the version starts at the 1 that \<open>initialize\<close> stores.
\<close>

definition rj_view :: "ir_state \<Rightarrow> registry_journal" where
  "rj_view s = \<lparr>rj_issuers = ir_issuer s, rj_index = ir_index s, rj_version = max 1 (ir_contract_version s),
     rj_allowed = ir_allowed s\<rparr>"

definition rj_change :: "bytes32 \<Rightarrow> u64 \<Rightarrow> (issuer_record \<Rightarrow> issuer_record) \<Rightarrow> registry_journal \<Rightarrow> registry_journal" where
  "rj_change i now f j = j\<lparr>rj_issuers := (rj_issuers j)(i :=
     map_option (\<lambda>r. f r\<lparr>ir_updated_at := now\<rparr>) (rj_issuers j i))\<rparr>"

fun rj_apply_event :: "ir_event \<Rightarrow> registry_journal \<Rightarrow> registry_journal" where
  "rj_apply_event (EvIssuerRegistered i a m now) j =
     j\<lparr>rj_issuers := (rj_issuers j)(i \<mapsto> \<lparr>ir_issuer_id_hash = i, ir_issuer_address = a, ir_metadata_hash = m,
         ir_status = IssuerActive, ir_created_at = now, ir_updated_at = now\<rparr>),
       rj_index := (rj_index j)(a \<mapsto> i)\<rparr>"
| "rj_apply_event (EvIssuerMetadataUpdated i m now) j = rj_change i now (\<lambda>r. r\<lparr>ir_metadata_hash := m\<rparr>) j"
| "rj_apply_event (EvIssuerSuspended i now) j = rj_change i now (\<lambda>r. r\<lparr>ir_status := IssuerSuspended\<rparr>) j"
| "rj_apply_event (EvIssuerReactivated i now) j = rj_change i now (\<lambda>r. r\<lparr>ir_status := IssuerActive\<rparr>) j"
| "rj_apply_event (EvIssuerRevoked i now) j = rj_change i now (\<lambda>r. r\<lparr>ir_status := IssuerRevoked\<rparr>) j"
| "rj_apply_event (EvIssuerAddressRotated i old_address new_address now) j =
     (rj_change i now (\<lambda>r. r\<lparr>ir_issuer_address := new_address\<rparr>) j)
       \<lparr>rj_index := (rj_index j)(old_address := None, new_address \<mapsto> i)\<rparr>"
| "rj_apply_event (EvIrUpgradeAllowlisted h v by_admin) j = j\<lparr>rj_allowed := (rj_allowed j)(h \<mapsto> v)\<rparr>"
| "rj_apply_event (EvIrUpgradeRevoked h by_admin) j = j\<lparr>rj_allowed := (rj_allowed j)(h := None)\<rparr>"
| "rj_apply_event (EvIrContractUpgraded h old_version new_version by_admin) j =
     j\<lparr>rj_version := new_version, rj_allowed := (rj_allowed j)(h := None)\<rparr>"

definition ir_new_events :: "env \<Rightarrow> ir_op \<Rightarrow> ir_state \<Rightarrow> ir_event list" where
  "ir_new_events e op s = (let now = ledger_timestamp e in case op of
      IrRegisterIssuer i a m \<Rightarrow> [EvIssuerRegistered i a m now]
    | IrUpdateIssuer i m \<Rightarrow> [EvIssuerMetadataUpdated i m now]
    | IrSuspendIssuer i \<Rightarrow> [EvIssuerSuspended i now]
    | IrReactivateIssuer i \<Rightarrow> [EvIssuerReactivated i now]
    | IrRevokeIssuer i \<Rightarrow> [EvIssuerRevoked i now]
    | IrRotateIssuerAddress i a \<Rightarrow> [EvIssuerAddressRotated i (ir_issuer_address (the (ir_issuer s i))) a now]
    | IrApproveUpgrade h v \<Rightarrow> [EvIrUpgradeAllowlisted h v (the (ir_admin s))]
    | IrRevokeUpgrade h \<Rightarrow> [EvIrUpgradeRevoked h (the (ir_admin s))]
    | IrUpgradeContract h \<Rightarrow>
        [EvIrContractUpgraded h (ir_contract_version s) (the (ir_allowed s h)) (the (ir_admin s))]
    | _ \<Rightarrow> [])"

lemma ir_call_events:
  assumes "ir_wf s" and "ir_call e op s = (Inr (), s')"
  shows "events s' = events s @ ir_new_events e op s"
proof (cases "ir_admin s")
  case None
  then show ?thesis
    using assms by (cases op) (auto simp: ir_defs run ir_stored_uninit ir_new_events_def Let_def split: if_splits)
next
  case (Some a)
  then show ?thesis
    using assms by (cases op)
     (auto simp: ir_defs run ir_stored ir_stored_init ir_new_events_def Let_def split: if_splits option.splits)
qed

lemma max_one_u32: "v \<noteq> 0 \<Longrightarrow> max 1 v = (v :: u32)"
  by (simp add: max_def word_le_nat_alt unat_eq_0 Suc_le_eq)

lemma ir_call_view_uninit:
  assumes "ir_wf s" and "ir_admin s = None" and "ir_call e op s = (Inr (), s')"
  shows "rj_view s' = fold rj_apply_event (ir_new_events e op s) (rj_view s)"
  using assms
  by (cases op) (auto simp: ir_defs run ir_stored_uninit ir_views_uninit ir_new_events_def Let_def rj_view_def ir_updates split: if_splits)

lemma ir_call_view_init:
  assumes "ir_wf s" and "ir_admin s = Some a" and "ir_call e op s = (Inr (), s')"
  shows "rj_view s' = fold rj_apply_event (ir_new_events e op s) (rj_view s)"
  using assms
  by (cases op) (auto simp: ir_defs run ir_stored ir_stored_init ir_new_events_def Let_def rj_view_def rj_change_def ir_updates 
   max_one_u32 nonzero_facts split: if_splits option.splits)

lemma ir_call_journal:
  assumes "ir_wf s" and "ir_call e op s = (Inr (), s')"
  shows "\<exists>new. events s' = events s @ new \<and> length new \<le> 1 \<and>
     rj_view s' = fold rj_apply_event new (rj_view s)"
proof -
  have "length (ir_new_events e op s) \<le> 1"
    by (simp add: ir_new_events_def Let_def split: ir_op.split)
  moreover have "rj_view s' = fold rj_apply_event (ir_new_events e op s) (rj_view s)"
    using ir_call_view_uninit [OF assms(1) _ assms(2)] ir_call_view_init [OF assms(1) _ assms(2)]
    by (cases "ir_admin s") auto
  ultimately show ?thesis
    using ir_call_events [OF assms] by blast
qed

lemma rj_view_fresh: "rj_view (fresh_contract lu w) = rj_empty"
  by (simp add: rj_view_def rj_empty_def ir_view_defs fun_eq_iff)

section \<open>Interpretations\<close>

definition ir_approves :: "ir_op \<Rightarrow> (bytes32 \<times> u32) option" where
  "ir_approves op = (case op of IrApproveUpgrade h v \<Rightarrow> Some (h, v) | _ \<Rightarrow> None)"

definition ir_installs :: "ir_op \<Rightarrow> bytes32 option" where
  "ir_installs op = (case op of IrUpgradeContract h \<Rightarrow> Some h | _ \<Rightarrow> None)"

interpretation irm: contract_refinement ir_call ir_wf ir_abs rg_step
  by unfold_locales (auto dest: ir_call_wf simp: ir_call_refines)

interpretation irj: event_journal ir_call ir_wf events rj_view rj_apply_event
  by unfold_locales (rule ir_call_journal)

lemmas rg_commit_simps = rg_defs ir_installs_def ir_approves_def

definition rg_empty :: registry_spec where
  "rg_empty = \<lparr>rg_admin = None, rg_issuers = (\<lambda>_. None), rg_contract_version = 0, rg_allowed = (\<lambda>_. None)\<rparr>"

lemma ir_abs_fresh [simp]: "ir_abs (fresh_contract lu w) = rg_empty"
  by (simp add: ir_abs_def rg_empty_def ir_view_defs fun_eq_iff)

lemma ir_abs_uninit: "ir_wf s \<Longrightarrow> ir_admin s = None \<Longrightarrow> ir_abs s = rg_empty"
  by (simp add: ir_abs_def rg_empty_def ir_views_uninit)

lemma rg_step_installs:
  "rg_step e op c = (Inr (), c') \<Longrightarrow> ir_installs op = Some h \<Longrightarrow>
     \<exists>v. rg_allowed c h = Some v \<and> rg_contract_version c < v \<and> rg_contract_version c' = v \<and>
       rg_allowed c' = (rg_allowed c)(h := None)"
  by (cases op) (auto simp: rg_commit_simps split: if_splits option.splits)

lemma rg_step_version:
  "rg_step e op c = (Inr (), c') \<Longrightarrow> ir_installs op = None \<Longrightarrow> (rg_admin c = None \<Longrightarrow> c = rg_empty) \<Longrightarrow>
     rg_contract_version c \<le> rg_contract_version c'"
  by (cases op) (auto simp: rg_commit_simps rg_empty_def split: if_splits option.splits)

lemma rg_step_allowed:
  "rg_step e op c = (Inr (), c') \<Longrightarrow> rg_allowed c' h = Some v \<Longrightarrow>
     rg_allowed c h = Some v \<or> ir_approves op = Some (h, v) \<and> rg_contract_version c < v"
  by (cases op) (auto simp: rg_commit_simps split: if_splits option.splits)

interpretation iru: upgrade_governance ir_call ir_wf ir_contract_version ir_allowed ir_approves ir_installs
proof unfold_locales
  fix s s' e op h v
  assume *: "ir_wf s" "ir_call e op s = (Inr (), s')"
  note c = ir_call_commits [OF *]
  show "ir_installs op = Some h \<Longrightarrow> \<exists>v. ir_allowed s h = Some v \<and> ir_contract_version s < v \<and>
      ir_contract_version s' = v \<and> ir_allowed s' = (ir_allowed s)(h := None)"
    using rg_step_installs [OF c] by simp
  show "ir_installs op = None \<Longrightarrow> ir_contract_version s \<le> ir_contract_version s'"
    using rg_step_version [OF c] ir_abs_uninit [OF *(1)] by simp
  show "ir_allowed s' h = Some v \<Longrightarrow> ir_allowed s h = Some v \<or>
      ir_approves op = Some (h, v) \<and> ir_contract_version s < v"
    using rg_step_allowed [OF c] by simp
qed

section \<open>Reads, as other contracts see them\<close>

text \<open>The state after the lifetime of an issuer record has been extended.\<close>

definition issuer_touched :: "env \<Rightarrow> bytes32 \<Rightarrow> ir_state \<Rightarrow> ir_state" where
  "issuer_touched e i s = s\<lparr>pers_until := (pers_until s)(IrIssuer i := ttl_extend e TTL_THRESHOLD_LEDGERS
     TTL_EXTEND_TO_LEDGERS (pers_until s (IrIssuer i)))\<rparr>"

lemma issuer_touched_views [simp]:
  "inst (issuer_touched e i s) = inst s" "pers (issuer_touched e i s) = pers s"
  "ir_issuer (issuer_touched e i s) = ir_issuer s" "ir_index (issuer_touched e i s) = ir_index s"
  "ir_admin (issuer_touched e i s) = ir_admin s" "ir_abs (issuer_touched e i s) = ir_abs s"
  "ir_wf (issuer_touched e i s) = ir_wf s" "events (issuer_touched e i s) = events s"
  by (simp_all add: issuer_touched_def ir_abs_def ir_wf_def)

definition active_address :: "ir_state \<Rightarrow> address \<Rightarrow> bool" where
  "active_address s a = (case ir_index s a of
      None \<Rightarrow> False
    | Some i \<Rightarrow> (case ir_issuer s i of None \<Rightarrow> False | Some r \<Rightarrow> ir_status r = IssuerActive))"

lemma active_address_iff:
  assumes "ir_wf s"
  shows "active_address s a \<longleftrightarrow>
     (\<exists>i r. ir_issuer s i = Some r \<and> ir_issuer_address r = a \<and> ir_status r = IssuerActive)"
proof -
  have "active_address s a \<longleftrightarrow>
     (\<exists>i. ir_index s a = Some i \<and> (\<exists>r. ir_issuer s i = Some r \<and> ir_status r = IssuerActive))"
    by (simp add: active_address_def split: option.split)
  also have "\<dots> \<longleftrightarrow> (\<exists>i r. ir_issuer s i = Some r \<and> ir_issuer_address r = a \<and> ir_status r = IssuerActive)"
    unfolding index_exactD [OF ir_wf_index [OF assms]] by fastforce
  finally show ?thesis .
qed

lemma get_issuer_read:
  "ir_wf s \<Longrightarrow> get_issuer e i s = (case ir_issuer s i of
      None \<Rightarrow> (Inl (Err IssuerNotFound), s)
    | Some r \<Rightarrow> (Inr r, issuer_touched e i s))"
  by (simp add: get_issuer_def run ir_stored extend_issuer_key_ttl_def issuer_touched_def split: option.split)

lemma is_active_issuer_read:
  "ir_wf s \<Longrightarrow> is_active_issuer e i s = (case ir_issuer s i of
      None \<Rightarrow> (Inr False, s)
    | Some r \<Rightarrow> (Inr (ir_status r = IssuerActive), issuer_touched e i s))"
  by (simp add: is_active_issuer_def run get_issuer_read split: option.split)

lemma is_active_address_read:
  "ir_wf s \<Longrightarrow> is_active_address e a s = (Inr (active_address s a),
     case ir_index s a of None \<Rightarrow> s | Some i \<Rightarrow> issuer_touched e i s)"
  by (auto simp: is_active_address_def run ir_stored is_active_issuer_read active_address_def
      dest: ir_index_issuer split: option.splits)

lemma get_issuer_by_address_read:
  "ir_wf s \<Longrightarrow> get_issuer_by_address e a s = (case ir_index s a of
      None \<Rightarrow> (Inl (Err IssuerAddressNotFound), s)
    | Some i \<Rightarrow> (Inr (the (ir_issuer s i)),
        s\<lparr>pers_until := (pers_until s)(IrAddressIssuer a := ttl_extend e TTL_THRESHOLD_LEDGERS
            TTL_EXTEND_TO_LEDGERS (pers_until s (IrAddressIssuer a)))\<rparr>))"
  by (auto simp: get_issuer_by_address_def run ir_stored extend_address_ttl_def dest: ir_index_issuer split: option.splits)

section \<open>Helper lemmas of the properties\<close>

abbreviation ir_after :: "(env \<times> ir_op) list \<Rightarrow> u32 \<Rightarrow> bytes32 \<Rightarrow> ir_state" where
  "ir_after h lu w \<equiv> run_calls ir_call h (fresh_contract lu w)"

lemma ir_after_wf: "ir_wf (ir_after h lu w)"
  by (rule irm.run_wf [OF ir_wf_fresh])

lemma ir_invoke_abs: "ir_wf s \<Longrightarrow> ir_abs (snd (invoke (ir_call e op) s)) = snd (rg_step e op (ir_abs s))"
  by (simp flip: ir_call_refines)

lemma rg_step_changes:
  assumes "snd (rg_step e op c) \<noteq> c"
  shows "case rg_admin c of
      Some a \<Rightarrow> authorized e a
    | None \<Rightarrow> (\<exists>a. op = IrInitialize a \<and> authorized e a \<and> is_valid_principal_address e a)"
  using assms
  by (cases op) (auto simp: rg_defs split: if_splits option.splits)

text \<open>What one committed call does to one issuer record.\<close>

definition record_evolves :: "issuer_record \<Rightarrow> issuer_record \<Rightarrow> bool" where
  "record_evolves r r' \<longleftrightarrow> ir_issuer_id_hash r' = ir_issuer_id_hash r \<and> ir_created_at r' = ir_created_at r \<and>
     (ir_status r = IssuerRevoked \<longrightarrow> r' = r\<lparr>ir_updated_at := ir_updated_at r'\<rparr>)"

lemma record_evolves_refl [simp]: "record_evolves r r"
  by (simp add: record_evolves_def)

lemma record_evolves_trans: "record_evolves r r' \<Longrightarrow> record_evolves r' r'' \<Longrightarrow> record_evolves r r''"
proof -
  assume a: "record_evolves r r'" and b: "record_evolves r' r''"
  have "r'' = r\<lparr>ir_updated_at := ir_updated_at r''\<rparr>" if rev: "ir_status r = IssuerRevoked"
  proof -
    from a rev have r': "r' = r\<lparr>ir_updated_at := ir_updated_at r'\<rparr>"
      by (simp add: record_evolves_def)
    then have "ir_status r' = IssuerRevoked"
      using rev by (metis issuer_record.select_convs(4) issuer_record.surjective issuer_record.update_convs(6))
    with b have "r'' = r'\<lparr>ir_updated_at := ir_updated_at r''\<rparr>"
      by (simp add: record_evolves_def)
    also have "\<dots> = r\<lparr>ir_updated_at := ir_updated_at r''\<rparr>"
      by (subst r') simp
    finally show ?thesis .
  qed
  with a b show ?thesis by (simp add: record_evolves_def)
qed

lemma rg_step_record:
  assumes "rg_step e op c = (Inr (), c')" and "rg_issuers c i = Some r" and "rg_admin c = None \<Longrightarrow> c = rg_empty"
  shows "\<exists>r'. rg_issuers c' i = Some r' \<and> record_evolves r r'"
  using assms
  by (cases op) (auto simp: rg_defs record_evolves_def rg_empty_def split: if_splits option.splits)

lemma ir_call_record:
  assumes "ir_wf s" and "ir_call e op s = (Inr (), s')" and "ir_issuer s i = Some r"
  shows "\<exists>r'. ir_issuer s' i = Some r' \<and> record_evolves r r'"
  using rg_step_record [OF ir_call_commits [OF assms(1,2)], of i r] assms ir_abs_uninit [OF assms(1)] by simp

lemma ir_call_err_state: "ir_call e op s = (Inl (Err x), t) \<Longrightarrow> t = s"
  by (cases op) (auto simp: ir_defs run Let_def split: if_splits option.splits prod.splits issuer_status.splits)

lemma ir_call_auth_state: "ir_call e op s = (Inl (AuthFailure a), t) \<Longrightarrow> t = s"
  by (cases op) (auto simp: ir_defs run Let_def split: if_splits option.splits prod.splits issuer_status.splits)

lemma ir_same_address:
  assumes "ir_wf s" and "ir_issuer s i = Some r" and "ir_issuer s j = Some q"
    and "ir_issuer_address r = ir_issuer_address q"
  shows "i = j"
proof -
  have "ir_index s (ir_issuer_address q) = Some i" "ir_index s (ir_issuer_address q) = Some j"
    using assms(2-4) by (auto simp: index_exactD [OF ir_wf_index [OF assms(1)]])
  then show ?thesis by simp
qed

lemma ir_run_record:
  assumes "ir_wf s" and "ir_issuer s i = Some r"
  shows "\<exists>r'. ir_issuer (run_calls ir_call h s) i = Some r' \<and> record_evolves r r'"
proof -
  let ?R = "\<lambda>s t. \<forall>r. ir_issuer s i = Some r \<longrightarrow> (\<exists>r'. ir_issuer t i = Some r' \<and> record_evolves r r')"
  have "?R s (run_calls ir_call h s)"
  proof (rule irm.run_respects [where R = ?R])
    show "?R s s'" if "ir_wf s" and "ir_call e op s = (Inr (), s')" for s e op s'
      using ir_call_record [OF that] by blast
    show "?R s u" if "?R s t" and "?R t u" for s t u
      using that record_evolves_trans by blast
  qed (use assms in auto)
  with assms(2) show ?thesis by blast
qed

lemma issuer_record_updated_at [simp]:
  "ir_status (r\<lparr>ir_updated_at := t\<rparr>) = ir_status r"
  "ir_issuer_address (r\<lparr>ir_updated_at := t\<rparr>) = ir_issuer_address r"
  by simp_all

text \<open>Evaluation of concrete histories.\<close>

lemmas ir_eval = ir_defs run invoke_def Let_def word_le_nat_alt word_less_nat_alt

definition sample_registry :: "(env \<times> ir_op) list" where
  "sample_registry = [(sample_env, IrInitialize (Address 101)),
     (sample_env, IrRegisterIssuer 21 (Address 102) 31), (sample_env, IrRegisterIssuer 22 (Address 103) 32),
     (sample_env, IrRevokeIssuer 22), (sample_env, IrApproveUpgrade 7 2)]"

definition sample_issuer :: issuer_record where
  "sample_issuer = \<lparr>ir_issuer_id_hash = 21, ir_issuer_address = Address 102, ir_metadata_hash = 31,
     ir_status = IssuerActive, ir_created_at = 1000, ir_updated_at = 1000\<rparr>"

definition sample_revoked :: issuer_record where
  "sample_revoked = \<lparr>ir_issuer_id_hash = 22, ir_issuer_address = Address 103, ir_metadata_hash = 32,
     ir_status = IssuerRevoked, ir_created_at = 1000, ir_updated_at = 1000\<rparr>"

lemma sample_registry_issuers:
  "ir_issuer (ir_after sample_registry 0 0) 21 = Some sample_issuer"
  "ir_issuer (ir_after sample_registry 0 0) 22 = Some sample_revoked"
  "ir_admin (ir_after sample_registry 0 0) = Some (Address 101)"
  by (simp_all add: sample_registry_def ir_eval ir_issuer_def ir_admin_def sample_issuer_def sample_revoked_def)

section \<open>Properties\<close>

text \<open>
  C4: every history of invocations of a freshly deployed issuer-registry has exactly the outcomes
  and ends in exactly the registry that the abstract specification \<open>rg_step\<close> prescribes,
  although the specification keeps no reverse index and asks the issuer records whether an
  address is taken.
\<close>

theorem registry_history_refines_spec:
  "(outcomes ir_call h (fresh_contract lu w), ir_abs (ir_after h lu w)) = run_spec rg_step h rg_empty"
  using irm.run_refines [OF ir_wf_fresh, of h lu w] by simp

text \<open>
  C18: folding the published events over the empty journal gives the issuer records, the reverse
  index, the allowlist and the contract version that storage holds after any history; the old
  and new address in \<open>IssuerAddressRotated\<close> are enough to keep the index without reading
  storage.
\<close>

theorem registry_replayed_from_events:
  "rj_view (ir_after h lu w) = fold rj_apply_event (events (ir_after h lu w)) rj_empty"
  using irj.replay_from_empty [OF ir_wf_fresh, of lu w h] by (simp add: rj_view_fresh)

text \<open>
  C6: in every reachable state the reverse index is exact (an address points to an issuer
  exactly when that issuer's record holds the address, so rotation leaves no stale entry), and
  two issuers never hold the same address.
\<close>

theorem issuer_index_exact:
  "(ir_index (ir_after h lu w) a = Some i \<longleftrightarrow>
      (\<exists>r. ir_issuer (ir_after h lu w) i = Some r \<and> ir_issuer_address r = a)) \<and>
   (ir_issuer (ir_after h lu w) i = Some r \<and> ir_issuer (ir_after h lu w) j = Some q \<and>
      ir_issuer_address r = ir_issuer_address q \<longrightarrow> i = j)"
  using index_exactD [OF ir_wf_index [OF ir_after_wf]] ir_same_address [OF ir_after_wf]
  by blast

theorem issuer_index_exact_witness:
  "ir_index (ir_after sample_registry 0 0) (Address 102) = Some 21 \<and>
   ir_issuer (ir_after sample_registry 0 0) 21 = Some sample_issuer"
  using issuer_index_exact [of sample_registry 0 0 "Address 102" 21 sample_issuer 21 sample_issuer]
    sample_registry_issuers(1)
  by (simp add: sample_issuer_def)

text \<open>
  C7: the read the proof registry relies on is exact: in every reachable state
  \<open>is_active_address\<close> returns true exactly when some issuer record holds the address with
  status active. It changes no stored value and publishes nothing, and of the lifetimes it can
  only extend that of the issuer record: the lifetime of the address entry it went through
  stays as it was.
\<close>

theorem is_active_address_exact:
  "fst (is_active_address e a (ir_after h lu w)) =
     Inr (\<exists>i r. ir_issuer (ir_after h lu w) i = Some r \<and> ir_issuer_address r = a \<and> ir_status r = IssuerActive) \<and>
   ir_abs (snd (is_active_address e a (ir_after h lu w))) = ir_abs (ir_after h lu w) \<and>
   events (snd (is_active_address e a (ir_after h lu w))) = events (ir_after h lu w) \<and>
   pers_until (snd (is_active_address e a (ir_after h lu w))) (IrAddressIssuer b) =
     pers_until (ir_after h lu w) (IrAddressIssuer b)"
proof (intro conjI)
  note read = is_active_address_read [OF ir_after_wf, of e a h lu w]
  show "fst (is_active_address e a (ir_after h lu w)) =
     Inr (\<exists>i r. ir_issuer (ir_after h lu w) i = Some r \<and> ir_issuer_address r = a \<and> ir_status r = IssuerActive)"
    unfolding read by (simp add: active_address_iff [OF ir_after_wf])
  show "ir_abs (snd (is_active_address e a (ir_after h lu w))) = ir_abs (ir_after h lu w)"
    and "events (snd (is_active_address e a (ir_after h lu w))) = events (ir_after h lu w)"
    and "pers_until (snd (is_active_address e a (ir_after h lu w))) (IrAddressIssuer b) =
     pers_until (ir_after h lu w) (IrAddressIssuer b)"
    unfolding read by (simp_all add: issuer_touched_def split: option.split)
qed

text \<open>
  C8: revocation is terminal: once an issuer is revoked, no further history changes anything of
  its record but the time stamp (which a repeated revocation still moves), and its address
  never counts as active again.
\<close>

theorem revoked_issuer_is_terminal:
  assumes "ir_issuer (ir_after h lu w) i = Some r" and "ir_status r = IssuerRevoked"
  shows "(\<exists>t. ir_issuer (run_calls ir_call h' (ir_after h lu w)) i = Some (r\<lparr>ir_updated_at := t\<rparr>)) \<and>
     fst (is_active_address e (ir_issuer_address r) (run_calls ir_call h' (ir_after h lu w))) = Inr False"
proof -
  let ?s = "run_calls ir_call h' (ir_after h lu w)"
  have wf: "ir_wf ?s" by (rule irm.run_wf [OF ir_after_wf])
  obtain t where t: "ir_issuer ?s i = Some (r\<lparr>ir_updated_at := t\<rparr>)"
    using ir_run_record [OF ir_after_wf assms(1), of h'] assms(2) by (auto simp: record_evolves_def)
  have "\<not> active_address ?s (ir_issuer_address r)"
  proof
    assume "active_address ?s (ir_issuer_address r)"
    then obtain j q where q: "ir_issuer ?s j = Some q" "ir_issuer_address q = ir_issuer_address r" "ir_status q = IssuerActive"
      unfolding active_address_iff [OF wf] by blast
    then have "j = i"
      using ir_same_address [OF wf q(1) t] by simp
    with q t assms(2) show False by auto
  qed
  with t show ?thesis
    by (auto simp: is_active_address_read [OF wf])
qed

theorem revoked_issuer_is_terminal_witness:
  "fst (is_active_address sample_env (Address 103)
     (run_calls ir_call [(sample_env, IrReactivateIssuer 22)] (ir_after sample_registry 0 0))) = Inr False"
  using revoked_issuer_is_terminal [OF sample_registry_issuers(2), of "[(sample_env, IrReactivateIssuer 22)]" sample_env]
  by (auto simp: sample_revoked_def)

text \<open>
  C30: an issuer is never deleted and keeps its identity: after any further history its record is
  still stored under its identifier, with the same identifier and the same creation time.
\<close>

theorem issuer_identity_is_permanent:
  assumes "ir_issuer (ir_after h lu w) i = Some r"
  shows "\<exists>r'. ir_issuer (run_calls ir_call h' (ir_after h lu w)) i = Some r' \<and>
     ir_issuer_id_hash r' = i \<and> ir_created_at r' = ir_created_at r"
  using ir_run_record [OF ir_after_wf assms, of h'] ir_issuer_id [OF ir_after_wf assms]
  by (auto simp: record_evolves_def)

theorem issuer_identity_is_permanent_witness:
  "\<exists>r'. ir_issuer (run_calls ir_call [(sample_env, IrRotateIssuerAddress 21 (Address 104))]
        (ir_after sample_registry 0 0)) 21 = Some r' \<and> ir_issuer_id_hash r' = 21 \<and> ir_created_at r' = 1000"
  using issuer_identity_is_permanent [OF sample_registry_issuers(1),
      of "[(sample_env, IrRotateIssuerAddress 21 (Address 104))]"] by (simp add: sample_issuer_def)

text \<open>
  C20: whatever a call changes in the registry (issuer records, administrator, version, allowlist),
  the stored administrator has authorized it; before initialization the only call that changes
  anything is an \<open>initialize\<close> authorized by a valid administrator address.
\<close>

theorem registry_changes_need_admin:
  assumes "ir_abs (snd (invoke (ir_call e op) (ir_after h lu w))) \<noteq> ir_abs (ir_after h lu w)"
  shows "case ir_admin (ir_after h lu w) of
      Some a \<Rightarrow> authorized e a
    | None \<Rightarrow> (\<exists>a. op = IrInitialize a \<and> authorized e a \<and> is_valid_principal_address e a)"
  using rg_step_changes [of e op "ir_abs (ir_after h lu w)"] assms ir_after_wf [of h lu w]
  by (simp add: ir_invoke_abs)

theorem registry_changes_need_admin_witness:
  "ir_abs (snd (invoke (ir_call sample_env (IrSuspendIssuer 21)) (ir_after sample_registry 0 0)))
     \<noteq> ir_abs (ir_after sample_registry 0 0) \<and> authorized sample_env (Address 101)"
proof -
  have "ir_issuer (snd (invoke (ir_call sample_env (IrSuspendIssuer 21)) (ir_after sample_registry 0 0))) 21
      \<noteq> ir_issuer (ir_after sample_registry 0 0) 21"
    by (simp add: sample_registry_def ir_eval ir_issuer_def)
  then have "ir_abs (snd (invoke (ir_call sample_env (IrSuspendIssuer 21)) (ir_after sample_registry 0 0)))
     \<noteq> ir_abs (ir_after sample_registry 0 0)"
    by (metis ir_abs_simps(2))
  then show ?thesis
    using registry_changes_need_admin [of sample_env "IrSuspendIssuer 21" sample_registry 0 0]
      sample_registry_issuers(3) by simp
qed


text \<open>
  C16: a committed rotation moves the issuer's authority from the old address to the new one in
  one step: the record is reachable under the new address and only there, the old address is
  no longer known (and so is free to be registered again), and whether the issuer counts as
  active carries over to the new address.
\<close>

theorem rotation_moves_authority:
  assumes "rotate_issuer_address e i a (ir_after h lu w) = (Inr (), s')"
    and "ir_issuer (ir_after h lu w) i = Some r"
  shows "fst (get_issuer_by_address e' a s') =
       Inr (r\<lparr>ir_issuer_address := a, ir_updated_at := ledger_timestamp e\<rparr>) \<and>
     fst (get_issuer_by_address e' (ir_issuer_address r) s') = Inl (Err IssuerAddressNotFound) \<and>
     fst (is_active_address e' a s') = fst (is_active_address e' (ir_issuer_address r) (ir_after h lu w)) \<and>
     fst (is_active_address e' (ir_issuer_address r) s') = Inr False"
proof -
  let ?s = "ir_after h lu w"
  have call: "ir_call e (IrRotateIssuerAddress i a) ?s = (Inr (), s')"
    using assms(1) by (simp add: run)
  have wf': "ir_wf s'" by (rule ir_call_wf [OF ir_after_wf call])
  have idx: "ir_index ?s (ir_issuer_address r) = Some i"
    using assms(2) by (simp add: index_exactD [OF ir_wf_index [OF ir_after_wf]])
  have admin: "ir_admin ?s \<noteq> None"
    using assms(2) ir_views_uninit(2) [OF ir_after_wf] by (metis option.distinct(1))
  have "a \<noteq> ir_issuer_address r" and
    "ir_issuer s' = (ir_issuer ?s)(i \<mapsto> r\<lparr>ir_issuer_address := a, ir_updated_at := ledger_timestamp e\<rparr>)" and
    "ir_index s' = (ir_index ?s)(ir_issuer_address r := None, a \<mapsto> i)"
    using assms admin ir_after_wf [of h lu w]
    by (auto simp: ir_defs run ir_stored Let_def ir_updates split: if_splits option.splits)
  then show ?thesis
    using assms(2) idx
    by (simp add: get_issuer_by_address_read [OF wf'] is_active_address_read [OF wf']
        is_active_address_read [OF ir_after_wf] active_address_def)
qed

theorem rotation_moves_authority_witness:
  "\<exists>s'. rotate_issuer_address sample_env 21 (Address 104) (ir_after sample_registry 0 0) = (Inr (), s') \<and>
     fst (is_active_address sample_env (Address 102) s') = Inr False"
proof -
  obtain s' where s': "rotate_issuer_address sample_env 21 (Address 104) (ir_after sample_registry 0 0) = (Inr (), s')"
    by (simp add: sample_registry_def ir_eval)
  then show ?thesis
    using rotation_moves_authority [OF s' sample_registry_issuers(1), of sample_env]
    by (auto simp: sample_issuer_def)
qed

end
