(* ===== verification/Proof_Registry.thy ===== *)
theory Proof_Registry
  imports Shared_Types Contract_Machine
begin

text \<open>
  The contract \<open>proof-registry\<close> (\<open>src/contracts/proof-registry/src/lib.rs\<close>): proof
  registration behind the protocol and issuer checks, revocation, validity and the upgrade
  allowlist. The two contracts it calls are reached through the client traits of the source;
  here they are the record \<open>dependencies\<close>, a parameter of \<open>register_proof\<close>, over the state of
  all other contracts, which the field \<open>others\<close> carries. The locale \<open>proof_dependencies\<close> states
  what the registry relies on of them.
\<close>

section \<open>Storage keys, events and dependencies\<close>

datatype pr_key =
    PrAdmin
  | PrIssuerRegistry
  | PrProtocolConfig
  | PrProof bytes32
  | PrAllowedWasm bytes32
  | PrContractVersion

datatype pr_event =
    EvPrUpgradeAllowlisted bytes32 u32 address
  | EvPrUpgradeRevoked bytes32 address
  | EvPrContractUpgraded bytes32 u32 u32 address

record 'w pr_state = "(pr_key, stored_value, pr_event) contract_state" +
  others :: 'w

type_synonym ('w, 'e, 'a) pr_m = "('w pr_state, 'e, 'a) contract_m"

text \<open>
  The client traits \<open>ProtocolConfigInterface\<close> and \<open>IssuerRegistryInterface\<close>: a call to the
  contract at an address, which fails (\<open>None\<close>) when no contract with that function answers, or
  returns a value and the new state of the other contracts.
\<close>

record 'w dependencies =
  dep_is_paused :: "env \<Rightarrow> address \<Rightarrow> 'w \<Rightarrow> (bool \<times> 'w) option"
  dep_is_schema_version_approved :: "env \<Rightarrow> address \<Rightarrow> u32 \<Rightarrow> 'w \<Rightarrow> (bool \<times> 'w) option"
  dep_is_active_address :: "env \<Rightarrow> address \<Rightarrow> address \<Rightarrow> 'w \<Rightarrow> (bool \<times> 'w) option"

text \<open>A failed call of a client method traps the caller.\<close>

definition call_out :: "('w \<Rightarrow> (bool \<times> 'w) option) \<Rightarrow> ('w, 'e, bool) pr_m" where
  "call_out f = (\<lambda>s. case f (others s) of
      None \<Rightarrow> (Inl HostTrap, s)
    | Some (b, w) \<Rightarrow> (Inr b, s\<lparr>others := w\<rparr>))"

lemma bind_call_out [run]:
  "bind_m (call_out f) k s = (case f (others s) of
      None \<Rightarrow> (Inl HostTrap, s)
    | Some (b, w) \<Rightarrow> k b (s\<lparr>others := w\<rparr>))"
  by (simp add: call_out_def bind_m_def split: option.split prod.split)

section \<open>Private helpers\<close>

definition pr_require_valid_principal :: "env \<Rightarrow> address \<Rightarrow> ('w, contract_error, unit) pr_m" where
  "pr_require_valid_principal e a =
     (if \<not> is_valid_principal_address e a then abort_with (Err InvalidInput) else ret ())"

definition pr_require_valid_issuer_address :: "env \<Rightarrow> address \<Rightarrow> ('w, proof_error, unit) pr_m" where
  "pr_require_valid_issuer_address e a =
     (if \<not> is_valid_principal_address e a then abort_with (Err PE_InvalidAddress) else ret ())"

definition validate_dependency_addresses ::
    "env \<Rightarrow> address \<Rightarrow> address \<Rightarrow> ('w, contract_error, unit) pr_m" where
  "validate_dependency_addresses e issuer_registry protocol_config =
     (if \<not> is_valid_principal_address e issuer_registry \<or> \<not> is_valid_principal_address e protocol_config
      then abort_with (Err InvalidInput)
      else
        let current = current_contract_address e in
        if issuer_registry = current \<or> protocol_config = current \<or> issuer_registry = protocol_config
        then abort_with (Err InvalidInput)
        else ret ())"

definition pr_extend_instance_ttl :: "env \<Rightarrow> ('w, 'e, unit) pr_m" where
  "pr_extend_instance_ttl e = inst_extend_ttl e TTL_THRESHOLD_LEDGERS TTL_EXTEND_TO_LEDGERS"

definition extend_proof_key_ttl :: "env \<Rightarrow> pr_key \<Rightarrow> ('w, 'e, unit) pr_m" where
  "extend_proof_key_ttl e key = pers_extend_ttl e key TTL_THRESHOLD_LEDGERS TTL_EXTEND_TO_LEDGERS"

definition pr_require_auth :: "env \<Rightarrow> address \<Rightarrow> ('w, 'e, unit) pr_m" where
  "pr_require_auth e a = host_require_auth e a"

section \<open>Initialization and reads\<close>

definition pr_initialize :: "env \<Rightarrow> address \<Rightarrow> address \<Rightarrow> address \<Rightarrow> ('w, contract_error, unit) pr_m" where
  "pr_initialize e admin issuer_registry protocol_config =
     bind_m (inst_has PrAdmin) (\<lambda>present.
     if present then abort_with (Err AlreadyInitialized)
     else
       seq_m (pr_require_valid_principal e admin) (
       seq_m (validate_dependency_addresses e issuer_registry protocol_config) (
       seq_m (pr_require_auth e admin) (
       seq_m (inst_set PrAdmin (AddressV admin)) (
       seq_m (inst_set PrIssuerRegistry (AddressV issuer_registry)) (
       seq_m (inst_set PrProtocolConfig (AddressV protocol_config)) (
       seq_m (inst_set PrContractVersion (U32V 1))
       (pr_extend_instance_ttl e))))))))"

definition pr_get_admin :: "('w, contract_error, address) pr_m" where
  "pr_get_admin = bind_m (inst_get as_address PrAdmin) (ok_or NotInitialized)"

definition get_issuer_registry :: "('w, contract_error, address) pr_m" where
  "get_issuer_registry = bind_m (inst_get as_address PrIssuerRegistry) (ok_or NotInitialized)"

definition get_protocol_config :: "('w, contract_error, address) pr_m" where
  "get_protocol_config = bind_m (inst_get as_address PrProtocolConfig) (ok_or NotInitialized)"

definition get_proof :: "env \<Rightarrow> bytes32 \<Rightarrow> ('w, proof_error, proof_record) pr_m" where
  "get_proof e proof_id_hash =
     bind_m (pers_get as_proof (PrProof proof_id_hash)) (\<lambda>stored.
     bind_m (ok_or ProofNotFound stored) (\<lambda>record.
     seq_m (extend_proof_key_ttl e (PrProof proof_id_hash))
     (ret record)))"

definition is_valid_proof :: "env \<Rightarrow> bytes32 \<Rightarrow> ('w, 'e, bool) pr_m" where
  "is_valid_proof e proof_id_hash =
     bind_m (match_result (get_proof e proof_id_hash)) (\<lambda>result.
     case result of
       Inr record \<Rightarrow> ret (pr_status record = ProofActive \<and> ledger_timestamp e \<le> pr_expires_at record)
     | Inl _ \<Rightarrow> ret False)"

definition is_revoked :: "env \<Rightarrow> bytes32 \<Rightarrow> ('w, 'e, bool) pr_m" where
  "is_revoked e proof_id_hash =
     bind_m (match_result (get_proof e proof_id_hash)) (\<lambda>result.
     case result of
       Inr record \<Rightarrow> ret (pr_status record = ProofRevoked)
     | Inl _ \<Rightarrow> ret False)"

section \<open>Registration and revocation\<close>

definition register_proof :: "'w dependencies \<Rightarrow> env \<Rightarrow> bytes32 \<Rightarrow> bytes32 \<Rightarrow> address \<Rightarrow> u32 \<Rightarrow> u64
    \<Rightarrow> ('w, proof_error, unit) pr_m" where
  "register_proof d e proof_id_hash commitment_hash issuer_address schema_version expires_at =
     seq_m (pr_require_valid_issuer_address e issuer_address) (
     bind_m (map_err (\<lambda>_. ProofNotFound) get_protocol_config) (\<lambda>protocol_config.
     bind_m (map_err (\<lambda>_. ProofNotFound) get_issuer_registry) (\<lambda>issuer_registry.
     if issuer_address = current_contract_address e \<or> issuer_address = protocol_config \<or>
        issuer_address = issuer_registry
     then abort_with (Err PE_InvalidAddress)
     else
     seq_m (pr_require_auth e issuer_address) (
     if schema_version = 0 then abort_with (Err InvalidSchemaVersion)
     else if expires_at \<le> ledger_timestamp e then abort_with (Err ProofExpired)
     else
     bind_m (map_err (\<lambda>_. ProofNotFound) get_protocol_config) (\<lambda>protocol_config.
     bind_m (call_out (dep_is_paused d e protocol_config)) (\<lambda>paused.
     if paused then abort_with (Err InvalidSchemaVersion)
     else
     bind_m (call_out (dep_is_schema_version_approved d e protocol_config schema_version)) (\<lambda>approved.
     if \<not> approved then abort_with (Err SchemaVersionNotApproved)
     else
     bind_m (map_err (\<lambda>_. ProofNotFound) get_issuer_registry) (\<lambda>issuer_registry.
     bind_m (call_out (dep_is_active_address d e issuer_registry issuer_address)) (\<lambda>active.
     if \<not> active then abort_with (Err InvalidSchemaVersion)
     else
     bind_m (pers_has (PrProof proof_id_hash)) (\<lambda>known.
     if known then abort_with (Err ProofAlreadyRegistered)
     else
       let now = ledger_timestamp e;
           record = \<lparr>pr_proof_id_hash = proof_id_hash, pr_commitment_hash = commitment_hash,
             pr_issuer_address = issuer_address, pr_status = ProofActive,
             pr_schema_version = schema_version, pr_expires_at = expires_at,
             pr_created_at = now, pr_revoked_at = 0\<rparr> in
       seq_m (pers_set e (PrProof proof_id_hash) (ProofV record))
       (extend_proof_key_ttl e (PrProof proof_id_hash))))))))))))"

definition set_revoked :: "env \<Rightarrow> bytes32 \<Rightarrow> bool \<Rightarrow> ('w, proof_error, unit) pr_m" where
  "set_revoked e proof_id_hash by_admin =
     bind_m (pers_get as_proof (PrProof proof_id_hash)) (\<lambda>stored.
     bind_m (ok_or ProofNotFound stored) (\<lambda>record.
     seq_m (if by_admin
            then bind_m (map_err (\<lambda>_. ProofNotFound) pr_get_admin) (\<lambda>admin. pr_require_auth e admin)
            else pr_require_auth e (pr_issuer_address record)) (
     if pr_status record = ProofRevoked then abort_with (Err ProofAlreadyRevoked)
     else
       let record = record\<lparr>pr_status := ProofRevoked, pr_revoked_at := ledger_timestamp e\<rparr> in
       seq_m (pers_set e (PrProof proof_id_hash) (ProofV record))
       (extend_proof_key_ttl e (PrProof proof_id_hash)))))"

definition revoke_proof :: "env \<Rightarrow> bytes32 \<Rightarrow> ('w, proof_error, unit) pr_m" where
  "revoke_proof e proof_id_hash = set_revoked e proof_id_hash False"

definition admin_revoke_proof :: "env \<Rightarrow> bytes32 \<Rightarrow> ('w, proof_error, unit) pr_m" where
  "admin_revoke_proof e proof_id_hash = set_revoked e proof_id_hash True"

section \<open>Upgrade governance\<close>

definition pr_get_contract_version :: "('w, 'e, u32) pr_m" where
  "pr_get_contract_version = bind_m (inst_get as_u32 PrContractVersion) (\<lambda>v. ret (unwrap_or 0 v))"

definition pr_approve_upgrade :: "env \<Rightarrow> bytes32 \<Rightarrow> u32 \<Rightarrow> ('w, 'e, unit) pr_m" where
  "pr_approve_upgrade e wasm_hash new_version =
     bind_m (expect_ok ''contract not initialized'' pr_get_admin) (\<lambda>admin.
     seq_m (pr_require_auth e admin) (
     bind_m pr_get_contract_version (\<lambda>current.
     if new_version \<le> current
     then abort_with (Panic ''new_version must be greater than current contract version'')
     else
       seq_m (inst_set (PrAllowedWasm wasm_hash) (U32V new_version)) (
       seq_m (pr_extend_instance_ttl e)
       (publish (EvPrUpgradeAllowlisted wasm_hash new_version admin))))))"

definition pr_revoke_upgrade :: "env \<Rightarrow> bytes32 \<Rightarrow> ('w, 'e, unit) pr_m" where
  "pr_revoke_upgrade e wasm_hash =
     bind_m (expect_ok ''contract not initialized'' pr_get_admin) (\<lambda>admin.
     seq_m (pr_require_auth e admin) (
     seq_m (inst_remove (PrAllowedWasm wasm_hash))
     (publish (EvPrUpgradeRevoked wasm_hash admin))))"

definition pr_is_upgrade_allowed :: "bytes32 \<Rightarrow> ('w, 'e, bool) pr_m" where
  "pr_is_upgrade_allowed wasm_hash = inst_has (PrAllowedWasm wasm_hash)"

definition pr_upgrade_contract :: "env \<Rightarrow> bytes32 \<Rightarrow> ('w, 'e, unit) pr_m" where
  "pr_upgrade_contract e wasm_hash =
     bind_m (expect_ok ''contract not initialized'' pr_get_admin) (\<lambda>admin.
     seq_m (pr_require_auth e admin) (
     bind_m (inst_get as_u32 (PrAllowedWasm wasm_hash)) (\<lambda>entry.
     bind_m (expect_some ''wasm hash not on allowlist'' entry) (\<lambda>new_version.
     bind_m pr_get_contract_version (\<lambda>old_version.
     if new_version \<le> old_version
     then abort_with (Panic ''upgrade would not advance contract version'')
     else
       seq_m (inst_remove (PrAllowedWasm wasm_hash)) (
       seq_m (cfg_not_test e (update_wasm e wasm_hash)) (
       seq_m (inst_set PrContractVersion (U32V new_version)) (
       seq_m (pr_extend_instance_ttl e)
       (publish (EvPrContractUpgraded wasm_hash old_version new_version admin))))))))))"

section \<open>The entry points as one call\<close>

datatype pr_op =
    PrInitialize address address address
  | PrRegisterProof bytes32 bytes32 address u32 u64
  | PrRevokeProof bytes32
  | PrAdminRevokeProof bytes32
  | PrGetProof bytes32
  | PrIsValidProof bytes32
  | PrIsRevoked bytes32
  | PrGetAdmin
  | PrGetIssuerRegistry
  | PrGetProtocolConfig
  | PrGetContractVersion
  | PrApproveUpgrade bytes32 u32
  | PrRevokeUpgrade bytes32
  | PrIsUpgradeAllowed bytes32
  | PrUpgradeContract bytes32

fun pr_call :: "'w dependencies \<Rightarrow> env \<Rightarrow> pr_op \<Rightarrow> ('w, u32, unit) pr_m" where
  "pr_call d e (PrInitialize a i p) = with_codes contract_error_code (pr_initialize e a i p)"
| "pr_call d e (PrRegisterProof i c a v x) = with_codes proof_error_code (register_proof d e i c a v x)"
| "pr_call d e (PrRevokeProof i) = with_codes proof_error_code (revoke_proof e i)"
| "pr_call d e (PrAdminRevokeProof i) = with_codes proof_error_code (admin_revoke_proof e i)"
| "pr_call d e (PrGetProof i) = with_codes proof_error_code (get_proof e i)"
| "pr_call d e (PrIsValidProof i) = discard (is_valid_proof e i)"
| "pr_call d e (PrIsRevoked i) = discard (is_revoked e i)"
| "pr_call d e PrGetAdmin = with_codes contract_error_code pr_get_admin"
| "pr_call d e PrGetIssuerRegistry = with_codes contract_error_code get_issuer_registry"
| "pr_call d e PrGetProtocolConfig = with_codes contract_error_code get_protocol_config"
| "pr_call d e PrGetContractVersion = discard pr_get_contract_version"
| "pr_call d e (PrApproveUpgrade h v) = pr_approve_upgrade e h v"
| "pr_call d e (PrRevokeUpgrade h) = pr_revoke_upgrade e h"
| "pr_call d e (PrIsUpgradeAllowed h) = discard (pr_is_upgrade_allowed h)"
| "pr_call d e (PrUpgradeContract h) = pr_upgrade_contract e h"

text \<open>
  Between two invocations of this contract the other contracts may change in any way: a history
  is a list of entry points and such moves.
\<close>

datatype 'w pr_action =
    PrEntry pr_op
  | PrOthers "'w \<Rightarrow> 'w"

fun pr_act :: "'w dependencies \<Rightarrow> env \<Rightarrow> 'w pr_action \<Rightarrow> ('w, u32, unit) pr_m" where
  "pr_act d e (PrEntry op) = pr_call d e op"
| "pr_act d e (PrOthers f) = (\<lambda>s. (Inr (), s\<lparr>others := f (others s)\<rparr>))"

lemmas pr_defs =
  pr_require_valid_principal_def pr_require_valid_issuer_address_def
  validate_dependency_addresses_def pr_extend_instance_ttl_def extend_proof_key_ttl_def
  pr_require_auth_def pr_initialize_def pr_get_admin_def get_issuer_registry_def
  get_protocol_config_def get_proof_def is_valid_proof_def is_revoked_def register_proof_def
  set_revoked_def revoke_proof_def admin_revoke_proof_def pr_get_contract_version_def
  pr_approve_upgrade_def pr_revoke_upgrade_def pr_is_upgrade_allowed_def pr_upgrade_contract_def

section \<open>What the storage means\<close>

definition pr_admin :: "'w pr_state \<Rightarrow> address option" where
  "pr_admin s = Option.bind (inst s PrAdmin) as_address"

definition pr_issuer_registry :: "'w pr_state \<Rightarrow> address option" where
  "pr_issuer_registry s = Option.bind (inst s PrIssuerRegistry) as_address"

definition pr_protocol_config :: "'w pr_state \<Rightarrow> address option" where
  "pr_protocol_config s = Option.bind (inst s PrProtocolConfig) as_address"

definition pr_contract_version :: "'w pr_state \<Rightarrow> u32" where
  "pr_contract_version s = unwrap_or 0 (Option.bind (inst s PrContractVersion) as_u32)"

definition pr_allowed :: "'w pr_state \<Rightarrow> bytes32 \<Rightarrow> u32 option" where
  "pr_allowed s h = Option.bind (inst s (PrAllowedWasm h)) as_u32"

definition pr_proof :: "'w pr_state \<Rightarrow> bytes32 \<Rightarrow> proof_record option" where
  "pr_proof s i = Option.bind (pers s (PrProof i)) as_proof"

lemmas pr_view_defs = pr_admin_def pr_issuer_registry_def pr_protocol_config_def
  pr_contract_version_def pr_allowed_def pr_proof_def

section \<open>Well-formed storage\<close>

text \<open>
  A stored proof has its own identifier, a nonzero schema version, was registered before it
  expires, and carries no revocation time while active.
\<close>

definition proof_ok :: "bytes32 \<Rightarrow> proof_record \<Rightarrow> bool" where
  "proof_ok i r \<longleftrightarrow> pr_proof_id_hash r = i \<and> pr_schema_version r \<noteq> 0 \<and>
     pr_created_at r < pr_expires_at r \<and> (pr_status r = ProofActive \<longrightarrow> pr_revoked_at r = 0)"

fun pr_inst_ok :: "pr_key \<Rightarrow> stored_value \<Rightarrow> bool" where
  "pr_inst_ok PrAdmin v = (as_address v \<noteq> None)"
| "pr_inst_ok PrIssuerRegistry v = (as_address v \<noteq> None)"
| "pr_inst_ok PrProtocolConfig v = (as_address v \<noteq> None)"
| "pr_inst_ok PrContractVersion v = (as_u32 v \<noteq> None \<and> as_u32 v \<noteq> Some 0)"
| "pr_inst_ok (PrAllowedWasm h) v = (as_u32 v \<noteq> None \<and> as_u32 v \<noteq> Some 0)"
| "pr_inst_ok (PrProof i) v = False"

fun pr_pers_ok :: "pr_key \<Rightarrow> stored_value \<Rightarrow> bool" where
  "pr_pers_ok (PrProof i) v = (case as_proof v of None \<Rightarrow> False | Some r \<Rightarrow> proof_ok i r)"
| "pr_pers_ok _ v = False"

definition pr_wf :: "'w pr_state \<Rightarrow> bool" where
  "pr_wf s \<longleftrightarrow> storage_ok pr_inst_ok pr_pers_ok PrAdmin
     {PrIssuerRegistry, PrProtocolConfig, PrContractVersion} (inst s) (pers s)"

section \<open>An abstract specification\<close>

text \<open>The three addresses are set together, once; so the specification keeps them as one value.\<close>

record setup_spec =
  su_admin :: address
  su_issuer_registry :: address
  su_protocol_config :: address

record 'w proofs_spec =
  ps_setup :: "setup_spec option"
  ps_proofs :: "bytes32 \<Rightarrow> proof_record option"
  ps_contract_version :: u32
  ps_allowed :: "bytes32 \<Rightarrow> u32 option"
  ps_others :: 'w

type_synonym 'w ps_result = "(u32 abort + unit) \<times> 'w proofs_spec"

abbreviation ps_err :: "proof_error \<Rightarrow> u32 abort" where
  "ps_err x \<equiv> Err (proof_error_code x)"

definition ps_as_admin :: "env \<Rightarrow> 'w proofs_spec \<Rightarrow> 'w ps_result \<Rightarrow> 'w ps_result" where
  "ps_as_admin e c k = (case ps_setup c of
      None \<Rightarrow> (Inl (Panic ''contract not initialized''), c)
    | Some u \<Rightarrow> if authorized e (su_admin u) then k else (Inl (AuthFailure (su_admin u)), c))"

text \<open>The three questions asked of the other contracts, in their order.\<close>

definition ps_gate :: "'w dependencies \<Rightarrow> env \<Rightarrow> setup_spec \<Rightarrow> address \<Rightarrow> u32 \<Rightarrow> 'w \<Rightarrow> u32 abort + 'w" where
  "ps_gate d e u a v w = (case dep_is_paused d e (su_protocol_config u) w of
      None \<Rightarrow> Inl HostTrap
    | Some (paused, w1) \<Rightarrow> if paused then Inl (ps_err InvalidSchemaVersion)
        else (case dep_is_schema_version_approved d e (su_protocol_config u) v w1 of
          None \<Rightarrow> Inl HostTrap
        | Some (approved, w2) \<Rightarrow> if \<not> approved then Inl (ps_err SchemaVersionNotApproved)
            else (case dep_is_active_address d e (su_issuer_registry u) a w2 of
              None \<Rightarrow> Inl HostTrap
            | Some (active, w3) \<Rightarrow> if active then Inr w3 else Inl (ps_err InvalidSchemaVersion))))"

definition ps_register :: "'w dependencies \<Rightarrow> env \<Rightarrow> bytes32 \<Rightarrow> bytes32 \<Rightarrow> address \<Rightarrow> u32 \<Rightarrow> u64
    \<Rightarrow> 'w proofs_spec \<Rightarrow> 'w ps_result" where
  "ps_register d e i c a v x p =
     (if \<not> is_valid_principal_address e a then (Inl (ps_err PE_InvalidAddress), p)
      else (case ps_setup p of
        None \<Rightarrow> (Inl (ps_err ProofNotFound), p)
      | Some u \<Rightarrow>
          if a \<in> {current_contract_address e, su_protocol_config u, su_issuer_registry u}
          then (Inl (ps_err PE_InvalidAddress), p)
          else if \<not> authorized e a then (Inl (AuthFailure a), p)
          else if v = 0 then (Inl (ps_err InvalidSchemaVersion), p)
          else if x \<le> ledger_timestamp e then (Inl (ps_err ProofExpired), p)
          else (case ps_gate d e u a v (ps_others p) of
            Inl b \<Rightarrow> (Inl b, p)
          | Inr w \<Rightarrow>
              if ps_proofs p i \<noteq> None then (Inl (ps_err ProofAlreadyRegistered), p)
              else (Inr (), p\<lparr>ps_proofs := (ps_proofs p)(i \<mapsto>
                \<lparr>pr_proof_id_hash = i, pr_commitment_hash = c, pr_issuer_address = a, pr_status = ProofActive,
                 pr_schema_version = v, pr_expires_at = x, pr_created_at = ledger_timestamp e,
                 pr_revoked_at = 0\<rparr>), ps_others := w\<rparr>))))"

definition ps_revoke :: "env \<Rightarrow> bytes32 \<Rightarrow> (proof_record \<Rightarrow> setup_spec \<Rightarrow> address) \<Rightarrow> 'w proofs_spec \<Rightarrow> 'w ps_result" where
  "ps_revoke e i authority p = (case (ps_setup p, ps_proofs p i) of
      (Some u, Some r) \<Rightarrow>
        if \<not> authorized e (authority r u) then (Inl (AuthFailure (authority r u)), p)
        else if pr_status r = ProofRevoked then (Inl (ps_err ProofAlreadyRevoked), p)
        else (Inr (), p\<lparr>ps_proofs := (ps_proofs p)(i \<mapsto>
           r\<lparr>pr_status := ProofRevoked, pr_revoked_at := ledger_timestamp e\<rparr>)\<rparr>)
    | _ \<Rightarrow> (Inl (ps_err ProofNotFound), p))"

definition ps_getter :: "'w proofs_spec \<Rightarrow> 'w ps_result" where
  "ps_getter p = ((if ps_setup p = None then Inl (Err (contract_error_code NotInitialized)) else Inr ()), p)"

fun ps_step :: "'w dependencies \<Rightarrow> env \<Rightarrow> pr_op \<Rightarrow> 'w proofs_spec \<Rightarrow> 'w ps_result" where
  "ps_step d e (PrInitialize a r c) p =
     (if ps_setup p \<noteq> None then (Inl (Err (contract_error_code AlreadyInitialized)), p)
      else if \<not> (is_valid_principal_address e a \<and> is_valid_principal_address e r \<and>
                 is_valid_principal_address e c \<and> distinct [r, c, current_contract_address e])
      then (Inl (Err (contract_error_code InvalidInput)), p)
      else if \<not> authorized e a then (Inl (AuthFailure a), p)
      else (Inr (), p\<lparr>ps_setup := Some \<lparr>su_admin = a, su_issuer_registry = r, su_protocol_config = c\<rparr>,
             ps_contract_version := 1\<rparr>))"
| "ps_step d e (PrRegisterProof i c a v x) p = ps_register d e i c a v x p"
| "ps_step d e (PrRevokeProof i) p = ps_revoke e i (\<lambda>r u. pr_issuer_address r) p"
| "ps_step d e (PrAdminRevokeProof i) p = ps_revoke e i (\<lambda>r u. su_admin u) p"
| "ps_step d e (PrGetProof i) p =
     ((if ps_proofs p i = None then Inl (ps_err ProofNotFound) else Inr ()), p)"
| "ps_step d e PrGetAdmin p = ps_getter p"
| "ps_step d e PrGetIssuerRegistry p = ps_getter p"
| "ps_step d e PrGetProtocolConfig p = ps_getter p"
| "ps_step d e (PrApproveUpgrade h v) p = ps_as_admin e p
     (if v \<le> ps_contract_version p
      then (Inl (Panic ''new_version must be greater than current contract version''), p)
      else (Inr (), p\<lparr>ps_allowed := (ps_allowed p)(h \<mapsto> v)\<rparr>))"
| "ps_step d e (PrRevokeUpgrade h) p = ps_as_admin e p
     (Inr (), p\<lparr>ps_allowed := (ps_allowed p)(h := None)\<rparr>)"
| "ps_step d e (PrUpgradeContract h) p = ps_as_admin e p
     (case ps_allowed p h of
        None \<Rightarrow> (Inl (Panic ''wasm hash not on allowlist''), p)
      | Some v \<Rightarrow>
          if v \<le> ps_contract_version p
          then (Inl (Panic ''upgrade would not advance contract version''), p)
          else if \<not> cfg_test e \<and> \<not> wasm_uploaded e h then (Inl HostTrap, p)
          else (Inr (), p\<lparr>ps_contract_version := v, ps_allowed := (ps_allowed p)(h := None)\<rparr>))"
| "ps_step d e _ p = (Inr (), p)"

fun ps_act :: "'w dependencies \<Rightarrow> env \<Rightarrow> 'w pr_action \<Rightarrow> 'w proofs_spec \<Rightarrow> 'w ps_result" where
  "ps_act d e (PrEntry op) p = ps_step d e op p"
| "ps_act d e (PrOthers f) p = (Inr (), p\<lparr>ps_others := f (ps_others p)\<rparr>)"

definition pr_setup :: "'w pr_state \<Rightarrow> setup_spec option" where
  "pr_setup s = map_option (\<lambda>a. \<lparr>su_admin = a, su_issuer_registry = the (pr_issuer_registry s),
     su_protocol_config = the (pr_protocol_config s)\<rparr>) (pr_admin s)"

definition pr_abs :: "'w pr_state \<Rightarrow> 'w proofs_spec" where
  "pr_abs s = \<lparr>ps_setup = pr_setup s, ps_proofs = pr_proof s,
     ps_contract_version = pr_contract_version s, ps_allowed = pr_allowed s, ps_others = others s\<rparr>"

section \<open>Views of updated storage\<close>

lemma pr_view_updates:
  "pr_admin (s\<lparr>inst := f\<rparr>) = Option.bind (f PrAdmin) as_address"
  "pr_issuer_registry (s\<lparr>inst := f\<rparr>) = Option.bind (f PrIssuerRegistry) as_address"
  "pr_protocol_config (s\<lparr>inst := f\<rparr>) = Option.bind (f PrProtocolConfig) as_address"
  "pr_contract_version (s\<lparr>inst := f\<rparr>) = unwrap_or 0 (Option.bind (f PrContractVersion) as_u32)"
  "pr_proof (s\<lparr>inst := f\<rparr>) = pr_proof s"
  "pr_admin (s\<lparr>pers := g\<rparr>) = pr_admin s"
  "pr_issuer_registry (s\<lparr>pers := g\<rparr>) = pr_issuer_registry s"
  "pr_protocol_config (s\<lparr>pers := g\<rparr>) = pr_protocol_config s"
  "pr_contract_version (s\<lparr>pers := g\<rparr>) = pr_contract_version s"
  "pr_allowed (s\<lparr>pers := g\<rparr>) = pr_allowed s"
  by (auto simp: pr_view_defs)

lemma pr_map_updates:
  "pr_allowed (s\<lparr>inst := f(PrAllowedWasm h \<mapsto> U32V v)\<rparr>) = (pr_allowed (s\<lparr>inst := f\<rparr>))(h \<mapsto> v)"
  "pr_allowed (s\<lparr>inst := f(PrAllowedWasm h := None)\<rparr>) = (pr_allowed (s\<lparr>inst := f\<rparr>))(h := None)"
  "pr_allowed (s\<lparr>inst := f(PrAdmin := x)\<rparr>) = pr_allowed (s\<lparr>inst := f\<rparr>)"
  "pr_allowed (s\<lparr>inst := f(PrIssuerRegistry := x)\<rparr>) = pr_allowed (s\<lparr>inst := f\<rparr>)"
  "pr_allowed (s\<lparr>inst := f(PrProtocolConfig := x)\<rparr>) = pr_allowed (s\<lparr>inst := f\<rparr>)"
  "pr_allowed (s\<lparr>inst := f(PrContractVersion := x)\<rparr>) = pr_allowed (s\<lparr>inst := f\<rparr>)"
  "pr_allowed (s\<lparr>inst := inst s\<rparr>) = pr_allowed s"
  "pr_proof (s\<lparr>pers := g(PrProof i \<mapsto> ProofV r)\<rparr>) = (pr_proof (s\<lparr>pers := g\<rparr>))(i \<mapsto> r)"
  "pr_proof (s\<lparr>pers := pers s\<rparr>) = pr_proof s"
  by (auto simp: pr_view_defs fun_eq_iff)

lemma pr_view_frames [simp]:
  "pr_admin (s\<lparr>inst_until := x0\<rparr>) = pr_admin s" "pr_admin (s\<lparr>pers_until := x1\<rparr>) = pr_admin s"
  "pr_admin (s\<lparr>events := x2\<rparr>) = pr_admin s" "pr_admin (s\<lparr>wasm := x3\<rparr>) = pr_admin s"
  "pr_admin (s\<lparr>others := x4\<rparr>) = pr_admin s"
  "pr_issuer_registry (s\<lparr>inst_until := x0\<rparr>) = pr_issuer_registry s"
  "pr_issuer_registry (s\<lparr>pers_until := x1\<rparr>) = pr_issuer_registry s"
  "pr_issuer_registry (s\<lparr>events := x2\<rparr>) = pr_issuer_registry s"
  "pr_issuer_registry (s\<lparr>wasm := x3\<rparr>) = pr_issuer_registry s"
  "pr_issuer_registry (s\<lparr>others := x4\<rparr>) = pr_issuer_registry s"
  "pr_protocol_config (s\<lparr>inst_until := x0\<rparr>) = pr_protocol_config s"
  "pr_protocol_config (s\<lparr>pers_until := x1\<rparr>) = pr_protocol_config s"
  "pr_protocol_config (s\<lparr>events := x2\<rparr>) = pr_protocol_config s"
  "pr_protocol_config (s\<lparr>wasm := x3\<rparr>) = pr_protocol_config s"
  "pr_protocol_config (s\<lparr>others := x4\<rparr>) = pr_protocol_config s"
  "pr_contract_version (s\<lparr>inst_until := x0\<rparr>) = pr_contract_version s"
  "pr_contract_version (s\<lparr>pers_until := x1\<rparr>) = pr_contract_version s"
  "pr_contract_version (s\<lparr>events := x2\<rparr>) = pr_contract_version s"
  "pr_contract_version (s\<lparr>wasm := x3\<rparr>) = pr_contract_version s"
  "pr_contract_version (s\<lparr>others := x4\<rparr>) = pr_contract_version s"
  "pr_allowed (s\<lparr>inst_until := x0\<rparr>) = pr_allowed s" "pr_allowed (s\<lparr>pers_until := x1\<rparr>) = pr_allowed s"
  "pr_allowed (s\<lparr>events := x2\<rparr>) = pr_allowed s" "pr_allowed (s\<lparr>wasm := x3\<rparr>) = pr_allowed s"
  "pr_allowed (s\<lparr>others := x4\<rparr>) = pr_allowed s"
  "pr_proof (s\<lparr>inst_until := x0\<rparr>) = pr_proof s" "pr_proof (s\<lparr>pers_until := x1\<rparr>) = pr_proof s"
  "pr_proof (s\<lparr>events := x2\<rparr>) = pr_proof s" "pr_proof (s\<lparr>wasm := x3\<rparr>) = pr_proof s"
  "pr_proof (s\<lparr>others := x4\<rparr>) = pr_proof s"
  by (auto simp: pr_view_defs fun_eq_iff)

lemmas pr_updates = pr_view_updates pr_map_updates

lemma pr_abs_simps [simp]:
  "ps_setup (pr_abs s) = pr_setup s" "ps_proofs (pr_abs s) = pr_proof s"
  "ps_contract_version (pr_abs s) = pr_contract_version s" "ps_allowed (pr_abs s) = pr_allowed s"
  "ps_others (pr_abs s) = others s"
  by (simp_all add: pr_abs_def)

lemma pr_setup_None [simp]: "pr_setup s = None \<longleftrightarrow> pr_admin s = None"
  by (simp add: pr_setup_def)

section \<open>Every entry point keeps the storage well-formed\<close>

lemmas pr_wf_inst = storage_ok_inst [OF pr_wf_def [THEN iffD1]]
lemmas pr_wf_pers = storage_ok_pers [OF pr_wf_def [THEN iffD1]]

lemma pr_stored:
  assumes "pr_wf s"
  shows "inst s PrAdmin = map_option AddressV (pr_admin s)"
    and "inst s PrIssuerRegistry = map_option AddressV (pr_issuer_registry s)"
    and "inst s PrProtocolConfig = map_option AddressV (pr_protocol_config s)"
    and "inst s (PrAllowedWasm h) = map_option U32V (pr_allowed s h)"
    and "pers s (PrProof i) = map_option ProofV (pr_proof s i)"
  unfolding pr_view_defs
  by (rule encoded_view; fastforce dest: pr_wf_inst [OF assms] pr_wf_pers [OF assms] split: option.splits)+

lemma pr_stored_uninit:
  assumes "pr_wf s" and "pr_admin s = None"
  shows "inst s k = None" "pers s k = None"
  using storage_ok_uninit [OF pr_wf_def [THEN iffD1, OF assms(1)]] pr_stored(1) [OF assms(1)] assms(2)
  by simp_all

lemma pr_stored_init:
  assumes "pr_wf s" and "pr_admin s = Some a"
  shows "inst s PrContractVersion = Some (U32V (pr_contract_version s))"
    and "pr_issuer_registry s = Some (the (pr_issuer_registry s))"
    and "pr_protocol_config s = Some (the (pr_protocol_config s))"
proof -
  have req: "inst s k \<noteq> None" if "k \<in> {PrIssuerRegistry, PrProtocolConfig, PrContractVersion}" for k
    using storage_ok_required [OF pr_wf_def [THEN iffD1, OF assms(1)] _ that]
      pr_stored(1) [OF assms(1)] assms(2) by simp
  then obtain v where *: "inst s PrContractVersion = Some v" by auto
  then show "inst s PrContractVersion = Some (U32V (pr_contract_version s))"
    using pr_wf_inst [OF assms(1) *] by (auto simp: pr_contract_version_def)
  show "pr_issuer_registry s = Some (the (pr_issuer_registry s))"
    and "pr_protocol_config s = Some (the (pr_protocol_config s))"
    using req [of PrIssuerRegistry] req [of PrProtocolConfig] pr_stored(2,3) [OF assms(1)] by auto
qed

lemma pr_views_uninit:
  assumes "pr_wf s" and "pr_admin s = None"
  shows "pr_contract_version s = 0" "pr_proof s = (\<lambda>_. None)" "pr_allowed s = (\<lambda>_. None)"
    "pr_issuer_registry s = None" "pr_protocol_config s = None"
  using pr_stored_uninit [OF assms] by (auto simp: pr_view_defs)

lemma pr_proof_ok: "pr_wf s \<Longrightarrow> pr_proof s i = Some r \<Longrightarrow> proof_ok i r"
  using pr_wf_pers [of s "PrProof i" "ProofV r"] pr_stored(5) [of s i] by simp

definition fresh_registry :: "u32 \<Rightarrow> bytes32 \<Rightarrow> 'w \<Rightarrow> 'w pr_state" where
  "fresh_registry lu w x = contract_state.extend (fresh_contract lu w) (pr_state.fields x)"

lemma fresh_registry_simps [simp]:
  "inst (fresh_registry lu w x) = (\<lambda>_. None)" "inst_until (fresh_registry lu w x) = lu"
  "pers (fresh_registry lu w x) = (\<lambda>_. None)" "pers_until (fresh_registry lu w x) = (\<lambda>_. 0)"
  "events (fresh_registry lu w x) = []" "wasm (fresh_registry lu w x) = w" "others (fresh_registry lu w x) = x"
  by (simp_all add: fresh_registry_def fresh_contract_def contract_state.defs pr_state.defs)

lemma pr_wf_fresh: "pr_wf (fresh_registry lu w x)"
  by (simp add: pr_wf_def storage_ok_empty)

lemma pr_ok_initialized:
  "storage_ok pr_inst_ok pr_pers_ok PrAdmin {PrIssuerRegistry, PrProtocolConfig, PrContractVersion}
     [PrAdmin \<mapsto> AddressV a, PrIssuerRegistry \<mapsto> AddressV r, PrProtocolConfig \<mapsto> AddressV c, PrContractVersion \<mapsto> U32V 1]
     (\<lambda>_. None)"
  by (auto simp: storage_ok_def split: if_splits)

lemma pr_call_wf_uninit:
  assumes "pr_wf s" "pr_admin s = None" "pr_call d e op s = (Inr (), s')"
  shows "pr_wf s'"
proof -
  have "inst s = (\<lambda>_. None)" "pers s = (\<lambda>_. None)"
    using pr_stored_uninit [OF assms(1,2)] by auto
  then show ?thesis
    using assms
    by (cases op) (auto simp: pr_defs run pr_stored_uninit Let_def pr_wf_def pr_ok_initialized split: if_splits)
qed

lemma pr_call_wf_init:
  assumes "pr_wf s" "pr_admin s = Some a" "pr_issuer_registry s = Some ir" "pr_protocol_config s = Some pc"
    and "pr_call d e op s = (Inr (), s')"
  shows "pr_wf s'"
proof -
  have ok: "storage_ok pr_inst_ok pr_pers_ok PrAdmin {PrIssuerRegistry, PrProtocolConfig, PrContractVersion}
     (inst s) (pers s)" using assms(1) by (simp add: pr_wf_def)
  show ?thesis unfolding pr_wf_def
    using assms ok pr_proof_ok [OF assms(1)]
    by (cases op) (auto simp: pr_defs run pr_stored pr_stored_init(1) Let_def nonzero_facts proof_ok_def not_le
        split: if_splits option.splits intro!: wf_intro)
qed

lemma pr_call_wf: "pr_wf s \<Longrightarrow> pr_call d e op s = (Inr (), s') \<Longrightarrow> pr_wf s'"
  using pr_call_wf_uninit pr_call_wf_init pr_stored_init(2,3) by (metis option.exhaust)

section \<open>Every entry point implements the specification\<close>

lemmas ps_defs = ps_as_admin_def ps_register_def ps_revoke_def ps_getter_def ps_gate_def

lemma pr_call_refines_uninit:
  assumes "pr_wf s" "pr_admin s = None"
  shows "map_prod id pr_abs (invoke (pr_call d e op) s) = ps_step d e op (pr_abs s)"
  using assms
  by (cases op) (simp_all add: pr_defs run invoke_def pr_stored_uninit pr_views_uninit ps_defs Let_def pr_abs_def
     pr_setup_def pr_updates)

lemma pr_call_refines_init:
  assumes "pr_wf s" "pr_admin s = Some a" "pr_issuer_registry s = Some ir" "pr_protocol_config s = Some pc"
  shows "map_prod id pr_abs (invoke (pr_call d e op) s) = ps_step d e op (pr_abs s)"
  using assms
  by (cases op) (auto simp: pr_defs run invoke_def pr_stored pr_stored_init(1) ps_defs Let_def pr_abs_def
     pr_setup_def pr_updates split: option.split)

lemma pr_call_refines:
  "pr_wf s \<Longrightarrow> map_prod id pr_abs (invoke (pr_call d e op) s) = ps_step d e op (pr_abs s)"
  using pr_call_refines_uninit pr_call_refines_init pr_stored_init(2,3) by (metis option.exhaust)

lemma pr_call_commits:
  assumes "pr_wf s" and "pr_call d e op s = (Inr (), s')"
  shows "ps_step d e op (pr_abs s) = (Inr (), pr_abs s')"
  using pr_call_refines [OF assms(1), of d e op] assms(2) by (simp add: invoke_def)

section \<open>What the registry relies on of the other contracts\<close>

definition gate_answer :: "bool \<Rightarrow> bool \<Rightarrow> bool \<Rightarrow> 'w \<Rightarrow> u32 abort + 'w" where
  "gate_answer paused approved active w =
     (if paused then Inl (ps_err InvalidSchemaVersion)
      else if \<not> approved then Inl (ps_err SchemaVersionNotApproved)
      else if \<not> active then Inl (ps_err InvalidSchemaVersion)
      else Inr w)"

text \<open>
  The contract of the two client traits. Where a protocol-config answers at an address, its two
  reads return what it holds; where an issuer-registry answers, its read returns whether the
  address is active; and a read changes nothing that any of these questions can observe
  (\<open>same\<close>).
\<close>

locale proof_dependencies =
  fixes d :: "'w dependencies"
    and config_at :: "address \<Rightarrow> 'w \<Rightarrow> bool" and registry_at :: "address \<Rightarrow> 'w \<Rightarrow> bool"
    and paused :: "address \<Rightarrow> 'w \<Rightarrow> bool" and approved :: "address \<Rightarrow> u32 \<Rightarrow> 'w \<Rightarrow> bool"
    and active :: "address \<Rightarrow> address \<Rightarrow> 'w \<Rightarrow> bool" and same :: "'w \<Rightarrow> 'w \<Rightarrow> bool"
  assumes paused_read: "config_at a w \<Longrightarrow> \<exists>w'. dep_is_paused d e a w = Some (paused a w, w') \<and> same w w'"
    and approved_read: "config_at a w \<Longrightarrow>
      \<exists>w'. dep_is_schema_version_approved d e a v w = Some (approved a v w, w') \<and> same w w'"
    and active_read: "registry_at a w \<Longrightarrow>
      \<exists>w'. dep_is_active_address d e a b w = Some (active a b w, w') \<and> same w w'"
    and same_observers: "same w w' \<Longrightarrow> config_at a w' = config_at a w \<and> registry_at a w' = registry_at a w \<and>
      paused a w' = paused a w \<and> approved a v w' = approved a v w \<and> active a b w' = active a b w"
    and same_refl: "same w w"
    and same_trans: "same w w' \<Longrightarrow> same w' w'' \<Longrightarrow> same w w''"
begin

lemma gate_answers:
  assumes "config_at (su_protocol_config u) w" and "registry_at (su_issuer_registry u) w"
  obtains w' where "same w w'" and "ps_gate d e u a v w = gate_answer (paused (su_protocol_config u) w)
      (approved (su_protocol_config u) v w) (active (su_issuer_registry u) a w) w'"
proof -
  obtain w1 where w1: "dep_is_paused d e (su_protocol_config u) w = Some (paused (su_protocol_config u) w, w1)" "same w w1"
    using paused_read [OF assms(1)] by blast
  note o1 = same_observers [OF w1(2)]
  obtain w2 where w2: "dep_is_schema_version_approved d e (su_protocol_config u) v w1 =
      Some (approved (su_protocol_config u) v w, w2)" "same w1 w2"
    using approved_read [of "su_protocol_config u" w1 e v] assms(1) o1 by auto
  note o2 = same_observers [OF w2(2)]
  obtain w3 where w3: "dep_is_active_address d e (su_issuer_registry u) a w2 =
      Some (active (su_issuer_registry u) a w, w3)" "same w2 w3"
    using active_read [of "su_issuer_registry u" w2 e a] assms(2) o1 o2 by auto
  have "same w w3"
    using same_trans w1(2) w2(2) w3(2) by blast
  then show ?thesis
    by (rule that) (simp add: ps_gate_def gate_answer_def w1(1) w2(1) w3(1))
qed

text \<open>When \<open>register_proof\<close> commits, that a failure is never a trap, and that a committed
  registration leaves the other contracts as they were.\<close>

lemma register_outcome:
  assumes "pr_wf s" and "pr_setup s = Some u"
    and "config_at (su_protocol_config u) (others s)" and "registry_at (su_issuer_registry u) (others s)"
  shows "fst (invoke (pr_call d e (PrRegisterProof i c a v x)) s) = Inr () \<longleftrightarrow>
     is_valid_principal_address e a \<and>
     a \<notin> {current_contract_address e, su_protocol_config u, su_issuer_registry u} \<and> authorized e a \<and>
     v \<noteq> 0 \<and> ledger_timestamp e < x \<and> \<not> paused (su_protocol_config u) (others s) \<and>
     approved (su_protocol_config u) v (others s) \<and> active (su_issuer_registry u) a (others s) \<and>
     pr_proof s i = None"
    and "fst (invoke (pr_call d e (PrRegisterProof i c a v x)) s) \<noteq> Inl HostTrap"
    and "same (others s) (others (snd (invoke (pr_call d e (PrRegisterProof i c a v x)) s)))"
proof -
  obtain w' where w': "same (others s) w'" "ps_gate d e u a v (others s) =
      gate_answer (paused (su_protocol_config u) (others s)) (approved (su_protocol_config u) v (others s))
        (active (su_issuer_registry u) a (others s)) w'"
    using gate_answers [OF assms(3,4)] by metis
  note ref = pr_call_refines [OF assms(1), of d e "PrRegisterProof i c a v x"]
  have out: "fst (invoke (pr_call d e (PrRegisterProof i c a v x)) s) = fst (ps_register d e i c a v x (pr_abs s))"
    and oth: "others (snd (invoke (pr_call d e (PrRegisterProof i c a v x)) s)) =
      ps_others (snd (ps_register d e i c a v x (pr_abs s)))"
    using ref by (simp_all add: prod_eq_iff, metis pr_abs_simps(5))
  show "fst (invoke (pr_call d e (PrRegisterProof i c a v x)) s) = Inr () \<longleftrightarrow>
     is_valid_principal_address e a \<and>
     a \<notin> {current_contract_address e, su_protocol_config u, su_issuer_registry u} \<and> authorized e a \<and>
     v \<noteq> 0 \<and> ledger_timestamp e < x \<and> \<not> paused (su_protocol_config u) (others s) \<and>
     approved (su_protocol_config u) v (others s) \<and> active (su_issuer_registry u) a (others s) \<and>
     pr_proof s i = None"
    unfolding out using assms(2) w'(2) by (auto simp: ps_register_def gate_answer_def not_le)
  show "fst (invoke (pr_call d e (PrRegisterProof i c a v x)) s) \<noteq> Inl HostTrap"
    unfolding out using assms(2) w'(2) by (auto simp: ps_register_def gate_answer_def)
  show "same (others s) (others (snd (invoke (pr_call d e (PrRegisterProof i c a v x)) s)))"
    unfolding oth using assms(2) w' same_refl by (auto simp: ps_register_def gate_answer_def)
qed

end

section \<open>Interpretations\<close>

definition pr_approves :: "'w pr_action \<Rightarrow> (bytes32 \<times> u32) option" where
  "pr_approves act = (case act of PrEntry (PrApproveUpgrade h v) \<Rightarrow> Some (h, v) | _ \<Rightarrow> None)"

definition pr_installs :: "'w pr_action \<Rightarrow> bytes32 option" where
  "pr_installs act = (case act of PrEntry (PrUpgradeContract h) \<Rightarrow> Some h | _ \<Rightarrow> None)"

lemma pr_act_wf: "pr_wf s \<Longrightarrow> pr_act d e act s = (Inr (), s') \<Longrightarrow> pr_wf s'"
  by (cases act) (simp_all add: pr_call_wf, auto simp: pr_wf_def)

lemma pr_act_refines:
  "pr_wf s \<Longrightarrow> map_prod id pr_abs (invoke (pr_act d e act) s) = ps_act d e act (pr_abs s)"
  by (cases act) (simp_all add: pr_call_refines, simp add: invoke_def pr_abs_def pr_setup_def)

lemma pr_act_commits:
  assumes "pr_wf s" and "pr_act d e act s = (Inr (), s')"
  shows "ps_act d e act (pr_abs s) = (Inr (), pr_abs s')"
  using pr_act_refines [OF assms(1), of d e act] assms(2) by (simp add: invoke_def)

interpretation prm: contract_refinement "pr_act d" pr_wf pr_abs "ps_act d" for d
  by unfold_locales (auto dest: pr_act_wf simp: pr_act_refines)

fun pr_reads :: "pr_op \<Rightarrow> bool" where
  "pr_reads (PrInitialize a r c) = False"
| "pr_reads (PrRegisterProof i c a v x) = False"
| "pr_reads (PrRevokeProof i) = False"
| "pr_reads (PrAdminRevokeProof i) = False"
| "pr_reads (PrApproveUpgrade h v) = False"
| "pr_reads (PrRevokeUpgrade h) = False"
| "pr_reads (PrUpgradeContract h) = False"
| "pr_reads _ = True"

text \<open>Case analysis on what an action does to the abstract registry.\<close>

lemma ps_act_cases:
  assumes "ps_act d e act c = (Inr (), c')"
  obtains (others) f where "act = PrOthers f" "c' = c\<lparr>ps_others := f (ps_others c)\<rparr>"
  | (unchanged) op where "act = PrEntry op" "pr_reads op" "c' = c"
  | (initialized) a r p where "act = PrEntry (PrInitialize a r p)" "ps_setup c = None" "authorized e a"
      "c' = c\<lparr>ps_setup := Some \<lparr>su_admin = a, su_issuer_registry = r, su_protocol_config = p\<rparr>, ps_contract_version := 1\<rparr>"
  | (registered) i m a v x w u where "act = PrEntry (PrRegisterProof i m a v x)" "ps_setup c = Some u"
      "authorized e a" "ps_gate d e u a v (ps_others c) = Inr w" "ps_proofs c i = None"
      "a \<notin> {current_contract_address e, su_protocol_config u, su_issuer_registry u}"
      "c' = c\<lparr>ps_proofs := (ps_proofs c)(i \<mapsto>
          \<lparr>pr_proof_id_hash = i, pr_commitment_hash = m, pr_issuer_address = a, pr_status = ProofActive,
           pr_schema_version = v, pr_expires_at = x, pr_created_at = ledger_timestamp e, pr_revoked_at = 0\<rparr>),
        ps_others := w\<rparr>"
  | (revoked) i r u where "act = PrEntry (PrRevokeProof i) \<and> authorized e (pr_issuer_address r) \<or>
        act = PrEntry (PrAdminRevokeProof i) \<and> authorized e (su_admin u)"
      "ps_setup c = Some u" "ps_proofs c i = Some r" "pr_status r = ProofActive"
      "c' = c\<lparr>ps_proofs := (ps_proofs c)(i \<mapsto> r\<lparr>pr_status := ProofRevoked, pr_revoked_at := ledger_timestamp e\<rparr>)\<rparr>"
  | (approved) h v u where "act = PrEntry (PrApproveUpgrade h v)" "ps_setup c = Some u" "authorized e (su_admin u)"
      "ps_contract_version c < v" "c' = c\<lparr>ps_allowed := (ps_allowed c)(h \<mapsto> v)\<rparr>"
  | (withdrawn) h u where "act = PrEntry (PrRevokeUpgrade h)" "ps_setup c = Some u" "authorized e (su_admin u)"
      "c' = c\<lparr>ps_allowed := (ps_allowed c)(h := None)\<rparr>"
  | (upgraded) h v u where "act = PrEntry (PrUpgradeContract h)" "ps_setup c = Some u" "authorized e (su_admin u)"
      "ps_allowed c h = Some v" "ps_contract_version c < v"
      "c' = c\<lparr>ps_contract_version := v, ps_allowed := (ps_allowed c)(h := None)\<rparr>"
proof (cases act)
  case (PrOthers f)
  with assms that(1) show ?thesis by auto
next
  case (PrEntry op)
  have status: "st \<noteq> ProofRevoked \<Longrightarrow> st = ProofActive" for st by (cases st) auto
  show ?thesis
  proof (cases op)
    case (PrInitialize a r p)
    with PrEntry assms that(3) show ?thesis by (auto split: if_splits)
  next
    case (PrRegisterProof i m a v x)
    with PrEntry assms that(4) show ?thesis
      by (auto simp: ps_register_def split: if_splits option.splits sum.splits)
  next
    case (PrRevokeProof i)
    with PrEntry assms that(5) show ?thesis
      by (auto simp: ps_revoke_def dest: status split: if_splits option.splits)
  next
    case (PrAdminRevokeProof i)
    with PrEntry assms that(5) show ?thesis
      by (auto simp: ps_revoke_def dest: status split: if_splits option.splits)
  next
    case (PrApproveUpgrade h v)
    with PrEntry assms that(6) show ?thesis
      by (auto simp: ps_as_admin_def not_le split: if_splits option.splits)
  next
    case (PrRevokeUpgrade h)
    with PrEntry assms that(7) show ?thesis
      by (auto simp: ps_as_admin_def split: if_splits option.splits)
  next
    case (PrUpgradeContract h)
    with PrEntry assms that(8) show ?thesis
      by (auto simp: ps_as_admin_def not_le split: if_splits option.splits)
  qed (use PrEntry assms that(2) in \<open>auto simp: ps_getter_def split: if_splits\<close>)
qed

lemma pr_abs_uninit_version: "pr_wf s \<Longrightarrow> ps_setup (pr_abs s) = None \<Longrightarrow> ps_contract_version (pr_abs s) = 0"
  by (simp add: pr_views_uninit)

lemma pr_op_kinds:
  "pr_installs (PrEntry op) = Some h \<longleftrightarrow> op = PrUpgradeContract h"
  "pr_approves (PrEntry op) = Some (h, v) \<longleftrightarrow> op = PrApproveUpgrade h v"
  "pr_installs (PrOthers f) = None" "pr_approves (PrOthers f) = None"
  by (cases op; simp add: pr_installs_def pr_approves_def)+

interpretation pru: upgrade_governance "pr_act d" pr_wf pr_contract_version pr_allowed pr_approves pr_installs for d
proof unfold_locales
  fix s s' e act h v
  assume *: "pr_wf s" "pr_act d e act s = (Inr (), s')"
  note c = pr_act_commits [OF *]
  note z = pr_abs_uninit_version [OF *(1)]
  have eq: "pr_contract_version s' = ps_contract_version (pr_abs s')" "pr_allowed s' = ps_allowed (pr_abs s')" by simp_all
  show "pr_installs act = Some h \<Longrightarrow> \<exists>v. pr_allowed s h = Some v \<and> pr_contract_version s < v \<and>
      pr_contract_version s' = v \<and> pr_allowed s' = (pr_allowed s)(h := None)"
    unfolding eq by (rule ps_act_cases [OF c]) (auto simp: pr_op_kinds)
  show "pr_installs act = None \<Longrightarrow> pr_contract_version s \<le> pr_contract_version s'"
    unfolding eq using z by (cases rule: ps_act_cases [OF c]) (auto simp: pr_op_kinds)
  show "pr_allowed s' h = Some v \<Longrightarrow> pr_allowed s h = Some v \<or>
      pr_approves act = Some (h, v) \<and> pr_contract_version s < v"
    unfolding eq by (rule ps_act_cases [OF c]) (auto simp: pr_op_kinds split: if_splits)
qed

section \<open>Events\<close>

definition pr_new_events :: "'w pr_action \<Rightarrow> 'w pr_state \<Rightarrow> pr_event list" where
  "pr_new_events act s = (case act of
      PrEntry (PrApproveUpgrade h v) \<Rightarrow> [EvPrUpgradeAllowlisted h v (the (pr_admin s))]
    | PrEntry (PrRevokeUpgrade h) \<Rightarrow> [EvPrUpgradeRevoked h (the (pr_admin s))]
    | PrEntry (PrUpgradeContract h) \<Rightarrow>
        [EvPrContractUpgraded h (pr_contract_version s) (the (pr_allowed s h)) (the (pr_admin s))]
    | _ \<Rightarrow> [])"

lemma pr_reads_events: "pr_reads op \<Longrightarrow> pr_new_events (PrEntry op) s = []"
  by (cases op) (simp_all add: pr_new_events_def)

lemma pr_call_events:
  assumes "pr_wf s" and "pr_call d e op s = (Inr (), s')"
  shows "events s' = events s @ pr_new_events (PrEntry op) s"
proof (cases "pr_admin s")
  case None
  then show ?thesis
    using assms by (cases op) (auto simp: pr_defs run pr_stored_uninit pr_new_events_def Let_def split: if_splits)
next
  case (Some a)
  then show ?thesis
    using assms pr_stored_init(1) [OF assms(1) Some] by (cases op)
     (auto simp: pr_defs run pr_stored pr_new_events_def Let_def split: if_splits option.splits)
qed

lemma pr_act_events:
  assumes "pr_wf s" and "pr_act d e act s = (Inr (), s')"
  shows "events s' = events s @ pr_new_events act s"
proof (cases act)
  case (PrEntry op)
  then show ?thesis using pr_call_events assms by simp
next
  case (PrOthers f)
  with assms(2) show ?thesis by (auto simp: pr_new_events_def)
qed

text \<open>What an indexer can keep of the proof registry: the allowlist and the version. Proof
  records are not announced by events.\<close>

type_synonym upgrade_journal = "u32 \<times> (bytes32 \<Rightarrow> u32 option)"

definition pj_view :: "'w pr_state \<Rightarrow> upgrade_journal" where
  "pj_view s = (max 1 (pr_contract_version s), pr_allowed s)"

fun pj_apply_event :: "pr_event \<Rightarrow> upgrade_journal \<Rightarrow> upgrade_journal" where
  "pj_apply_event (EvPrUpgradeAllowlisted h v by_admin) (n, m) = (n, m(h \<mapsto> v))"
| "pj_apply_event (EvPrUpgradeRevoked h by_admin) (n, m) = (n, m(h := None))"
| "pj_apply_event (EvPrContractUpgraded h old_version new_version by_admin) (n, m) = (new_version, m(h := None))"

lemma max_one_above: "(v :: u32) < n \<Longrightarrow> max 1 n = n"
  by (simp add: max_def word_le_nat_alt word_less_nat_alt)

interpretation prj: event_journal "pr_act d" pr_wf events pj_view pj_apply_event for d
proof unfold_locales
  fix s s' e act
  assume *: "pr_wf s" "pr_act d e act s = (Inr (), s')"
  have "pj_view s = (max 1 (ps_contract_version (pr_abs s)), ps_allowed (pr_abs s))"
    and "pj_view s' = (max 1 (ps_contract_version (pr_abs s')), ps_allowed (pr_abs s'))"
    by (simp_all add: pj_view_def)
  then have "pj_view s' = fold pj_apply_event (pr_new_events act s) (pj_view s)"
    using pr_abs_uninit_version [OF *(1)]
    by (cases rule: ps_act_cases [OF pr_act_commits [OF *]])
      (auto simp: pr_reads_events, auto simp: pr_new_events_def max_one_above)
  moreover have "length (pr_new_events act s) \<le> 1"
    by (simp add: pr_new_events_def split: pr_action.split pr_op.split)
  ultimately show "\<exists>new. events s' = events s @ new \<and> length new \<le> 1 \<and>
     pj_view s' = fold pj_apply_event new (pj_view s)"
    using pr_act_events [OF *] by blast
qed
section \<open>Reads\<close>

definition proof_touched :: "env \<Rightarrow> bytes32 \<Rightarrow> 'w pr_state \<Rightarrow> 'w pr_state" where
  "proof_touched e i s = s\<lparr>pers_until := (pers_until s)(PrProof i := ttl_extend e TTL_THRESHOLD_LEDGERS
     TTL_EXTEND_TO_LEDGERS (pers_until s (PrProof i)))\<rparr>"

lemma proof_touched_views [simp]:
  "pr_proof (proof_touched e i s) = pr_proof s" "pr_abs (proof_touched e i s) = pr_abs s"
  "events (proof_touched e i s) = events s" "others (proof_touched e i s) = others s"
  by (simp_all add: proof_touched_def pr_abs_def pr_setup_def)

lemma get_proof_read:
  "pr_wf s \<Longrightarrow> get_proof e i s = (case pr_proof s i of
      None \<Rightarrow> (Inl (Err ProofNotFound), s)
    | Some r \<Rightarrow> (Inr r, proof_touched e i s))"
  by (simp add: get_proof_def run pr_stored extend_proof_key_ttl_def proof_touched_def split: option.split)

definition valid_at :: "u64 \<Rightarrow> proof_record option \<Rightarrow> bool" where
  "valid_at now p = (case p of None \<Rightarrow> False | Some r \<Rightarrow> pr_status r = ProofActive \<and> now \<le> pr_expires_at r)"

lemma is_valid_proof_read:
  "pr_wf s \<Longrightarrow> is_valid_proof e i s = (Inr (valid_at (ledger_timestamp e) (pr_proof s i)),
     if pr_proof s i = None then s else proof_touched e i s)"
  by (auto simp: is_valid_proof_def run get_proof_read valid_at_def split: option.split)

lemma is_revoked_read:
  "pr_wf s \<Longrightarrow> is_revoked e i s = (Inr (map_option pr_status (pr_proof s i) = Some ProofRevoked),
     if pr_proof s i = None then s else proof_touched e i s)"
  by (auto simp: is_revoked_def run get_proof_read split: option.split)

section \<open>Helper lemmas of the properties\<close>

abbreviation pr_after :: "'w dependencies \<Rightarrow> (env \<times> 'w pr_action) list \<Rightarrow> u32 \<Rightarrow> bytes32 \<Rightarrow> 'w \<Rightarrow> 'w pr_state" where
  "pr_after d h lu w x \<equiv> run_calls (pr_act d) h (fresh_registry lu w x)"

lemma pr_after_wf: "pr_wf (pr_after d h lu w x)"
  by (rule prm.run_wf [OF pr_wf_fresh])

definition ps_empty :: "'w \<Rightarrow> 'w proofs_spec" where
  "ps_empty x = \<lparr>ps_setup = None, ps_proofs = (\<lambda>_. None), ps_contract_version = 0, ps_allowed = (\<lambda>_. None),
     ps_others = x\<rparr>"

lemma pr_abs_fresh [simp]: "pr_abs (fresh_registry lu w x) = ps_empty x"
  by (simp add: pr_abs_def ps_empty_def pr_view_defs pr_setup_def fun_eq_iff)

text \<open>How a stored proof may change: not at all, or from active to revoked.\<close>

definition proof_evolves :: "proof_record \<Rightarrow> proof_record \<Rightarrow> bool" where
  "proof_evolves r r' \<longleftrightarrow> r' = r \<or> pr_status r = ProofActive \<and>
     r' = r\<lparr>pr_status := ProofRevoked, pr_revoked_at := pr_revoked_at r'\<rparr>"

lemma proof_evolves_trans: "proof_evolves r r' \<Longrightarrow> proof_evolves r' r'' \<Longrightarrow> proof_evolves r r''"
  unfolding proof_evolves_def
  by (metis proof_record.select_convs(4) proof_record.surjective proof_record.update_convs(4)
      proof_record.update_convs(8) proof_status.distinct(1))

lemma pr_act_proof:
  assumes "pr_wf s" and "pr_act d e act s = (Inr (), s')" and "pr_proof s i = Some r"
  shows "\<exists>r'. pr_proof s' i = Some r' \<and> proof_evolves r r'"
proof -
  have "pr_proof s' = ps_proofs (pr_abs s')" "ps_proofs (pr_abs s) i = Some r"
    using assms(3) by simp_all
  then show ?thesis
    by (cases rule: ps_act_cases [OF pr_act_commits [OF assms(1,2)]]) (auto simp: proof_evolves_def)
qed

lemma pr_run_proof:
  assumes "pr_wf s" and "pr_proof s i = Some r"
  shows "\<exists>r'. pr_proof (run_calls (pr_act d) h s) i = Some r' \<and> proof_evolves r r'"
proof -
  let ?R = "\<lambda>s t. \<forall>r. pr_proof s i = Some r \<longrightarrow> (\<exists>r'. pr_proof t i = Some r' \<and> proof_evolves r r')"
  have "?R s (run_calls (pr_act d) h s)"
  proof (rule prm.run_respects [where R = ?R])
    show "?R s s'" if "pr_wf s" and "pr_act d e act s = (Inr (), s')" for s e act s'
      using pr_act_proof [OF that] by blast
    show "?R s u" if "?R s t" and "?R t u" for s t u
      using that proof_evolves_trans by blast
  qed (use assms in \<open>auto simp: proof_evolves_def\<close>)
  with assms(2) show ?thesis by blast
qed

lemma valid_at_evolves:
  "proof_evolves r r' \<Longrightarrow> valid_at now' (Some r') \<Longrightarrow> now \<le> now' \<Longrightarrow> valid_at now (Some r)"
  unfolding proof_evolves_def valid_at_def by (auto; metis proof_record.select_convs(4) proof_record.surjective
    proof_record.update_convs(4) proof_record.update_convs(8) proof_status.distinct(1))

lemma pr_call_err_state: "pr_call d e op s = (Inl (Err x), t) \<Longrightarrow> t = s\<lparr>others := others t\<rparr>"
  by (cases op) (auto simp: pr_defs run Let_def split: if_splits option.splits prod.splits)

lemma pr_call_auth_state: "pr_call d e op s = (Inl (AuthFailure a), t) \<Longrightarrow> t = s"
  by (cases op) (auto simp: pr_defs run Let_def split: if_splits option.splits prod.splits)

lemma pr_act_setup:
  assumes "pr_wf s" and "pr_act d e act s = (Inr (), s')" and "pr_setup s = Some u"
  shows "pr_setup s' = Some u"
proof -
  have "pr_setup s' = ps_setup (pr_abs s')" "ps_setup (pr_abs s) = Some u"
    using assms(3) by simp_all
  then show ?thesis
    by (cases rule: ps_act_cases [OF pr_act_commits [OF assms(1,2)]]) auto
qed

lemma pr_run_setup:
  assumes "pr_wf s" and "pr_setup s = Some u"
  shows "pr_setup (run_calls (pr_act d) h s) = Some u"
proof -
  have "pr_setup s = Some u \<longrightarrow> pr_setup (run_calls (pr_act d) h s) = Some u"
  proof (rule prm.run_respects [where R = "\<lambda>s t. pr_setup s = Some u \<longrightarrow> pr_setup t = Some u"])
    show "pr_setup s = Some u \<longrightarrow> pr_setup s' = Some u" if "pr_wf s" and "pr_act d e act s = (Inr (), s')" for s e act s'
      using pr_act_setup [OF that] by blast
  qed (use assms in auto)
  with assms(2) show ?thesis by blast
qed

text \<open>Evaluation of concrete histories, with dependencies that answer from constants.\<close>

lemmas pr_eval = pr_defs run invoke_def Let_def word_le_nat_alt word_less_nat_alt

definition sample_deps :: "unit dependencies" where
  "sample_deps = \<lparr>dep_is_paused = (\<lambda>e a w. Some (False, w)),
     dep_is_schema_version_approved = (\<lambda>e a v w. Some (v = 1, w)),
     dep_is_active_address = (\<lambda>e a b w. Some (b = Address 104, w))\<rparr>"

lemma sample_deps_simps [simp]:
  "dep_is_paused sample_deps e a w = Some (False, w)"
  "dep_is_schema_version_approved sample_deps e a v w = Some (v = 1, w)"
  "dep_is_active_address sample_deps e a b w = Some (b = Address 104, w)"
  by (simp_all add: sample_deps_def)

definition sample_proofs :: "(env \<times> unit pr_action) list" where
  "sample_proofs = [(sample_env, PrEntry (PrInitialize (Address 101) (Address 102) (Address 103))),
     (sample_env, PrEntry (PrRegisterProof 41 51 (Address 104) 1 2000)),
     (sample_env, PrEntry (PrApproveUpgrade 7 2))]"

abbreviation sample_pr :: "unit pr_state" where
  "sample_pr \<equiv> pr_after sample_deps sample_proofs 0 0 ()"

definition sample_proof :: proof_record where
  "sample_proof = \<lparr>pr_proof_id_hash = 41, pr_commitment_hash = 51, pr_issuer_address = Address 104,
     pr_status = ProofActive, pr_schema_version = 1, pr_expires_at = 2000, pr_created_at = 1000, pr_revoked_at = 0\<rparr>"

definition sample_setup :: setup_spec where
  "sample_setup = \<lparr>su_admin = Address 101, su_issuer_registry = Address 102, su_protocol_config = Address 103\<rparr>"

lemma sample_pr_views:
  "pr_proof sample_pr 41 = Some sample_proof" "pr_setup sample_pr = Some sample_setup"
  by (simp_all add: sample_proofs_def pr_eval pr_view_defs pr_setup_def sample_proof_def sample_setup_def)

definition late_env :: env where
  "late_env = sample_env\<lparr>ledger_timestamp := 2001\<rparr>"

definition later_env :: env where
  "later_env = sample_env\<lparr>ledger_timestamp := 3000\<rparr>"

section \<open>Properties\<close>

text \<open>
  C3: for every behaviour of the two called contracts and every history of invocations and
  moves of the other contracts, proof-registry has exactly the outcomes and ends in exactly
  the registry (setup, proofs, version, allowlist) that the abstract specification \<open>ps_act\<close>
  prescribes.
\<close>

theorem proofs_history_refines_spec:
  "(outcomes (pr_act d) h (fresh_registry lu w x), pr_abs (pr_after d h lu w x)) =
     run_spec (ps_act d) h (ps_empty x)"
  using prm.run_refines [OF pr_wf_fresh, of d h lu w x] by simp

text \<open>
  C10: a stored proof never changes except once, from active to revoked: after any further
  history its record is the same, or it was active and differs in the status and the
  revocation time only; commitment, issuer, schema, expiry and creation time are immutable and
  no record is ever deleted.
\<close>

theorem proof_records_are_immutable:
  assumes "pr_proof (pr_after d h lu w x) i = Some r"
  shows "pr_proof (run_calls (pr_act d) h' (pr_after d h lu w x)) i = Some r \<or>
     pr_status r = ProofActive \<and> (\<exists>t. pr_proof (run_calls (pr_act d) h' (pr_after d h lu w x)) i =
        Some (r\<lparr>pr_status := ProofRevoked, pr_revoked_at := t\<rparr>))"
  using pr_run_proof [OF pr_after_wf assms, of d h'] by (auto simp: proof_evolves_def)

theorem proof_records_are_immutable_witness:
  "map_option pr_commitment_hash
     (pr_proof (run_calls (pr_act sample_deps) [(sample_env, PrEntry (PrRevokeProof 41))] sample_pr) 41) = Some 51"
  using proof_records_are_immutable [OF sample_pr_views(1), of "[(sample_env, PrEntry (PrRevokeProof 41))]"]
  by (auto simp: sample_proof_def)

text \<open>
  C13: \<open>is_valid_proof\<close> is exact and its expiry boundary is inclusive: in every reachable state it
  returns true exactly when the proof is stored, active, and the ledger time is not after the
  expiry; \<open>is_revoked\<close> exactly when it is stored and revoked. Neither changes a stored value
  or publishes anything.
\<close>

theorem proof_validity_exact:
  "fst (is_valid_proof e i (pr_after d h lu w x)) =
     Inr (\<exists>r. pr_proof (pr_after d h lu w x) i = Some r \<and> pr_status r = ProofActive \<and>
       ledger_timestamp e \<le> pr_expires_at r) \<and>
   fst (is_revoked e i (pr_after d h lu w x)) =
     Inr (\<exists>r. pr_proof (pr_after d h lu w x) i = Some r \<and> pr_status r = ProofRevoked) \<and>
   pr_abs (snd (is_valid_proof e i (pr_after d h lu w x))) = pr_abs (pr_after d h lu w x) \<and>
   pr_abs (snd (is_revoked e i (pr_after d h lu w x))) = pr_abs (pr_after d h lu w x) \<and>
   events (snd (is_valid_proof e i (pr_after d h lu w x))) = events (pr_after d h lu w x)"
  by (cases "pr_proof (pr_after d h lu w x) i")
    (simp_all add: is_valid_proof_read [OF pr_after_wf] is_revoked_read [OF pr_after_wf] valid_at_def)

text \<open>
  C11: invalidity is final: once a registered proof is reported invalid (revoked or expired), it is
  reported invalid after every further history at every later ledger time. Revocation
  therefore dominates expiry, and nothing extends an expired proof.
\<close>

theorem invalid_proof_stays_invalid:
  assumes "pr_proof (pr_after d h lu w x) i \<noteq> None"
    and "fst (is_valid_proof e i (pr_after d h lu w x)) = Inr False"
    and "ledger_timestamp e \<le> ledger_timestamp e'"
  shows "fst (is_valid_proof e' i (run_calls (pr_act d) h' (pr_after d h lu w x))) = Inr False"
proof -
  obtain r where r: "pr_proof (pr_after d h lu w x) i = Some r" using assms(1) by auto
  obtain r' where r': "pr_proof (run_calls (pr_act d) h' (pr_after d h lu w x)) i = Some r'" "proof_evolves r r'"
    using pr_run_proof [OF pr_after_wf r] by blast
  have "\<not> valid_at (ledger_timestamp e) (Some r)"
    using assms(2) r by (simp add: is_valid_proof_read [OF pr_after_wf])
  then have "\<not> valid_at (ledger_timestamp e') (Some r')"
    using valid_at_evolves [OF r'(2)] assms(3) by blast
  then show ?thesis
    using r'(1) by (simp add: is_valid_proof_read [OF prm.run_wf [OF pr_after_wf]])
qed

theorem invalid_proof_stays_invalid_witness:
  "fst (is_valid_proof late_env 41 sample_pr) = Inr False \<and>
   fst (is_valid_proof later_env 41 (run_calls (pr_act sample_deps) [(later_env, PrEntry (PrGetProof 41))] sample_pr)) = Inr False"
proof -
  have late: "fst (is_valid_proof late_env 41 sample_pr) = Inr False"
    by (simp add: is_valid_proof_read [OF pr_after_wf] sample_pr_views valid_at_def sample_proof_def late_env_def)
  moreover have "ledger_timestamp late_env \<le> ledger_timestamp later_env"
    by (simp add: late_env_def later_env_def)
  ultimately show ?thesis
    using invalid_proof_stays_invalid [OF _ late, of later_env "[(later_env, PrEntry (PrGetProof 41))]"] sample_pr_views(1)
    by (metis option.distinct(1))
qed

text \<open>
  C14: only the proof's own issuer or the administrator revokes: when an invocation changes a stored
  proof, it was active, the entry point is \<open>revoke_proof\<close> authorized by the issuer address the
  proof was registered with or \<open>admin_revoke_proof\<close> authorized by the administrator, and the new
  record is the revoked one with the ledger time.
\<close>

theorem only_issuer_or_admin_revokes:
  assumes "pr_proof (pr_after d h lu w x) i = Some r" and "pr_setup (pr_after d h lu w x) = Some u"
    and "pr_proof (snd (invoke (pr_call d e op) (pr_after d h lu w x))) i \<noteq> Some r"
  shows "(op = PrRevokeProof i \<and> authorized e (pr_issuer_address r) \<or>
       op = PrAdminRevokeProof i \<and> authorized e (su_admin u)) \<and> pr_status r = ProofActive \<and>
     pr_proof (snd (invoke (pr_call d e op) (pr_after d h lu w x))) i =
       Some (r\<lparr>pr_status := ProofRevoked, pr_revoked_at := ledger_timestamp e\<rparr>)"
proof -
  let ?s = "pr_after d h lu w x"
  obtain s' where s': "pr_act d e (PrEntry op) ?s = (Inr (), s')" "snd (invoke (pr_call d e op) ?s) = s'"
    using assms(1,3) by (cases rule: invoke_cases [of "pr_call d e op" ?s]) auto
  have "pr_proof s' = ps_proofs (pr_abs s')" "ps_proofs (pr_abs ?s) i = Some r" "ps_setup (pr_abs ?s) = Some u"
    using assms(1,2) by simp_all
  with assms(3) s'(2) show ?thesis
    by (cases rule: ps_act_cases [OF pr_act_commits [OF pr_after_wf s'(1)]]) (auto split: if_splits)
qed

theorem only_issuer_or_admin_revokes_witness:
  "pr_proof (snd (invoke (pr_call sample_deps sample_env (PrAdminRevokeProof 41)) sample_pr)) 41 =
     Some (sample_proof\<lparr>pr_status := ProofRevoked, pr_revoked_at := 1000\<rparr>)"
proof -
  have "pr_proof (snd (invoke (pr_call sample_deps sample_env (PrAdminRevokeProof 41)) sample_pr)) 41 \<noteq> Some sample_proof"
    by (simp add: sample_proofs_def pr_eval pr_view_defs sample_proof_def)
  then show ?thesis
    using only_issuer_or_admin_revokes [OF sample_pr_views, of sample_env "PrAdminRevokeProof 41"] by simp
qed


text \<open>
  C15: registration fails closed, whatever the called contracts do: if \<open>register_proof\<close> commits, the
  issuer address has authorized it and is none of the three contracts, the expiry lies in the
  future, the identifier was free, and the configured protocol-config answered "not paused" and
  "schema approved" and the configured issuer-registry "active", in this order; the stored
  record is the one requested, and no other record changes.
\<close>

theorem registration_fails_closed:
  assumes "register_proof d e i c a v t s = (Inr (), s')"
    and "s = pr_after d h lu w x" and "pr_setup s = Some u"
  shows "authorized e a \<and> a \<notin> {current_contract_address e, su_protocol_config u, su_issuer_registry u} \<and>
     v \<noteq> 0 \<and> ledger_timestamp e < t \<and> pr_proof s i = None \<and>
     (\<exists>w1 w2. dep_is_paused d e (su_protocol_config u) (others s) = Some (False, w1) \<and>
        dep_is_schema_version_approved d e (su_protocol_config u) v w1 = Some (True, w2) \<and>
        dep_is_active_address d e (su_issuer_registry u) a w2 = Some (True, others s')) \<and>
     pr_proof s' = (pr_proof s)(i \<mapsto> \<lparr>pr_proof_id_hash = i, pr_commitment_hash = c, pr_issuer_address = a,
        pr_status = ProofActive, pr_schema_version = v, pr_expires_at = t,
        pr_created_at = ledger_timestamp e, pr_revoked_at = 0\<rparr>)"
proof -
  have wf: "pr_wf s" using assms(2) pr_after_wf by simp
  have "pr_call d e (PrRegisterProof i c a v t) s = (Inr (), s')"
    using assms(1) by (simp add: run)
  from pr_call_commits [OF wf this] have
    reg: "ps_register d e i c a v t (pr_abs s) = (Inr (), pr_abs s')" by simp
  have "pr_proof s' = ps_proofs (snd (ps_register d e i c a v t (pr_abs s)))"
    and "others s' = ps_others (snd (ps_register d e i c a v t (pr_abs s)))"
    and "fst (ps_register d e i c a v t (pr_abs s)) = Inr ()"
    unfolding reg by simp_all
  with assms(3) show ?thesis
    by (auto simp: ps_register_def ps_gate_def not_le split: if_splits option.splits sum.splits prod.splits)
qed

theorem registration_fails_closed_witness:
  "\<exists>s'. register_proof sample_deps sample_env 42 52 (Address 104) 1 1500 sample_pr = (Inr (), s') \<and>
     map_option pr_commitment_hash (pr_proof s' 42) = Some 52"
proof -
  obtain s' where s': "register_proof sample_deps sample_env 42 52 (Address 104) 1 1500 sample_pr = (Inr (), s')"
    by (simp add: sample_proofs_def pr_eval)
  then show ?thesis
    using registration_fails_closed [OF s' refl sample_pr_views(2)] by simp
qed

text \<open>
  C29: the administrator and the addresses of the two dependencies are set once: after a committed
  \<open>initialize\<close> no history changes them, and the dependencies are two different valid addresses.
\<close>

theorem setup_is_permanent:
  assumes "pr_initialize e a r c (pr_after d h lu w x) = (Inr (), s)"
  shows "pr_setup (run_calls (pr_act d) h' s) =
       Some \<lparr>su_admin = a, su_issuer_registry = r, su_protocol_config = c\<rparr> \<and>
     pr_setup (pr_after d h lu w x) = None \<and> authorized e a \<and> r \<noteq> c \<and>
     is_valid_principal_address e a \<and> is_valid_principal_address e r \<and> is_valid_principal_address e c"
proof -
  have call: "pr_call d e (PrInitialize a r c) (pr_after d h lu w x) = (Inr (), s)"
    using assms by (simp add: run)
  have step: "ps_step d e (PrInitialize a r c) (pr_abs (pr_after d h lu w x)) = (Inr (), pr_abs s)"
    by (rule pr_call_commits [OF pr_after_wf call])
  have "pr_setup s = ps_setup (snd (ps_step d e (PrInitialize a r c) (pr_abs (pr_after d h lu w x))))"
    and "fst (ps_step d e (PrInitialize a r c) (pr_abs (pr_after d h lu w x))) = Inr ()"
    unfolding step by simp_all
  then have *: "pr_setup s = Some \<lparr>su_admin = a, su_issuer_registry = r, su_protocol_config = c\<rparr> \<and>
     pr_setup (pr_after d h lu w x) = None \<and> authorized e a \<and> r \<noteq> c \<and>
     is_valid_principal_address e a \<and> is_valid_principal_address e r \<and> is_valid_principal_address e c"
    by (auto split: if_splits)
  then show ?thesis
    using pr_run_setup [OF pr_call_wf [OF pr_after_wf call]] by blast
qed

theorem setup_is_permanent_witness:
  "\<exists>s. pr_initialize sample_env (Address 101) (Address 102) (Address 103) (pr_after sample_deps [] 0 0 ()) = (Inr (), s) \<and>
     pr_setup (run_calls (pr_act sample_deps)
       [(sample_env, PrEntry (PrInitialize (Address 104) (Address 103) (Address 102)))] s) = Some sample_setup"
proof -
  obtain s where s: "pr_initialize sample_env (Address 101) (Address 102) (Address 103)
      (pr_after sample_deps [] 0 0 ()) = (Inr (), s)"
    by (simp add: pr_eval)
  then show ?thesis
    using setup_is_permanent [OF s, of "[(sample_env, PrEntry (PrInitialize (Address 104) (Address 103) (Address 102)))]"]
    by (auto simp: sample_setup_def)
qed

end
