(* ===== verification/Storage_Namespaces.thy ===== *)
theory Storage_Namespaces
  imports Protocol_Config Issuer_Registry Proof_Registry "HOL-Library.List_Lexorder"
    "HOL-Library.Char_ord" "HOL-Library.Product_Lexorder"
begin

text \<open>
  The inventory of storage namespaces (\<open>src/packages/shared/src/storage_namespaces.rs\<close>) and how
  it compares with the storage the three contracts really write. The encoding of a key, a
  vector of the variant's name and its payload fields, is the one the module documents.
\<close>

section \<open>The inventory\<close>

datatype storage_class = InstanceClass | PersistentClass | TemporaryClass

primrec storage_class_as_str :: "storage_class \<Rightarrow> string" where
  "storage_class_as_str InstanceClass = ''instance''"
| "storage_class_as_str PersistentClass = ''persistent''"
| "storage_class_as_str TemporaryClass = ''temporary''"

record storage_namespace =
  ns_contract :: string
  ns_namespace :: string
  ns_arity :: u32
  ns_class :: storage_class
  ns_value :: string
  ns_owner :: string

definition STORAGE_NAMESPACES :: "storage_namespace list" where
  "STORAGE_NAMESPACES =
    [\<lparr>ns_contract = ''issuer-registry'', ns_namespace = ''AddressIssuer'', ns_arity = 1,
       ns_class = PersistentClass, ns_value = ''BytesN<32>'', ns_owner = ''registry operator''\<rparr>,
     \<lparr>ns_contract = ''issuer-registry'', ns_namespace = ''Admin'', ns_arity = 0,
       ns_class = InstanceClass, ns_value = ''Address'', ns_owner = ''deployment operator''\<rparr>,
     \<lparr>ns_contract = ''issuer-registry'', ns_namespace = ''ContractVersion'', ns_arity = 0,
       ns_class = InstanceClass, ns_value = ''u32'', ns_owner = ''deployment operator''\<rparr>,
     \<lparr>ns_contract = ''issuer-registry'', ns_namespace = ''Issuer'', ns_arity = 1,
       ns_class = PersistentClass, ns_value = ''IssuerRecord'', ns_owner = ''registry operator''\<rparr>,
     \<lparr>ns_contract = ''proof-registry'', ns_namespace = ''Admin'', ns_arity = 0,
       ns_class = InstanceClass, ns_value = ''Address'', ns_owner = ''deployment operator''\<rparr>,
     \<lparr>ns_contract = ''proof-registry'', ns_namespace = ''ContractVersion'', ns_arity = 0,
       ns_class = InstanceClass, ns_value = ''u32'', ns_owner = ''deployment operator''\<rparr>,
     \<lparr>ns_contract = ''proof-registry'', ns_namespace = ''IssuerRegistry'', ns_arity = 0,
       ns_class = InstanceClass, ns_value = ''Address'', ns_owner = ''deployment operator''\<rparr>,
     \<lparr>ns_contract = ''proof-registry'', ns_namespace = ''Proof'', ns_arity = 1,
       ns_class = PersistentClass, ns_value = ''ProofRecord'', ns_owner = ''issuing party''\<rparr>,
     \<lparr>ns_contract = ''proof-registry'', ns_namespace = ''ProtocolConfig'', ns_arity = 0,
       ns_class = InstanceClass, ns_value = ''Address'', ns_owner = ''deployment operator''\<rparr>,
     \<lparr>ns_contract = ''protocol-config'', ns_namespace = ''Admin'', ns_arity = 0,
       ns_class = InstanceClass, ns_value = ''Address'', ns_owner = ''protocol operator''\<rparr>,
     \<lparr>ns_contract = ''protocol-config'', ns_namespace = ''ConfigVersion'', ns_arity = 0,
       ns_class = InstanceClass, ns_value = ''u32'', ns_owner = ''protocol operator''\<rparr>,
     \<lparr>ns_contract = ''protocol-config'', ns_namespace = ''ContractVersion'', ns_arity = 0,
       ns_class = InstanceClass, ns_value = ''u32'', ns_owner = ''protocol operator''\<rparr>,
     \<lparr>ns_contract = ''protocol-config'', ns_namespace = ''Paused'', ns_arity = 0,
       ns_class = InstanceClass, ns_value = ''bool'', ns_owner = ''protocol operator''\<rparr>,
     \<lparr>ns_contract = ''protocol-config'', ns_namespace = ''SchemaVersion'', ns_arity = 1,
       ns_class = PersistentClass, ns_value = ''bool'', ns_owner = ''protocol operator''\<rparr>]"

definition CONTRACTS :: "string list" where
  "CONTRACTS = [''issuer-registry'', ''proof-registry'', ''protocol-config'']"

definition namespaces_for :: "string \<Rightarrow> storage_class \<Rightarrow> string list" where
  "namespaces_for c cls = map ns_namespace
     (filter (\<lambda>entry. ns_contract entry = c \<and> ns_class entry = cls) STORAGE_NAMESPACES)"

definition namespace :: "string \<Rightarrow> string \<Rightarrow> storage_namespace option" where
  "namespace c name = find (\<lambda>entry. ns_contract entry = c \<and> ns_namespace entry = name) STORAGE_NAMESPACES"

section \<open>Encoded keys\<close>

datatype key_field = KeyU32 u32 | KeyBytes32 bytes32 | KeyAddress address

type_synonym encoded_key = "string \<times> key_field list"

primrec pc_encode_key :: "pc_key \<Rightarrow> encoded_key" where
  "pc_encode_key PcAdmin = (''Admin'', [])"
| "pc_encode_key PcPaused = (''Paused'', [])"
| "pc_encode_key PcConfigVersion = (''ConfigVersion'', [])"
| "pc_encode_key (PcSchemaVersion v) = (''SchemaVersion'', [KeyU32 v])"
| "pc_encode_key (PcAllowedWasm h) = (''AllowedWasm'', [KeyBytes32 h])"
| "pc_encode_key PcContractVersion = (''ContractVersion'', [])"

primrec ir_encode_key :: "ir_key \<Rightarrow> encoded_key" where
  "ir_encode_key IrAdmin = (''Admin'', [])"
| "ir_encode_key (IrIssuer i) = (''Issuer'', [KeyBytes32 i])"
| "ir_encode_key (IrAddressIssuer a) = (''AddressIssuer'', [KeyAddress a])"
| "ir_encode_key (IrAllowedWasm h) = (''AllowedWasm'', [KeyBytes32 h])"
| "ir_encode_key IrContractVersion = (''ContractVersion'', [])"

primrec pr_encode_key :: "pr_key \<Rightarrow> encoded_key" where
  "pr_encode_key PrAdmin = (''Admin'', [])"
| "pr_encode_key PrIssuerRegistry = (''IssuerRegistry'', [])"
| "pr_encode_key PrProtocolConfig = (''ProtocolConfig'', [])"
| "pr_encode_key (PrProof i) = (''Proof'', [KeyBytes32 i])"
| "pr_encode_key (PrAllowedWasm h) = (''AllowedWasm'', [KeyBytes32 h])"
| "pr_encode_key PrContractVersion = (''ContractVersion'', [])"

text \<open>The Rust type of a stored value, as the inventory names it.\<close>

primrec value_type :: "stored_value \<Rightarrow> string" where
  "value_type (AddressV a) = ''Address''"
| "value_type (BoolV b) = ''bool''"
| "value_type (U32V n) = ''u32''"
| "value_type (Bytes32V h) = ''BytesN<32>''"
| "value_type (IssuerV r) = ''IssuerRecord''"
| "value_type (ProofV r) = ''ProofRecord''"

text \<open>An entry of a contract's storage is as the inventory says.\<close>

definition inventoried :: "string \<Rightarrow> storage_class \<Rightarrow> encoded_key \<Rightarrow> stored_value \<Rightarrow> bool" where
  "inventoried c cls k v \<longleftrightarrow>
     map_option (\<lambda>row. (ns_class row, ns_arity row, ns_value row)) (namespace c (fst k)) =
       Some (cls, of_nat (length (snd k)), value_type v)"

section \<open>Lookup\<close>

lemma inventory_keys_distinct: "distinct (map (\<lambda>r. (ns_contract r, ns_namespace r)) STORAGE_NAMESPACES)"
  by (simp add: STORAGE_NAMESPACES_def)

lemma namespace_iff:
  "namespace c n = Some row \<longleftrightarrow> row \<in> set STORAGE_NAMESPACES \<and> ns_contract row = c \<and> ns_namespace row = n"
proof
  assume "namespace c n = Some row"
  then show "row \<in> set STORAGE_NAMESPACES \<and> ns_contract row = c \<and> ns_namespace row = n"
    unfolding namespace_def find_Some_iff by (auto simp: in_set_conv_nth)
next
  assume *: "row \<in> set STORAGE_NAMESPACES \<and> ns_contract row = c \<and> ns_namespace row = n"
  then have "namespace c n \<noteq> None"
    by (auto simp: namespace_def find_None_iff)
  then obtain r where r: "namespace c n = Some r" by auto
  then have "r \<in> set STORAGE_NAMESPACES \<and> ns_contract r = c \<and> ns_namespace r = n"
    unfolding namespace_def find_Some_iff by (auto simp: in_set_conv_nth)
  with * have "r = row"
    using inventory_keys_distinct by (auto simp: distinct_map dest!: inj_onD)
  with r show "namespace c n = Some row" by simp
qed

lemma inventory_rows:
  "map_option (\<lambda>row. (ns_class row, ns_arity row, ns_value row)) (namespace ''issuer-registry'' ''AddressIssuer'') = Some (PersistentClass, 1, ''BytesN<32>'')"
  "map_option (\<lambda>row. (ns_class row, ns_arity row, ns_value row)) (namespace ''issuer-registry'' ''Admin'') = Some (InstanceClass, 0, ''Address'')"
  "map_option (\<lambda>row. (ns_class row, ns_arity row, ns_value row)) (namespace ''issuer-registry'' ''ContractVersion'') = Some (InstanceClass, 0, ''u32'')"
  "map_option (\<lambda>row. (ns_class row, ns_arity row, ns_value row)) (namespace ''issuer-registry'' ''Issuer'') = Some (PersistentClass, 1, ''IssuerRecord'')"
  "map_option (\<lambda>row. (ns_class row, ns_arity row, ns_value row)) (namespace ''proof-registry'' ''Admin'') = Some (InstanceClass, 0, ''Address'')"
  "map_option (\<lambda>row. (ns_class row, ns_arity row, ns_value row)) (namespace ''proof-registry'' ''ContractVersion'') = Some (InstanceClass, 0, ''u32'')"
  "map_option (\<lambda>row. (ns_class row, ns_arity row, ns_value row)) (namespace ''proof-registry'' ''IssuerRegistry'') = Some (InstanceClass, 0, ''Address'')"
  "map_option (\<lambda>row. (ns_class row, ns_arity row, ns_value row)) (namespace ''proof-registry'' ''Proof'') = Some (PersistentClass, 1, ''ProofRecord'')"
  "map_option (\<lambda>row. (ns_class row, ns_arity row, ns_value row)) (namespace ''proof-registry'' ''ProtocolConfig'') = Some (InstanceClass, 0, ''Address'')"
  "map_option (\<lambda>row. (ns_class row, ns_arity row, ns_value row)) (namespace ''protocol-config'' ''Admin'') = Some (InstanceClass, 0, ''Address'')"
  "map_option (\<lambda>row. (ns_class row, ns_arity row, ns_value row)) (namespace ''protocol-config'' ''ConfigVersion'') = Some (InstanceClass, 0, ''u32'')"
  "map_option (\<lambda>row. (ns_class row, ns_arity row, ns_value row)) (namespace ''protocol-config'' ''ContractVersion'') = Some (InstanceClass, 0, ''u32'')"
  "map_option (\<lambda>row. (ns_class row, ns_arity row, ns_value row)) (namespace ''protocol-config'' ''Paused'') = Some (InstanceClass, 0, ''bool'')"
  "map_option (\<lambda>row. (ns_class row, ns_arity row, ns_value row)) (namespace ''protocol-config'' ''SchemaVersion'') = Some (PersistentClass, 1, ''bool'')"
  by (simp_all add: namespace_def STORAGE_NAMESPACES_def)

text \<open>Well-formed storage is inventoried, allowlist entries apart.\<close>

lemmas inventory_eval = inventoried_def inventory_rows

lemma pc_inst_inventoried:
  "pc_inst_ok k v \<Longrightarrow> \<forall>h. k \<noteq> PcAllowedWasm h \<Longrightarrow> inventoried ''protocol-config'' InstanceClass (pc_encode_key k) v"
  by (cases k; cases v) (simp_all add: inventory_eval)

lemma pc_pers_inventoried:
  "pc_pers_ok k v \<Longrightarrow> inventoried ''protocol-config'' PersistentClass (pc_encode_key k) v"
  by (cases k; cases v) (simp_all add: inventory_eval)

lemma ir_inst_inventoried:
  "ir_inst_ok k v \<Longrightarrow> \<forall>h. k \<noteq> IrAllowedWasm h \<Longrightarrow> inventoried ''issuer-registry'' InstanceClass (ir_encode_key k) v"
  by (cases k; cases v) (simp_all add: inventory_eval)

lemma ir_pers_inventoried:
  "ir_pers_ok k v \<Longrightarrow> inventoried ''issuer-registry'' PersistentClass (ir_encode_key k) v"
  by (cases k; cases v) (simp_all add: inventory_eval)

lemma pr_inst_inventoried:
  "pr_inst_ok k v \<Longrightarrow> \<forall>h. k \<noteq> PrAllowedWasm h \<Longrightarrow> inventoried ''proof-registry'' InstanceClass (pr_encode_key k) v"
  by (cases k; cases v) (simp_all add: inventory_eval)

lemma pr_pers_inventoried:
  "pr_pers_ok k v \<Longrightarrow> inventoried ''proof-registry'' PersistentClass (pr_encode_key k) v"
  by (cases k; cases v) (simp_all add: inventory_eval)

text \<open>Two keys of one contract with the same encoding are the same key.\<close>

lemma encoded_keys_injective:
  "inj pc_encode_key \<and> inj ir_encode_key \<and> inj pr_encode_key"
proof (intro conjI injI)
  show "x = y" if "pc_encode_key x = pc_encode_key y" for x y
    using that by (cases x; cases y; simp)
  show "x = y" if "ir_encode_key x = ir_encode_key y" for x y
    using that by (cases x; cases y; simp)
  show "x = y" if "pr_encode_key x = pr_encode_key y" for x y
    using that by (cases x; cases y; simp)
qed

text \<open>The inventory knows no allowlist namespace, yet each contract stores such entries as soon as
  an upgrade is approved.\<close>

lemma allowlist_not_inventoried:
  "(\<forall>c. namespace c ''AllowedWasm'' = None) \<and>
   inst (pc_after sample_config 0 0) (PcAllowedWasm 7) = Some (U32V 2) \<and>
   inst (ir_after sample_registry 0 0) (IrAllowedWasm 7) = Some (U32V 2) \<and>
   inst sample_pr (PrAllowedWasm 7) = Some (U32V 2)"
proof (intro conjI)
  show "\<forall>c. namespace c ''AllowedWasm'' = None"
    by (simp add: namespace_def STORAGE_NAMESPACES_def)
  show "inst (pc_after sample_config 0 0) (PcAllowedWasm 7) = Some (U32V 2)"
    by (simp add: sample_config_def pc_eval)
  show "inst (ir_after sample_registry 0 0) (IrAllowedWasm 7) = Some (U32V 2)"
    by (simp add: sample_registry_def ir_eval)
  show "inst sample_pr (PrAllowedWasm 7) = Some (U32V 2)"
    by (simp add: sample_proofs_def pr_eval)
qed

section \<open>Properties\<close>

text \<open>
  C33: whatever history each of the three contracts has seen, every entry of its storage is as the
  inventory lists it: its namespace is listed for that contract, in the durability class it is
  stored in, with the number of payload fields its key carries and the type of its value. The
  upgrade allowlist entries are the only exception, and they are one: the lookup knows no namespace
  \<open>AllowedWasm\<close> for any contract, yet each of the three stores such an entry as soon as an upgrade
  is approved.
\<close>

theorem storage_matches_inventory:
  "(inst (pc_after h1 l1 w1) k1 = Some v1 \<longrightarrow>
      inventoried ''protocol-config'' InstanceClass (pc_encode_key k1) v1 \<or> (\<exists>x. k1 = PcAllowedWasm x)) \<and>
   (pers (pc_after h1 l1 w1) k1 = Some v1 \<longrightarrow>
      inventoried ''protocol-config'' PersistentClass (pc_encode_key k1) v1) \<and>
   (inst (ir_after h2 l2 w2) k2 = Some v2 \<longrightarrow>
      inventoried ''issuer-registry'' InstanceClass (ir_encode_key k2) v2 \<or> (\<exists>x. k2 = IrAllowedWasm x)) \<and>
   (pers (ir_after h2 l2 w2) k2 = Some v2 \<longrightarrow>
      inventoried ''issuer-registry'' PersistentClass (ir_encode_key k2) v2) \<and>
   (inst (pr_after d h3 l3 w3 x3) k3 = Some v3 \<longrightarrow>
      inventoried ''proof-registry'' InstanceClass (pr_encode_key k3) v3 \<or> (\<exists>x. k3 = PrAllowedWasm x)) \<and>
   (pers (pr_after d h3 l3 w3 x3) k3 = Some v3 \<longrightarrow>
      inventoried ''proof-registry'' PersistentClass (pr_encode_key k3) v3) \<and>
   (\<forall>c. namespace c ''AllowedWasm'' = None) \<and>
   inst (pc_after sample_config 0 0) (PcAllowedWasm 7) = Some (U32V 2) \<and>
   inst (ir_after sample_registry 0 0) (IrAllowedWasm 7) = Some (U32V 2) \<and>
   inst sample_pr (PrAllowedWasm 7) = Some (U32V 2)"
  using allowlist_not_inventoried pc_wf_inst [OF pc_after_wf] pc_wf_pers [OF pc_after_wf] ir_wf_inst [OF ir_after_wf]
    ir_wf_pers [OF ir_after_wf] pr_wf_inst [OF pr_after_wf] pr_wf_pers [OF pr_after_wf]
  by (meson pc_inst_inventoried pc_pers_inventoried ir_inst_inventoried ir_pers_inventoried
      pr_inst_inventoried pr_pers_inventoried)

theorem storage_matches_inventory_witness:
  "pers (ir_after sample_registry 0 0) (IrIssuer 21) = Some (IssuerV sample_issuer) \<and>
   inventoried ''issuer-registry'' PersistentClass (ir_encode_key (IrIssuer 21)) (IssuerV sample_issuer)"
proof -
  have *: "pers (ir_after sample_registry 0 0) (IrIssuer 21) = Some (IssuerV sample_issuer)"
    by (simp add: ir_stored [OF ir_after_wf] sample_registry_issuers)
  with storage_matches_inventory [THEN conjunct2, THEN conjunct2, THEN conjunct2, THEN conjunct1,
      rule_format, OF *] show ?thesis
    by blast
qed

text \<open>
  C34: the two lookups agree and are exact: a row is found under a contract and a name exactly when
  it is in the table with these, so no two rows share them; \<open>namespaces_for\<close> lists exactly the
  names found in that class; the table is ordered by contract and then by name, and its
  contracts are exactly \<open>CONTRACTS\<close>. Keys cannot collide: in each contract two keys with the same
  encoding are the same key.
\<close>

theorem inventory_lookup_exact:
  "(namespace c n = Some row \<longleftrightarrow> row \<in> set STORAGE_NAMESPACES \<and> ns_contract row = c \<and> ns_namespace row = n) \<and>
   (n \<in> set (namespaces_for c cls) \<longleftrightarrow> (\<exists>r. namespace c n = Some r \<and> ns_class r = cls)) \<and>
   sorted (map (\<lambda>r. (ns_contract r, ns_namespace r)) STORAGE_NAMESPACES) \<and>
   remdups (map ns_contract STORAGE_NAMESPACES) = CONTRACTS \<and> namespaces_for c TemporaryClass = [] \<and>
   inj pc_encode_key \<and> inj ir_encode_key \<and> inj pr_encode_key"
proof (intro conjI)
  show "inj pc_encode_key" "inj ir_encode_key" "inj pr_encode_key"
    by (simp_all add: encoded_keys_injective)
  show "namespace c n = Some row \<longleftrightarrow> row \<in> set STORAGE_NAMESPACES \<and> ns_contract row = c \<and> ns_namespace row = n"
    by (rule namespace_iff)
  show "n \<in> set (namespaces_for c cls) \<longleftrightarrow> (\<exists>r. namespace c n = Some r \<and> ns_class r = cls)"
    by (auto simp: namespace_iff namespaces_for_def)
  show "sorted (map (\<lambda>r. (ns_contract r, ns_namespace r)) STORAGE_NAMESPACES)"
    by code_simp
  show "remdups (map ns_contract STORAGE_NAMESPACES) = CONTRACTS"
    by (simp add: STORAGE_NAMESPACES_def CONTRACTS_def)
  show "namespaces_for c TemporaryClass = []"
    by (simp add: namespaces_for_def STORAGE_NAMESPACES_def)
qed

end
