(* ===== verification/System.thy ===== *)
theory System
  imports Protocol_Config Issuer_Registry Proof_Registry Error_Catalog
begin

text \<open>
  The deployed system: one protocol-config, one issuer-registry and one proof-registry on the
  same ledger. The calls \<open>register_proof\<close> makes are resolved here by address to the real entry
  points of the two other contracts; what answers at any other address stays a parameter. The
  theory discharges the interface \<open>proof_dependencies\<close> for the real contracts and derives the
  properties of the system as a whole, over histories that interleave calls to all three.
\<close>

section \<open>The ledger around the proof registry\<close>

record ledger =
  config_address :: address
  registry_address :: address
  config :: pc_state
  registry :: ir_state

type_synonym system = "ledger pr_state"

text \<open>A cross-contract call runs the callee in its own environment on its own state; if it aborts,
  the call fails.\<close>

definition read_config :: "bool pc_m \<Rightarrow> ledger \<Rightarrow> (bool \<times> ledger) option" where
  "read_config m w = (case m (config w) of
      (Inl _, c) \<Rightarrow> None
    | (Inr b, c) \<Rightarrow> Some (b, w\<lparr>config := c\<rparr>))"

definition read_registry :: "(u32, bool) ir_m \<Rightarrow> ledger \<Rightarrow> (bool \<times> ledger) option" where
  "read_registry m w = (case m (registry w) of
      (Inl _, r) \<Rightarrow> None
    | (Inr b, r) \<Rightarrow> Some (b, w\<lparr>registry := r\<rparr>))"

definition callee_env :: "address \<Rightarrow> env \<Rightarrow> env" where
  "callee_env a e = e\<lparr>current_contract_address := a\<rparr>"

text \<open>What answers at any other address is a parameter: it may give any answer or fail, but it does
  not change the two contracts.\<close>

definition elsewhere :: "(ledger \<Rightarrow> (bool \<times> ledger) option) \<Rightarrow> ledger \<Rightarrow> (bool \<times> ledger) option" where
  "elsewhere f w = map_option (\<lambda>(b, _). (b, w)) (f w)"

definition system_deps :: "ledger dependencies \<Rightarrow> ledger dependencies" where
  "system_deps x = \<lparr>
     dep_is_paused = (\<lambda>e a w. if a = config_address w then read_config is_paused w
        else elsewhere (dep_is_paused x e a) w),
     dep_is_schema_version_approved = (\<lambda>e a v w. if a = config_address w
        then read_config (is_schema_version_approved (callee_env a e) v) w
        else elsewhere (dep_is_schema_version_approved x e a v) w),
     dep_is_active_address = (\<lambda>e a b w. if a = registry_address w
        then read_registry (is_active_address (callee_env a e) b) w
        else elsewhere (dep_is_active_address x e a b) w)\<rparr>"

lemma system_deps_simps [simp]:
  "dep_is_paused (system_deps x) e a w = (if a = config_address w then read_config is_paused w
     else elsewhere (dep_is_paused x e a) w)"
  "dep_is_schema_version_approved (system_deps x) e a v w = (if a = config_address w
     then read_config (is_schema_version_approved (callee_env a e) v) w
     else elsewhere (dep_is_schema_version_approved x e a v) w)"
  "dep_is_active_address (system_deps x) e a b w = (if a = registry_address w
     then read_registry (is_active_address (callee_env a e) b) w
     else elsewhere (dep_is_active_address x e a b) w)"
  by (simp_all add: system_deps_def)

lemma callee_env_simps [simp]:
  "ttl_extend (callee_env a e) = ttl_extend e" "ttl_initial (callee_env a e) = ttl_initial e"
  by (simp_all add: callee_env_def)

section \<open>The interface of the proof registry, on the real contracts\<close>

definition config_at :: "address \<Rightarrow> ledger \<Rightarrow> bool" where
  "config_at a w \<longleftrightarrow> a = config_address w \<and> pc_wf (config w)"

definition registry_at :: "address \<Rightarrow> ledger \<Rightarrow> bool" where
  "registry_at a w \<longleftrightarrow> a = registry_address w \<and> ir_wf (registry w)"

text \<open>Two states of one contract that differ in lifetimes only.\<close>

definition same_entries :: "('k, 'v, 'ev) contract_state \<Rightarrow> ('k, 'v, 'ev) contract_state \<Rightarrow> bool" where
  "same_entries s t \<longleftrightarrow> inst t = inst s \<and> pers t = pers s \<and> events t = events s \<and> wasm t = wasm s"

definition same_ledger :: "ledger \<Rightarrow> ledger \<Rightarrow> bool" where
  "same_ledger w w' \<longleftrightarrow> config_address w' = config_address w \<and> registry_address w' = registry_address w \<and>
     same_entries (config w) (config w') \<and> same_entries (registry w) (registry w')"

lemma same_entries_pc:
  assumes "same_entries s t"
  shows "pc_wf t = pc_wf s \<and> pc_paused t = pc_paused s \<and> pc_schema t = pc_schema s \<and> pc_abs t = pc_abs s"
proof -
  have "inst t = inst s" "pers t = pers s" using assms by (simp_all add: same_entries_def)
  moreover from this have "pc_schema t = pc_schema s" "pc_allowed t = pc_allowed s"
    by (simp_all add: pc_schema_def pc_allowed_def fun_eq_iff)
  ultimately show ?thesis
    by (simp add: pc_wf_def pc_abs_def pc_admin_def pc_paused_def pc_config_version_def pc_contract_version_def)
qed

lemma same_entries_ir:
  assumes "same_entries s t"
  shows "ir_wf t = ir_wf s \<and> active_address t a = active_address s a \<and> ir_abs t = ir_abs s \<and> ir_index t = ir_index s"
proof -
  have "inst t = inst s" "pers t = pers s" using assms by (simp_all add: same_entries_def)
  then have "ir_issuer t = ir_issuer s" "ir_index t = ir_index s" "ir_admin t = ir_admin s"
    "ir_contract_version t = ir_contract_version s" "ir_allowed t = ir_allowed s"
    by (simp_all add: ir_view_defs fun_eq_iff)
  then show ?thesis
    using \<open>inst t = inst s\<close> \<open>pers t = pers s\<close> by (simp add: ir_wf_def ir_abs_def active_address_def cong: option.case_cong)
qed

interpretation sysd: proof_dependencies "system_deps x" config_at registry_at
    "\<lambda>a w. pc_paused (config w)" "\<lambda>a v w. pc_schema (config w) v = Some True"
    "\<lambda>a b w. active_address (registry w) b" same_ledger for x
proof unfold_locales
  fix a b v e w w' w''
  show "config_at a w \<Longrightarrow>
      \<exists>w'. dep_is_paused (system_deps x) e a w = Some (pc_paused (config w), w') \<and> same_ledger w w'"
    by (simp add: config_at_def read_config_def is_paused_read same_ledger_def same_entries_def)
  show "config_at a w \<Longrightarrow> \<exists>w'. dep_is_schema_version_approved (system_deps x) e a v w =
      Some (pc_schema (config w) v = Some True, w') \<and> same_ledger w w'"
    by (simp add: config_at_def read_config_def is_schema_version_approved_read same_ledger_def same_entries_def)
  show "registry_at a w \<Longrightarrow> \<exists>w'. dep_is_active_address (system_deps x) e a b w =
      Some (active_address (registry w) b, w') \<and> same_ledger w w'"
    by (simp add: registry_at_def read_registry_def is_active_address_read same_ledger_def same_entries_def
        issuer_touched_def split: option.split)
  show "same_ledger w w' \<Longrightarrow> config_at a w' = config_at a w \<and> registry_at a w' = registry_at a w \<and>
      pc_paused (config w') = pc_paused (config w) \<and>
      (pc_schema (config w') v = Some True) = (pc_schema (config w) v = Some True) \<and>
      active_address (registry w') b = active_address (registry w) b"
    using same_entries_pc [of "config w" "config w'"] same_entries_ir [of "registry w" "registry w'"]
    by (auto simp: same_ledger_def config_at_def registry_at_def)
  show "same_ledger w w"
    by (simp add: same_ledger_def same_entries_def)
  show "same_ledger w w' \<Longrightarrow> same_ledger w' w'' \<Longrightarrow> same_ledger w w''"
    by (simp add: same_ledger_def same_entries_def)
qed

section \<open>Calls to the system\<close>

datatype sys_op =
    SysConfig pc_op
  | SysRegistry ir_op
  | SysProof pr_op

definition on_config :: "unit pc_m \<Rightarrow> (system, u32, unit) contract_m" where
  "on_config m = (\<lambda>s. case m (config (others s)) of
     (r, c) \<Rightarrow> (map_sum (map_abort contract_error_code) id r, s\<lparr>others := (others s)\<lparr>config := c\<rparr>\<rparr>))"

definition on_registry :: "(u32, unit) ir_m \<Rightarrow> (system, u32, unit) contract_m" where
  "on_registry m = (\<lambda>s. case m (registry (others s)) of
     (r, c) \<Rightarrow> (r, s\<lparr>others := (others s)\<lparr>registry := c\<rparr>\<rparr>))"

fun sys_call :: "ledger dependencies \<Rightarrow> env \<Rightarrow> sys_op \<Rightarrow> (system, u32, unit) contract_m" where
  "sys_call x e (SysConfig op) = on_config (pc_call e op)"
| "sys_call x e (SysRegistry op) = on_registry (ir_call e op)"
| "sys_call x e (SysProof op) = pr_call (system_deps x) e op"

definition fresh_ledger :: "address \<Rightarrow> address \<Rightarrow> u32 \<Rightarrow> bytes32 \<Rightarrow> ledger" where
  "fresh_ledger ca ra lu w = \<lparr>config_address = ca, registry_address = ra, config = fresh_contract lu w,
     registry = fresh_contract lu w\<rparr>"

definition fresh_system :: "address \<Rightarrow> address \<Rightarrow> u32 \<Rightarrow> bytes32 \<Rightarrow> system" where
  "fresh_system ca ra lu w = fresh_registry lu w (fresh_ledger ca ra lu w)"

definition sys_wf :: "system \<Rightarrow> bool" where
  "sys_wf s \<longleftrightarrow> pr_wf s \<and> pc_wf (config (others s)) \<and> ir_wf (registry (others s))"


text \<open>Asking the other contracts changes lifetimes at most, whatever the configured addresses are.\<close>

lemma read_config_same:
  assumes "pc_wf (config w)" "read_config is_paused w = Some (b, w') \<or>
    read_config (is_schema_version_approved e v) w = Some (b, w')"
  shows "same_ledger w w'"
  using assms by (auto simp: read_config_def is_paused_read is_schema_version_approved_read same_ledger_def
      same_entries_def split: if_splits)

lemma read_registry_same:
  assumes "ir_wf (registry w)" "read_registry (is_active_address e a) w = Some (b, w')"
  shows "same_ledger w w'"
  using assms by (auto simp: read_registry_def is_active_address_read same_ledger_def same_entries_def
      issuer_touched_def split: option.splits)

lemma elsewhere_same: "elsewhere f w = Some (b, w') \<Longrightarrow> same_ledger w w'"
  by (auto simp: elsewhere_def sysd.same_refl)

lemma same_ledger_wf:
  "same_ledger w w' \<Longrightarrow> pc_wf (config w') = pc_wf (config w) \<and> ir_wf (registry w') = ir_wf (registry w)"
  using same_entries_pc same_entries_ir by (simp add: same_ledger_def)

lemma system_gate_same:
  assumes "pc_wf (config w)" and "ir_wf (registry w)" and "ps_gate (system_deps x) e u a v w = Inr w'"
  shows "same_ledger w w'"
proof -
  obtain w1 w2 where w1: "dep_is_paused (system_deps x) e (su_protocol_config u) w = Some (False, w1)"
    and w2: "dep_is_schema_version_approved (system_deps x) e (su_protocol_config u) v w1 = Some (True, w2)"
    and w3: "dep_is_active_address (system_deps x) e (su_issuer_registry u) a w2 = Some (True, w')"
    using assms(3) by (auto simp: ps_gate_def split: option.splits if_splits)
  have s1: "same_ledger w w1"
    using w1 assms(1) by (auto split: if_splits dest: read_config_same elsewhere_same)
  have s2: "same_ledger w1 w2"
    using w2 assms(1) same_ledger_wf [OF s1] by (auto split: if_splits dest: read_config_same elsewhere_same)
  have "same_ledger w2 w'"
    using w3 assms(2) same_ledger_wf [OF s1] same_ledger_wf [OF s2]
    by (auto split: if_splits dest: read_registry_same elsewhere_same)
  then show ?thesis
    using s1 s2 sysd.same_trans by blast
qed

lemma ps_step_others:
  assumes "ps_act d e (PrEntry op) c = (Inr (), c')"
  shows "ps_others c' = ps_others c \<or> (\<exists>u a v. ps_gate d e u a v (ps_others c) = Inr (ps_others c'))"
  by (cases rule: ps_act_cases [OF assms]) auto

text \<open>A call to the system, seen from the proof registry, is one of its entry points or a move of
  the other contracts.\<close>

lemma proof_call_others:
  assumes "sys_wf s" and "pr_call (system_deps x) e op s = (Inr (), s')"
  shows "same_ledger (others s) (others s')"
proof -
  have wf: "pr_wf s" "pc_wf (config (others s))" "ir_wf (registry (others s))"
    using assms(1) by (simp_all add: sys_wf_def)
  have act: "pr_act (system_deps x) e (PrEntry op) s = (Inr (), s')"
    using assms(2) by simp
  show ?thesis
    using ps_step_others [OF pr_act_commits [OF wf(1) act]] system_gate_same [OF wf(2,3)] sysd.same_refl
    by (auto simp: pr_abs_simps)
qed

lemma pr_wf_others: "pr_wf (s\<lparr>others := w\<rparr>) = pr_wf s"
  by (simp add: pr_wf_def)

lemma sys_call_cases:
  assumes "sys_call x e op s = (Inr (), s')" and "sys_wf s"
  obtains (config) o1 c where "op = SysConfig o1" "pc_call e o1 (config (others s)) = (Inr (), c)"
      "s' = s\<lparr>others := (others s)\<lparr>config := c\<rparr>\<rparr>"
  | (registry) o2 r where "op = SysRegistry o2" "ir_call e o2 (registry (others s)) = (Inr (), r)"
      "s' = s\<lparr>others := (others s)\<lparr>registry := r\<rparr>\<rparr>"
  | (proof_registry) o3 where "op = SysProof o3" "pr_call (system_deps x) e o3 s = (Inr (), s')"
      "same_ledger (others s) (others s')"
proof (cases op)
  case (SysConfig o1)
  obtain r c where m: "pc_call e o1 (config (others s)) = (r, c)" by (cases "pc_call e o1 (config (others s))")
  with SysConfig assms(1) have "r = Inr ()" "s' = s\<lparr>others := (others s)\<lparr>config := c\<rparr>\<rparr>"
    by (cases r; simp add: on_config_def)+
  with SysConfig m that(1) show ?thesis by simp
next
  case (SysRegistry o2)
  obtain r c where m: "ir_call e o2 (registry (others s)) = (r, c)" by (cases "ir_call e o2 (registry (others s))")
  with SysRegistry assms(1) have "r = Inr ()" "s' = s\<lparr>others := (others s)\<lparr>registry := c\<rparr>\<rparr>"
    by (simp_all add: on_registry_def)
  with SysRegistry m that(2) show ?thesis by simp
next
  case (SysProof o3)
  with assms that(3) proof_call_others show ?thesis by simp
qed

lemma sys_call_wf:
  assumes "sys_wf s" and "sys_call x e op s = (Inr (), s')"
  shows "sys_wf s'"
  using assms(2,1)
proof (cases rule: sys_call_cases)
  case (config o1 c)
  with assms(1) show ?thesis by (auto simp: sys_wf_def pr_wf_others dest: pc_call_wf)
next
  case (registry o2 r)
  with assms(1) show ?thesis by (auto simp: sys_wf_def pr_wf_others dest: ir_call_wf)
next
  case (proof_registry o3)
  then show ?thesis
    using assms(1) same_ledger_wf pr_call_wf by (simp add: sys_wf_def, blast)
qed

interpretation sysm: contract_machine "sys_call x" sys_wf for x
  by unfold_locales (rule sys_call_wf)

lemma sys_wf_fresh: "sys_wf (fresh_system ca ra lu w)"
  by (simp add: sys_wf_def fresh_system_def fresh_ledger_def pr_wf_fresh pc_wf_fresh ir_wf_fresh)

abbreviation sys_after :: "ledger dependencies \<Rightarrow> (env \<times> sys_op) list \<Rightarrow> address \<Rightarrow> address \<Rightarrow> u32 \<Rightarrow> bytes32 \<Rightarrow> system" where
  "sys_after x h ca ra lu w \<equiv> run_calls (sys_call x) h (fresh_system ca ra lu w)"

lemma sys_after_wf: "sys_wf (sys_after x h ca ra lu w)"
  by (rule sysm.run_wf [OF sys_wf_fresh])

section \<open>What every history of the system keeps\<close>

lemma sys_call_act:
  assumes "sys_wf s" and "sys_call x e op s = (Inr (), s')"
  shows "\<exists>act. pr_act (system_deps x) e act s = (Inr (), s')"
  using assms(2,1)
proof (cases rule: sys_call_cases)
  case (config o1 c)
  then show ?thesis by (intro exI [of _ "PrOthers (\<lambda>w. w\<lparr>config := c\<rparr>)"]) simp
next
  case (registry o2 r)
  then show ?thesis by (intro exI [of _ "PrOthers (\<lambda>w. w\<lparr>registry := r\<rparr>)"]) simp
next
  case (proof_registry o3)
  then show ?thesis by (intro exI [of _ "PrEntry o3"]) simp
qed

lemma sys_pr_wf: "sys_wf s \<Longrightarrow> pr_wf s"
  by (simp add: sys_wf_def)

lemma sys_call_keeps:
  assumes "sys_wf s" and "sys_call x e op s = (Inr (), s')"
  shows "config_address (others s') = config_address (others s)"
    and "registry_address (others s') = registry_address (others s)"
    and "pr_setup s = Some u \<Longrightarrow> pr_setup s' = Some u"
    and "pr_proof s i = Some r \<Longrightarrow> \<exists>r'. pr_proof s' i = Some r' \<and> proof_evolves r r'"
    and "ir_issuer (registry (others s)) i = Some q \<Longrightarrow>
      \<exists>q'. ir_issuer (registry (others s')) i = Some q' \<and> record_evolves q q'"
proof -
  show "pr_setup s = Some u \<Longrightarrow> pr_setup s' = Some u"
    using pr_act_setup [OF sys_pr_wf [OF assms(1)]] sys_call_act [OF assms] by blast
  show "pr_proof s i = Some r \<Longrightarrow> \<exists>r'. pr_proof s' i = Some r' \<and> proof_evolves r r'"
    using pr_act_proof [OF sys_pr_wf [OF assms(1)]] sys_call_act [OF assms] by blast
  have wf: "ir_wf (registry (others s))" using assms(1) by (simp add: sys_wf_def)
  have "config_address (others s') = config_address (others s) \<and>
    registry_address (others s') = registry_address (others s) \<and>
    (ir_issuer (registry (others s)) i = Some q \<longrightarrow>
      (\<exists>q'. ir_issuer (registry (others s')) i = Some q' \<and> record_evolves q q'))"
    using assms(2,1)
  proof (cases rule: sys_call_cases)
    case (registry o2 r)
    then show ?thesis
      using ir_call_record [OF wf registry(2)] by auto
  next
    case (proof_registry o3)
    then show ?thesis
      using same_entries_ir [of "registry (others s)" "registry (others s')"]
      by (auto simp: same_ledger_def ir_abs_def)
  qed auto
  then show "config_address (others s') = config_address (others s)"
    and "registry_address (others s') = registry_address (others s)"
    and "ir_issuer (registry (others s)) i = Some q \<Longrightarrow>
      \<exists>q'. ir_issuer (registry (others s')) i = Some q' \<and> record_evolves q q'"
    by blast+
qed

lemma sys_run_addresses:
  assumes "sys_wf s"
  shows "config_address (others (run_calls (sys_call x) h s)) = config_address (others s) \<and>
     registry_address (others (run_calls (sys_call x) h s)) = registry_address (others s)"
  by (rule sysm.run_respects [where R = "\<lambda>s t. config_address (others t) = config_address (others s) \<and>
        registry_address (others t) = registry_address (others s)", OF _ _ _ assms])
    (use sys_call_keeps(1,2) in auto)

lemma sys_run_setup:
  assumes "sys_wf s"
  shows "pr_setup s = Some u \<longrightarrow> pr_setup (run_calls (sys_call x) h s) = Some u"
  by (rule sysm.run_respects [where R = "\<lambda>s t. pr_setup s = Some u \<longrightarrow> pr_setup t = Some u", OF _ _ _ assms])
    (use sys_call_keeps(3) in auto)

lemma sys_run_issuer:
  assumes "sys_wf s" and "ir_issuer (registry (others s)) i = Some q"
  shows "\<exists>q'. ir_issuer (registry (others (run_calls (sys_call x) h s))) i = Some q' \<and> record_evolves q q'"
proof -
  let ?R = "\<lambda>s t. \<forall>q. ir_issuer (registry (others s)) i = Some q \<longrightarrow>
    (\<exists>q'. ir_issuer (registry (others t)) i = Some q' \<and> record_evolves q q')"
  have "?R s (run_calls (sys_call x) h s)"
  proof (rule sysm.run_respects [where R = ?R])
    show "?R s s'" if "sys_wf s" and "sys_call x e op s = (Inr (), s')" for s e op s'
      using sys_call_keeps(5) [OF that] by blast
    show "?R s u" if "?R s t" and "?R t u" for s t u
      using that record_evolves_trans by blast
  qed (use assms(1) in auto)
  with assms(2) show ?thesis by blast
qed

lemma sys_after_addresses [simp]:
  "config_address (others (sys_after x h ca ra lu w)) = ca"
  "registry_address (others (sys_after x h ca ra lu w)) = ra"
  using sys_run_addresses [OF sys_wf_fresh, of x h ca ra lu w]
  by (simp_all add: fresh_system_def fresh_ledger_def)

section \<open>The registration gate\<close>

definition gate_open :: "env \<Rightarrow> setup_spec \<Rightarrow> bytes32 \<Rightarrow> address \<Rightarrow> u32 \<Rightarrow> u64 \<Rightarrow> system \<Rightarrow> bool" where
  "gate_open e u i a v t s \<longleftrightarrow>
     is_valid_principal_address e a \<and>
     a \<notin> {current_contract_address e, su_protocol_config u, su_issuer_registry u} \<and>
     authorized e a \<and> v \<noteq> 0 \<and> ledger_timestamp e < t \<and>
     \<not> pc_paused (config (others s)) \<and> pc_schema (config (others s)) v = Some True \<and>
     (\<exists>j q. ir_issuer (registry (others s)) j = Some q \<and> ir_issuer_address q = a \<and> ir_status q = IssuerActive) \<and>
     pr_proof s i = None"

lemma sys_register_outcome:
  assumes "sys_wf s" and "pr_setup s = Some u" and "su_protocol_config u = config_address (others s)"
    and "su_issuer_registry u = registry_address (others s)"
  shows "fst (invoke (sys_call x e (SysProof (PrRegisterProof i c a v t))) s) = Inr () \<longleftrightarrow> gate_open e u i a v t s"
    and "fst (invoke (sys_call x e (SysProof (PrRegisterProof i c a v t))) s) \<noteq> Inl HostTrap"
proof -
  have wf: "pr_wf s" "config_at (su_protocol_config u) (others s)" "registry_at (su_issuer_registry u) (others s)"
    using assms by (auto simp: sys_wf_def config_at_def registry_at_def)
  have ir: "ir_wf (registry (others s))" using assms(1) by (simp add: sys_wf_def)
  show "fst (invoke (sys_call x e (SysProof (PrRegisterProof i c a v t))) s) = Inr () \<longleftrightarrow> gate_open e u i a v t s"
    using sysd.register_outcome(1) [OF wf(1) assms(2) wf(2,3), of x e i c a v t] active_address_iff [OF ir, of a]
    unfolding gate_open_def sys_call.simps by blast
  show "fst (invoke (sys_call x e (SysProof (PrRegisterProof i c a v t))) s) \<noteq> Inl HostTrap"
    using sysd.register_outcome(2) [OF wf(1) assms(2) wf(2,3)] by simp
qed

text \<open>A proof record appears only through \<open>register_proof\<close>.\<close>

lemma ps_new_proof:
  assumes "ps_act d e act c = (Inr (), c')" and "ps_proofs c i = None" and "ps_proofs c' i = Some r"
  shows "act = PrEntry (PrRegisterProof i (pr_commitment_hash r) (pr_issuer_address r) (pr_schema_version r)
      (pr_expires_at r)) \<and> pr_created_at r = ledger_timestamp e \<and> ps_setup c \<noteq> None"
  by (cases rule: ps_act_cases [OF assms(1)]) (use assms(2,3) in \<open>auto split: if_splits\<close>)

lemma sys_new_proof:
  assumes "sys_wf s" and "pr_proof s i = None"
    and "pr_proof (snd (invoke (sys_call x e op) s)) i = Some r"
  shows "op = SysProof (PrRegisterProof i (pr_commitment_hash r) (pr_issuer_address r) (pr_schema_version r)
      (pr_expires_at r)) \<and> pr_created_at r = ledger_timestamp e \<and> pr_setup s \<noteq> None \<and>
      fst (invoke (sys_call x e op) s) = Inr ()"
proof (cases rule: invoke_cases [of "sys_call x e op" s])
  case (rolled_back a t)
  with assms(2,3) show ?thesis by simp
next
  case (committed y s')
  then have c: "sys_call x e op s = (Inr (), s')" and s': "snd (invoke (sys_call x e op) s) = s'" by simp_all
  from c assms(1) show ?thesis
  proof (cases rule: sys_call_cases)
    case (proof_registry o3)
    then have "pr_act (system_deps x) e (PrEntry o3) s = (Inr (), s')" by simp
    from ps_new_proof [OF pr_act_commits [OF sys_pr_wf [OF assms(1)] this], of i r] committed(2) proof_registry(1)
    show ?thesis using assms(2,3) s' by simp
  qed (use assms(2,3) s' in auto)
qed

lemma proof_evolves_fields:
  "proof_evolves r r' \<Longrightarrow> pr_commitment_hash r' = pr_commitment_hash r \<and> pr_issuer_address r' = pr_issuer_address r \<and>
     pr_schema_version r' = pr_schema_version r \<and> pr_expires_at r' = pr_expires_at r \<and>
     pr_created_at r' = pr_created_at r"
  unfolding proof_evolves_def
  by (erule disjE) (simp, cases r, cases r', simp)

lemma sys_invoke_proof:
  assumes "sys_wf s" and "pr_proof s i = Some r0" and "pr_proof (snd (invoke (sys_call x e op) s)) i = Some r"
  shows "proof_evolves r0 r"
proof (cases rule: invoke_cases [of "sys_call x e op" s])
  case (rolled_back a t)
  with assms(2,3) show ?thesis by (simp add: proof_evolves_def)
next
  case (committed y s')
  then show ?thesis
    using sys_call_keeps(4) [OF assms(1) _ assms(2)] assms(3) by fastforce
qed

lemma sys_uninit_no_proofs: "sys_wf s \<Longrightarrow> pr_setup s = None \<Longrightarrow> pr_proof s i = None"
  using pr_views_uninit(2) [OF sys_pr_wf] by simp

lemma sys_run_snoc: "run_calls call (h @ [(e, op)]) s = snd (invoke (call e op) (run_calls call h s))"
  by (simp add: run_calls_append)

lemma sys_setup_before:
  assumes "sys_wf s" and "pr_setup s \<noteq> None" and "pr_setup (snd (invoke (sys_call x e op) s)) = Some u"
  shows "pr_setup s = Some u"
proof -
  obtain u' where u': "pr_setup s = Some u'" using assms(2) by (cases "pr_setup s") simp_all
  then have "pr_setup (snd (invoke (sys_call x e op) s)) = Some u'"
    using sys_run_setup [OF assms(1), of u' x "[(e, op)]"] by simp
  with assms(3) u' show ?thesis by simp
qed

lemma stored_proof_admitted:
  assumes "pr_setup (sys_after x h ca ra lu w) = Some u"
    and "su_protocol_config u = ca" and "su_issuer_registry u = ra"
    and "pr_proof (sys_after x h ca ra lu w) i = Some r"
  shows "\<exists>h1 e h2. h = h1 @ (e, SysProof (PrRegisterProof i (pr_commitment_hash r) (pr_issuer_address r)
        (pr_schema_version r) (pr_expires_at r))) # h2 \<and> pr_created_at r = ledger_timestamp e \<and>
     gate_open e u i (pr_issuer_address r) (pr_schema_version r) (pr_expires_at r) (sys_after x h1 ca ra lu w)"
  using assms(1,4)
proof (induction h arbitrary: r rule: rev_induct)
  case Nil
  then show ?case by (simp add: fresh_system_def pr_view_defs)
next
  case (snoc c h)
  obtain e op where c: "c = (e, op)" by (cases c)
  let ?s = "sys_after x h ca ra lu w"
  note wf = sys_after_wf [of x h ca ra lu w]
  have after: "sys_after x (h @ [c]) ca ra lu w = snd (invoke (sys_call x e op) ?s)"
    by (simp add: c sys_run_snoc)
  have r: "pr_proof (snd (invoke (sys_call x e op) ?s)) i = Some r"
    and u: "pr_setup (snd (invoke (sys_call x e op) ?s)) = Some u"
    using snoc.prems by (simp_all add: after)
  show ?case
  proof (cases "pr_proof ?s i")
    case None
    note new = sys_new_proof [OF wf None r]
    then have su: "pr_setup ?s = Some u" using sys_setup_before [OF wf _ u] by blast
    have "gate_open e u i (pr_issuer_address r) (pr_schema_version r) (pr_expires_at r) ?s"
      using sys_register_outcome(1) [OF wf su] assms(2,3) new by auto
    then show ?thesis
      using new c by (intro exI [of _ h] exI [of _ e] exI [of _ "[]"]) simp
  next
    case (Some r0)
    then have "pr_setup ?s \<noteq> None"
      using sys_uninit_no_proofs [OF wf, of i] by (metis option.distinct(1))
    then have su: "pr_setup ?s = Some u" by (rule sys_setup_before [OF wf _ u])
    note ev = proof_evolves_fields [OF sys_invoke_proof [OF wf Some r]]
    from snoc.IH [OF su Some] obtain h1 e' h2 where
      "h = h1 @ (e', SysProof (PrRegisterProof i (pr_commitment_hash r0) (pr_issuer_address r0)
        (pr_schema_version r0) (pr_expires_at r0))) # h2" "pr_created_at r0 = ledger_timestamp e'"
      "gate_open e' u i (pr_issuer_address r0) (pr_schema_version r0) (pr_expires_at r0) (sys_after x h1 ca ra lu w)"
      by blast
    then show ?thesis
      using ev by (intro exI [of _ h1] exI [of _ e'] exI [of _ "h2 @ [c]"]) simp
  qed
qed


section \<open>Error codes\<close>

definition returned_codes :: "u32 set" where
  "returned_codes = {c. \<exists>es. error_spec_for c = Some es \<and> es_status es = StatusReturned}"

lemma cf_step_errors:
  "fst (cf_step e op c) = Inl (Err x) \<Longrightarrow> x \<in> {AlreadyInitialized, NotInitialized, InvalidInput}"
  by (cases op) (auto simp: cf_as_admin_def cf_bump_def split: if_splits option.splits)

lemma rg_step_errors:
  "fst (rg_step e op c) = Inl (Err x) \<Longrightarrow>
     x \<in> contract_error_code ` {AlreadyInitialized, NotInitialized, InvalidInput} \<union>
       issuer_error_code ` {IssuerAlreadyRegistered, IssuerNotFound, IssuerAddressAlreadyRegistered,
         IssuerAddressNotFound, IssuerIsRevoked, InvalidTransition, IE_InvalidAddress}"
  by (cases op) (auto simp: rg_defs split: if_splits option.splits)

lemma ps_step_errors:
  "fst (ps_step d e op c) = Inl (Err x) \<Longrightarrow>
     x \<in> contract_error_code ` {AlreadyInitialized, NotInitialized, InvalidInput} \<union>
       proof_error_code ` {ProofAlreadyRegistered, ProofNotFound, ProofAlreadyRevoked, ProofExpired,
         InvalidSchemaVersion, SchemaVersionNotApproved, PE_InvalidAddress}"
  by (cases op) (auto simp: ps_defs split: if_splits option.splits prod.splits sum.splits)

lemma fst_invoke: "fst (invoke m s) = fst (m s)"
  by (simp add: invoke_def split: prod.split sum.split)

lemma fst_on_config: "fst (invoke (on_config m) s) = map_sum (map_abort contract_error_code) id (fst (invoke m (config (others s))))"
  by (simp add: fst_invoke on_config_def split: prod.split)

lemma fst_on_registry: "fst (invoke (on_registry m) s) = fst (invoke m (registry (others s)))"
  by (simp add: fst_invoke on_registry_def split: prod.split)

lemma ir_invoke_outcome: "ir_wf s \<Longrightarrow> fst (invoke (ir_call e op) s) = fst (rg_step e op (ir_abs s))"
  by (simp flip: ir_call_refines)

lemma pr_invoke_outcome: "pr_wf s \<Longrightarrow> fst (invoke (pr_call d e op) s) = fst (ps_step d e op (pr_abs s))"
  by (simp flip: pr_call_refines)

lemma map_abort_Err: "map_sum (map_abort f) id r = Inl (Err x) \<longleftrightarrow> (\<exists>y. r = Inl (Err y) \<and> x = f y)"
proof (cases r)
  case (Inl a)
  then show ?thesis by (cases a) auto
qed simp

lemma sys_errors:
  assumes "sys_wf s" and "fst (invoke (sys_call x e op) s) = Inl (Err c)"
  shows "c \<in> contract_error_code ` {AlreadyInitialized, NotInitialized, InvalidInput} \<union>
       issuer_error_code ` {IssuerAlreadyRegistered, IssuerNotFound, IssuerAddressAlreadyRegistered,
         IssuerAddressNotFound, IssuerIsRevoked, InvalidTransition, IE_InvalidAddress} \<union>
       proof_error_code ` {ProofAlreadyRegistered, ProofNotFound, ProofAlreadyRevoked, ProofExpired,
         InvalidSchemaVersion, SchemaVersionNotApproved, PE_InvalidAddress}"
proof (cases op)
  case (SysConfig o1)
  then obtain y where "fst (cf_step e o1 (pc_abs (config (others s)))) = Inl (Err y)" "c = contract_error_code y"
    using assms by (auto simp: sys_wf_def fst_on_config map_abort_Err pc_invoke_outcome)
  then show ?thesis using cf_step_errors by blast
next
  case (SysRegistry o2)
  then have "fst (rg_step e o2 (ir_abs (registry (others s)))) = Inl (Err c)"
    using assms by (simp add: sys_wf_def fst_on_registry ir_invoke_outcome)
  then show ?thesis using rg_step_errors by blast
next
  case (SysProof o3)
  then have "fst (ps_step (system_deps x) e o3 (pr_abs s)) = Inl (Err c)"
    using assms by (simp add: sys_wf_def pr_invoke_outcome)
  then show ?thesis using ps_step_errors by blast
qed


lemma returned_codes_eq:
  "returned_codes = {1, 2, 60, 200, 201, 202, 203, 204, 206, 300, 301, 302, 303, 304, 305}"
proof -
  have "returned_codes = es_code ` set (filter (\<lambda>es. es_status es = StatusReturned) ERROR_CATALOG)"
    by (auto simp: returned_codes_def error_spec_for_lookup)
  also have "\<dots> = {1, 2, 60, 200, 201, 202, 203, 204, 206, 300, 301, 302, 303, 304, 305}"
    by (simp add: ERROR_CATALOG_def common_errors_def issuer_errors_def proof_errors_def)
  finally show ?thesis .
qed

section \<open>Time\<close>

text \<open>
  The system under a clock that never runs backwards: deployment, the passing of time, and an
  invocation at the current time of any entry point of any of the three contracts.
\<close>

inductive sys_reachable :: "ledger dependencies \<Rightarrow> u64 \<Rightarrow> system \<Rightarrow> bool" for x where
  deploy: "sys_reachable x now (fresh_system ca ra lu w)"
| tick: "sys_reachable x now s \<Longrightarrow> now \<le> now' \<Longrightarrow> sys_reachable x now' s"
| call: "sys_reachable x now s \<Longrightarrow> ledger_timestamp e = now \<Longrightarrow>
    sys_reachable x now (snd (invoke (sys_call x e op) s))"

definition issuer_times_ok :: "u64 \<Rightarrow> issuer_record \<Rightarrow> bool" where
  "issuer_times_ok now r \<longleftrightarrow> ir_created_at r \<le> ir_updated_at r \<and> ir_updated_at r \<le> now"

definition proof_times_ok :: "u64 \<Rightarrow> proof_record \<Rightarrow> bool" where
  "proof_times_ok now r \<longleftrightarrow> pr_created_at r \<le> now \<and> pr_created_at r < pr_expires_at r \<and>
     (if pr_status r = ProofRevoked then pr_created_at r \<le> pr_revoked_at r \<and> pr_revoked_at r \<le> now
      else pr_revoked_at r = 0)"

definition times_ok :: "u64 \<Rightarrow> system \<Rightarrow> bool" where
  "times_ok now s \<longleftrightarrow> (\<forall>i r. ir_issuer (registry (others s)) i = Some r \<longrightarrow> issuer_times_ok now r) \<and>
     (\<forall>i r. pr_proof s i = Some r \<longrightarrow> proof_times_ok now r)"

lemma times_ok_mono: "times_ok now s \<Longrightarrow> now \<le> now' \<Longrightarrow> times_ok now' s"
  unfolding times_ok_def issuer_times_ok_def proof_times_ok_def by (meson order_trans)

lemma sys_reachable_wf: "sys_reachable x now s \<Longrightarrow> sys_wf s"
  by (induction rule: sys_reachable.induct) (auto simp: sys_wf_fresh sysm.invoke_wf)

lemma rg_step_issuers:
  assumes "rg_step e op c = (Inr (), c')" and "rg_issuers c' i = Some r"
  shows "rg_issuers c i = Some r \<or> ir_updated_at r = ledger_timestamp e \<and> (ir_created_at r = ledger_timestamp e \<or>
    (\<exists>r0. rg_issuers c i = Some r0 \<and> ir_created_at r = ir_created_at r0))"
  using assms by (cases op) (auto simp: rg_defs split: if_splits option.splits)

lemma rg_step_times:
  assumes "rg_step e op c = (Inr (), c')"
    and ok: "\<And>i r. rg_issuers c i = Some r \<Longrightarrow> issuer_times_ok (ledger_timestamp e) r"
    and "rg_issuers c' i = Some r"
  shows "issuer_times_ok (ledger_timestamp e) r"
  using rg_step_issuers [OF assms(1,3)]
proof (elim disjE conjE exE)
  fix r0 assume "ir_updated_at r = ledger_timestamp e" "rg_issuers c i = Some r0" "ir_created_at r = ir_created_at r0"
  then show ?thesis
    using ok [of i r0] unfolding issuer_times_ok_def by (metis order_refl order_trans)
qed (use ok in \<open>auto simp: issuer_times_ok_def\<close>)

lemma ps_act_times:
  assumes "ps_act d e act c = (Inr (), c')"
    and ok: "\<And>i r. ps_proofs c i = Some r \<Longrightarrow> proof_times_ok (ledger_timestamp e) r"
    and "ps_proofs c' i = Some r" and "proof_ok i r"
  shows "proof_times_ok (ledger_timestamp e) r"
proof (cases "ps_proofs c i = Some r")
  case True
  then show ?thesis by (rule ok)
next
  case False
  from assms(1) show ?thesis
  proof (cases rule: ps_act_cases)
    case (registered j m a v t w u)
    with False assms(3) have "r = \<lparr>pr_proof_id_hash = i, pr_commitment_hash = m, pr_issuer_address = a,
        pr_status = ProofActive, pr_schema_version = v, pr_expires_at = t, pr_created_at = ledger_timestamp e,
        pr_revoked_at = 0\<rparr>"
      by (auto split: if_splits)
    with assms(4) show ?thesis
      by (simp add: proof_times_ok_def proof_ok_def)
  next
    case (revoked j r0 u)
    with False assms(3) have "r = r0\<lparr>pr_status := ProofRevoked, pr_revoked_at := ledger_timestamp e\<rparr>"
      by (auto split: if_splits)
    with ok [OF revoked(3)] show ?thesis
      by (simp add: proof_times_ok_def)
  qed (use False assms(3) in auto)
qed

lemma sys_call_times:
  assumes "sys_wf s" and "sys_call x e op s = (Inr (), s')" and "times_ok (ledger_timestamp e) s"
  shows "times_ok (ledger_timestamp e) s'"
proof -
  have wf': "sys_wf s'" by (rule sys_call_wf [OF assms(1,2)])
  obtain act where act: "pr_act (system_deps x) e act s = (Inr (), s')"
    using sys_call_act [OF assms(1,2)] by blast
  have proofs: "\<forall>i r. pr_proof s' i = Some r \<longrightarrow> proof_times_ok (ledger_timestamp e) r"
    using ps_act_times [OF pr_act_commits [OF sys_pr_wf [OF assms(1)] act]] assms(3)
      pr_proof_ok [OF sys_pr_wf [OF wf']] by (simp add: times_ok_def)
  have wf: "ir_wf (registry (others s))" using assms(1) by (simp add: sys_wf_def)
  have "\<forall>i r. ir_issuer (registry (others s')) i = Some r \<longrightarrow> issuer_times_ok (ledger_timestamp e) r"
    using assms(2,1)
  proof (cases rule: sys_call_cases)
    case (config o1 c)
    then show ?thesis using assms(3) by (simp add: times_ok_def)
  next
    case (registry o2 r)
    from rg_step_times [OF ir_call_commits [OF wf registry(2)]] assms(3) registry(3)
    show ?thesis unfolding times_ok_def by simp
  next
    case (proof_registry o3)
    then have "ir_abs (registry (others s')) = ir_abs (registry (others s))"
      using same_entries_ir by (simp add: same_ledger_def)
    then have "ir_issuer (registry (others s')) = ir_issuer (registry (others s))"
      by (metis ir_abs_simps(2))
    then show ?thesis using assms(3) by (simp add: times_ok_def)
  qed
  with proofs show ?thesis by (simp add: times_ok_def)
qed

lemma sys_reachable_times: "sys_reachable x now s \<Longrightarrow> times_ok now s"
proof (induction rule: sys_reachable.induct)
  case (deploy now ca ra lu w)
  show ?case
    by (simp add: times_ok_def fresh_system_def fresh_ledger_def ir_view_defs pr_view_defs)
next
  case (tick now s now')
  then show ?case by (blast intro: times_ok_mono)
next
  case (call now s e op)
  then show ?case
    using sys_call_times [OF sys_reachable_wf [OF call.hyps(1)], of x e op]
    by (cases rule: invoke_cases [of "sys_call x e op" s]) auto
qed

section \<open>Lifetimes\<close>

lemma pr_setup_stored:
  assumes "pr_wf s" and "pr_setup s = Some u"
  shows "pr_issuer_registry s = Some (su_issuer_registry u)" "pr_protocol_config s = Some (su_protocol_config u)"
  using assms pr_stored_init(2,3) [OF assms(1)] by (auto simp: pr_setup_def)

lemma sys_register_lifetimes:
  assumes "sys_wf s" and "pr_setup s = Some u" and "su_protocol_config u = config_address (others s)"
    and "su_issuer_registry u = registry_address (others s)"
    and reg: "register_proof (system_deps x) e i c a v t s = (Inr (), s')"
  shows "pers_until s' = (pers_until s)(PrProof i := ttl_extend e TTL_THRESHOLD_LEDGERS TTL_EXTEND_TO_LEDGERS (ttl_initial e))"
    and "inst_until s' = inst_until s"
    and "pers_until (config (others s')) = (pers_until (config (others s)))(PcSchemaVersion v :=
      ttl_extend e TTL_THRESHOLD_LEDGERS TTL_EXTEND_TO_LEDGERS (pers_until (config (others s)) (PcSchemaVersion v)))"
    and "\<exists>j. ir_index (registry (others s)) a = Some j \<and>
      pers_until (registry (others s')) = (pers_until (registry (others s)))(IrIssuer j :=
        ttl_extend e TTL_THRESHOLD_LEDGERS TTL_EXTEND_TO_LEDGERS (pers_until (registry (others s)) (IrIssuer j)))"
proof -
  have wf: "pr_wf s" "pc_wf (config (others s))" "ir_wf (registry (others s))"
    using assms(1) by (simp_all add: sys_wf_def)
  note stored = pr_stored [OF wf(1)] pr_setup_stored [OF wf(1) assms(2)]
  let ?c = "config (others s)" and ?g = "registry (others s)"
  have app: "pc_schema ?c v = Some True" and act: "active_address ?g a" 
    and free: "pr_proof s i = None"
    using sys_register_outcome(1) [OF assms(1-4), of x e i c a v t] reg
      active_address_iff [OF wf(3), of a] by (auto simp: gate_open_def fst_invoke run)
  obtain j where j: "ir_index ?g a = Some j"
    using act by (auto simp: active_address_def split: option.splits)
  have "s' = s\<lparr>others := (others s)\<lparr>config := ?c\<lparr>pers_until := (pers_until ?c)(PcSchemaVersion v :=
        ttl_extend e TTL_THRESHOLD_LEDGERS TTL_EXTEND_TO_LEDGERS (pers_until ?c (PcSchemaVersion v)))\<rparr>,
        registry := issuer_touched e j ?g\<rparr>,
      pers := pers s', pers_until := (pers_until s)(PrProof i := ttl_extend e TTL_THRESHOLD_LEDGERS TTL_EXTEND_TO_LEDGERS (ttl_initial e))\<rparr>"
    using reg assms(3,4) stored free app act j
    by (auto simp: register_proof_def pr_require_valid_issuer_address_def get_protocol_config_def get_issuer_registry_def
      pr_require_auth_def extend_proof_key_ttl_def run read_config_def read_registry_def is_paused_read [OF wf(2)] is_schema_version_approved_read [OF wf(2)]
      is_active_address_read [OF wf(3)] issuer_touched_def Let_def split: if_splits)
  then show "pers_until s' = (pers_until s)(PrProof i := ttl_extend e TTL_THRESHOLD_LEDGERS TTL_EXTEND_TO_LEDGERS (ttl_initial e))"
    and "inst_until s' = inst_until s"
    and "pers_until (config (others s')) = (pers_until (config (others s)))(PcSchemaVersion v :=
      ttl_extend e TTL_THRESHOLD_LEDGERS TTL_EXTEND_TO_LEDGERS (pers_until (config (others s)) (PcSchemaVersion v)))"
    and "\<exists>j. ir_index (registry (others s)) a = Some j \<and>
      pers_until (registry (others s')) = (pers_until (registry (others s)))(IrIssuer j :=
        ttl_extend e TTL_THRESHOLD_LEDGERS TTL_EXTEND_TO_LEDGERS (pers_until (registry (others s)) (IrIssuer j)))"
    using j by (cases s'; simp add: issuer_touched_def)+
qed

section \<open>A concrete deployment\<close>

lemma run_calls_reachable:
  "list_all (\<lambda>(e, op). ledger_timestamp e = now) h \<Longrightarrow> sys_reachable x now s \<Longrightarrow>
     sys_reachable x now (run_calls (sys_call x) h s)"
proof (induction h arbitrary: s)
  case (Cons c h)
  obtain e op where c: "c = (e, op)" by (cases c)
  have "sys_reachable x now (snd (invoke (sys_call x e op) s))"
    using sys_reachable.call [OF Cons.prems(2), of e op] Cons.prems(1) c by simp
  from Cons.IH [OF _ this] Cons.prems(1) show ?case
    by (simp add: c)
qed simp

definition no_contract :: "ledger dependencies" where
  "no_contract = \<lparr>dep_is_paused = (\<lambda>e a w. None), dep_is_schema_version_approved = (\<lambda>e a v w. None),
     dep_is_active_address = (\<lambda>e a b w. None)\<rparr>"

definition sample_history :: "(env \<times> sys_op) list" where
  "sample_history = [(sample_env, SysConfig (PcInitialize (Address 101))),
     (sample_env, SysConfig (PcApproveSchema 1)),
     (sample_env, SysRegistry (IrInitialize (Address 101))),
     (sample_env, SysRegistry (IrRegisterIssuer 21 (Address 104) 31)),
     (sample_env, SysProof (PrInitialize (Address 101) (Address 102) (Address 103))),
     (sample_env, SysProof (PrRegisterProof 41 51 (Address 104) 1 2000))]"

abbreviation sample_system :: system where
  "sample_system \<equiv> sys_after no_contract sample_history (Address 103) (Address 102) 0 0"

lemmas sys_eval = on_config_def on_registry_def read_config_def read_registry_def fresh_system_def
  fresh_ledger_def callee_env_def fresh_registry_simps sample_setup_def sample_proof_def

definition sample_active :: issuer_record where
  "sample_active = \<lparr>ir_issuer_id_hash = 21, ir_issuer_address = Address 104, ir_metadata_hash = 31,
     ir_status = IssuerActive, ir_created_at = 1000, ir_updated_at = 1000\<rparr>"

lemma sample_system_views:
  "pr_setup sample_system = Some sample_setup" "pr_proof sample_system 41 = Some sample_proof"
  "ir_issuer (registry (others sample_system)) 21 = Some sample_active"
  by (simp_all add: sample_history_def sys_eval pc_eval ir_eval pr_eval pr_view_defs ir_view_defs pr_setup_def sample_active_def)

lemma sample_setup_simps [simp]:
  "su_admin sample_setup = Address 101" "su_issuer_registry sample_setup = Address 102"
  "su_protocol_config sample_setup = Address 103"
  by (simp_all add: sample_setup_def)

lemma sample_system_config:
  "\<not> pc_paused (config (others sample_system))" "pc_schema (config (others sample_system)) 1 = Some True"
  "pr_proof sample_system 42 = None"
  by (simp_all add: sample_history_def sys_eval pc_eval ir_eval pr_eval pr_view_defs ir_view_defs pc_paused_def pc_schema_def)


section \<open>Properties\<close>

text \<open>
  C1: the registration gate of the deployed system is exact: in every state any interleaving of
  calls to the three contracts can reach, \<open>register_proof\<close> commits exactly when the issuer
  address is a valid principal, is none of the three contracts and has authorized the call,
  the schema version is nonzero and approved in protocol-config, the protocol is not paused,
  the expiry lies in the future, some issuer record holds the address with status active, and
  the proof identifier is free. When it does not commit, it never traps: the caller gets an
  error code or an authorization failure.
\<close>

theorem registration_gate_exact:
  assumes "s = sys_after x h ca ra lu w" and "pr_setup s = Some u"
    and "su_protocol_config u = ca" and "su_issuer_registry u = ra"
  shows "(fst (invoke (sys_call x e (SysProof (PrRegisterProof i c a v t))) s) = Inr () \<longleftrightarrow>
     is_valid_principal_address e a \<and> a \<notin> {current_contract_address e, ca, ra} \<and> authorized e a \<and>
     v \<noteq> 0 \<and> pc_schema (config (others s)) v = Some True \<and> \<not> pc_paused (config (others s)) \<and>
     ledger_timestamp e < t \<and>
     (\<exists>j q. ir_issuer (registry (others s)) j = Some q \<and> ir_issuer_address q = a \<and> ir_status q = IssuerActive) \<and>
     pr_proof s i = None) \<and>
   fst (invoke (sys_call x e (SysProof (PrRegisterProof i c a v t))) s) \<noteq> Inl HostTrap"
  using sys_register_outcome [OF sys_after_wf, of x h ca ra lu w u x e i c a v t] assms
  by (auto simp: gate_open_def)

theorem registration_gate_exact_witness:
  "fst (invoke (sys_call no_contract sample_env (SysProof (PrRegisterProof 42 52 (Address 104) 1 1500))) sample_system) = Inr ()"
proof -
  have "\<exists>j q. ir_issuer (registry (others sample_system)) j = Some q \<and> ir_issuer_address q = Address 104 \<and>
      ir_status q = IssuerActive"
    using sample_system_views(3) by (intro exI [of _ 21] exI [of _ sample_active]) (simp add: sample_active_def)
  then show ?thesis
    using registration_gate_exact [OF refl sample_system_views(1), of sample_env 42 52 "Address 104" 1 1500]
      sample_system_config by simp
qed

text \<open>
  C2: every stored proof was admitted: if a history of the deployed system ends with a proof
  stored, then that history contains a registration of it, with the same commitment, issuer,
  schema version and expiry and at the recorded creation time, and at the moment of that call
  the gate was open: not paused, schema approved, issuer active and authorizing. Nothing that
  happens later (a pause, a deprecation, an issuer revocation) removes or alters this.
\<close>

theorem every_stored_proof_was_admitted:
  assumes "pr_setup (sys_after x h ca ra lu w) = Some u"
    and "su_protocol_config u = ca" and "su_issuer_registry u = ra"
    and "pr_proof (sys_after x h ca ra lu w) i = Some r"
  shows "\<exists>h1 e h2. h = h1 @ (e, SysProof (PrRegisterProof i (pr_commitment_hash r) (pr_issuer_address r)
        (pr_schema_version r) (pr_expires_at r))) # h2 \<and> pr_created_at r = ledger_timestamp e \<and>
     authorized e (pr_issuer_address r) \<and> \<not> pc_paused (config (others (sys_after x h1 ca ra lu w))) \<and>
     pc_schema (config (others (sys_after x h1 ca ra lu w))) (pr_schema_version r) = Some True \<and>
     (\<exists>j q. ir_issuer (registry (others (sys_after x h1 ca ra lu w))) j = Some q \<and>
        ir_issuer_address q = pr_issuer_address r \<and> ir_status q = IssuerActive)"
  using stored_proof_admitted [OF assms] unfolding gate_open_def by blast

theorem every_stored_proof_was_admitted_witness:
  "\<exists>h1 e h2. sample_history = h1 @ (e, SysProof (PrRegisterProof 41 51 (Address 104) 1 2000)) # h2 \<and>
     \<not> pc_paused (config (others (sys_after no_contract h1 (Address 103) (Address 102) 0 0)))"
  using every_stored_proof_was_admitted [OF sample_system_views(1) _ _ sample_system_views(2)]
  by (auto simp: sample_proof_def)

text \<open>
  C9: a revoked issuer is shut out for good: once an issuer record is revoked in a state the
  system can reach, no further history of the whole system lets its address register a proof
  again, whatever else is registered, rotated or reactivated meanwhile.
\<close>

theorem revoked_issuer_never_registers:
  assumes "s = sys_after x h ca ra lu w" and "ir_issuer (registry (others s)) j = Some q"
    and "ir_status q = IssuerRevoked" and "pr_setup (run_calls (sys_call x) h' s) = Some u"
    and "su_protocol_config u = ca" and "su_issuer_registry u = ra"
  shows "fst (invoke (sys_call x e (SysProof (PrRegisterProof i c (ir_issuer_address q) v t)))
     (run_calls (sys_call x) h' s)) \<noteq> Inr ()"
proof -
  let ?t = "run_calls (sys_call x) h' s"
  have wf: "sys_wf ?t" and wfs: "sys_wf s"
    using assms(1) by (simp_all add: sysm.run_wf sys_after_wf)
  obtain q' where q': "ir_issuer (registry (others ?t)) j = Some q'" "record_evolves q q'"
    using sys_run_issuer [OF wfs assms(2)] by blast
  then have rev: "ir_issuer_address q' = ir_issuer_address q" "ir_status q' = IssuerRevoked"
    using assms(3) by (metis issuer_record_updated_at record_evolves_def)+
  have "ir_wf (registry (others ?t))" using wf by (simp add: sys_wf_def)
  then have none: "\<not> (\<exists>k p. ir_issuer (registry (others ?t)) k = Some p \<and>
      ir_issuer_address p = ir_issuer_address q \<and> ir_status p = IssuerActive)"
    using ir_same_address [of "registry (others ?t)" _ _ j q'] q'(1) rev by fastforce
  have "config_address (others ?t) = ca" "registry_address (others ?t) = ra"
    using sys_run_addresses [OF wfs, of x h'] assms(1) by simp_all
  then show ?thesis
    using sys_register_outcome(1) [OF wf assms(4)] assms(5,6) none by (auto simp: gate_open_def)
qed

theorem revoked_issuer_never_registers_witness:
  "fst (invoke (sys_call no_contract sample_env (SysProof (PrRegisterProof 42 52 (Address 104) 1 1500)))
     (run_calls (sys_call no_contract) [(sample_env, SysRegistry (IrReactivateIssuer 21))]
       (sys_after no_contract (sample_history @ [(sample_env, SysRegistry (IrRevokeIssuer 21))])
         (Address 103) (Address 102) 0 0))) \<noteq> Inr ()"
proof -
  let ?s = "sys_after no_contract (sample_history @ [(sample_env, SysRegistry (IrRevokeIssuer 21))])
         (Address 103) (Address 102) 0 0"
  have issuer: "ir_issuer (registry (others ?s)) 21 = Some (sample_active\<lparr>ir_status := IssuerRevoked\<rparr>)"
    by (simp add: sample_history_def sys_eval pc_eval ir_eval pr_eval ir_view_defs sample_active_def)
  have "pr_setup ?s = Some sample_setup"
    unfolding sys_run_snoc
    using sys_run_setup [OF sys_after_wf, THEN mp, OF sample_system_views(1), of no_contract "[(sample_env, SysRegistry (IrRevokeIssuer 21))]"]
    by simp
  then have "pr_setup (run_calls (sys_call no_contract) [(sample_env, SysRegistry (IrReactivateIssuer 21))] ?s) = Some sample_setup"
    by (rule sys_run_setup [OF sys_after_wf, THEN mp])
  from revoked_issuer_never_registers [OF refl issuer _ this, of sample_env 42 52 1 1500] show ?thesis
    by (simp add: sample_active_def)
qed

text \<open>
  C24: under a clock that never runs backwards, in every reachable state of the system no issuer
  record is updated before it was created or after the present, and no proof was created after
  the present, at or after its expiry, or revoked before its creation or after the present; a
  proof that is not revoked carries revocation time 0.
\<close>

theorem timestamps_consistent:
  assumes "sys_reachable x now s"
  shows "(ir_issuer (registry (others s)) i = Some q \<longrightarrow>
        ir_created_at q \<le> ir_updated_at q \<and> ir_updated_at q \<le> now) \<and>
     (pr_proof s j = Some r \<longrightarrow> pr_created_at r \<le> now \<and> pr_created_at r < pr_expires_at r \<and>
        (if pr_status r = ProofRevoked then pr_created_at r \<le> pr_revoked_at r \<and> pr_revoked_at r \<le> now
         else pr_revoked_at r = 0))"
  using sys_reachable_times [OF assms] unfolding times_ok_def issuer_times_ok_def proof_times_ok_def by blast

theorem timestamps_consistent_witness:
  "sys_reachable no_contract 1000 sample_system \<and> pr_created_at sample_proof \<le> 1000"
proof -
  have "sys_reachable no_contract 1000 sample_system"
    by (rule run_calls_reachable [OF _ sys_reachable.deploy]) (simp add: sample_history_def)
  then show ?thesis
    using timestamps_consistent [of no_contract 1000 sample_system 21 sample_active 41 sample_proof]
      sample_system_views(2) by blast
qed



text \<open>
  C27: what a committed registration does to lifetimes, under the documented behaviour of
  \<open>extend_ttl\<close>: the proof, the schema entry and the issuer record it went through live for at
  least the threshold of 50 000 ledgers from now, and no lifetime is shortened; the reverse
  index entry of the issuer address and the instance of the proof registry keep the lifetime
  they had, so they are not refreshed by use.
\<close>

theorem registration_lifetimes:
  assumes "s = sys_after x h ca ra lu w" and "pr_setup s = Some u"
    and "su_protocol_config u = ca" and "su_issuer_registry u = ra"
    and "register_proof (system_deps x) e i c a v t s = (Inr (), s')"
    and "ttl_law e" and "unat (ledger_sequence e) + 500000 < 2 ^ 32"
  shows "(\<exists>j. ir_index (registry (others s)) a = Some j \<and>
       unat (ledger_sequence e) + 50000 \<le> unat (pers_until (registry (others s')) (IrIssuer j))) \<and>
     unat (ledger_sequence e) + 50000 \<le> unat (pers_until s' (PrProof i)) \<and>
     unat (ledger_sequence e) + 50000 \<le> unat (pers_until (config (others s')) (PcSchemaVersion v)) \<and>
     unat (pers_until (config (others s)) k) \<le> unat (pers_until (config (others s')) k) \<and>
     unat (pers_until (registry (others s)) k') \<le> unat (pers_until (registry (others s')) k') \<and>
     pers_until (registry (others s')) (IrAddressIssuer a) = pers_until (registry (others s)) (IrAddressIssuer a) \<and>
     inst_until s' = inst_until s"
proof -
  have "sys_wf s" "config_address (others s) = ca" "registry_address (others s) = ra"
    using assms(1) by (simp_all add: sys_after_wf)
  note life = sys_register_lifetimes [OF this(1) assms(2) _ _ assms(5)]
  note ttl = policy_ttl [OF assms(6,7)]
  show ?thesis
    using life assms(3,4) \<open>config_address (others s) = ca\<close> \<open>registry_address (others s) = ra\<close> ttl by auto
qed

theorem registration_lifetimes_witness:
  "\<exists>s'. register_proof (system_deps no_contract) sample_env 42 52 (Address 104) 1 1500 sample_system = (Inr (), s') \<and>
     50100 \<le> unat (pers_until s' (PrProof 42))"
proof -
  obtain s' where s': "register_proof (system_deps no_contract) sample_env 42 52 (Address 104) 1 1500 sample_system = (Inr (), s')"
    by (simp add: sample_history_def sys_eval pc_eval ir_eval pr_eval)
  then show ?thesis
    using registration_lifetimes [OF refl sample_system_views(1) _ _ s' sample_ttl_law] by simp
qed

end
