(* ===== verification/Recovery.thy ===== *)
theory Recovery
  imports System
begin

text \<open>
  Recoverability of the deployed system: from every reachable state in which nothing irrevocable
  stands in the way, the administrators can open the registration gate again in three calls. What
  is irrevocable is proved elsewhere: a revoked issuer, and a configuration version that has
  reached its maximum.
\<close>

section \<open>Enabled steps\<close>

text \<open>A step the abstract specification allows is a committed call of the contract.\<close>

lemma config_enabled:
  assumes "pc_wf c" and "cf_step e op (pc_abs c) = (Inr (), d)"
  obtains c' where "pc_call e op c = (Inr (), c')" "pc_wf c'" "pc_abs c' = d"
proof -
  have "map_prod id pc_abs (invoke (pc_call e op) c) = (Inr (), d)"
    using pc_call_refines [OF assms(1), of e op] assms(2) by simp
  then obtain c' where "pc_call e op c = (Inr (), c')" "pc_abs c' = d"
    by (cases "invoke (pc_call e op) c") (auto simp: invoke_Inr_iff)
  with that pcm.call_wf [OF assms(1)] show ?thesis by blast
qed

lemma registry_enabled:
  assumes "ir_wf c" and "rg_step e op (ir_abs c) = (Inr (), d)"
  obtains c' where "ir_call e op c = (Inr (), c')" "ir_wf c'" "ir_abs c' = d"
proof -
  have "map_prod id ir_abs (invoke (ir_call e op) c) = (Inr (), d)"
    using ir_call_refines [OF assms(1), of e op] assms(2) by simp
  then obtain c' where "ir_call e op c = (Inr (), c')" "ir_abs c' = d"
    by (cases "invoke (ir_call e op) c") (auto simp: invoke_Inr_iff)
  with that ir_call_wf [OF assms(1)] show ?thesis by blast
qed

text \<open>A call to one of the two other contracts leaves the proof registry as it is.\<close>

definition registry_side :: "system \<Rightarrow> system \<Rightarrow> bool" where
  "registry_side s s' \<longleftrightarrow> pr_setup s' = pr_setup s \<and> pr_proof s' = pr_proof s \<and>
     config_address (others s') = config_address (others s) \<and>
     registry_address (others s') = registry_address (others s)"

lemma sys_config_enabled:
  assumes "sys_wf s" and "cf_step e op (pc_abs (config (others s))) = (Inr (), d)"
  obtains s' where "invoke (sys_call x e (SysConfig op)) s = (Inr (), s')" "sys_wf s'"
    "pc_abs (config (others s')) = d" "registry (others s') = registry (others s)" "registry_side s s'"
proof -
  have "pc_wf (config (others s))" using assms(1) by (simp add: sys_wf_def)
  from config_enabled [OF this assms(2)] obtain c where c: "pc_call e op (config (others s)) = (Inr (), c)"
    "pc_wf c" "pc_abs c = d" .
  let ?s = "s\<lparr>others := (others s)\<lparr>config := c\<rparr>\<rparr>"
  have call: "sys_call x e (SysConfig op) s = (Inr (), ?s)"
    using c(1) by (simp add: on_config_def)
  show ?thesis
    using that [of ?s] call c(3) sys_call_wf [OF assms(1) call]
    by (simp add: invoke_Inr_iff registry_side_def pr_setup_def pr_view_defs fun_eq_iff)
qed

lemma sys_registry_enabled:
  assumes "sys_wf s" and "rg_step e op (ir_abs (registry (others s))) = (Inr (), d)"
  obtains s' where "invoke (sys_call x e (SysRegistry op)) s = (Inr (), s')" "sys_wf s'"
    "ir_abs (registry (others s')) = d" "config (others s') = config (others s)" "registry_side s s'"
proof -
  have "ir_wf (registry (others s))" using assms(1) by (simp add: sys_wf_def)
  from registry_enabled [OF this assms(2)] obtain c where c: "ir_call e op (registry (others s)) = (Inr (), c)"
    "ir_wf c" "ir_abs c = d" .
  let ?s = "s\<lparr>others := (others s)\<lparr>registry := c\<rparr>\<rparr>"
  have call: "sys_call x e (SysRegistry op) s = (Inr (), ?s)"
    using c(1) by (simp add: on_registry_def)
  show ?thesis
    using that [of ?s] call c(3) sys_call_wf [OF assms(1) call]
    by (simp add: invoke_Inr_iff registry_side_def pr_setup_def pr_view_defs fun_eq_iff)
qed

section \<open>Opening the gate again\<close>

text \<open>The administrators' calls: unpause, approve the schema version, reactivate the issuer.\<close>

definition reopen :: "bytes32 \<Rightarrow> u32 \<Rightarrow> sys_op list" where
  "reopen j v = [SysConfig PcUnpause, SysConfig (PcApproveSchema v), SysRegistry (IrReactivateIssuer j)]"

text \<open>Nothing irrevocable stands in the way: the contracts are initialized, their administrators sign,
  the configuration version has room for two changes, and the issuer is not revoked.\<close>

definition recoverable :: "env \<Rightarrow> bytes32 \<Rightarrow> issuer_record \<Rightarrow> system \<Rightarrow> bool" where
  "recoverable e j q s \<longleftrightarrow>
     (\<exists>a. pc_admin (config (others s)) = Some a \<and> authorized e a) \<and>
     (\<exists>a. ir_admin (registry (others s)) = Some a \<and> authorized e a) \<and>
     unat (pc_config_version (config (others s))) + 2 < 2 ^ 32 \<and>
     ir_issuer (registry (others s)) j = Some q \<and> ir_status q \<noteq> IssuerRevoked"

lemma headroom:
  assumes "unat (n :: u32) + 2 < 2 ^ 32"
  shows "n \<noteq> - 1" "n + 1 \<noteq> - 1"
proof -
  have max: "unat (- 1 :: u32) = 2 ^ 32 - 1"
    by (simp add: unsigned_minus_1_eq_mask mask_eq_exp_minus_1)
  show "n \<noteq> - 1" using assms max by auto
  have "unat (n + 1) = unat n + 1"
    using assms by (simp add: unat_word_ariths)
  show "n + 1 \<noteq> - 1"
  proof
    assume "n + 1 = - 1"
    then have "unat (n + 1) = 2 ^ 32 - 1" by (simp only: max)
    with \<open>unat (n + 1) = unat n + 1\<close> assms show False by simp
  qed
qed

lemma reopen_runs:
  assumes wf: "sys_wf s" and rec: "recoverable e j q s" and "v \<noteq> 0"
  obtains s' where "outcomes (sys_call x) (map (Pair e) (reopen j v)) s = [Inr (), Inr (), Inr ()]"
    "run_calls (sys_call x) (map (Pair e) (reopen j v)) s = s'" "sys_wf s'" "registry_side s s'"
    "\<not> pc_paused (config (others s'))" "pc_schema (config (others s')) v = Some True"
    "ir_issuer (registry (others s')) j = Some (q\<lparr>ir_status := IssuerActive, ir_updated_at := ledger_timestamp e\<rparr>)"
proof -
  let ?c = "pc_abs (config (others s))"
  let ?c1 = "?c\<lparr>cf_paused := False, cf_version := cf_version ?c + 1\<rparr>"
  obtain pa where pa: "cf_admin ?c = Some pa" "authorized e pa"
    using rec by (auto simp: recoverable_def)
  obtain ia where ia: "ir_admin (registry (others s)) = Some ia" "authorized e ia"
    using rec by (auto simp: recoverable_def)
  have room: "cf_version ?c \<noteq> - 1" "cf_version ?c + 1 \<noteq> - 1"
    using rec headroom [of "cf_version ?c"] by (simp_all add: recoverable_def)
  have "cf_step e PcUnpause ?c = (Inr (), ?c1)"
    using pa room by (simp add: cf_as_admin_def cf_bump_def)
  from sys_config_enabled [OF wf this, of x] obtain s1 where s1: "invoke (sys_call x e (SysConfig PcUnpause)) s = (Inr (), s1)"
    "sys_wf s1" "pc_abs (config (others s1)) = ?c1" "registry (others s1) = registry (others s)" "registry_side s s1" .
  let ?c2 = "?c1\<lparr>cf_schema := (cf_schema ?c1)(v \<mapsto> True), cf_version := cf_version ?c1 + 1\<rparr>"
  have "cf_step e (PcApproveSchema v) (pc_abs (config (others s1))) = (Inr (), ?c2)"
    using pa room assms(3) unfolding s1(3) by (simp add: cf_as_admin_def cf_bump_def)
  from sys_config_enabled [OF s1(2) this, of x] obtain s2 where s2:
    "invoke (sys_call x e (SysConfig (PcApproveSchema v))) s1 = (Inr (), s2)"
    "sys_wf s2" "pc_abs (config (others s2)) = ?c2" "registry (others s2) = registry (others s1)" "registry_side s1 s2" .
  let ?r = "ir_abs (registry (others s2))"
  have "rg_admin ?r = Some ia" "rg_issuers ?r j = Some q" "ir_status q \<noteq> IssuerRevoked"
    using ia rec s1(4) s2(4) by (simp_all add: recoverable_def)
  then have "rg_step e (IrReactivateIssuer j) ?r = (Inr (), ?r\<lparr>rg_issuers := (rg_issuers ?r)(j \<mapsto>
      q\<lparr>ir_status := IssuerActive, ir_updated_at := ledger_timestamp e\<rparr>)\<rparr>)"
    using ia(2) by (simp add: rg_defs)
  from sys_registry_enabled [OF s2(2) this, of x] obtain s3 where s3:
    "invoke (sys_call x e (SysRegistry (IrReactivateIssuer j))) s2 = (Inr (), s3)" "sys_wf s3"
    "ir_abs (registry (others s3)) = ?r\<lparr>rg_issuers := (rg_issuers ?r)(j \<mapsto>
      q\<lparr>ir_status := IssuerActive, ir_updated_at := ledger_timestamp e\<rparr>)\<rparr>"
    "config (others s3) = config (others s2)" "registry_side s2 s3" .
  have "pc_abs (config (others s3)) = ?c2" unfolding s3(4) by (rule s2(3))
  then have c: "\<not> cf_paused (pc_abs (config (others s3)))" "cf_schema (pc_abs (config (others s3))) v = Some True"
    by (simp_all only: config_spec.simps) simp_all
  have i: "rg_issuers (ir_abs (registry (others s3))) j =
      Some (q\<lparr>ir_status := IssuerActive, ir_updated_at := ledger_timestamp e\<rparr>)"
    unfolding s3(3) by simp
  show ?thesis
    using that [of s3] s1(1,5) s2(1,5) s3(1,2,5) c i by (simp add: reopen_def registry_side_def)
qed

text \<open>A committed registration stores an active proof.\<close>

lemma registered_proof:
  assumes "sys_wf s" and "invoke (sys_call x e (SysProof (PrRegisterProof i c a v t))) s = (Inr (), s')"
  shows "sys_wf s' \<and> (\<exists>r. pr_proof s' i = Some r \<and> pr_status r = ProofActive \<and> pr_expires_at r = t)"
proof -
  have call: "sys_call x e (SysProof (PrRegisterProof i c a v t)) s = (Inr (), s')"
    using assms(2) by (simp add: invoke_Inr_iff)
  then have "pr_act (system_deps x) e (PrEntry (PrRegisterProof i c a v t)) s = (Inr (), s')" by simp
  then have act: "ps_act (system_deps x) e (PrEntry (PrRegisterProof i c a v t)) (pr_abs s) = (Inr (), pr_abs s')"
    by (rule pr_act_commits [OF sys_pr_wf [OF assms(1)]])
  have "\<exists>r. ps_proofs (pr_abs s') i = Some r \<and> pr_status r = ProofActive \<and> pr_expires_at r = t"
    using act by (cases rule: ps_act_cases) auto
  then show ?thesis
    using sys_call_wf [OF assms(1) call] by simp
qed

section \<open>Properties\<close>

definition halted_history :: "(env \<times> sys_op) list" where
  "halted_history = sample_history @ [(sample_env, SysConfig PcPause), (sample_env, SysConfig (PcDeprecateSchema 1)),
     (sample_env, SysRegistry (IrSuspendIssuer 21))]"

text \<open>
  C12: the system can always be brought back to work. Take any state a history of the three
  contracts can reach with the proof registry pointing at the two others, paused or not, whatever
  schemas are approved and whether the issuer is active or suspended: if the configuration version has
  room for two more changes and the issuer is not revoked, then three calls by the administrators
  (unpause, approve the schema version, reactivate the issuer) all commit, after them the issuer's
  registration of any free proof identifier with a future expiry commits, and the new proof is
  reported valid.
\<close>

theorem registration_recoverable:
  assumes "s = sys_after x h ca ra lu w" and "pr_setup s = Some u"
    and "su_protocol_config u = ca" and "su_issuer_registry u = ra"
    and "recoverable e j q s" and "a = ir_issuer_address q"
    and "is_valid_principal_address e a" and "a \<notin> {current_contract_address e, ca, ra}" and "authorized e a"
    and "v \<noteq> 0" and "ledger_timestamp e < t" and "pr_proof s i = None"
  shows "outcomes (sys_call x)
      (map (Pair e) (reopen j v @ [SysProof (PrRegisterProof i c a v t)])) s = [Inr (), Inr (), Inr (), Inr ()] \<and>
    fst (is_valid_proof e i (run_calls (sys_call x)
      (map (Pair e) (reopen j v @ [SysProof (PrRegisterProof i c a v t)])) s)) = Inr True"
proof -
  have wf: "sys_wf s" unfolding assms(1) by (rule sys_after_wf)
  from reopen_runs [OF wf assms(5,10), of x] obtain s' where s':
    "outcomes (sys_call x) (map (Pair e) (reopen j v)) s = [Inr (), Inr (), Inr ()]"
    "run_calls (sys_call x) (map (Pair e) (reopen j v)) s = s'" "sys_wf s'" "registry_side s s'"
    "\<not> pc_paused (config (others s'))" "pc_schema (config (others s')) v = Some True"
    "ir_issuer (registry (others s')) j = Some (q\<lparr>ir_status := IssuerActive, ir_updated_at := ledger_timestamp e\<rparr>)" .
  have side: "pr_setup s' = Some u" "pr_proof s' i = None" "su_protocol_config u = config_address (others s')"
    "su_issuer_registry u = registry_address (others s')"
    using s'(4) assms(2-4,12) unfolding assms(1) by (simp_all add: registry_side_def)
  have "gate_open e u i a v t s'"
    unfolding gate_open_def using s'(5-7) assms(3-11) side(2) by fastforce
  then have "fst (invoke (sys_call x e (SysProof (PrRegisterProof i c a v t))) s') = Inr ()"
    using sys_register_outcome(1) [OF s'(3) side(1,3,4)] by blast
  then obtain s'' where s'': "invoke (sys_call x e (SysProof (PrRegisterProof i c a v t))) s' = (Inr (), s'')"
    by (metis prod.collapse)
  have "valid_at (ledger_timestamp e) (pr_proof s'' i)" "sys_wf s''"
    using registered_proof [OF s'(3) s''] assms(11) by (auto simp: valid_at_def)
  then show ?thesis
    using s'(1,2) s''
    by (simp add: outcomes_append run_calls_append is_valid_proof_read [OF sys_pr_wf] del: sys_call.simps)
qed

theorem registration_recoverable_witness:
  "pc_paused (config (others (sys_after no_contract halted_history (Address 103) (Address 102) 0 0))) \<and>
   outcomes (sys_call no_contract) (map (Pair sample_env) (reopen 21 1 @
       [SysProof (PrRegisterProof 42 52 (Address 104) 1 1500)]))
     (sys_after no_contract halted_history (Address 103) (Address 102) 0 0) = [Inr (), Inr (), Inr (), Inr ()]"
proof -
  let ?s = "sys_after no_contract halted_history (Address 103) (Address 102) 0 0"
  let ?q = "sample_active\<lparr>ir_status := IssuerSuspended\<rparr>"
  have wired: "pr_setup ?s = Some sample_setup" and fresh: "pr_proof ?s 42 = None"
    and paused: "pc_paused (config (others ?s))"
    by (simp_all add: halted_history_def sample_history_def sys_eval pc_eval ir_eval pr_eval pr_view_defs
        pr_setup_def pc_paused_def)
  have "recoverable sample_env 21 ?q ?s"
    by (simp add: recoverable_def halted_history_def sample_history_def sys_eval pc_eval ir_eval pr_eval
        ir_view_defs pc_admin_def pc_config_version_def sample_active_def)
  from registration_recoverable [OF refl wired sample_setup_simps(3,2) this, of "Address 104" 1 1500 42 52] show ?thesis
    using fresh paused by (auto simp: sample_active_def)
qed

end
