(* ===== verification/Builds.thy ===== *)
theory Builds
  imports System
begin

text \<open>
  The test build of the contracts against the deployed one. The three copies of
  \<open>upgrade_contract\<close> leave \<open>update_current_contract_wasm\<close> out under \<open>#[cfg(not(test))]\<close>, so every
  test of the repository runs other code than the ledger does. The theory relates the two
  builds call by call and lifts the relation to histories of the whole system.
\<close>

section \<open>The two builds\<close>

definition test_build :: "env \<Rightarrow> env" where
  "test_build e = e\<lparr>cfg_test := True\<rparr>"

definition deployed_build :: "env \<Rightarrow> env" where
  "deployed_build e = e\<lparr>cfg_test := False\<rparr>"

text \<open>The same call, and the same history, run by the test build.\<close>

abbreviation in_test :: "(env \<times> 'op) list \<Rightarrow> (env \<times> 'op) list" where
  "in_test \<equiv> map (\<lambda>(e, op). (test_build e, op))"

abbreviation in_deployment :: "(env \<times> 'op) list \<Rightarrow> (env \<times> 'op) list" where
  "in_deployment \<equiv> map (\<lambda>(e, op). (deployed_build e, op))"

text \<open>The code an entry point asks the host to install, and whether the host has it.\<close>

fun sys_installs :: "sys_op \<Rightarrow> bytes32 option" where
  "sys_installs (SysConfig op) = pc_installs op"
| "sys_installs (SysRegistry op) = ir_installs op"
| "sys_installs (SysProof op) = (case op of PrUpgradeContract h \<Rightarrow> Some h | _ \<Rightarrow> None)"

definition code_available :: "env \<Rightarrow> sys_op \<Rightarrow> bool" where
  "code_available e op \<longleftrightarrow> pred_option (wasm_uploaded e) (sys_installs op)"

text \<open>The system with the installed code of all three contracts replaced.\<close>

definition ledger_code :: "bytes32 \<Rightarrow> ledger \<Rightarrow> ledger" where
  "ledger_code w l = l\<lparr>config := (config l)\<lparr>wasm := w\<rparr>, registry := (registry l)\<lparr>wasm := w\<rparr>\<rparr>"

definition with_code :: "bytes32 \<Rightarrow> system \<Rightarrow> system" where
  "with_code w s = s\<lparr>wasm := w, others := ledger_code w (others s)\<rparr>"

text \<open>What answers at foreign addresses sees neither the build nor the code installed here.\<close>

definition build_blind :: "ledger dependencies \<Rightarrow> bool" where
  "build_blind x \<longleftrightarrow> (\<forall>e a b v w l.
     map_option fst (dep_is_paused x (test_build e) a (ledger_code w l)) =
       map_option fst (dep_is_paused x (deployed_build e) a l) \<and>
     map_option fst (dep_is_schema_version_approved x (test_build e) a v (ledger_code w l)) =
       map_option fst (dep_is_schema_version_approved x (deployed_build e) a v l) \<and>
     map_option fst (dep_is_active_address x (test_build e) a b (ledger_code w l)) =
       map_option fst (dep_is_active_address x (deployed_build e) a b l))"

lemma build_simps [simp]:
  "authorized (test_build e) = authorized e" "ledger_timestamp (test_build e) = ledger_timestamp e"
  "ledger_sequence (test_build e) = ledger_sequence e" "ttl_extend (test_build e) = ttl_extend e"
  "ttl_initial (test_build e) = ttl_initial e" "cfg_test (test_build e)"
  "current_contract_address (test_build e) = current_contract_address e"
  "is_valid_principal_address (test_build e) a = is_valid_principal_address e a"
  "authorized (deployed_build e) = authorized e" "ledger_timestamp (deployed_build e) = ledger_timestamp e"
  "ledger_sequence (deployed_build e) = ledger_sequence e" "ttl_extend (deployed_build e) = ttl_extend e"
  "ttl_initial (deployed_build e) = ttl_initial e" "\<not> cfg_test (deployed_build e)"
  "current_contract_address (deployed_build e) = current_contract_address e"
  "is_valid_principal_address (deployed_build e) a = is_valid_principal_address e a"
  "wasm_uploaded (test_build e) = wasm_uploaded e" "wasm_uploaded (deployed_build e) = wasm_uploaded e"
  by (simp_all add: test_build_def deployed_build_def valid_principal_iff)

section \<open>One call\<close>

text \<open>A call of the test build from a state with other code is the call of the deployed build, with
  that code kept.\<close>

lemma pc_call_builds:
  assumes "pred_option (wasm_uploaded e) (pc_installs op)"
  shows "pc_call (test_build e) op (s\<lparr>wasm := w\<rparr>) = map_prod id (\<lambda>s. s\<lparr>wasm := w\<rparr>) (pc_call (deployed_build e) op s)"
  using assms by (cases op) (auto simp: pc_defs pc_installs_def run Let_def split: option.split)

lemma ir_call_builds:
  assumes "pred_option (wasm_uploaded e) (ir_installs op)"
  shows "ir_call (test_build e) op (s\<lparr>wasm := w\<rparr>) = map_prod id (\<lambda>s. s\<lparr>wasm := w\<rparr>) (ir_call (deployed_build e) op s)"
  using assms
  by (cases op) (auto simp: ir_defs ir_installs_def run Let_def split: option.split issuer_status.split prod.split)

lemma pr_call_builds:
  fixes d :: "'l dependencies"
  assumes "\<And>a l. dep_is_paused d (test_build e) a (f l) = map_option (map_prod id f) (dep_is_paused d (deployed_build e) a l)"
    and "\<And>a v l. dep_is_schema_version_approved d (test_build e) a v (f l) =
      map_option (map_prod id f) (dep_is_schema_version_approved d (deployed_build e) a v l)"
    and "\<And>a b l. dep_is_active_address d (test_build e) a b (f l) =
      map_option (map_prod id f) (dep_is_active_address d (deployed_build e) a b l)"
    and "pred_option (wasm_uploaded e) (case op of PrUpgradeContract h \<Rightarrow> Some h | _ \<Rightarrow> None)"
  shows "pr_call d (test_build e) op (s\<lparr>wasm := w, others := f (others s)\<rparr>) =
    map_prod id (\<lambda>s. s\<lparr>wasm := w, others := f (others s)\<rparr>) (pr_call d (deployed_build e) op s)"
  using assms
  by (cases op) (auto simp: pr_defs run Let_def split: option.split prod.split)

lemma elsewhere_code:
  "map_option fst (f (ledger_code w l)) = map_option fst (g l) \<Longrightarrow>
     elsewhere f (ledger_code w l) = map_option (map_prod id (ledger_code w)) (elsewhere g l)"
  by (auto simp: elsewhere_def option.map_comp comp_def split_beta map_option_case split: option.splits)

lemma callee_env_build: "callee_env a (test_build e) = test_build (callee_env a e)"
  "callee_env a (deployed_build e) = deployed_build (callee_env a e)"
  by (simp_all add: callee_env_def test_build_def deployed_build_def)

lemma ledger_code_simps [simp]:
  "config_address (ledger_code w l) = config_address l" "registry_address (ledger_code w l) = registry_address l"
  "config (ledger_code w l) = (config l)\<lparr>wasm := w\<rparr>" "registry (ledger_code w l) = (registry l)\<lparr>wasm := w\<rparr>"
  "ledger_code w (l\<lparr>config := c\<rparr>) = (ledger_code w l)\<lparr>config := c\<lparr>wasm := w\<rparr>\<rparr>"
  "ledger_code w (l\<lparr>registry := r\<rparr>) = (ledger_code w l)\<lparr>registry := r\<lparr>wasm := w\<rparr>\<rparr>"
  by (simp_all add: ledger_code_def)

lemma read_code:
  "is_paused ((s :: pc_state)\<lparr>wasm := w\<rparr>) = map_prod id (\<lambda>s. s\<lparr>wasm := w\<rparr>) (is_paused s)"
  "is_schema_version_approved (test_build e) v (s\<lparr>wasm := w\<rparr>) =
     map_prod id (\<lambda>s. s\<lparr>wasm := w\<rparr>) (is_schema_version_approved (deployed_build e) v s)"
  "is_active_address (test_build e) a (t\<lparr>wasm := w\<rparr>) =
     map_prod id (\<lambda>s. s\<lparr>wasm := w\<rparr>) (is_active_address (deployed_build e) a t :: (u32 abort + bool) \<times> ir_state)"
  by (auto simp: pc_defs ir_defs run Let_def split: option.split prod.split)

lemma system_deps_code:
  assumes "build_blind x"
  shows "dep_is_paused (system_deps x) (test_build e) a (ledger_code w l) =
      map_option (map_prod id (ledger_code w)) (dep_is_paused (system_deps x) (deployed_build e) a l)"
    and "dep_is_schema_version_approved (system_deps x) (test_build e) a v (ledger_code w l) =
      map_option (map_prod id (ledger_code w)) (dep_is_schema_version_approved (system_deps x) (deployed_build e) a v l)"
    and "dep_is_active_address (system_deps x) (test_build e) a b (ledger_code w l) =
      map_option (map_prod id (ledger_code w)) (dep_is_active_address (system_deps x) (deployed_build e) a b l)"
proof -
  have blind: "elsewhere (dep_is_paused x (test_build e) a) (ledger_code w l) =
      map_option (map_prod id (ledger_code w)) (elsewhere (dep_is_paused x (deployed_build e) a) l)"
    "elsewhere (dep_is_schema_version_approved x (test_build e) a v) (ledger_code w l) =
      map_option (map_prod id (ledger_code w)) (elsewhere (dep_is_schema_version_approved x (deployed_build e) a v) l)"
    "elsewhere (dep_is_active_address x (test_build e) a b) (ledger_code w l) =
      map_option (map_prod id (ledger_code w)) (elsewhere (dep_is_active_address x (deployed_build e) a b) l)"
    using assms by (simp_all add: build_blind_def elsewhere_code)
  show "dep_is_paused (system_deps x) (test_build e) a (ledger_code w l) =
      map_option (map_prod id (ledger_code w)) (dep_is_paused (system_deps x) (deployed_build e) a l)"
    by (simp add: blind read_config_def read_code split: prod.split sum.split)
  show "dep_is_schema_version_approved (system_deps x) (test_build e) a v (ledger_code w l) =
      map_option (map_prod id (ledger_code w)) (dep_is_schema_version_approved (system_deps x) (deployed_build e) a v l)"
    by (simp add: blind read_config_def read_code callee_env_build split: prod.split sum.split)
  show "dep_is_active_address (system_deps x) (test_build e) a b (ledger_code w l) =
      map_option (map_prod id (ledger_code w)) (dep_is_active_address (system_deps x) (deployed_build e) a b l)"
    by (simp add: blind read_registry_def read_code callee_env_build split: prod.split sum.split)
qed

lemma sys_call_builds:
  assumes "build_blind x" and "code_available e op"
  shows "sys_call x (test_build e) op (with_code w s) = map_prod id (with_code w) (sys_call x (deployed_build e) op s)"
proof (cases op)
  case (SysConfig o1)
  with assms show ?thesis
    by (simp add: on_config_def with_code_def code_available_def pc_call_builds split: prod.split)
next
  case (SysRegistry o2)
  with assms show ?thesis
    by (simp add: on_registry_def with_code_def code_available_def ir_call_builds split: prod.split)
next
  case (SysProof o3)
  with assms(2) have "pred_option (wasm_uploaded e) (case o3 of PrUpgradeContract h \<Rightarrow> Some h | _ \<Rightarrow> None)"
    by (simp add: code_available_def)
  from pr_call_builds [OF system_deps_code [OF assms(1)] this] SysProof show ?thesis
    by (simp add: with_code_def [abs_def])
qed

lemma invoke_builds:
  assumes "build_blind x" and "code_available e op"
  shows "invoke (sys_call x (test_build e) op) (with_code w s) =
    map_prod id (with_code w) (invoke (sys_call x (deployed_build e) op) s)"
  by (simp add: invoke_def sys_call_builds [OF assms] split: prod.split sum.split)

text \<open>Without the code, the deployed build traps exactly where the test build commits.\<close>

lemma unavailable_traps:
  assumes "\<not> code_available e op"
  shows "fst (sys_call x (deployed_build e) op s) =
    (if fst (sys_call x (test_build e) op (with_code w s)) = Inr () then Inl HostTrap
     else fst (sys_call x (test_build e) op (with_code w s)))"
proof (cases op)
  case (SysConfig o1)
  then obtain h where "o1 = PcUpgradeContract h" "\<not> wasm_uploaded e h"
    using assms by (cases o1) (auto simp: code_available_def pc_installs_def)
  with SysConfig show ?thesis
    by (simp add: on_config_def with_code_def pc_defs run Let_def split: option.split)
next
  case (SysRegistry o2)
  then obtain h where "o2 = IrUpgradeContract h" "\<not> wasm_uploaded e h"
    using assms by (cases o2) (auto simp: code_available_def ir_installs_def)
  with SysRegistry show ?thesis
    by (simp add: on_registry_def with_code_def ir_defs run Let_def split: option.split)
next
  case (SysProof o3)
  then obtain h where "o3 = PrUpgradeContract h" "\<not> wasm_uploaded e h"
    using assms by (cases o3) (auto simp: code_available_def)
  with SysProof show ?thesis
    by (simp add: with_code_def pr_defs run Let_def split: option.split)
qed

section \<open>Histories\<close>

lemma history_builds:
  assumes "build_blind x" and "list_all (\<lambda>(e, op). code_available e op) h"
  shows "outcomes (sys_call x) (in_test h) (with_code w s) = outcomes (sys_call x) (in_deployment h) s \<and>
     run_calls (sys_call x) (in_test h) (with_code w s) = with_code w (run_calls (sys_call x) (in_deployment h) s)"
  using assms(2)
proof (induction h arbitrary: s)
  case (Cons c h)
  obtain e op where c: "c = (e, op)" by (cases c)
  with Cons.prems invoke_builds [OF assms(1), of e op w s] Cons.IH show ?case by simp
qed simp

lemma with_code_fresh: "with_code w (fresh_system ca ra lu w) = fresh_system ca ra lu w"
  by (simp add: with_code_def ledger_code_def fresh_system_def fresh_ledger_def fresh_contract_def
      fresh_registry_def contract_state.defs pr_state.defs)

section \<open>Properties\<close>


definition sample_upgrade :: "(env \<times> sys_op) list" where
  "sample_upgrade = [(sample_env, SysConfig (PcInitialize (Address 101))),
     (sample_env, SysConfig (PcApproveUpgrade 7 2)), (sample_env, SysConfig (PcUpgradeContract 7)),
     (sample_env, SysConfig (PcApproveUpgrade 8 3))]"


end
