(* ===== verification/Init_Specs.thy ===== *)
theory Init_Specs
  imports System Storage_Namespaces
begin

text \<open>
  Initialization of the three contracts against the specification structures of the shared test
  utilities (\<open>src/packages/shared/src/lib.rs\<close>, module \<open>test_utils\<close>). The interface
  \<open>initializer\<close> states what a re-initialization guard promises; each contract provides it.
\<close>

section \<open>The structures of the test utilities\<close>

record initialized_state =
  is_admin :: address
  is_event_emitted :: bool
  is_expected_keys :: "string list"

record reinit_attempt_result =
  rr_failed :: bool
  rr_state_unchanged :: bool
  rr_no_new_events :: bool

record invalid_dependency_result =
  id_failed :: bool
  id_atomic_failure :: bool
  id_no_events :: bool

record contract_init_spec =
  contract_name :: string
  has_reinit_guard :: bool
  emits_init_event :: bool
  takes_dependencies :: bool
  dependency_names :: "string list"

definition standalone_with_guard :: "string \<Rightarrow> bool \<Rightarrow> contract_init_spec" where
  "standalone_with_guard name emits_event = \<lparr>contract_name = name, has_reinit_guard = True,
     emits_init_event = emits_event, takes_dependencies = False, dependency_names = []\<rparr>"

definition with_dependencies_and_guard :: "string \<Rightarrow> string list \<Rightarrow> bool \<Rightarrow> contract_init_spec" where
  "with_dependencies_and_guard name deps emits_event = \<lparr>contract_name = name, has_reinit_guard = True,
     emits_init_event = emits_event, takes_dependencies = True, dependency_names = deps\<rparr>"

text \<open>The specifications the summary tests of the three contracts write down.\<close>

definition pc_init_spec :: contract_init_spec where
  "pc_init_spec = standalone_with_guard ''protocol-config'' True"

definition ir_init_spec :: contract_init_spec where
  "ir_init_spec = standalone_with_guard ''issuer-registry'' False"

definition pr_init_spec :: contract_init_spec where
  "pr_init_spec = with_dependencies_and_guard ''proof-registry'' [''issuer-registry'', ''protocol-config''] False"

section \<open>Observing an initialization\<close>

text \<open>The structures filled from a run of \<open>initialize\<close>, before any rollback by the host.\<close>

definition first_initialization :: "(('k, 'v, 'ev, 'z) contract_state_scheme \<Rightarrow> address option) \<Rightarrow>
    ('k \<Rightarrow> encoded_key) \<Rightarrow> 'k list \<Rightarrow> (('k, 'v, 'ev, 'z) contract_state_scheme, 'e, unit) contract_m \<Rightarrow>
    ('k, 'v, 'ev, 'z) contract_state_scheme \<Rightarrow> initialized_state option" where
  "first_initialization admin_of encode keys m s = (case m s of
      (Inl _, s') \<Rightarrow> None
    | (Inr _, s') \<Rightarrow> map_option (\<lambda>a. \<lparr>is_admin = a, is_event_emitted = events s' \<noteq> events s,
        is_expected_keys = map (\<lambda>k. fst (encode k)) (filter (\<lambda>k. inst s' k \<noteq> None) keys)\<rparr>) (admin_of s'))"

definition same_storage :: "('k, 'v, 'ev, 'z) contract_state_scheme \<Rightarrow> ('k, 'v, 'ev, 'z) contract_state_scheme \<Rightarrow> bool" where
  "same_storage s s' \<longleftrightarrow> inst s' = inst s \<and> pers s' = pers s \<and> inst_until s' = inst_until s \<and>
     pers_until s' = pers_until s"

definition reinit_attempt :: "(('k, 'v, 'ev, 'z) contract_state_scheme, 'e, unit) contract_m \<Rightarrow>
    ('k, 'v, 'ev, 'z) contract_state_scheme \<Rightarrow> reinit_attempt_result" where
  "reinit_attempt m s = (case m s of (r, s') \<Rightarrow> \<lparr>rr_failed = isl r,
     rr_state_unchanged = same_storage s s', rr_no_new_events = (events s' = events s)\<rparr>)"

definition invalid_dependency_attempt :: "(('k, 'v, 'ev, 'z) contract_state_scheme, 'e, unit) contract_m \<Rightarrow>
    ('k, 'v, 'ev, 'z) contract_state_scheme \<Rightarrow> invalid_dependency_result" where
  "invalid_dependency_attempt m s = (case m s of (r, s') \<Rightarrow> \<lparr>id_failed = isl r,
     id_atomic_failure = same_storage s s', id_no_events = (events s' = events s)\<rparr>)"

definition blocked :: reinit_attempt_result where
  "blocked = \<lparr>rr_failed = True, rr_state_unchanged = True, rr_no_new_events = True\<rparr>"

section \<open>The guard as an interface\<close>

locale initializer = contract_machine call wf
  for call :: "('op, ('k, 'v, 'ev, 'z) contract_state_scheme, 'e) contract_call"
    and wf :: "('k, 'v, 'ev, 'z) contract_state_scheme \<Rightarrow> bool" +
  fixes init :: "env \<Rightarrow> 'arg \<Rightarrow> (('k, 'v, 'ev, 'z) contract_state_scheme, contract_error, unit) contract_m"
    and initialized :: "('k, 'v, 'ev, 'z) contract_state_scheme \<Rightarrow> bool"
  assumes guard: "initialized s \<Longrightarrow> init e x s = (Inl (Err AlreadyInitialized), s)"
    and init_initializes: "init e x s = (Inr (), s') \<Longrightarrow> initialized s'"
    and init_wf: "wf s \<Longrightarrow> init e x s = (Inr (), s') \<Longrightarrow> wf s'"
    and call_keeps: "wf s \<Longrightarrow> call e op s = (Inr (), s') \<Longrightarrow> initialized s \<Longrightarrow> initialized s'"
begin

lemma run_keeps: "wf s \<Longrightarrow> initialized s \<Longrightarrow> initialized (run_calls call h s)"
  using run_respects [where R = "\<lambda>s t. initialized s \<longrightarrow> initialized t"] call_keeps by blast

text \<open>After one committed initialization, every further attempt, whoever makes it and whatever has
  happened since, is blocked.\<close>

lemma reinit_blocked:
  assumes "wf s" and "init e x s = (Inr (), s')"
  shows "reinit_attempt (init e' x') (run_calls call h s') = blocked"
  using guard [OF run_keeps [OF init_wf [OF assms] init_initializes [OF assms(2)]]]
  by (simp add: reinit_attempt_def blocked_def same_storage_def)

end

lemma rg_step_admin:
  "rg_step e op c = (Inr (), c') \<Longrightarrow> rg_admin c = Some a \<Longrightarrow> rg_admin c' = Some a"
  by (cases op) (auto simp: rg_defs split: if_splits option.splits)

lemma ir_call_admin:
  "ir_wf s \<Longrightarrow> ir_call e op s = (Inr (), s') \<Longrightarrow> ir_admin s = Some a \<Longrightarrow> ir_admin s' = Some a"
  using rg_step_admin [OF ir_call_commits, of s e op s' a] by simp

interpretation pci: initializer pc_call pc_wf pc_initialize "\<lambda>s. pc_admin s \<noteq> None"
proof
  fix s :: pc_state and s' e a op
  show "pc_admin s \<noteq> None \<Longrightarrow> pc_initialize e a s = (Inl (Err AlreadyInitialized), s)"
    by (auto simp: pc_initialize_def pc_admin_def run)
  show "pc_initialize e a s = (Inr (), s') \<Longrightarrow> pc_admin s' \<noteq> None"
    by (auto simp: pc_defs pc_admin_def run split: if_splits)
  show "pc_wf s \<Longrightarrow> pc_initialize e a s = (Inr (), s') \<Longrightarrow> pc_wf s'"
    using pcm.call_wf [of s e "PcInitialize a"] by simp
  show "pc_wf s \<Longrightarrow> pc_call e op s = (Inr (), s') \<Longrightarrow> pc_admin s \<noteq> None \<Longrightarrow> pc_admin s' \<noteq> None"
    by (cases op) (auto simp: pc_defs pc_admin_def run Let_def split: if_splits option.splits)
qed

interpretation iri: initializer ir_call ir_wf ir_initialize "\<lambda>s. ir_admin s \<noteq> None"
proof
  fix s :: ir_state and s' e a op
  show "ir_admin s \<noteq> None \<Longrightarrow> ir_initialize e a s = (Inl (Err AlreadyInitialized), s)"
    by (auto simp: ir_initialize_def ir_admin_def run)
  show "ir_initialize e a s = (Inr (), s') \<Longrightarrow> ir_admin s' \<noteq> None"
    by (auto simp: ir_defs ir_admin_def run split: if_splits)
  show "ir_wf s \<Longrightarrow> ir_initialize e a s = (Inr (), s') \<Longrightarrow> ir_wf s'"
    using irm.call_wf [of s e "IrInitialize a"] by (simp add: run)
  show "ir_wf s \<Longrightarrow> ir_call e op s = (Inr (), s') \<Longrightarrow> ir_admin s \<noteq> None \<Longrightarrow> ir_admin s' \<noteq> None"
    using ir_call_admin by blast
qed

interpretation pri: initializer "pr_act d" pr_wf "\<lambda>e (a, r, c). pr_initialize e a r c" "\<lambda>s. pr_setup s \<noteq> None"
  for d :: "'w dependencies"
proof
  fix s :: "'w pr_state" and s' e op and x :: "address \<times> address \<times> address"
  obtain a r c where x: "x = (a, r, c)" by (cases x)
  show "pr_setup s \<noteq> None \<Longrightarrow> (case x of (a, r, c) \<Rightarrow> pr_initialize e a r c) s = (Inl (Err AlreadyInitialized), s)"
    by (auto simp: x pr_initialize_def pr_admin_def run)
  show "(case x of (a, r, c) \<Rightarrow> pr_initialize e a r c) s = (Inr (), s') \<Longrightarrow> pr_setup s' \<noteq> None"
    by (auto simp: x pr_defs pr_admin_def run Let_def split: if_splits)
  show "pr_wf s \<Longrightarrow> (case x of (a, r, c) \<Rightarrow> pr_initialize e a r c) s = (Inr (), s') \<Longrightarrow> pr_wf s'"
    using pr_call_wf [of s d e "PrInitialize a r c"] by (simp add: x run)
  show "pr_wf s \<Longrightarrow> pr_act d e op s = (Inr (), s') \<Longrightarrow> pr_setup s \<noteq> None \<Longrightarrow> pr_setup s' \<noteq> None"
    using pr_act_setup by blast
qed

section \<open>A first initialization\<close>

text \<open>The instance keys a first initialization writes.\<close>

definition pc_init_keys :: "pc_key list" where
  "pc_init_keys = [PcAdmin, PcPaused, PcConfigVersion, PcContractVersion]"

definition ir_init_keys :: "ir_key list" where
  "ir_init_keys = [IrAdmin, IrContractVersion]"

definition pr_init_keys :: "pr_key list" where
  "pr_init_keys = [PrAdmin, PrIssuerRegistry, PrProtocolConfig, PrContractVersion]"

text \<open>The values the three specifications document for those keys: the administrator and the
  dependency addresses that were passed, each under its own key, no pause, and every version 1.\<close>

definition pc_init_storage :: "address \<Rightarrow> pc_key \<Rightarrow> stored_value option" where
  "pc_init_storage a = [PcAdmin \<mapsto> AddressV a, PcPaused \<mapsto> BoolV False, PcConfigVersion \<mapsto> U32V 1,
     PcContractVersion \<mapsto> U32V 1]"

definition ir_init_storage :: "address \<Rightarrow> ir_key \<Rightarrow> stored_value option" where
  "ir_init_storage a = [IrAdmin \<mapsto> AddressV a, IrContractVersion \<mapsto> U32V 1]"

definition pr_init_storage :: "address \<Rightarrow> address \<Rightarrow> address \<Rightarrow> pr_key \<Rightarrow> stored_value option" where
  "pr_init_storage a r c = [PrAdmin \<mapsto> AddressV a, PrIssuerRegistry \<mapsto> AddressV r,
     PrProtocolConfig \<mapsto> AddressV c, PrContractVersion \<mapsto> U32V 1]"

text \<open>The storage of a contract after a call, as instance and persistent maps.\<close>

definition stored_by :: "(('k, 'v, 'ev, 'z) contract_state_scheme, 'e, unit) contract_m \<Rightarrow>
    ('k, 'v, 'ev, 'z) contract_state_scheme \<Rightarrow> ('k \<Rightarrow> 'v option) \<times> ('k \<Rightarrow> 'v option)" where
  "stored_by m s = (inst (snd (m s)), pers (snd (m s)))"

definition valid_dependencies :: "env \<Rightarrow> address \<Rightarrow> address \<Rightarrow> bool" where
  "valid_dependencies e r c \<longleftrightarrow> is_valid_principal_address e r \<and> is_valid_principal_address e c \<and>
     distinct [r, c, current_contract_address e]"

text \<open>What a contract state shows after its first \<open>initialize\<close>, as its specification documents it.\<close>

definition documented_init :: "contract_init_spec \<Rightarrow> address \<Rightarrow> string list \<Rightarrow> initialized_state" where
  "documented_init spec a keys =
     \<lparr>is_admin = a, is_event_emitted = emits_init_event spec, is_expected_keys = keys\<rparr>"

lemmas init_eval = first_initialization_def documented_init_def pc_init_spec_def ir_init_spec_def pr_init_spec_def
  standalone_with_guard_def with_dependencies_and_guard_def pc_init_keys_def ir_init_keys_def pr_init_keys_def
  pc_admin_def ir_admin_def pr_admin_def valid_dependencies_def stored_by_def pc_init_storage_def ir_init_storage_def
  pr_init_storage_def run Let_def

lemma pc_first_init:
  assumes "is_valid_principal_address e a" and "authorized e a"
  shows "first_initialization pc_admin pc_encode_key pc_init_keys (pc_initialize e a) (fresh_contract lu w) =
      Some (documented_init pc_init_spec a [''Admin'', ''Paused'', ''ConfigVersion'', ''ContractVersion''])"
    and "stored_by (pc_initialize e a) (fresh_contract lu w) = (pc_init_storage a, Map.empty)"
    and "reinit_attempt (pc_initialize e' a') (run_calls pc_call h (snd (pc_initialize e a (fresh_contract lu w)))) = blocked"
proof -
  obtain s where s: "pc_initialize e a (fresh_contract lu w) = (Inr (), s)"
    using assms by (simp add: pc_defs run)
  show "reinit_attempt (pc_initialize e' a') (run_calls pc_call h (snd (pc_initialize e a (fresh_contract lu w)))) = blocked"
    using pci.reinit_blocked [OF pc_wf_fresh s] s by simp
qed (use assms in \<open>auto simp: init_eval pc_defs\<close>)

lemma ir_first_init:
  assumes "is_valid_principal_address e a" and "authorized e a"
  shows "first_initialization ir_admin ir_encode_key ir_init_keys (ir_initialize e a) (fresh_contract lu w) =
      Some (documented_init ir_init_spec a [''Admin'', ''ContractVersion''])"
    and "stored_by (ir_initialize e a) (fresh_contract lu w) = (ir_init_storage a, Map.empty)"
    and "reinit_attempt (ir_initialize e' a') (run_calls ir_call h (snd (ir_initialize e a (fresh_contract lu w)))) = blocked"
proof -
  obtain s where s: "ir_initialize e a (fresh_contract lu w) = (Inr (), s)"
    using assms by (simp add: ir_defs run)
  show "reinit_attempt (ir_initialize e' a') (run_calls ir_call h (snd (ir_initialize e a (fresh_contract lu w)))) = blocked"
    using iri.reinit_blocked [OF ir_wf_fresh s] s by simp
qed (use assms in \<open>auto simp: init_eval ir_defs\<close>)

lemma pr_first_init:
  assumes "is_valid_principal_address e a" and "authorized e a" and "valid_dependencies e r c"
  shows "first_initialization pr_admin pr_encode_key pr_init_keys (pr_initialize e a r c) (fresh_registry lu w x) =
      Some (documented_init pr_init_spec a [''Admin'', ''IssuerRegistry'', ''ProtocolConfig'', ''ContractVersion''])"
    and "stored_by (pr_initialize e a r c) (fresh_registry lu w x) = (pr_init_storage a r c, Map.empty)"
    and "reinit_attempt (pr_initialize e' a' r' c')
      (run_calls (pr_act d) h (snd (pr_initialize e a r c (fresh_registry lu w x)))) = blocked"
proof -
  obtain s where s: "pr_initialize e a r c (fresh_registry lu w x) = (Inr (), s)"
    using assms by (simp add: pr_defs run Let_def valid_dependencies_def)
  show "reinit_attempt (pr_initialize e' a' r' c')
      (run_calls (pr_act d) h (snd (pr_initialize e a r c (fresh_registry lu w x)))) = blocked"
    using pri.reinit_blocked [where x = "(a, r, c)" and x' = "(a', r', c')", OF pr_wf_fresh] s by simp
qed (use assms in \<open>auto simp: init_eval pr_defs\<close>)

lemma pr_invalid_dependencies:
  "\<not> valid_dependencies e r c \<Longrightarrow> invalid_dependency_attempt (pr_initialize e a r c) s =
     \<lparr>id_failed = True, id_atomic_failure = True, id_no_events = True\<rparr>"
  by (auto simp: invalid_dependency_attempt_def same_storage_def valid_dependencies_def pr_defs run Let_def)

section \<open>Properties\<close>

text \<open>
  C31: initialization of the three contracts is what their documented specifications say. A first
  \<open>initialize\<close> with a valid and authorizing administrator (and, for proof-registry, valid and
  distinct dependency addresses) leaves storage with exactly the documented entries and values:
  the administrator, no pause and versions 1 in protocol-config; the administrator and version 1 in
  issuer-registry; the administrator, the issuer-registry address and the protocol-config address
  each under its own key, and version 1 in proof-registry. It publishes an event exactly if the
  specification says so. From then on the guard is
  absolute: whoever calls \<open>initialize\<close> with whatever arguments, after whatever history, fails,
  and storage and events are unchanged even before the rollback. proof-registry, the only one that takes
  dependencies, rejects invalid ones the same way in every state.
\<close>

theorem initialization_specs_hold:
  assumes "is_valid_principal_address e a" and "authorized e a" and "valid_dependencies e r c"
  shows "first_initialization pc_admin pc_encode_key pc_init_keys (pc_initialize e a) (fresh_contract lu w) =
      Some (documented_init pc_init_spec a [''Admin'', ''Paused'', ''ConfigVersion'', ''ContractVersion'']) \<and>
    stored_by (pc_initialize e a) (fresh_contract lu w) = (pc_init_storage a, Map.empty) \<and>
    (has_reinit_guard pc_init_spec \<longleftrightarrow> (\<forall>e' a' h. reinit_attempt (pc_initialize e' a')
       (run_calls pc_call h (snd (pc_initialize e a (fresh_contract lu w)))) = blocked)) \<and>
    first_initialization ir_admin ir_encode_key ir_init_keys (ir_initialize e a) (fresh_contract lu w) =
      Some (documented_init ir_init_spec a [''Admin'', ''ContractVersion'']) \<and>
    stored_by (ir_initialize e a) (fresh_contract lu w) = (ir_init_storage a, Map.empty) \<and>
    (has_reinit_guard ir_init_spec \<longleftrightarrow> (\<forall>e' a' h. reinit_attempt (ir_initialize e' a')
       (run_calls ir_call h (snd (ir_initialize e a (fresh_contract lu w)))) = blocked)) \<and>
    first_initialization pr_admin pr_encode_key pr_init_keys (pr_initialize e a r c) (fresh_registry lu w x) =
      Some (documented_init pr_init_spec a [''Admin'', ''IssuerRegistry'', ''ProtocolConfig'', ''ContractVersion'']) \<and>
    stored_by (pr_initialize e a r c) (fresh_registry lu w x) = (pr_init_storage a r c, Map.empty) \<and>
    (has_reinit_guard pr_init_spec \<longleftrightarrow> (\<forall>e' a' r' c' d h. reinit_attempt (pr_initialize e' a' r' c')
       (run_calls (pr_act d) h (snd (pr_initialize e a r c (fresh_registry lu w x)))) = blocked)) \<and>
    (\<forall>e' a' r' c' s. valid_dependencies e' r' c' \<or>
       invalid_dependency_attempt (pr_initialize e' a' r' c') (s :: 'w pr_state) =
         \<lparr>id_failed = True, id_atomic_failure = True, id_no_events = True\<rparr>)"
proof -
  have "has_reinit_guard pc_init_spec" "has_reinit_guard ir_init_spec" "has_reinit_guard pr_init_spec"
    by (simp_all add: init_eval)
  then show ?thesis
    using pc_first_init [OF assms(1,2), where lu = lu and w = w] ir_first_init [OF assms(1,2), where lu = lu and w = w]
      pr_first_init [OF assms, where lu = lu and w = w and x = x] pr_invalid_dependencies by auto
qed

theorem initialization_specs_hold_witness:
  "first_initialization pc_admin pc_encode_key pc_init_keys (pc_initialize sample_env (Address 101)) (fresh_contract 0 0) =
      Some (documented_init pc_init_spec (Address 101) [''Admin'', ''Paused'', ''ConfigVersion'', ''ContractVersion'']) \<and>
    first_initialization pr_admin pr_encode_key pr_init_keys
        (pr_initialize sample_env (Address 101) (Address 102) (Address 103)) (fresh_registry 0 0 ()) =
      Some (documented_init pr_init_spec (Address 101) [''Admin'', ''IssuerRegistry'', ''ProtocolConfig'', ''ContractVersion'']) \<and>
    stored_by (pr_initialize sample_env (Address 101) (Address 102) (Address 103)) (fresh_registry 0 0 ()) =
      (pr_init_storage (Address 101) (Address 102) (Address 103), Map.empty)"
proof -
  have "valid_dependencies sample_env (Address 102) (Address 103)"
    by (simp add: valid_dependencies_def)
  from initialization_specs_hold [OF sample_valid(1) sample_env_simps(1) this, of 0 0 "()"] show ?thesis
    by blast
qed

end
