(* ===== verification/Retries.thy ===== *)
theory Retries
  imports Init_Specs
begin

text \<open>
  What the error catalog tells a client about a rejected request, against what the contracts do.
  \<open>Retry::Never\<close> and \<open>Retry::AfterCallerChange\<close> promise that the identical request never
  succeeds; \<open>Status\<close> says whether any path returns a code. Both are statements on all histories of
  the deployed system.
\<close>

section \<open>What a system never loses\<close>

text \<open>
  Initialization, the configured dependencies, issuer records and proof records survive every
  history; the records change only in the ways their contracts allow.
\<close>

definition grows :: "system \<Rightarrow> system \<Rightarrow> bool" where
  "grows s t \<longleftrightarrow> (pc_admin (config (others s)) \<noteq> None \<longrightarrow> pc_admin (config (others t)) \<noteq> None) \<and>
     (ir_admin (registry (others s)) \<noteq> None \<longrightarrow> ir_admin (registry (others t)) \<noteq> None) \<and>
     (\<forall>u. pr_setup s = Some u \<longrightarrow> pr_setup t = Some u) \<and>
     (\<forall>i q. ir_issuer (registry (others s)) i = Some q \<longrightarrow>
        (\<exists>q'. ir_issuer (registry (others t)) i = Some q' \<and> record_evolves q q')) \<and>
     (\<forall>i r. pr_proof s i = Some r \<longrightarrow> (\<exists>r'. pr_proof t i = Some r' \<and> proof_evolves r r'))"

lemma grows_refl: "grows s s"
  by (auto simp: grows_def record_evolves_def proof_evolves_def)

lemma grows_trans: "grows s t \<Longrightarrow> grows t u \<Longrightarrow> grows s u"
  unfolding grows_def by (meson record_evolves_trans proof_evolves_trans)

lemma grows_call:
  assumes "sys_wf s" and "sys_call x e op s = (Inr (), s')"
  shows "grows s s'"
proof -
  have wf: "pc_wf (config (others s))" "ir_wf (registry (others s))"
    using assms(1) by (simp_all add: sys_wf_def)
  have "(pc_admin (config (others s)) \<noteq> None \<longrightarrow> pc_admin (config (others s')) \<noteq> None) \<and>
     (ir_admin (registry (others s)) \<noteq> None \<longrightarrow> ir_admin (registry (others s')) \<noteq> None)"
    using assms(2,1)
  proof (cases rule: sys_call_cases)
    case (config o1 c)
    then show ?thesis using pci.call_keeps [OF wf(1)] by auto
  next
    case (registry o2 r)
    then show ?thesis using iri.call_keeps [OF wf(2)] by auto
  next
    case (proof_registry o3)
    then have "pc_abs (config (others s')) = pc_abs (config (others s))"
      "ir_abs (registry (others s')) = ir_abs (registry (others s))"
      using same_entries_pc same_entries_ir by (simp_all add: same_ledger_def)
    then show ?thesis by (simp add: pc_abs_def ir_abs_def)
  qed
  then show ?thesis
    unfolding grows_def using sys_call_keeps(3-5) [OF assms] by blast
qed

lemma grows_run: "sys_wf s \<Longrightarrow> grows s (run_calls (sys_call x) g s)"
  by (rule sysm.run_respects [OF grows_refl grows_trans grows_call])

section \<open>Rejections that are final\<close>

text \<open>Two invocations of one contract: addresses keep their printed form and the contract its
  address, and the clock does not run backwards. Who signs may differ.\<close>

definition later_host :: "env \<Rightarrow> env \<Rightarrow> bool" where
  "later_host e e' \<longleftrightarrow> addr_string e' = addr_string e \<and>
     current_contract_address e' = current_contract_address e \<and> ledger_timestamp e \<le> ledger_timestamp e'"

lemma later_host_valid: "later_host e e' \<Longrightarrow> is_valid_principal_address e' a = is_valid_principal_address e a"
  by (simp add: later_host_def valid_principal_iff)

lemma cf_final:
  assumes "fst (cf_step e op c) = Inl (Err z)" and "z \<noteq> NotInitialized" and "later_host e e'"
    and "cf_admin c \<noteq> None \<longrightarrow> cf_admin c' \<noteq> None"
  shows "fst (cf_step e' op c') \<noteq> Inr ()"
  using assms(1,2,4) later_host_valid [OF assms(3)]
  by (cases op) (auto simp: cf_as_admin_def cf_bump_def split: if_splits option.splits)

lemma revoked_evolves:
  "record_evolves q q' \<Longrightarrow> ir_status q = IssuerRevoked \<Longrightarrow> ir_status q' = IssuerRevoked"
  "proof_evolves r r' \<Longrightarrow> pr_status r = ProofRevoked \<Longrightarrow> pr_status r' = ProofRevoked"
  by (metis issuer_record_updated_at record_evolves_def) (auto simp: proof_evolves_def)

lemma rg_final:
  assumes "fst (rg_step e op c) = Inl (Err z)" and "z \<notin> {2, 201, 202, 203, 207}" and "later_host e e'"
    and "rg_admin c \<noteq> None \<longrightarrow> rg_admin c' \<noteq> None"
    and "\<And>i q. rg_issuers c i = Some q \<Longrightarrow> \<exists>q'. rg_issuers c' i = Some q' \<and> record_evolves q q'"
  shows "fst (rg_step e' op c') \<noteq> Inr ()"
  using assms(1,2,4) later_host_valid [OF assms(3)]
  by (cases op) (auto simp: rg_defs dest!: assms(5) dest: revoked_evolves split: if_splits option.splits)

lemma ps_final:
  assumes "fst (ps_step d e op c) = Inl (Err z)" and "z \<notin> {2, 301, 304, 305}" and "later_host e e'"
    and "\<And>u. ps_setup c = Some u \<Longrightarrow> ps_setup c' = Some u"
    and "\<And>i r. ps_proofs c i = Some r \<Longrightarrow> \<exists>r'. ps_proofs c' i = Some r' \<and> proof_evolves r r'"
  shows "fst (ps_step d' e' op c') \<noteq> Inr ()"
proof -
  have kept: "ps_setup c' \<noteq> None" if "ps_setup c \<noteq> None"
    using assms(4) that by auto
  have host: "t \<le> ledger_timestamp e \<Longrightarrow> t \<le> ledger_timestamp e'"
      "current_contract_address e' = current_contract_address e" for t
    using assms(3) unfolding later_host_def by (auto intro: order_trans)
  show ?thesis
    using assms(1,2,4) kept later_host_valid [OF assms(3)] host(2)
    by (cases op) (auto simp: ps_defs dest!: assms(5) dest: host(1) revoked_evolves
        split: if_splits option.splits prod.splits sum.splits)
qed

text \<open>The codes a rejected request may outlive: every other code is final.\<close>

definition clearable_codes :: "u32 set" where
  "clearable_codes = {2, 201, 202, 203, 207, 301, 304, 305}"

lemma map_sum_Inr_unit: "map_sum f id r = Inr () \<longleftrightarrow> r = Inr ()"
  by (cases r) simp_all

lemma sys_final:
  assumes "sys_wf s" and "sys_wf t" and "grows s t" and "later_host e e'"
    and "fst (invoke (sys_call x e op) s) = Inl (Err c)" and "c \<notin> clearable_codes"
  shows "fst (invoke (sys_call x' e' op) t) \<noteq> Inr ()"
proof -
  note g = assms(3) [unfolded grows_def]
  have wf: "pc_wf (config (others s))" "ir_wf (registry (others s))" "pr_wf s"
    "pc_wf (config (others t))" "ir_wf (registry (others t))" "pr_wf t"
    using assms(1,2) by (simp_all add: sys_wf_def)
  show ?thesis
  proof (cases op)
    case (SysConfig o1)
    then obtain z where z: "fst (cf_step e o1 (pc_abs (config (others s)))) = Inl (Err z)" "c = contract_error_code z"
      using assms(5) wf(1) by (auto simp: fst_on_config map_abort_Err pc_invoke_outcome)
    then have "z \<noteq> NotInitialized" using assms(6) by (auto simp: clearable_codes_def)
    from cf_final [OF z(1) this assms(4), of "pc_abs (config (others t))"] g wf(4) SysConfig show ?thesis
      by (auto simp: fst_on_config pc_invoke_outcome pc_abs_def map_sum_Inr_unit)
  next
    case (SysRegistry o2)
    then have "fst (rg_step e o2 (ir_abs (registry (others s)))) = Inl (Err c)"
      using assms(5) wf(2) by (simp add: fst_on_registry ir_invoke_outcome)
    from rg_final [OF this _ assms(4), of "ir_abs (registry (others t))"] g wf(5) SysRegistry assms(6) show ?thesis
      by (auto simp: fst_on_registry ir_invoke_outcome clearable_codes_def)
  next
    case (SysProof o3)
    then have "fst (ps_step (system_deps x) e o3 (pr_abs s)) = Inl (Err c)"
      using assms(5) wf(3) by (simp add: pr_invoke_outcome)
    from ps_final [OF this _ assms(4), of "pr_abs t" "system_deps x'"] g wf(6) SysProof assms(6) show ?thesis
      by (auto simp: pr_invoke_outcome clearable_codes_def)
  qed
qed

section \<open>What the catalog says of a code, in terms of the system\<close>

text \<open>\<open>Status\<close>: some entry point returns the code in some reachable state.\<close>

definition occurs :: "u32 \<Rightarrow> bool" where
  "occurs c \<longleftrightarrow> (\<exists>x h ca ra lu w e op. fst (invoke (sys_call x e op) (sys_after x h ca ra lu w)) = Inl (Err c))"

text \<open>\<open>Retry\<close>: a request that was rejected with the code can later succeed unchanged, without
  anything but other calls and the passing of time in between.\<close>

definition clears :: "u32 \<Rightarrow> bool" where
  "clears c \<longleftrightarrow> (\<exists>x h ca ra lu w e op g e'. later_host e e' \<and>
     fst (invoke (sys_call x e op) (sys_after x h ca ra lu w)) = Inl (Err c) \<and>
     fst (invoke (sys_call x e' op) (run_calls (sys_call x) g (sys_after x h ca ra lu w))) = Inr ())"

lemma clears_final: "clears c \<Longrightarrow> c \<in> clearable_codes"
  unfolding clears_def using sys_final [OF sys_after_wf sysm.run_wf [OF sys_after_wf] grows_run [OF sys_after_wf]] by blast

subsection \<open>Requests that clear\<close>

abbreviation sample_deployed :: "(env \<times> sys_op) list \<Rightarrow> system" where
  "sample_deployed h \<equiv> sys_after no_contract h (Address 103) (Address 102) 0 0"

lemma later_host_refl [simp]: "later_host e e"
  by (simp add: later_host_def)

lemma clearsI:
  "fst (invoke (sys_call no_contract sample_env op) (sample_deployed h)) = Inl (Err c) \<Longrightarrow>
   fst (invoke (sys_call no_contract sample_env op) (sample_deployed (h @ g))) = Inr () \<Longrightarrow> clears c"
  unfolding clears_def run_calls_append using later_host_refl by blast

lemmas sample_eval = sample_history_def sys_eval pc_eval ir_eval pr_eval

lemma uninitialized_clears: "clears 2"
  by (rule clearsI [of "SysConfig PcGetAdmin" "[]" _ "[(sample_env, SysConfig (PcInitialize (Address 101)))]"])
    (simp_all add: sample_eval)

lemma missing_records_clear: "clears 201" "clears 203" "clears 301"
proof -
  show "clears 201"
    by (rule clearsI [of "SysRegistry (IrGetIssuer 21)" "[]" _ sample_history]) (simp_all add: sample_eval)
  show "clears 203"
    by (rule clearsI [of "SysRegistry (IrGetIssuerByAddress (Address 104))" "[]" _ sample_history])
      (simp_all add: sample_eval)
  show "clears 301"
    by (rule clearsI [of "SysProof (PrGetProof 41)" "[]" _ sample_history]) (simp_all add: sample_eval)
qed

text \<open>An address that an issuer holds is free again after a rotation, and an issuer that rotated away
  can rotate back.\<close>

lemma addresses_clear: "clears 202" "clears 207"
proof -
  let ?rotated = "[(sample_env, SysRegistry (IrRotateIssuerAddress 21 (Address 103)))]"
  show "clears 202"
    by (rule clearsI [of "SysRegistry (IrRegisterIssuer 22 (Address 104) 31)" sample_history _ ?rotated])
      (simp_all add: sample_eval)
  show "clears 207"
    by (rule clearsI [of "SysRegistry (IrRotateIssuerAddress 21 (Address 104))" sample_history _ ?rotated])
      (simp_all add: sample_eval)
qed

lemma gate_clears: "clears 304" "clears 305"
proof -
  show "clears 304"
    by (rule clearsI [of "SysProof (PrRegisterProof 42 52 (Address 104) 1 2000)"
          "sample_history @ [(sample_env, SysConfig PcPause)]" _ "[(sample_env, SysConfig PcUnpause)]"])
      (simp_all add: sample_eval)
  show "clears 305"
    by (rule clearsI [of "SysProof (PrRegisterProof 42 52 (Address 104) 2 2000)" sample_history _
          "[(sample_env, SysConfig (PcApproveSchema 2))]"])
      (simp_all add: sample_eval)
qed

subsection \<open>Codes that occur\<close>

lemma clears_occurs: "clears c \<Longrightarrow> occurs c"
  unfolding clears_def occurs_def by blast

lemma occursI:
  "fst (invoke (sys_call no_contract sample_env op) (sample_deployed h)) = Inl (Err c) \<Longrightarrow> occurs c"
  unfolding occurs_def by blast

lemma sample_invalid: "\<not> is_valid_principal_address sample_env (Address 105)"
  by (simp add: valid_principal_iff sample_strkey_def ZERO_PAYLOAD_STRKEY_def)

lemma common_codes_occur: "occurs 1" "occurs 60"
proof -
  show "occurs 1"
    by (rule occursI [of "SysConfig (PcInitialize (Address 101))" sample_history]) (simp add: sample_eval)
  show "occurs 60"
    by (rule occursI [of "SysConfig (PcInitialize (Address 105))" "[]"]) (simp add: sample_eval sample_invalid)
qed

lemma issuer_codes_occur: "occurs 200" "occurs 204" "occurs 206"
proof -
  let ?revoked = "sample_history @ [(sample_env, SysRegistry (IrRevokeIssuer 21))]"
  show "occurs 200"
    by (rule occursI [of "SysRegistry (IrRegisterIssuer 21 (Address 103) 31)" sample_history]) (simp add: sample_eval)
  show "occurs 204"
    by (rule occursI [of "SysRegistry (IrUpdateIssuer 21 32)" ?revoked]) (simp add: sample_eval)
  show "occurs 206"
    by (rule occursI [of "SysRegistry (IrReactivateIssuer 21)" ?revoked]) (simp add: sample_eval)
qed

lemma proof_codes_occur: "occurs 300" "occurs 302" "occurs 303" "occurs 306"
proof -
  show "occurs 300"
    by (rule occursI [of "SysProof (PrRegisterProof 41 51 (Address 104) 1 2000)" sample_history]) (simp add: sample_eval)
  show "occurs 302"
    by (rule occursI [of "SysProof (PrRevokeProof 41)" "sample_history @ [(sample_env, SysProof (PrRevokeProof 41))]"])
      (simp add: sample_eval)
  show "occurs 303"
    by (rule occursI [of "SysProof (PrRegisterProof 42 52 (Address 104) 1 1000)" sample_history]) (simp add: sample_eval)
  show "occurs 306"
    by (rule occursI [of "SysProof (PrRegisterProof 42 52 (Address 105) 1 2000)" sample_history])
      (simp add: sample_eval sample_invalid)
qed

lemma clears_iff: "clears c \<longleftrightarrow> c \<in> clearable_codes"
  using clears_final uninitialized_clears missing_records_clear addresses_clear gate_clears
  by (auto simp: clearable_codes_def)

lemma occurs_iff: "occurs c \<longleftrightarrow> c \<in> returned_codes \<union> {207, 306}"
proof
  show "c \<in> returned_codes \<union> {207, 306}" if "occurs c"
    using that sys_errors [OF sys_after_wf] unfolding occurs_def returned_codes_eq by fastforce
  show "occurs c" if "c \<in> returned_codes \<union> {207, 306}"
    using that common_codes_occur issuer_codes_occur proof_codes_occur
      clears_occurs [unfolded clears_iff clearable_codes_def]
    by (auto simp: returned_codes_eq)
qed

section \<open>Properties\<close>

lemma catalog_row:
  assumes "error_spec_for (variant_code v) = Some es"
  shows "es_name es = variant_name v \<and> es_enum_name es = variant_enum v \<and> es_domain es = domain_for (variant_code v)"
proof -
  have es: "es \<in> set ERROR_CATALOG" "es_code es = variant_code v"
    using assms by (simp_all add: error_spec_for_lookup)
  then have "(es_code es, es_name es, es_enum_name es, es_domain es) \<in>
      set (map (\<lambda>e. (es_code e, es_name e, es_enum_name e, es_domain e)) ERROR_CATALOG)"
    by force
  then obtain v' where v': "es_code es = variant_code v'" "es_name es = variant_name v'"
      "es_enum_name es = variant_enum v'" "es_domain es = domain_for (variant_code v')"
    unfolding catalog_is_declared_variants by auto
  with es(2) have "v' = v"
    by (metis injD variant_code_inj)
  with v' show ?thesis by simp
qed

text \<open>
  C38: the catalog is right about every declared error variant. Where it has an entry, the entry
  carries the variant's name, enum and the domain of its code, and says \<open>Returned\<close> exactly if some entry
  point of the deployed system returns the code in some state a history can reach; \<open>Reserved\<close> means that
  no history ever does. The variants without an entry are the three \<open>InvalidAddress\<close>, of
  which those of issuer-registry and proof-registry (207 and 306) are returned all the same. No
  undeclared code is ever returned.
\<close>

theorem status_column_exact:
  "(case error_spec_for (variant_code v) of
      Some es \<Rightarrow> (es_status es = StatusReturned \<longleftrightarrow> occurs (variant_code v)) \<and> es_name es = variant_name v \<and>
        es_enum_name es = variant_enum v \<and> es_domain es = domain_for (variant_code v)
    | None \<Rightarrow> variant_name v = ''InvalidAddress'' \<and>
        (occurs (variant_code v) \<longleftrightarrow> v \<in> {IssuerVariant IE_InvalidAddress, ProofVariant PE_InvalidAddress})) \<and>
   {c. occurs c} \<subseteq> range variant_code"
proof
  have declared: "contract_error_code z \<in> range variant_code" "issuer_error_code i \<in> range variant_code"
      "proof_error_code p \<in> range variant_code" for z i p
    using rangeI [of variant_code "CommonVariant z"] rangeI [of variant_code "IssuerVariant i"]
      rangeI [of variant_code "ProofVariant p"] by simp_all
  show "{c. occurs c} \<subseteq> range variant_code"
    unfolding occurs_def by (auto dest!: sys_errors [OF sys_after_wf] simp only: intro: declared)
  show "case error_spec_for (variant_code v) of
      Some es \<Rightarrow> (es_status es = StatusReturned \<longleftrightarrow> occurs (variant_code v)) \<and> es_name es = variant_name v \<and>
        es_enum_name es = variant_enum v \<and> es_domain es = domain_for (variant_code v)
    | None \<Rightarrow> variant_name v = ''InvalidAddress'' \<and>
        (occurs (variant_code v) \<longleftrightarrow> v \<in> {IssuerVariant IE_InvalidAddress, ProofVariant PE_InvalidAddress})"
  proof (cases "error_spec_for (variant_code v)")
    case None
    then have "variant_name v = ''InvalidAddress''" by (simp add: uncatalogued_variants)
    then have "v \<in> {CommonVariant CE_InvalidAddress, IssuerVariant IE_InvalidAddress, ProofVariant PE_InvalidAddress}"
      by (cases v; rename_tac e; case_tac e) simp_all
    with None show ?thesis by (auto simp: occurs_iff returned_codes_eq)
  next
    case (Some es)
    then have "variant_code v \<in> set (map es_code ERROR_CATALOG)"
      using error_spec_for_None_iff [of "variant_code v"] by simp
    then have "variant_code v \<notin> {207, 306}"
      unfolding catalog_codes by auto
    with Some have "occurs (variant_code v) \<longleftrightarrow> es_status es = StatusReturned"
      by (auto simp: occurs_iff returned_codes_def)
    with Some catalog_row [OF Some] show ?thesis by simp
  qed
qed

text \<open>
  C40: whether retrying the same call can ever succeed, for every \<open>u32\<close> code: a request that some
  reachable state rejected with the code can later succeed unchanged, after other calls and with
  the clock moved on, exactly for the returned codes the catalog classifies as after-operator-action
  (2, 304 and 305), the only ones \<open>docs/backend-integration.md\<close> lets a client repeat, and for five more: 201, 203
  and 301, which the catalog classifies as after-caller-change, and 202 and 207, which it answers with
  \<open>Never\<close>. For every other code, among them 1, 60, 200, 204, 206, 300, 302, 303 and 306, the
  identical request fails in every later state of every history.
\<close>

theorem retry_answers_exact:
  "clears c \<longleftrightarrow> retry_for c = RetryAfterOperatorAction \<and> occurs c \<or> c \<in> {201, 202, 203, 207, 301}"
proof -
  have "retry_for c = RetryAfterOperatorAction \<longleftrightarrow> c \<in> {2, 80, 205, 304, 305}"
    using operator_action_codes by blast
  then show ?thesis
    by (auto simp: clears_iff clearable_codes_def occurs_iff returned_codes_eq)
qed

end
