(* ===== verification/Test_Runner.thy ===== *)
theory Test_Runner
  imports Shared_Types "HOL-Library.Sublist"
begin

text \<open>
  How the repository's \<open>#[test]\<close> functions run. A test is a script over a test world: the
  \<open>Env\<close> of the test (whose mocked authorizations the script may change) and the state of the
  contracts registered in it. A client call is one top-level invocation, committed or rolled
  back by the host; it panics the test when the invocation fails, while the \<open>try_\<close> form returns
  the failure as a value. The host stays a parameter: a test passes if it passes on every
  host that meets \<open>test_host\<close>.
\<close>

section \<open>The test world\<close>

record 's test_world =
  tw_env :: env
  tw_state :: 's

type_synonym ('s, 'a) test_m = "('s test_world, unit, 'a) contract_m"

text \<open>\<open>Env::default()\<close> with the given contracts, compiled as the test build, registered: nobody has
  authorized anything yet.\<close>

definition test_start :: "env \<Rightarrow> 's \<Rightarrow> 's test_world" where
  "test_start e s = \<lparr>tw_env = e\<lparr>authorized := (\<lambda>_. False), cfg_test := True\<rparr>, tw_state = s\<rparr>"

definition mock_all_auths :: "('s, unit) test_m" where
  "mock_all_auths = (\<lambda>w. (Inr (), w\<lparr>tw_env := (tw_env w)\<lparr>authorized := (\<lambda>_. True)\<rparr>\<rparr>))"

text \<open>\<open>set_auths\<close> and \<open>mock_auths\<close>: exactly the listed addresses sign the invocations that follow.\<close>

definition set_auths :: "address list \<Rightarrow> ('s, unit) test_m" where
  "set_auths signers = (\<lambda>w. (Inr (), w\<lparr>tw_env := (tw_env w)\<lparr>authorized := (\<lambda>a. a \<in> set signers)\<rparr>\<rparr>))"

text \<open>
  A top-level invocation through the test client. The host clears its event buffer first, which
  \<open>clear\<close> does for the contracts of the world.
\<close>

definition try_client :: "('s \<Rightarrow> 's) \<Rightarrow> (env \<Rightarrow> ('s, 'e, 'a) contract_m) \<Rightarrow> ('s, 'e abort + 'a) test_m" where
  "try_client clear m = (\<lambda>w. case invoke (m (tw_env w)) (clear (tw_state w)) of
     (r, s') \<Rightarrow> (Inr r, w\<lparr>tw_state := s'\<rparr>))"

text \<open>The plain client method panics on a failed invocation; a message the contract panicked with
  is part of that panic.\<close>

fun client_panic :: "'e abort \<Rightarrow> unit abort" where
  "client_panic (Panic m) = Panic m"
| "client_panic (Err c) = Err ()"
| "client_panic (AuthFailure a) = AuthFailure a"
| "client_panic ConversionError = ConversionError"
| "client_panic HostTrap = HostTrap"

definition client_call :: "('s \<Rightarrow> 's) \<Rightarrow> (env \<Rightarrow> ('s, 'e, 'a) contract_m) \<Rightarrow> ('s, 'a) test_m" where
  "client_call clear m = bind_m (try_client clear m) (\<lambda>r. case r of
     Inl a \<Rightarrow> abort_with (client_panic a) | Inr x \<Rightarrow> ret x)"

text \<open>\<open>catch_unwind(..).is_err()\<close>: whether the script panicked.\<close>

definition panics :: "('s, 'a) test_m \<Rightarrow> ('s, bool) test_m" where
  "panics m = (\<lambda>w. case m w of (Inl a, w') \<Rightarrow> (Inr True, w') | (Inr x, w') \<Rightarrow> (Inr False, w'))"

definition assert_that :: "bool \<Rightarrow> ('s, unit) test_m" where
  "assert_that b = (if b then ret () else abort_with (Panic ''assertion failed''))"

text \<open>\<open>env.as_contract(..)\<close> and \<open>env.ledger()\<close>: reading the world from outside an invocation.\<close>

definition inspect :: "(env \<Rightarrow> 's \<Rightarrow> 'a) \<Rightarrow> ('s, 'a) test_m" where
  "inspect f = (\<lambda>w. (Inr (f (tw_env w) (tw_state w)), w))"

text \<open>\<open>get_ttl\<close> of a persistent entry: the ledgers it has left.\<close>

definition persistent_ttl :: "env \<Rightarrow> ('k, 'v, 'ev, 'z) contract_state_scheme \<Rightarrow> 'k \<Rightarrow> u32" where
  "persistent_ttl e s k = pers_until s k - ledger_sequence e"

text \<open>Checked addition, as in a debug build, and \<open>u32::MAX\<close>.\<close>

definition add_u32 :: "u32 \<Rightarrow> u32 \<Rightarrow> ('s, u32) test_m" where
  "add_u32 a b = expect_some ''attempt to add with overflow'' (checked_add a b)"

definition u32_MAX :: u32 where
  "u32_MAX = 0xFFFFFFFF"

text \<open>A \<open>for\<close> loop over a range.\<close>

primrec for_each :: "'i list \<Rightarrow> ('i \<Rightarrow> 'a \<Rightarrow> ('s, 'a) test_m) \<Rightarrow> 'a \<Rightarrow> ('s, 'a) test_m" where
  "for_each [] body x = ret x"
| "for_each (i # is) body x = bind_m (body i x) (for_each is body)"

text \<open>\<open>assert!(c)\<close> and \<open>assert_eq!(c, v)\<close> on the result of a call.\<close>

definition assert_true :: "('s, bool) test_m \<Rightarrow> ('s, unit) test_m" where
  "assert_true m = bind_m m assert_that"

definition assert_false :: "('s, bool) test_m \<Rightarrow> ('s, unit) test_m" where
  "assert_false m = bind_m m (\<lambda>b. assert_that (\<not> b))"

definition assert_eq :: "('s, 'a) test_m \<Rightarrow> 'a \<Rightarrow> ('s, unit) test_m" where
  "assert_eq m v = bind_m m (\<lambda>x. assert_that (x = v))"

primrec script :: "('s, unit) test_m list \<Rightarrow> ('s, unit) test_m" where
  "script [] = ret ()"
| "script (m # ms) = seq_m m (script ms)"

section \<open>Test functions\<close>

text \<open>The attributes \<open>should_panic\<close> and \<open>should_panic(expected = ..)\<close>.\<close>

datatype expectation = ShouldPass | ShouldPanic | ShouldPanicWith string

type_synonym 's test_fn = "expectation \<times> ('s, unit) test_m"

fun meets :: "expectation \<Rightarrow> unit abort + unit \<Rightarrow> bool" where
  "meets ShouldPass r = (r = Inr ())"
| "meets ShouldPanic r = (r \<noteq> Inr ())"
| "meets (ShouldPanicWith m) r = (case r of Inl (Panic p) \<Rightarrow> sublist m p | _ \<Rightarrow> False)"

definition passes :: "'s test_world \<Rightarrow> 's test_fn \<Rightarrow> bool" where
  "passes w t = meets (fst t) (fst (snd t w))"

section \<open>Test data\<close>

text \<open>\<open>BytesN::from_array\<close> and the helper \<open>bytes(env, value)\<close> of the test modules.\<close>

definition from_array :: "u8 list \<Rightarrow> bytes32" where
  "from_array xs = fold (\<lambda>b acc. 256 * acc + ucast b) xs 0"

definition bytes :: "u8 \<Rightarrow> bytes32" where
  "bytes v = from_array (replicate 32 v)"

text \<open>The accounts the tests name by their printed form, the contract identifiers \<open>env.register\<close>
  returns and an address from \<open>Address::generate\<close>.\<close>

definition ADMIN :: address where "ADMIN = Address 101"
definition ISSUER_ONE :: address where "ISSUER_ONE = Address 102"
definition ISSUER_TWO :: address where "ISSUER_TWO = Address 103"
definition OTHER_ADMIN :: address where "OTHER_ADMIN = Address 104"
definition PC_ID :: address where "PC_ID = Address 111"
definition IR_ID :: address where "IR_ID = Address 112"
definition PR_ID :: address where "PR_ID = Address 113"
definition GENERATED :: address where "GENERATED = Address 114"
definition SECOND_PC_ID :: address where "SECOND_PC_ID = Address 115"
definition SECOND_IR_ID :: address where "SECOND_IR_ID = Address 116"

lemmas test_addresses = ADMIN_def ISSUER_ONE_def ISSUER_TWO_def OTHER_ADMIN_def PC_ID_def IR_ID_def
  PR_ID_def GENERATED_def SECOND_PC_ID_def SECOND_IR_ID_def

text \<open>
  What the tests rely on of the host: a fresh ledger (time and sequence 0) with the documented
  lifetime rule, the accounts printed as the strings of the source, contract identifiers and
  generated addresses printed as well-formed 56-character keys.
\<close>

definition prints_as :: "env \<Rightarrow> address \<Rightarrow> string \<Rightarrow> bool" where
  "prints_as e a s \<longleftrightarrow> addr_string e a = ascii s"

locale test_host =
  fixes e :: env
  assumes time_0: "ledger_timestamp e = 0" and sequence_0: "ledger_sequence e = 0"
    and lifetimes: "ttl_law e"
    and registry_address: "current_contract_address e = PR_ID"
    and accounts: "prints_as e ADMIN ''GCFIRY65OQE7DFP5KLNS2PF2LVZMUZYJX4OZIEQ36N2IQANUB5XVYOJR''"
      "prints_as e ISSUER_ONE ''GCATS5YOVB6ROX2WUNKGNQ2MP3GMXDMKSG2O4N5CLX3A6W4PZGZZI55U''"
      "prints_as e ISSUER_TWO ''GDWUSKGGFDI4FRXK5EBTRECZSVQSSWJHHJOGH6JWG3AUMFFMQ435DIAG''"
      "prints_as e OTHER_ADMIN ''GBXHUHG5FGYLPD6RHL2MKWMP572O6KUXCZXDZJXS4T57ZTMAKBN7DWXN''"
    and contracts: "a \<in> {PC_ID, IR_ID, PR_ID, GENERATED, SECOND_PC_ID, SECOND_IR_ID} \<Longrightarrow>
      length (addr_string e a) = 56 \<and> list_all base32_byte (addr_string e a) \<and>
      addr_string e a \<noteq> ZERO_PAYLOAD_STRKEY"
begin

lemma valid_accounts [simp]:
  "is_valid_principal_address e ADMIN" "is_valid_principal_address e ISSUER_ONE"
  "is_valid_principal_address e ISSUER_TWO" "is_valid_principal_address e OTHER_ADMIN"
  using accounts
  by (simp_all add: prints_as_def valid_principal_iff ascii_def base32_byte_def ZERO_PAYLOAD_STRKEY_def of_char_Char)

lemma valid_contracts [simp]:
  "is_valid_principal_address e PC_ID" "is_valid_principal_address e IR_ID"
  "is_valid_principal_address e PR_ID" "is_valid_principal_address e GENERATED"
  using contracts by (simp_all add: valid_principal_iff)

text \<open>Every lifetime the contracts extend is longer than the threshold.\<close>

lemma extended_ttl: "TTL_THRESHOLD_LEDGERS < ttl_extend e TTL_THRESHOLD_LEDGERS TTL_EXTEND_TO_LEDGERS lu"
proof -
  have "unat (ttl_extend e TTL_THRESHOLD_LEDGERS TTL_EXTEND_TO_LEDGERS lu) =
      (if unat lu \<le> 50000 then max (unat lu) 500000 else unat lu)"
    using lifetimes sequence_0 by (simp add: ttl_law_def TTL_EXTEND_TO_LEDGERS_def TTL_THRESHOLD_LEDGERS_def)
  then show ?thesis
    by (simp add: word_less_nat_alt TTL_THRESHOLD_LEDGERS_def split: if_splits)
qed

lemmas host_facts = time_0 sequence_0 registry_address extended_ttl
  extended_ttl [unfolded word_less_nat_alt] valid_accounts [unfolded test_addresses]
  valid_contracts [unfolded test_addresses]

end

section \<open>Evaluating a script\<close>

lemma is_valid_principal_authorized [simp]:
  "is_valid_principal_address (e\<lparr>authorized := f\<rparr>) a = is_valid_principal_address e a"
  "is_valid_principal_address (e\<lparr>current_contract_address := c\<rparr>) a = is_valid_principal_address e a"
  "is_valid_principal_address (e\<lparr>cfg_test := b\<rparr>) a = is_valid_principal_address e a"
  by (simp_all add: valid_principal_iff)

lemma from_array_snoc: "from_array (xs @ [b]) = 256 * from_array xs + ucast b"
  by (simp add: from_array_def)

lemma low_byte: "ucast (256 * (x :: bytes32) + ucast (b :: u8)) = b"
  by transfer (simp add: take_bit_eq_mod mod_mod_cancel)

lemma bytes_inject [simp]: "bytes v = bytes w \<longleftrightarrow> v = w"
proof
  have "ucast (bytes u) = u" for u
  proof -
    have "replicate 32 u = replicate 31 u @ [u]"
      by (simp add: replicate_append_same [symmetric] numeral_eq_Suc)
    then show ?thesis
      by (simp only: bytes_def from_array_snoc low_byte)
  qed
  then show "v = w" if "bytes v = bytes w"
    using that by metis
qed simp

text \<open>Running a client call and a script symbolically.\<close>

lemma client_call_apply [run]:
  "bind_m (client_call clear m) k w = (case invoke (m (tw_env w)) (clear (tw_state w)) of
     (Inl a, s') \<Rightarrow> (Inl (client_panic a), w\<lparr>tw_state := s'\<rparr>)
   | (Inr x, s') \<Rightarrow> k x (w\<lparr>tw_state := s'\<rparr>))"
  by (auto simp: client_call_def try_client_def bind_m_def run split: prod.splits sum.splits)

lemma try_client_apply [run]:
  "bind_m (try_client clear m) k w = (case invoke (m (tw_env w)) (clear (tw_state w)) of
     (r, s') \<Rightarrow> k r (w\<lparr>tw_state := s'\<rparr>))"
  by (simp add: try_client_def bind_m_def split: prod.split)

lemma panics_client_call_apply [run]:
  "bind_m (panics (client_call clear m)) k w = (case invoke (m (tw_env w)) (clear (tw_state w)) of
     (Inl a, s') \<Rightarrow> k True (w\<lparr>tw_state := s'\<rparr>)
   | (Inr x, s') \<Rightarrow> k False (w\<lparr>tw_state := s'\<rparr>))"
  by (auto simp: panics_def client_call_def try_client_def bind_m_def run split: prod.splits sum.splits)

lemma assert_that_apply [run]:
  "bind_m (assert_that b) k w = (if b then k () w else (Inl (Panic ''assertion failed''), w))"
  by (simp add: assert_that_def run)

lemma assert_that_run [run]:
  "assert_that b w = (if b then (Inr (), w) else (Inl (Panic ''assertion failed''), w))"
  by (simp add: assert_that_def run)

lemma auths_apply [run]:
  "bind_m mock_all_auths k w = k () (w\<lparr>tw_env := (tw_env w)\<lparr>authorized := (\<lambda>_. True)\<rparr>\<rparr>)"
  "bind_m (set_auths signers) k w =
     k () (w\<lparr>tw_env := (tw_env w)\<lparr>authorized := (\<lambda>a. a \<in> set signers)\<rparr>\<rparr>)"
  by (simp_all add: mock_all_auths_def set_auths_def bind_m_def)

lemma inspect_apply [run]: "bind_m (inspect f) k w = k (f (tw_env w) (tw_state w)) w"
  by (simp add: inspect_def bind_m_def)

text \<open>The ranges the tests loop over, and the accounts they keep apart.\<close>

lemma test_ranges: "[0..<10] = [0, 1, 2, 3, 4, 5, 6, 7, 8, 9]" "[Suc 0..<4] = [1, 2, 3]"
  by (simp_all add: upt_rec)

lemma account_neq: "ADMIN \<noteq> ISSUER_ONE" "ADMIN \<noteq> GENERATED" "ISSUER_ONE \<noteq> ISSUER_TWO" "ISSUER_TWO \<noteq> ISSUER_ONE"
  by (simp_all add: test_addresses)

text \<open>The rules and definitions that run a script on a concrete test world.\<close>

lemmas test_eval = passes_def test_start_def assert_true_def assert_false_def assert_eq_def
  client_panic.simps persistent_ttl_def add_u32_def u32_MAX_def test_ranges account_neq run invoke_def Let_def checked_add_one
  word_le_nat_alt word_less_nat_alt

section \<open>A concrete test host\<close>

text \<open>
  A host that meets the assumptions: the accounts print as in the tests, every other address as a
  56-character key of the contract alphabet.
\<close>

definition default_strkey :: "address \<Rightarrow> u8 list" where
  "default_strkey a =
     (if a = ADMIN then ascii ''GCFIRY65OQE7DFP5KLNS2PF2LVZMUZYJX4OZIEQ36N2IQANUB5XVYOJR''
      else if a = ISSUER_ONE then ascii ''GCATS5YOVB6ROX2WUNKGNQ2MP3GMXDMKSG2O4N5CLX3A6W4PZGZZI55U''
      else if a = ISSUER_TWO then ascii ''GDWUSKGGFDI4FRXK5EBTRECZSVQSSWJHHJOGH6JWG3AUMFFMQ435DIAG''
      else if a = OTHER_ADMIN then ascii ''GBXHUHG5FGYLPD6RHL2MKWMP572O6KUXCZXDZJXS4T57ZTMAKBN7DWXN''
      else ascii ''CAAAAAAAAAAAAAAAAAAAAAAAAAAAAAAAAAAAAAAAAAAAAAAAAAAAD2KM'')"

definition default_env :: env where
  "default_env = \<lparr>authorized = (\<lambda>_. False), ledger_timestamp = 0, ledger_sequence = 0,
     current_contract_address = PR_ID, addr_string = default_strkey,
     ttl_extend = (\<lambda>thr ext lu. if unat lu \<le> unat thr then max lu ext else lu),
     ttl_initial = 4096, wasm_uploaded = (\<lambda>_. False), cfg_test = True\<rparr>"

interpretation default_host: test_host default_env
proof
  show "ttl_law default_env"
    by (simp add: ttl_law_def default_env_def max_def word_le_nat_alt)
  fix a assume "a \<in> {PC_ID, IR_ID, PR_ID, GENERATED, SECOND_PC_ID, SECOND_IR_ID}"
  then have "addr_string default_env a = ascii ''CAAAAAAAAAAAAAAAAAAAAAAAAAAAAAAAAAAAAAAAAAAAAAAAAAAAD2KM''"
    by (auto simp: default_env_def default_strkey_def test_addresses)
  then show "length (addr_string default_env a) = 56 \<and> list_all base32_byte (addr_string default_env a) \<and>
      addr_string default_env a \<noteq> ZERO_PAYLOAD_STRKEY"
    by (simp add: ascii_def base32_byte_def ZERO_PAYLOAD_STRKEY_def of_char_Char)
qed (simp_all add: default_env_def prints_as_def default_strkey_def test_addresses)

end
