(* ===== verification/Config_Tests.thy ===== *)
theory Config_Tests
  imports Protocol_Config Test_Runner
begin

text \<open>
  The test module of protocol-config (\<open>src/contracts/protocol-config/src/lib.rs\<close>), one
  definition per \<open>#[test]\<close> function, run against the model of the contract.
\<close>

section \<open>The test client\<close>

definition pc_client :: "(env \<Rightarrow> 'a pc_m) \<Rightarrow> (pc_state, 'a) test_m" where
  "pc_client m = client_call (\<lambda>s. s\<lparr>events := []\<rparr>) m"

definition pc_try :: "(env \<Rightarrow> 'a pc_m) \<Rightarrow> (pc_state, contract_error abort + 'a) test_m" where
  "pc_try m = try_client (\<lambda>s. s\<lparr>events := []\<rparr>) m"

definition pc_setup :: "(pc_state, unit) test_m" where
  "pc_setup = script [mock_all_auths, pc_client (\<lambda>e. pc_initialize e ADMIN)]"

definition pc_world :: "env \<Rightarrow> u32 \<Rightarrow> bytes32 \<Rightarrow> pc_state test_world" where
  "pc_world e lu h = test_start e (fresh_contract lu h)"

section \<open>The test functions\<close>

definition pc_test_initializes_config_defaults :: "pc_state test_fn" where
  "pc_test_initializes_config_defaults = (ShouldPass, script [
     pc_setup,
     assert_eq (pc_client (\<lambda>_. pc_get_admin)) ADMIN,
     assert_false (pc_client (\<lambda>_. is_paused)),
     assert_eq (pc_client (\<lambda>_. get_config_version)) 1,
     assert_false (pc_client (\<lambda>e. is_schema_version_approved e 1)),
     assert_eq (pc_client (\<lambda>_. pc_get_contract_version)) 1])"

definition pc_test_pause_and_unpause_bump_config_version :: "pc_state test_fn" where
  "pc_test_pause_and_unpause_bump_config_version = (ShouldPass, script [
     pc_setup,
     pc_client pause,
     assert_true (pc_client (\<lambda>_. is_paused)),
     assert_eq (pc_client (\<lambda>_. get_config_version)) 2,
     pc_client unpause,
     assert_false (pc_client (\<lambda>_. is_paused)),
     assert_eq (pc_client (\<lambda>_. get_config_version)) 3])"

definition pc_test_schema_versions_can_be_approved_and_deprecated :: "pc_state test_fn" where
  "pc_test_schema_versions_can_be_approved_and_deprecated = (ShouldPass, script [
     pc_setup,
     pc_client (\<lambda>e. approve_schema_version e 1),
     assert_true (pc_client (\<lambda>e. is_schema_version_approved e 1)),
     pc_client (\<lambda>e. deprecate_schema_version e 1),
     assert_false (pc_client (\<lambda>e. is_schema_version_approved e 1))])"

definition pc_test_rejects_zero_schema_version :: "pc_state test_fn" where
  "pc_test_rejects_zero_schema_version = (ShouldPass, script [
     pc_setup,
     assert_eq (pc_try (\<lambda>e. approve_schema_version e 0)) (Inl (Err InvalidInput))])"

definition pc_test_extends_schema_storage_ttl :: "pc_state test_fn" where
  "pc_test_extends_schema_storage_ttl = (ShouldPass, script [
     pc_setup,
     pc_client (\<lambda>e. approve_schema_version e 7),
     assert_true (inspect (\<lambda>e s. TTL_THRESHOLD_LEDGERS < persistent_ttl e s (PcSchemaVersion 7)))])"

definition pc_test_approve_and_check_allowlist :: "pc_state test_fn" where
  "pc_test_approve_and_check_allowlist = (ShouldPass, script [
     pc_setup,
     assert_false (pc_client (\<lambda>_. pc_is_upgrade_allowed (bytes 0xab))),
     pc_client (\<lambda>e. pc_approve_upgrade e (bytes 0xab) 2),
     assert_true (pc_client (\<lambda>_. pc_is_upgrade_allowed (bytes 0xab)))])"

definition pc_test_revoke_removes_from_allowlist :: "pc_state test_fn" where
  "pc_test_revoke_removes_from_allowlist = (ShouldPass, script [
     pc_setup,
     pc_client (\<lambda>e. pc_approve_upgrade e (bytes 0xcd) 2),
     assert_true (pc_client (\<lambda>_. pc_is_upgrade_allowed (bytes 0xcd))),
     pc_client (\<lambda>e. pc_revoke_upgrade e (bytes 0xcd)),
     assert_false (pc_client (\<lambda>_. pc_is_upgrade_allowed (bytes 0xcd)))])"

definition pc_test_approve_upgrade_rejects_downgrade_version :: "pc_state test_fn" where
  "pc_test_approve_upgrade_rejects_downgrade_version = (ShouldPanicWith ''new_version must be greater than current contract version'', script [
     pc_setup,
     pc_client (\<lambda>e. pc_approve_upgrade e (bytes 1) 1)])"

definition pc_test_approve_upgrade_rejects_lower_version :: "pc_state test_fn" where
  "pc_test_approve_upgrade_rejects_lower_version = (ShouldPanicWith ''new_version must be greater than current contract version'', script [
     pc_setup,
     pc_client (\<lambda>e. pc_approve_upgrade e (bytes 1) 0)])"

definition pc_test_upgrade_contract_rejects_non_allowlisted_hash :: "pc_state test_fn" where
  "pc_test_upgrade_contract_rejects_non_allowlisted_hash = (ShouldPanicWith ''wasm hash not on allowlist'', script [
     pc_setup,
     pc_client (\<lambda>e. pc_upgrade_contract e (bytes 0xff))])"

definition pc_test_upgrade_contract_requires_admin_auth :: "pc_state test_fn" where
  "pc_test_upgrade_contract_requires_admin_auth = (ShouldPanic, script [
     mock_all_auths,
     pc_client (\<lambda>e. pc_initialize e ADMIN),
     pc_client (\<lambda>e. pc_approve_upgrade e (bytes 0xde) 2),
     set_auths [],
     pc_client (\<lambda>e. pc_upgrade_contract e (bytes 0xde))])"

definition pc_test_upgrade_contract_advances_version_and_consumes_allowlist :: "pc_state test_fn" where
  "pc_test_upgrade_contract_advances_version_and_consumes_allowlist = (ShouldPass, script [
     pc_setup,
     assert_eq (pc_client (\<lambda>_. pc_get_contract_version)) 1,
     pc_client (\<lambda>e. pc_approve_upgrade e (bytes 0x42) 2),
     assert_true (pc_client (\<lambda>_. pc_is_upgrade_allowed (bytes 0x42))),
     pc_client (\<lambda>e. pc_upgrade_contract e (bytes 0x42)),
     assert_eq (pc_client (\<lambda>_. pc_get_contract_version)) 2,
     assert_false (pc_client (\<lambda>_. pc_is_upgrade_allowed (bytes 0x42)))])"

definition pc_test_upgrade_contract_hash_cannot_be_replayed :: "pc_state test_fn" where
  "pc_test_upgrade_contract_hash_cannot_be_replayed = (ShouldPanicWith ''wasm hash not on allowlist'', script [
     pc_setup,
     pc_client (\<lambda>e. pc_approve_upgrade e (bytes 0x42) 2),
     pc_client (\<lambda>e. pc_upgrade_contract e (bytes 0x42)),
     pc_client (\<lambda>e. pc_upgrade_contract e (bytes 0x42))])"

definition pc_test_state_preserved_across_upgrade :: "pc_state test_fn" where
  "pc_test_state_preserved_across_upgrade = (ShouldPass, script [
     pc_setup,
     pc_client (\<lambda>e. approve_schema_version e 3),
     pc_client pause,
     assert_true (pc_client (\<lambda>_. is_paused)),
     assert_true (pc_client (\<lambda>e. is_schema_version_approved e 3)),
     pc_client (\<lambda>e. pc_approve_upgrade e (bytes 0x77) 2),
     pc_client (\<lambda>e. pc_upgrade_contract e (bytes 0x77)),
     assert_true (pc_client (\<lambda>_. is_paused)),
     assert_true (pc_client (\<lambda>e. is_schema_version_approved e 3)),
     assert_eq (pc_client (\<lambda>_. pc_get_contract_version)) 2])"

definition pc_test_cannot_re_approve_old_version_after_upgrade :: "pc_state test_fn" where
  "pc_test_cannot_re_approve_old_version_after_upgrade = (ShouldPanicWith ''new_version must be greater than current contract version'', script [
     pc_setup,
     pc_client (\<lambda>e. pc_approve_upgrade e (bytes 0x01) 2),
     pc_client (\<lambda>e. pc_upgrade_contract e (bytes 0x01)),
     assert_eq (pc_client (\<lambda>_. pc_get_contract_version)) 2,
     pc_client (\<lambda>e. pc_approve_upgrade e (bytes 0x02) 1)])"

definition pc_test_approve_upgrade_requires_admin_auth :: "pc_state test_fn" where
  "pc_test_approve_upgrade_requires_admin_auth = (ShouldPanic, script [
     mock_all_auths,
     pc_client (\<lambda>e. pc_initialize e ADMIN),
     set_auths [ISSUER_ONE],
     pc_client (\<lambda>e. pc_approve_upgrade e (bytes 0xaa) 2)])"

definition pc_test_schema_version_boundary_values :: "pc_state test_fn" where
  "pc_test_schema_version_boundary_values = (ShouldPass, script [
     pc_setup,
     pc_client (\<lambda>e. approve_schema_version e 1),
     assert_true (pc_client (\<lambda>e. is_schema_version_approved e 1)),
     pc_client (\<lambda>e. approve_schema_version e 2),
     assert_true (pc_client (\<lambda>e. is_schema_version_approved e 2)),
     pc_client (\<lambda>e. approve_schema_version e 100),
     assert_true (pc_client (\<lambda>e. is_schema_version_approved e 100)),
     pc_client (\<lambda>e. approve_schema_version e u32_MAX),
     assert_true (pc_client (\<lambda>e. is_schema_version_approved e u32_MAX))])"

definition pc_test_schema_version_zero_rejected :: "pc_state test_fn" where
  "pc_test_schema_version_zero_rejected = (ShouldPass, script [
     pc_setup,
     assert_eq (pc_try (\<lambda>e. approve_schema_version e 0)) (Inl (Err InvalidInput))])"

definition pc_test_is_schema_version_approved_with_zero_returns_false :: "pc_state test_fn" where
  "pc_test_is_schema_version_approved_with_zero_returns_false = (ShouldPass, script [
     pc_setup,
     assert_false (pc_client (\<lambda>e. is_schema_version_approved e 0))])"

definition pc_test_contract_version_upgrade_boundaries :: "pc_state test_fn" where
  "pc_test_contract_version_upgrade_boundaries = (ShouldPass, script [
     pc_setup,
     assert_eq (pc_client (\<lambda>_. pc_get_contract_version)) 1,
     pc_client (\<lambda>e. pc_approve_upgrade e (bytes 1) 2),
     pc_client (\<lambda>e. pc_upgrade_contract e (bytes 1)),
     assert_eq (pc_client (\<lambda>_. pc_get_contract_version)) 2,
     pc_client (\<lambda>e. pc_approve_upgrade e (bytes 2) 1000),
     pc_client (\<lambda>e. pc_upgrade_contract e (bytes 2)),
     assert_eq (pc_client (\<lambda>_. pc_get_contract_version)) 1000,
     pc_client (\<lambda>e. pc_approve_upgrade e (bytes 3) u32_MAX),
     pc_client (\<lambda>e. pc_upgrade_contract e (bytes 3)),
     assert_eq (pc_client (\<lambda>_. pc_get_contract_version)) u32_MAX])"

definition pc_test_contract_version_equal_current_rejected :: "pc_state test_fn" where
  "pc_test_contract_version_equal_current_rejected = (ShouldPanicWith ''new_version must be greater than current contract version'', script [
     pc_setup,
     pc_client (\<lambda>e. pc_approve_upgrade e (bytes 1) 1)])"

definition pc_test_contract_version_below_current_rejected :: "pc_state test_fn" where
  "pc_test_contract_version_below_current_rejected = (ShouldPanicWith ''new_version must be greater than current contract version'', script [
     pc_setup,
     pc_client (\<lambda>e. pc_approve_upgrade e (bytes 1) 0)])"

definition pc_test_config_version_increments_on_mutations :: "pc_state test_fn" where
  "pc_test_config_version_increments_on_mutations = (ShouldPass, script [
     pc_setup,
     assert_eq (pc_client (\<lambda>_. get_config_version)) 1,
     pc_client pause,
     assert_eq (pc_client (\<lambda>_. get_config_version)) 2,
     pc_client unpause,
     assert_eq (pc_client (\<lambda>_. get_config_version)) 3,
     pc_client (\<lambda>e. approve_schema_version e 1),
     assert_eq (pc_client (\<lambda>_. get_config_version)) 4,
     pc_client (\<lambda>e. deprecate_schema_version e 1),
     assert_eq (pc_client (\<lambda>_. get_config_version)) 5])"

definition pc_test_config_version_safe_near_u32_max :: "pc_state test_fn" where
  "pc_test_config_version_safe_near_u32_max = (ShouldPass, seq_m pc_setup (
     bind_m (pc_client (\<lambda>_. get_config_version)) (\<lambda>v.
     seq_m (assert_that (v = 1)) (
     bind_m (for_each [0..<10] (\<lambda>_ v.
       seq_m (pc_client pause) (
       bind_m (pc_client (\<lambda>_. get_config_version)) (\<lambda>after_pause.
       bind_m (add_u32 v 1) (\<lambda>expected.
       seq_m (assert_that (after_pause = expected)) (
       seq_m (pc_client unpause) (
       bind_m (pc_client (\<lambda>_. get_config_version)) (\<lambda>after_unpause.
       bind_m (add_u32 after_pause 1) (\<lambda>expected.
       seq_m (assert_that (after_unpause = expected))
       (ret after_unpause))))))))) v) (\<lambda>_.
     ret ())))))"

definition pc_test_failed_schema_version_zero_leaves_state_unchanged :: "pc_state test_fn" where
  "pc_test_failed_schema_version_zero_leaves_state_unchanged = (ShouldPass, seq_m pc_setup (
     bind_m (pc_client (\<lambda>_. get_config_version)) (\<lambda>config_before.
     bind_m (pc_client (\<lambda>e. is_schema_version_approved e 999)) (\<lambda>approved_before.
     script [
       assert_true (panics (pc_client (\<lambda>e. approve_schema_version e 0))),
       assert_eq (pc_client (\<lambda>_. get_config_version)) config_before,
       assert_eq (pc_client (\<lambda>e. is_schema_version_approved e 999)) approved_before]))))"

definition pc_test_failed_upgrade_version_downgrade_leaves_state_unchanged :: "pc_state test_fn" where
  "pc_test_failed_upgrade_version_downgrade_leaves_state_unchanged = (ShouldPass, seq_m pc_setup (
     bind_m (pc_client (\<lambda>_. pc_get_contract_version)) (\<lambda>contract_version_before.
     bind_m (pc_client (\<lambda>_. get_config_version)) (\<lambda>config_version_before.
     script [
       assert_true (panics (pc_client (\<lambda>e. pc_approve_upgrade e (bytes 0x99) 0))),
       assert_eq (pc_client (\<lambda>_. pc_get_contract_version)) contract_version_before,
       assert_eq (pc_client (\<lambda>_. get_config_version)) config_version_before,
       assert_false (pc_client (\<lambda>_. pc_is_upgrade_allowed (bytes 0x99)))]))))"

definition pc_test_initialization_writes_exactly_documented_state :: "pc_state test_fn" where
  "pc_test_initialization_writes_exactly_documented_state = (ShouldPass, script [
     mock_all_auths,
     pc_client (\<lambda>e. pc_initialize e ADMIN),
     assert_eq (pc_client (\<lambda>_. pc_get_admin)) ADMIN,
     assert_eq (pc_client (\<lambda>_. is_paused)) False,
     assert_eq (pc_client (\<lambda>_. get_config_version)) 1,
     assert_eq (pc_client (\<lambda>_. pc_get_contract_version)) 1,
     assert_true (inspect (\<lambda>_ s. inst s PcAdmin \<noteq> None)),
     assert_true (inspect (\<lambda>_ s. inst s PcPaused \<noteq> None)),
     assert_true (inspect (\<lambda>_ s. inst s PcConfigVersion \<noteq> None)),
     assert_true (inspect (\<lambda>_ s. inst s PcContractVersion \<noteq> None))])"

definition pc_test_reinitialization_by_same_admin_fails_atomically :: "pc_state test_fn" where
  "pc_test_reinitialization_by_same_admin_fails_atomically = (ShouldPass, seq_m mock_all_auths (
     seq_m (pc_client (\<lambda>e. pc_initialize e ADMIN)) (
     bind_m (pc_client (\<lambda>_. get_config_version)) (\<lambda>config_version_after_first.
     bind_m (pc_client (\<lambda>_. pc_get_contract_version)) (\<lambda>contract_version_after_first.
     bind_m (pc_client (\<lambda>_. is_paused)) (\<lambda>paused_after_first.
     script [
       assert_true (panics (pc_client (\<lambda>e. pc_initialize e ADMIN))),
       assert_eq (pc_client (\<lambda>_. pc_get_admin)) ADMIN,
       assert_eq (pc_client (\<lambda>_. get_config_version)) config_version_after_first,
       assert_eq (pc_client (\<lambda>_. pc_get_contract_version)) contract_version_after_first,
       assert_eq (pc_client (\<lambda>_. is_paused)) paused_after_first]))))))"

definition pc_test_reinitialization_by_different_admin_fails_atomically :: "pc_state test_fn" where
  "pc_test_reinitialization_by_different_admin_fails_atomically = (ShouldPass, seq_m mock_all_auths (
     seq_m (pc_client (\<lambda>e. pc_initialize e ADMIN)) (
     bind_m (pc_client (\<lambda>_. pc_get_admin)) (\<lambda>stored_admin.
     bind_m (pc_client (\<lambda>_. get_config_version)) (\<lambda>config_version_after_first.
     script [
       assert_true (panics (pc_client (\<lambda>e. pc_initialize e ISSUER_ONE))),
       assert_eq (pc_client (\<lambda>_. pc_get_admin)) stored_admin,
       assert_eq (pc_client (\<lambda>_. get_config_version)) config_version_after_first])))))"

definition pc_test_reinitialization_by_arbitrary_special_address_fails :: "pc_state test_fn" where
  "pc_test_reinitialization_by_arbitrary_special_address_fails = (ShouldPass, seq_m mock_all_auths (
     seq_m (pc_client (\<lambda>e. pc_initialize e ADMIN)) (
     bind_m (pc_client (\<lambda>_. pc_get_admin)) (\<lambda>stored_admin.
     script [
       assert_true (panics (pc_client (\<lambda>e. pc_initialize e ISSUER_ONE))),
       assert_eq (pc_client (\<lambda>_. pc_get_admin)) stored_admin]))))"

definition pc_test_reinitialization_panic_message_indicates_guard :: "pc_state test_fn" where
  "pc_test_reinitialization_panic_message_indicates_guard = (ShouldPass, script [
     mock_all_auths,
     pc_client (\<lambda>e. pc_initialize e ADMIN),
     assert_true (panics (pc_client (\<lambda>e. pc_initialize e ADMIN)))])"

definition pc_test_reinitialization_guard_active_immediately :: "pc_state test_fn" where
  "pc_test_reinitialization_guard_active_immediately = (ShouldPass, seq_m mock_all_auths (
     seq_m (pc_client (\<lambda>e. pc_initialize e ADMIN)) (
     for_each [1..<4 :: nat] (\<lambda>attempt _. script [
       assert_true (panics (pc_client (\<lambda>e. pc_initialize e ADMIN))),
       assert_eq (pc_client (\<lambda>_. pc_get_admin)) ADMIN]) ())))"

definition pc_test_initialization_state_stable_before_mutations :: "pc_state test_fn" where
  "pc_test_initialization_state_stable_before_mutations = (ShouldPass, script [
     pc_setup,
     assert_eq (pc_client (\<lambda>_. pc_get_admin)) ADMIN,
     assert_eq (pc_client (\<lambda>_. is_paused)) False,
     assert_eq (pc_client (\<lambda>_. get_config_version)) 1,
     assert_eq (pc_client (\<lambda>_. pc_get_contract_version)) 1,
     pc_client pause,
     assert_eq (pc_client (\<lambda>_. pc_get_admin)) ADMIN,
     assert_eq (pc_client (\<lambda>_. get_config_version)) 2,
     assert_eq (pc_client (\<lambda>_. pc_get_contract_version)) 1])"

definition pc_test_protocol_config_initialization_spec_summary :: "pc_state test_fn" where
  "pc_test_protocol_config_initialization_spec_summary = (ShouldPass, script [
     mock_all_auths,
     pc_client (\<lambda>e. pc_initialize e ADMIN),
     assert_eq (pc_client (\<lambda>_. pc_get_admin)) ADMIN,
     assert_false (pc_client (\<lambda>_. is_paused)),
     assert_eq (pc_client (\<lambda>_. get_config_version)) 1,
     assert_eq (pc_client (\<lambda>_. pc_get_contract_version)) 1,
     assert_true (panics (pc_client (\<lambda>e. pc_initialize e ADMIN)))])"

definition pc_suite :: "pc_state test_fn list" where
  "pc_suite = [
     pc_test_initializes_config_defaults,
     pc_test_pause_and_unpause_bump_config_version,
     pc_test_schema_versions_can_be_approved_and_deprecated,
     pc_test_rejects_zero_schema_version,
     pc_test_extends_schema_storage_ttl,
     pc_test_approve_and_check_allowlist,
     pc_test_revoke_removes_from_allowlist,
     pc_test_approve_upgrade_rejects_downgrade_version,
     pc_test_approve_upgrade_rejects_lower_version,
     pc_test_upgrade_contract_rejects_non_allowlisted_hash,
     pc_test_upgrade_contract_requires_admin_auth,
     pc_test_upgrade_contract_advances_version_and_consumes_allowlist,
     pc_test_upgrade_contract_hash_cannot_be_replayed,
     pc_test_state_preserved_across_upgrade,
     pc_test_cannot_re_approve_old_version_after_upgrade,
     pc_test_approve_upgrade_requires_admin_auth,
     pc_test_schema_version_boundary_values,
     pc_test_schema_version_zero_rejected,
     pc_test_is_schema_version_approved_with_zero_returns_false,
     pc_test_contract_version_upgrade_boundaries,
     pc_test_contract_version_equal_current_rejected,
     pc_test_contract_version_below_current_rejected,
     pc_test_config_version_increments_on_mutations,
     pc_test_config_version_safe_near_u32_max,
     pc_test_failed_schema_version_zero_leaves_state_unchanged,
     pc_test_failed_upgrade_version_downgrade_leaves_state_unchanged,
     pc_test_initialization_writes_exactly_documented_state,
     pc_test_reinitialization_by_same_admin_fails_atomically,
     pc_test_reinitialization_by_different_admin_fails_atomically,
     pc_test_reinitialization_by_arbitrary_special_address_fails,
     pc_test_reinitialization_panic_message_indicates_guard,
     pc_test_reinitialization_guard_active_immediately,
     pc_test_initialization_state_stable_before_mutations,
     pc_test_protocol_config_initialization_spec_summary]"

lemmas pc_test_defs =
  pc_test_initializes_config_defaults_def
  pc_test_pause_and_unpause_bump_config_version_def
  pc_test_schema_versions_can_be_approved_and_deprecated_def
  pc_test_rejects_zero_schema_version_def
  pc_test_extends_schema_storage_ttl_def
  pc_test_approve_and_check_allowlist_def
  pc_test_revoke_removes_from_allowlist_def
  pc_test_approve_upgrade_rejects_downgrade_version_def
  pc_test_approve_upgrade_rejects_lower_version_def
  pc_test_upgrade_contract_rejects_non_allowlisted_hash_def
  pc_test_upgrade_contract_requires_admin_auth_def
  pc_test_upgrade_contract_advances_version_and_consumes_allowlist_def
  pc_test_upgrade_contract_hash_cannot_be_replayed_def
  pc_test_state_preserved_across_upgrade_def
  pc_test_cannot_re_approve_old_version_after_upgrade_def
  pc_test_approve_upgrade_requires_admin_auth_def
  pc_test_schema_version_boundary_values_def
  pc_test_schema_version_zero_rejected_def
  pc_test_is_schema_version_approved_with_zero_returns_false_def
  pc_test_contract_version_upgrade_boundaries_def
  pc_test_contract_version_equal_current_rejected_def
  pc_test_contract_version_below_current_rejected_def
  pc_test_config_version_increments_on_mutations_def
  pc_test_config_version_safe_near_u32_max_def
  pc_test_failed_schema_version_zero_leaves_state_unchanged_def
  pc_test_failed_upgrade_version_downgrade_leaves_state_unchanged_def
  pc_test_initialization_writes_exactly_documented_state_def
  pc_test_reinitialization_by_same_admin_fails_atomically_def
  pc_test_reinitialization_by_different_admin_fails_atomically_def
  pc_test_reinitialization_by_arbitrary_special_address_fails_def
  pc_test_reinitialization_panic_message_indicates_guard_def
  pc_test_reinitialization_guard_active_immediately_def
  pc_test_initialization_state_stable_before_mutations_def
  pc_test_protocol_config_initialization_spec_summary_def

section \<open>Every test passes\<close>

lemmas pc_test_eval = pc_world_def pc_setup_def pc_client_def pc_try_def test_eval pc_defs

context test_host
begin

lemma pc_suite_passes: "list_all (passes (pc_world e lu h)) pc_suite"
  unfolding pc_suite_def list.pred_inject
  by (intro conjI TrueI; simp add: pc_test_defs pc_test_eval host_facts)

end

end
