(* ===== verification/Issuer_Tests.thy ===== *)
theory Issuer_Tests
  imports Issuer_Registry Test_Runner
begin

text \<open>
  The test module of issuer-registry (\<open>src/contracts/issuer-registry/src/lib.rs\<close>), one
  definition per \<open>#[test]\<close> function, run against the model of the contract.
\<close>

section \<open>The test client\<close>

text \<open>The methods that return a \<open>ContractError\<close> (\<open>initialize\<close>, \<open>get_admin\<close>) and all others.\<close>

definition ir_admin_client :: "(env \<Rightarrow> (contract_error, 'a) ir_m) \<Rightarrow> (ir_state, 'a) test_m" where
  "ir_admin_client m = client_call (\<lambda>s. s\<lparr>events := []\<rparr>) m"

definition ir_client :: "(env \<Rightarrow> (issuer_error, 'a) ir_m) \<Rightarrow> (ir_state, 'a) test_m" where
  "ir_client m = client_call (\<lambda>s. s\<lparr>events := []\<rparr>) m"

definition ir_try :: "(env \<Rightarrow> (issuer_error, 'a) ir_m) \<Rightarrow> (ir_state, issuer_error abort + 'a) test_m" where
  "ir_try m = try_client (\<lambda>s. s\<lparr>events := []\<rparr>) m"

text \<open>\<open>env.events().all().events().len()\<close>: the events of the last invocation.\<close>

definition event_count :: "(ir_state, nat) test_m" where
  "event_count = inspect (\<lambda>_ s. length (events s))"

definition ir_setup :: "(ir_state, unit) test_m" where
  "ir_setup = script [mock_all_auths, ir_admin_client (\<lambda>e. ir_initialize e ADMIN)]"

definition ir_world :: "env \<Rightarrow> u32 \<Rightarrow> bytes32 \<Rightarrow> ir_state test_world" where
  "ir_world e lu h = test_start e (fresh_contract lu h)"

section \<open>The test functions\<close>

definition ir_test_registers_and_reads_active_issuer :: "ir_state test_fn" where
  "ir_test_registers_and_reads_active_issuer = (ShouldPass, script [ir_setup,
     ir_client (\<lambda>e. register_issuer e (bytes 1) ISSUER_ONE (bytes 2)),
     bind_m (ir_client (\<lambda>e. get_issuer e (bytes 1))) (\<lambda>record. script [
       assert_that (ir_issuer_id_hash record = bytes 1),
       assert_that (ir_issuer_address record = ISSUER_ONE),
       assert_that (ir_metadata_hash record = bytes 2),
       assert_that (ir_status record = IssuerActive)]),
     assert_true (ir_client (\<lambda>e. is_active_issuer e (bytes 1))),
     assert_true (ir_client (\<lambda>e. is_active_address e ISSUER_ONE))])"

definition ir_test_status_transitions_reject_reactivated_revoked_issuer :: "ir_state test_fn" where
  "ir_test_status_transitions_reject_reactivated_revoked_issuer = (ShouldPass, script [
     ir_setup,
     ir_client (\<lambda>e. register_issuer e (bytes 1) ISSUER_ONE (bytes 2)),
     ir_client (\<lambda>e. suspend_issuer e (bytes 1)),
     assert_false (ir_client (\<lambda>e. is_active_issuer e (bytes 1))),
     ir_client (\<lambda>e. reactivate_issuer e (bytes 1)),
     assert_true (ir_client (\<lambda>e. is_active_issuer e (bytes 1))),
     ir_client (\<lambda>e. revoke_issuer e (bytes 1)),
     assert_false (ir_client (\<lambda>e. is_active_issuer e (bytes 1)))])"

definition ir_test_rejects_duplicate_issuer_id :: "ir_state test_fn" where
  "ir_test_rejects_duplicate_issuer_id = (ShouldPass, script [
     ir_setup,
     ir_client (\<lambda>e. register_issuer e (bytes 1) ISSUER_ONE (bytes 2)),
     assert_eq (ir_try (\<lambda>e. register_issuer e (bytes 1) ISSUER_TWO (bytes 3)))
       (Inl (Err IssuerAlreadyRegistered))])"

definition ir_test_revoked_issuer_cannot_be_reactivated :: "ir_state test_fn" where
  "ir_test_revoked_issuer_cannot_be_reactivated = (ShouldPass, script [
     ir_setup,
     ir_client (\<lambda>e. register_issuer e (bytes 1) ISSUER_ONE (bytes 2)),
     ir_client (\<lambda>e. revoke_issuer e (bytes 1)),
     assert_eq (ir_try (\<lambda>e. reactivate_issuer e (bytes 1))) (Inl (Err InvalidTransition))])"

definition ir_test_extends_issuer_storage_ttl :: "ir_state test_fn" where
  "ir_test_extends_issuer_storage_ttl = (ShouldPass, script [
     ir_setup,
     ir_client (\<lambda>e. register_issuer e (bytes 1) ISSUER_ONE (bytes 2)),
     assert_true (inspect (\<lambda>e s. TTL_THRESHOLD_LEDGERS < persistent_ttl e s (IrIssuer (bytes 1)))),
     assert_true (inspect (\<lambda>e s. TTL_THRESHOLD_LEDGERS < persistent_ttl e s (IrAddressIssuer ISSUER_ONE)))])"

definition ir_test_contract_version_initialized_to_one :: "ir_state test_fn" where
  "ir_test_contract_version_initialized_to_one = (ShouldPass, script [
     ir_setup,
     assert_eq (ir_client (\<lambda>_. ir_get_contract_version)) 1])"

definition ir_test_approve_and_check_allowlist :: "ir_state test_fn" where
  "ir_test_approve_and_check_allowlist = (ShouldPass, script [
     ir_setup,
     assert_false (ir_client (\<lambda>_. ir_is_upgrade_allowed (bytes 0xab))),
     ir_client (\<lambda>e. ir_approve_upgrade e (bytes 0xab) 2),
     assert_true (ir_client (\<lambda>_. ir_is_upgrade_allowed (bytes 0xab)))])"

definition ir_test_revoke_removes_from_allowlist :: "ir_state test_fn" where
  "ir_test_revoke_removes_from_allowlist = (ShouldPass, script [
     ir_setup,
     ir_client (\<lambda>e. ir_approve_upgrade e (bytes 0xcd) 2),
     ir_client (\<lambda>e. ir_revoke_upgrade e (bytes 0xcd)),
     assert_false (ir_client (\<lambda>_. ir_is_upgrade_allowed (bytes 0xcd)))])"

definition ir_test_approve_upgrade_rejects_downgrade_version :: "ir_state test_fn" where
  "ir_test_approve_upgrade_rejects_downgrade_version = (ShouldPanicWith ''new_version must be greater than current contract version'', script [
     ir_setup,
     ir_client (\<lambda>e. ir_approve_upgrade e (bytes 1) 1)])"

definition ir_test_upgrade_contract_rejects_non_allowlisted_hash :: "ir_state test_fn" where
  "ir_test_upgrade_contract_rejects_non_allowlisted_hash = (ShouldPanicWith ''wasm hash not on allowlist'', script [
     ir_setup,
     ir_client (\<lambda>e. ir_upgrade_contract e (bytes 0xff))])"

definition ir_test_upgrade_contract_requires_admin_auth :: "ir_state test_fn" where
  "ir_test_upgrade_contract_requires_admin_auth = (ShouldPanic, script [
     mock_all_auths,
     ir_admin_client (\<lambda>e. ir_initialize e ADMIN),
     ir_client (\<lambda>e. ir_approve_upgrade e (bytes 0xde) 2),
     set_auths [],
     ir_client (\<lambda>e. ir_upgrade_contract e (bytes 0xde))])"

definition ir_test_upgrade_advances_version_and_consumes_allowlist :: "ir_state test_fn" where
  "ir_test_upgrade_advances_version_and_consumes_allowlist = (ShouldPass, script [
     ir_setup,
     ir_client (\<lambda>e. ir_approve_upgrade e (bytes 0x42) 2),
     ir_client (\<lambda>e. ir_upgrade_contract e (bytes 0x42)),
     assert_eq (ir_client (\<lambda>_. ir_get_contract_version)) 2,
     assert_false (ir_client (\<lambda>_. ir_is_upgrade_allowed (bytes 0x42)))])"

definition ir_test_upgrade_hash_cannot_be_replayed :: "ir_state test_fn" where
  "ir_test_upgrade_hash_cannot_be_replayed = (ShouldPanicWith ''wasm hash not on allowlist'', script [
     ir_setup,
     ir_client (\<lambda>e. ir_approve_upgrade e (bytes 0x42) 2),
     ir_client (\<lambda>e. ir_upgrade_contract e (bytes 0x42)),
     ir_client (\<lambda>e. ir_upgrade_contract e (bytes 0x42))])"

definition ir_test_state_preserved_across_upgrade :: "ir_state test_fn" where
  "ir_test_state_preserved_across_upgrade = (ShouldPass, script [
     ir_setup,
     ir_client (\<lambda>e. register_issuer e (bytes 1) ISSUER_ONE (bytes 2)),
     assert_true (ir_client (\<lambda>e. is_active_issuer e (bytes 1))),
     ir_client (\<lambda>e. ir_approve_upgrade e (bytes 0x77) 2),
     ir_client (\<lambda>e. ir_upgrade_contract e (bytes 0x77)),
     assert_true (ir_client (\<lambda>e. is_active_issuer e (bytes 1))),
     assert_eq (ir_client (\<lambda>_. ir_get_contract_version)) 2])"

definition ir_test_cannot_re_approve_old_version_after_upgrade :: "ir_state test_fn" where
  "ir_test_cannot_re_approve_old_version_after_upgrade = (ShouldPanicWith ''new_version must be greater than current contract version'', script [
     ir_setup,
     ir_client (\<lambda>e. ir_approve_upgrade e (bytes 0x01) 2),
     ir_client (\<lambda>e. ir_upgrade_contract e (bytes 0x01)),
     ir_client (\<lambda>e. ir_approve_upgrade e (bytes 0x02) 1)])"

definition ir_test_register_issuer_emits_one_event :: "ir_state test_fn" where
  "ir_test_register_issuer_emits_one_event = (ShouldPass, script [
     ir_setup,
     ir_client (\<lambda>e. register_issuer e (bytes 1) ISSUER_ONE (bytes 2)),
     assert_eq event_count 1])"

definition ir_test_register_issuer_failure_emits_no_success_event :: "ir_state test_fn" where
  "ir_test_register_issuer_failure_emits_no_success_event = (ShouldPass, script [
     ir_setup,
     ir_client (\<lambda>e. register_issuer e (bytes 1) ISSUER_ONE (bytes 2)),
     assert_true (panics (ir_client (\<lambda>e. register_issuer e (bytes 1) ISSUER_ONE (bytes 3)))),
     assert_eq event_count 0])"

definition ir_test_update_issuer_emits_one_event :: "ir_state test_fn" where
  "ir_test_update_issuer_emits_one_event = (ShouldPass, script [
     ir_setup,
     ir_client (\<lambda>e. register_issuer e (bytes 1) ISSUER_ONE (bytes 2)),
     ir_client (\<lambda>e. update_issuer e (bytes 1) (bytes 99)),
     assert_eq event_count 1])"

definition ir_test_update_revoked_issuer_emits_no_event :: "ir_state test_fn" where
  "ir_test_update_revoked_issuer_emits_no_event = (ShouldPass, script [
     ir_setup,
     ir_client (\<lambda>e. register_issuer e (bytes 1) ISSUER_ONE (bytes 2)),
     ir_client (\<lambda>e. revoke_issuer e (bytes 1)),
     assert_true (panics (ir_client (\<lambda>e. update_issuer e (bytes 1) (bytes 99)))),
     assert_eq event_count 0])"

definition ir_test_suspend_issuer_emits_one_event :: "ir_state test_fn" where
  "ir_test_suspend_issuer_emits_one_event = (ShouldPass, script [
     ir_setup,
     ir_client (\<lambda>e. register_issuer e (bytes 1) ISSUER_ONE (bytes 2)),
     ir_client (\<lambda>e. suspend_issuer e (bytes 1)),
     assert_eq event_count 1])"

definition ir_test_reactivate_issuer_emits_one_event :: "ir_state test_fn" where
  "ir_test_reactivate_issuer_emits_one_event = (ShouldPass, script [
     ir_setup,
     ir_client (\<lambda>e. register_issuer e (bytes 1) ISSUER_ONE (bytes 2)),
     ir_client (\<lambda>e. suspend_issuer e (bytes 1)),
     ir_client (\<lambda>e. reactivate_issuer e (bytes 1)),
     assert_eq event_count 1])"

definition ir_test_revoke_issuer_emits_one_event :: "ir_state test_fn" where
  "ir_test_revoke_issuer_emits_one_event = (ShouldPass, script [
     ir_setup,
     ir_client (\<lambda>e. register_issuer e (bytes 1) ISSUER_ONE (bytes 2)),
     ir_client (\<lambda>e. revoke_issuer e (bytes 1)),
     assert_eq event_count 1])"

definition ir_test_rotate_address_emits_one_event :: "ir_state test_fn" where
  "ir_test_rotate_address_emits_one_event = (ShouldPass, script [
     ir_setup,
     ir_client (\<lambda>e. register_issuer e (bytes 1) ISSUER_ONE (bytes 2)),
     ir_client (\<lambda>e. rotate_issuer_address e (bytes 1) ISSUER_TWO),
     assert_eq event_count 1])"

definition ir_test_rotate_revoked_issuer_address_emits_no_event :: "ir_state test_fn" where
  "ir_test_rotate_revoked_issuer_address_emits_no_event = (ShouldPass, script [
     ir_setup,
     ir_client (\<lambda>e. register_issuer e (bytes 1) ISSUER_ONE (bytes 2)),
     ir_client (\<lambda>e. revoke_issuer e (bytes 1)),
     assert_true (panics (ir_client (\<lambda>e. rotate_issuer_address e (bytes 1) ISSUER_TWO))),
     assert_eq event_count 0])"

definition ir_test_each_mutation_emits_exactly_one_event :: "ir_state test_fn" where
  "ir_test_each_mutation_emits_exactly_one_event = (ShouldPass, script [
     ir_setup,
     ir_client (\<lambda>e. register_issuer e (bytes 1) ISSUER_ONE (bytes 2)),
     assert_eq event_count 1,
     ir_client (\<lambda>e. update_issuer e (bytes 1) (bytes 3)),
     assert_eq event_count 1,
     ir_client (\<lambda>e. suspend_issuer e (bytes 1)),
     assert_eq event_count 1,
     ir_client (\<lambda>e. reactivate_issuer e (bytes 1)),
     assert_eq event_count 1,
     ir_client (\<lambda>e. rotate_issuer_address e (bytes 1) ISSUER_TWO),
     assert_eq event_count 1,
     ir_client (\<lambda>e. revoke_issuer e (bytes 1)),
     assert_eq event_count 1])"

definition ir_test_revoke_issuer_rejects_a_valid_signature_from_the_issuer_itself :: "ir_state test_fn" where
  "ir_test_revoke_issuer_rejects_a_valid_signature_from_the_issuer_itself = (ShouldPass, script [
     mock_all_auths,
     ir_admin_client (\<lambda>e. ir_initialize e ADMIN),
     ir_client (\<lambda>e. register_issuer e (bytes 1) GENERATED (bytes 2)),
     set_auths [GENERATED],
     bind_m (ir_try (\<lambda>e. revoke_issuer e (bytes 1))) (\<lambda>result. assert_that (isl result)),
     bind_m (ir_client (\<lambda>e. get_issuer e (bytes 1))) (\<lambda>record.
       assert_that (ir_status record = IssuerActive))])"

definition ir_test_contract_version_initialized_and_upgradeable :: "ir_state test_fn" where
  "ir_test_contract_version_initialized_and_upgradeable = (ShouldPass, script [
     ir_setup,
     assert_eq (ir_client (\<lambda>_. ir_get_contract_version)) 1,
     ir_client (\<lambda>e. ir_approve_upgrade e (bytes 1) 2),
     assert_true (ir_client (\<lambda>_. ir_is_upgrade_allowed (bytes 1)))])"

definition ir_test_contract_version_upgrade_boundaries :: "ir_state test_fn" where
  "ir_test_contract_version_upgrade_boundaries = (ShouldPass, script [
     ir_setup,
     ir_client (\<lambda>e. ir_approve_upgrade e (bytes 1) 2),
     ir_client (\<lambda>e. ir_upgrade_contract e (bytes 1)),
     assert_eq (ir_client (\<lambda>_. ir_get_contract_version)) 2,
     ir_client (\<lambda>e. ir_approve_upgrade e (bytes 2) u32_MAX),
     ir_client (\<lambda>e. ir_upgrade_contract e (bytes 2)),
     assert_eq (ir_client (\<lambda>_. ir_get_contract_version)) u32_MAX])"

definition ir_test_contract_version_equal_current_rejected :: "ir_state test_fn" where
  "ir_test_contract_version_equal_current_rejected = (ShouldPanicWith ''new_version must be greater than current contract version'', script [
     ir_setup,
     ir_client (\<lambda>e. ir_approve_upgrade e (bytes 1) 1)])"

definition ir_test_contract_version_below_current_rejected :: "ir_state test_fn" where
  "ir_test_contract_version_below_current_rejected = (ShouldPanicWith ''new_version must be greater than current contract version'', script [
     ir_setup,
     ir_client (\<lambda>e. ir_approve_upgrade e (bytes 1) 0)])"

definition ir_test_failed_upgrade_version_downgrade_leaves_state_unchanged :: "ir_state test_fn" where
  "ir_test_failed_upgrade_version_downgrade_leaves_state_unchanged = (ShouldPass, seq_m ir_setup (
     bind_m (ir_client (\<lambda>_. ir_get_contract_version)) (\<lambda>contract_version_before.
     script [
       assert_true (panics (ir_client (\<lambda>e. ir_approve_upgrade e (bytes 0x88) 0))),
       assert_eq (ir_client (\<lambda>_. ir_get_contract_version)) contract_version_before,
       assert_false (ir_client (\<lambda>_. ir_is_upgrade_allowed (bytes 0x88)))])))"

definition ir_test_initialization_writes_exactly_documented_state :: "ir_state test_fn" where
  "ir_test_initialization_writes_exactly_documented_state = (ShouldPass, script [
     mock_all_auths,
     ir_admin_client (\<lambda>e. ir_initialize e ADMIN),
     assert_eq (ir_admin_client (\<lambda>_. ir_get_admin)) ADMIN,
     assert_eq (ir_client (\<lambda>_. ir_get_contract_version)) 1,
     assert_true (inspect (\<lambda>_ s. inst s IrAdmin \<noteq> None)),
     assert_true (inspect (\<lambda>_ s. inst s IrContractVersion \<noteq> None))])"

definition ir_test_reinitialization_by_same_admin_fails_atomically :: "ir_state test_fn" where
  "ir_test_reinitialization_by_same_admin_fails_atomically = (ShouldPass, seq_m mock_all_auths (
     seq_m (ir_admin_client (\<lambda>e. ir_initialize e ADMIN)) (
     bind_m (ir_client (\<lambda>_. ir_get_contract_version)) (\<lambda>contract_version_after_first.
     script [
       assert_true (panics (ir_admin_client (\<lambda>e. ir_initialize e ADMIN))),
       assert_eq (ir_admin_client (\<lambda>_. ir_get_admin)) ADMIN,
       assert_eq (ir_client (\<lambda>_. ir_get_contract_version)) contract_version_after_first]))))"

definition ir_test_reinitialization_by_different_admin_fails_atomically :: "ir_state test_fn" where
  "ir_test_reinitialization_by_different_admin_fails_atomically = (ShouldPass, seq_m mock_all_auths (
     seq_m (ir_admin_client (\<lambda>e. ir_initialize e ADMIN)) (
     bind_m (ir_admin_client (\<lambda>_. ir_get_admin)) (\<lambda>stored_admin.
     bind_m (ir_client (\<lambda>_. ir_get_contract_version)) (\<lambda>contract_version_after_first.
     script [
       assert_true (panics (ir_admin_client (\<lambda>e. ir_initialize e ISSUER_ONE))),
       assert_eq (ir_admin_client (\<lambda>_. ir_get_admin)) stored_admin,
       assert_eq (ir_client (\<lambda>_. ir_get_contract_version)) contract_version_after_first])))))"

definition ir_test_reinitialization_guard_is_absolute :: "ir_state test_fn" where
  "ir_test_reinitialization_guard_is_absolute = (ShouldPass, seq_m mock_all_auths (
     seq_m (ir_admin_client (\<lambda>e. ir_initialize e ADMIN)) (
     for_each [1..<4 :: nat] (\<lambda>attempt _. script [
       assert_true (panics (ir_admin_client (\<lambda>e. ir_initialize e ADMIN))),
       assert_eq (ir_admin_client (\<lambda>_. ir_get_admin)) ADMIN]) ())))"

definition ir_test_initialization_state_stable_across_operations :: "ir_state test_fn" where
  "ir_test_initialization_state_stable_across_operations = (ShouldPass, script [
     ir_setup,
     assert_eq (ir_admin_client (\<lambda>_. ir_get_admin)) ADMIN,
     assert_eq (ir_client (\<lambda>_. ir_get_contract_version)) 1,
     ir_client (\<lambda>e. register_issuer e (bytes 1) ISSUER_ONE (bytes 2)),
     assert_eq (ir_admin_client (\<lambda>_. ir_get_admin)) ADMIN,
     assert_eq (ir_client (\<lambda>_. ir_get_contract_version)) 1])"

definition ir_test_issuer_registry_initialization_spec_summary :: "ir_state test_fn" where
  "ir_test_issuer_registry_initialization_spec_summary = (ShouldPass, script [
     mock_all_auths,
     ir_admin_client (\<lambda>e. ir_initialize e ADMIN),
     assert_eq (ir_admin_client (\<lambda>_. ir_get_admin)) ADMIN,
     assert_eq (ir_client (\<lambda>_. ir_get_contract_version)) 1,
     assert_true (panics (ir_admin_client (\<lambda>e. ir_initialize e ADMIN)))])"

definition ir_suite :: "ir_state test_fn list" where
  "ir_suite = [
     ir_test_registers_and_reads_active_issuer,
     ir_test_status_transitions_reject_reactivated_revoked_issuer,
     ir_test_rejects_duplicate_issuer_id,
     ir_test_revoked_issuer_cannot_be_reactivated,
     ir_test_extends_issuer_storage_ttl,
     ir_test_contract_version_initialized_to_one,
     ir_test_approve_and_check_allowlist,
     ir_test_revoke_removes_from_allowlist,
     ir_test_approve_upgrade_rejects_downgrade_version,
     ir_test_upgrade_contract_rejects_non_allowlisted_hash,
     ir_test_upgrade_contract_requires_admin_auth,
     ir_test_upgrade_advances_version_and_consumes_allowlist,
     ir_test_upgrade_hash_cannot_be_replayed,
     ir_test_state_preserved_across_upgrade,
     ir_test_cannot_re_approve_old_version_after_upgrade,
     ir_test_register_issuer_emits_one_event,
     ir_test_register_issuer_failure_emits_no_success_event,
     ir_test_update_issuer_emits_one_event,
     ir_test_update_revoked_issuer_emits_no_event,
     ir_test_suspend_issuer_emits_one_event,
     ir_test_reactivate_issuer_emits_one_event,
     ir_test_revoke_issuer_emits_one_event,
     ir_test_rotate_address_emits_one_event,
     ir_test_rotate_revoked_issuer_address_emits_no_event,
     ir_test_each_mutation_emits_exactly_one_event,
     ir_test_revoke_issuer_rejects_a_valid_signature_from_the_issuer_itself,
     ir_test_contract_version_initialized_and_upgradeable,
     ir_test_contract_version_upgrade_boundaries,
     ir_test_contract_version_equal_current_rejected,
     ir_test_contract_version_below_current_rejected,
     ir_test_failed_upgrade_version_downgrade_leaves_state_unchanged,
     ir_test_initialization_writes_exactly_documented_state,
     ir_test_reinitialization_by_same_admin_fails_atomically,
     ir_test_reinitialization_by_different_admin_fails_atomically,
     ir_test_reinitialization_guard_is_absolute,
     ir_test_initialization_state_stable_across_operations,
     ir_test_issuer_registry_initialization_spec_summary]"

lemmas ir_test_defs =
  ir_test_registers_and_reads_active_issuer_def
  ir_test_status_transitions_reject_reactivated_revoked_issuer_def
  ir_test_rejects_duplicate_issuer_id_def
  ir_test_revoked_issuer_cannot_be_reactivated_def
  ir_test_extends_issuer_storage_ttl_def
  ir_test_contract_version_initialized_to_one_def
  ir_test_approve_and_check_allowlist_def
  ir_test_revoke_removes_from_allowlist_def
  ir_test_approve_upgrade_rejects_downgrade_version_def
  ir_test_upgrade_contract_rejects_non_allowlisted_hash_def
  ir_test_upgrade_contract_requires_admin_auth_def
  ir_test_upgrade_advances_version_and_consumes_allowlist_def
  ir_test_upgrade_hash_cannot_be_replayed_def
  ir_test_state_preserved_across_upgrade_def
  ir_test_cannot_re_approve_old_version_after_upgrade_def
  ir_test_register_issuer_emits_one_event_def
  ir_test_register_issuer_failure_emits_no_success_event_def
  ir_test_update_issuer_emits_one_event_def
  ir_test_update_revoked_issuer_emits_no_event_def
  ir_test_suspend_issuer_emits_one_event_def
  ir_test_reactivate_issuer_emits_one_event_def
  ir_test_revoke_issuer_emits_one_event_def
  ir_test_rotate_address_emits_one_event_def
  ir_test_rotate_revoked_issuer_address_emits_no_event_def
  ir_test_each_mutation_emits_exactly_one_event_def
  ir_test_revoke_issuer_rejects_a_valid_signature_from_the_issuer_itself_def
  ir_test_contract_version_initialized_and_upgradeable_def
  ir_test_contract_version_upgrade_boundaries_def
  ir_test_contract_version_equal_current_rejected_def
  ir_test_contract_version_below_current_rejected_def
  ir_test_failed_upgrade_version_downgrade_leaves_state_unchanged_def
  ir_test_initialization_writes_exactly_documented_state_def
  ir_test_reinitialization_by_same_admin_fails_atomically_def
  ir_test_reinitialization_by_different_admin_fails_atomically_def
  ir_test_reinitialization_guard_is_absolute_def
  ir_test_initialization_state_stable_across_operations_def
  ir_test_issuer_registry_initialization_spec_summary_def

section \<open>Every test passes\<close>

lemmas ir_test_eval = ir_world_def ir_setup_def ir_admin_client_def ir_client_def ir_try_def event_count_def
  test_eval ir_defs

context test_host
begin

lemma ir_suite_passes: "list_all (passes (ir_world e lu h)) ir_suite"
  unfolding ir_suite_def list.pred_inject
  by (intro conjI TrueI; simp add: ir_test_defs ir_test_eval host_facts)

end

end
