(* ===== verification/Proof_Tests.thy ===== *)
theory Proof_Tests
  imports System Test_Runner
begin

text \<open>
  The test module of proof-registry (\<open>src/contracts/proof-registry/src/lib.rs\<close>), one definition
  per \<open>#[test]\<close> function. The tests register all three contracts in one \<open>Env\<close>, so they run against
  the model of the whole system; no other contract answers a call.
\<close>

section \<open>The test clients\<close>

definition test_deps :: "ledger dependencies" where
  "test_deps = system_deps no_contract"

text \<open>The event buffers of all three contracts are cleared before an invocation.\<close>

definition clear_events :: "system \<Rightarrow> system" where
  "clear_events s = s\<lparr>events := [], others := (others s)
     \<lparr>config := (config (others s))\<lparr>events := []\<rparr>, registry := (registry (others s))\<lparr>events := []\<rparr>\<rparr>\<rparr>"

definition at_config :: "'a pc_m \<Rightarrow> (system, contract_error, 'a) contract_m" where
  "at_config m = (\<lambda>s. case m (config (others s)) of (r, c) \<Rightarrow>
     (r, s\<lparr>others := (others s)\<lparr>config := c\<rparr>\<rparr>))"

definition at_registry :: "('e, 'a) ir_m \<Rightarrow> (system, 'e, 'a) contract_m" where
  "at_registry m = (\<lambda>s. case m (registry (others s)) of (r, c) \<Rightarrow>
     (r, s\<lparr>others := (others s)\<lparr>registry := c\<rparr>\<rparr>))"

definition config_client :: "(env \<Rightarrow> 'a pc_m) \<Rightarrow> (system, 'a) test_m" where
  "config_client m = client_call clear_events (\<lambda>e. at_config (m (callee_env PC_ID e)))"

definition registry_admin_client :: "(env \<Rightarrow> (contract_error, 'a) ir_m) \<Rightarrow> (system, 'a) test_m" where
  "registry_admin_client m = client_call clear_events (\<lambda>e. at_registry (m (callee_env IR_ID e)))"

definition registry_client :: "(env \<Rightarrow> (issuer_error, 'a) ir_m) \<Rightarrow> (system, 'a) test_m" where
  "registry_client m = client_call clear_events (\<lambda>e. at_registry (m (callee_env IR_ID e)))"

definition pr_admin_client :: "(env \<Rightarrow> (ledger, contract_error, 'a) pr_m) \<Rightarrow> (system, 'a) test_m" where
  "pr_admin_client m = client_call clear_events m"

definition pr_client :: "(env \<Rightarrow> (ledger, proof_error, 'a) pr_m) \<Rightarrow> (system, 'a) test_m" where
  "pr_client m = client_call clear_events m"

definition pr_try :: "(env \<Rightarrow> (ledger, proof_error, 'a) pr_m) \<Rightarrow> (system, proof_error abort + 'a) test_m" where
  "pr_try m = try_client clear_events m"

definition u64_MAX :: u64 where
  "u64_MAX = 0xFFFFFFFFFFFFFFFF"

definition pr_test_setup :: "(system, unit) test_m" where
  "pr_test_setup = script [
     mock_all_auths,
     config_client (\<lambda>e. pc_initialize e ADMIN),
     config_client (\<lambda>e. approve_schema_version e 1),
     registry_admin_client (\<lambda>e. ir_initialize e ADMIN),
     registry_client (\<lambda>e. register_issuer e (bytes 9) ISSUER_ONE (bytes 8)),
     pr_admin_client (\<lambda>e. pr_initialize e ADMIN IR_ID PC_ID)]"

definition pr_world :: "env \<Rightarrow> u32 \<Rightarrow> bytes32 \<Rightarrow> system test_world" where
  "pr_world e lu h = test_start e (fresh_system PC_ID IR_ID lu h)"

section \<open>The test functions\<close>

definition pr_test_registers_and_validates_proof :: "system test_fn" where
  "pr_test_registers_and_validates_proof = (ShouldPass, script [pr_test_setup,
     pr_client (\<lambda>e. register_proof test_deps e (bytes 1) (bytes 2) ISSUER_ONE 1 2000),
     bind_m (pr_client (\<lambda>e. get_proof e (bytes 1))) (\<lambda>record. script [
       assert_that (pr_proof_id_hash record = bytes 1),
       assert_that (pr_commitment_hash record = bytes 2),
       assert_that (pr_issuer_address record = ISSUER_ONE),
       assert_that (pr_status record = ProofActive)]),
     assert_eq (pr_admin_client (\<lambda>_. get_issuer_registry)) IR_ID,
     assert_true (pr_client (\<lambda>e. is_valid_proof e (bytes 1))),
     assert_false (pr_client (\<lambda>e. is_revoked e (bytes 1)))])"

definition pr_test_issuer_can_revoke_proof :: "system test_fn" where
  "pr_test_issuer_can_revoke_proof = (ShouldPass, script [pr_test_setup,
     pr_client (\<lambda>e. register_proof test_deps e (bytes 1) (bytes 2) ISSUER_ONE 1 2000),
     pr_client (\<lambda>e. revoke_proof e (bytes 1)),
     bind_m (pr_client (\<lambda>e. get_proof e (bytes 1))) (\<lambda>record.
       assert_that (pr_status record = ProofRevoked)),
     assert_true (pr_client (\<lambda>e. is_revoked e (bytes 1))),
     assert_false (pr_client (\<lambda>e. is_valid_proof e (bytes 1)))])"

definition pr_test_rejects_expired_proof :: "system test_fn" where
  "pr_test_rejects_expired_proof = (ShouldPass, script [
     pr_test_setup,
     assert_eq (pr_try (\<lambda>e. register_proof test_deps e (bytes 1) (bytes 2) ISSUER_ONE 1 0))
       (Inl (Err ProofExpired))])"

definition pr_test_rejects_duplicate_proof_id :: "system test_fn" where
  "pr_test_rejects_duplicate_proof_id = (ShouldPass, script [
     pr_test_setup,
     pr_client (\<lambda>e. register_proof test_deps e (bytes 1) (bytes 2) ISSUER_ONE 1 2000),
     assert_eq (pr_try (\<lambda>e. register_proof test_deps e (bytes 1) (bytes 3) ISSUER_ONE 1 2000))
       (Inl (Err ProofAlreadyRegistered))])"

definition pr_test_rejects_unapproved_schema_version :: "system test_fn" where
  "pr_test_rejects_unapproved_schema_version = (ShouldPass, script [
     pr_test_setup,
     assert_eq (pr_try (\<lambda>e. register_proof test_deps e (bytes 1) (bytes 2) ISSUER_ONE 2 2000))
       (Inl (Err SchemaVersionNotApproved))])"

definition pr_test_rejects_registration_when_protocol_is_paused :: "system test_fn" where
  "pr_test_rejects_registration_when_protocol_is_paused = (ShouldPass, script [
     pr_test_setup,
     config_client pause,
     assert_eq (pr_try (\<lambda>e. register_proof test_deps e (bytes 1) (bytes 2) ISSUER_ONE 1 2000))
       (Inl (Err InvalidSchemaVersion))])"

definition pr_test_rejects_inactive_issuer_address :: "system test_fn" where
  "pr_test_rejects_inactive_issuer_address = (ShouldPass, script [
     pr_test_setup,
     registry_client (\<lambda>e. register_issuer e (bytes 10) OTHER_ADMIN (bytes 11)),
     registry_client (\<lambda>e. suspend_issuer e (bytes 10)),
     assert_eq (pr_try (\<lambda>e. register_proof test_deps e (bytes 1) (bytes 2) OTHER_ADMIN 1 2000))
       (Inl (Err InvalidSchemaVersion))])"

definition pr_test_extends_proof_storage_ttl :: "system test_fn" where
  "pr_test_extends_proof_storage_ttl = (ShouldPass, script [
     pr_test_setup,
     pr_client (\<lambda>e. register_proof test_deps e (bytes 1) (bytes 2) ISSUER_ONE 1 2000),
     assert_true (inspect (\<lambda>e s. TTL_THRESHOLD_LEDGERS < persistent_ttl e s (PrProof (bytes 1))))])"

definition pr_test_contract_version_initialized_to_one :: "system test_fn" where
  "pr_test_contract_version_initialized_to_one = (ShouldPass, script [
     pr_test_setup,
     assert_eq (pr_client (\<lambda>_. pr_get_contract_version)) 1])"

definition pr_test_approve_and_check_allowlist :: "system test_fn" where
  "pr_test_approve_and_check_allowlist = (ShouldPass, script [
     pr_test_setup,
     assert_false (pr_client (\<lambda>_. pr_is_upgrade_allowed (bytes 0xab))),
     pr_client (\<lambda>e. pr_approve_upgrade e (bytes 0xab) 2),
     assert_true (pr_client (\<lambda>_. pr_is_upgrade_allowed (bytes 0xab)))])"

definition pr_test_revoke_removes_from_allowlist :: "system test_fn" where
  "pr_test_revoke_removes_from_allowlist = (ShouldPass, script [
     pr_test_setup,
     pr_client (\<lambda>e. pr_approve_upgrade e (bytes 0xcd) 2),
     pr_client (\<lambda>e. pr_revoke_upgrade e (bytes 0xcd)),
     assert_false (pr_client (\<lambda>_. pr_is_upgrade_allowed (bytes 0xcd)))])"

definition pr_test_approve_upgrade_rejects_downgrade_version :: "system test_fn" where
  "pr_test_approve_upgrade_rejects_downgrade_version = (ShouldPanicWith ''new_version must be greater than current contract version'', script [
     pr_test_setup,
     pr_client (\<lambda>e. pr_approve_upgrade e (bytes 1) 1)])"

definition pr_test_upgrade_contract_rejects_non_allowlisted_hash :: "system test_fn" where
  "pr_test_upgrade_contract_rejects_non_allowlisted_hash = (ShouldPanicWith ''wasm hash not on allowlist'', script [
     pr_test_setup,
     pr_client (\<lambda>e. pr_upgrade_contract e (bytes 0xff))])"

definition pr_test_upgrade_contract_requires_admin_auth :: "system test_fn" where
  "pr_test_upgrade_contract_requires_admin_auth = (ShouldPanic, script [
     mock_all_auths,
     config_client (\<lambda>e. pc_initialize e ADMIN),
     config_client (\<lambda>e. approve_schema_version e 1),
     registry_admin_client (\<lambda>e. ir_initialize e ADMIN),
     registry_client (\<lambda>e. register_issuer e (bytes 9) ISSUER_ONE (bytes 8)),
     pr_admin_client (\<lambda>e. pr_initialize e ADMIN IR_ID PC_ID),
     pr_client (\<lambda>e. pr_approve_upgrade e (bytes 0xde) 2),
     set_auths [],
     pr_client (\<lambda>e. pr_upgrade_contract e (bytes 0xde))])"

definition pr_test_upgrade_advances_version_and_consumes_allowlist :: "system test_fn" where
  "pr_test_upgrade_advances_version_and_consumes_allowlist = (ShouldPass, script [
     pr_test_setup,
     pr_client (\<lambda>e. pr_approve_upgrade e (bytes 0x42) 2),
     pr_client (\<lambda>e. pr_upgrade_contract e (bytes 0x42)),
     assert_eq (pr_client (\<lambda>_. pr_get_contract_version)) 2,
     assert_false (pr_client (\<lambda>_. pr_is_upgrade_allowed (bytes 0x42)))])"

definition pr_test_upgrade_hash_cannot_be_replayed :: "system test_fn" where
  "pr_test_upgrade_hash_cannot_be_replayed = (ShouldPanicWith ''wasm hash not on allowlist'', script [
     pr_test_setup,
     pr_client (\<lambda>e. pr_approve_upgrade e (bytes 0x42) 2),
     pr_client (\<lambda>e. pr_upgrade_contract e (bytes 0x42)),
     pr_client (\<lambda>e. pr_upgrade_contract e (bytes 0x42))])"

definition pr_test_state_preserved_across_upgrade :: "system test_fn" where
  "pr_test_state_preserved_across_upgrade = (ShouldPass, script [
     pr_test_setup,
     pr_client (\<lambda>e. register_proof test_deps e (bytes 1) (bytes 2) ISSUER_ONE 1 2000),
     assert_true (pr_client (\<lambda>e. is_valid_proof e (bytes 1))),
     pr_client (\<lambda>e. pr_approve_upgrade e (bytes 0x77) 2),
     pr_client (\<lambda>e. pr_upgrade_contract e (bytes 0x77)),
     assert_true (pr_client (\<lambda>e. is_valid_proof e (bytes 1))),
     assert_eq (pr_client (\<lambda>_. pr_get_contract_version)) 2])"

definition pr_test_cannot_re_approve_old_version_after_upgrade :: "system test_fn" where
  "pr_test_cannot_re_approve_old_version_after_upgrade = (ShouldPanicWith ''new_version must be greater than current contract version'', script [
     pr_test_setup,
     pr_client (\<lambda>e. pr_approve_upgrade e (bytes 0x01) 2),
     pr_client (\<lambda>e. pr_upgrade_contract e (bytes 0x01)),
     pr_client (\<lambda>e. pr_approve_upgrade e (bytes 0x02) 1)])"

definition pr_test_register_proof_schema_version_boundaries :: "system test_fn" where
  "pr_test_register_proof_schema_version_boundaries = (ShouldPass, script [
     pr_test_setup,
     pr_client (\<lambda>e. register_proof test_deps e (bytes 1) (bytes 2) ISSUER_ONE 1 2000),
     assert_true (pr_client (\<lambda>e. is_valid_proof e (bytes 1))),
     config_client (\<lambda>e. approve_schema_version e 99),
     pr_client (\<lambda>e. register_proof test_deps e (bytes 10) (bytes 11) ISSUER_ONE 99 2000),
     assert_true (pr_client (\<lambda>e. is_valid_proof e (bytes 10))),
     config_client (\<lambda>e. approve_schema_version e u32_MAX),
     pr_client (\<lambda>e. register_proof test_deps e (bytes 20) (bytes 21) ISSUER_ONE u32_MAX 2000),
     assert_true (pr_client (\<lambda>e. is_valid_proof e (bytes 20)))])"

definition pr_test_register_proof_schema_version_zero_rejected :: "system test_fn" where
  "pr_test_register_proof_schema_version_zero_rejected = (ShouldPass, script [
     pr_test_setup,
     assert_eq (pr_try (\<lambda>e. register_proof test_deps e (bytes 1) (bytes 2) ISSUER_ONE 0 2000))
       (Inl (Err InvalidSchemaVersion))])"

definition pr_test_register_proof_expiration_boundaries :: "system test_fn" where
  "pr_test_register_proof_expiration_boundaries = (ShouldPass, seq_m pr_test_setup (
     bind_m (inspect (\<lambda>e _. ledger_timestamp e)) (\<lambda>current_time. script [
       pr_client (\<lambda>e. register_proof test_deps e (bytes 1) (bytes 2) ISSUER_ONE 1 (current_time + 1)),
       assert_true (pr_client (\<lambda>e. is_valid_proof e (bytes 1))),
       pr_client (\<lambda>e. register_proof test_deps e (bytes 10) (bytes 11) ISSUER_ONE 1 (current_time + 365 * 24 * 3600)),
       assert_true (pr_client (\<lambda>e. is_valid_proof e (bytes 10))),
       pr_client (\<lambda>e. register_proof test_deps e (bytes 20) (bytes 21) ISSUER_ONE 1 u64_MAX),
       assert_true (pr_client (\<lambda>e. is_valid_proof e (bytes 20)))])))"

definition pr_test_register_proof_expiration_at_current_time_rejected :: "system test_fn" where
  "pr_test_register_proof_expiration_at_current_time_rejected = (ShouldPass, seq_m pr_test_setup (
     bind_m (inspect (\<lambda>e _. ledger_timestamp e)) (\<lambda>current_time.
     assert_eq (pr_try (\<lambda>e. register_proof test_deps e (bytes 1) (bytes 2) ISSUER_ONE 1 current_time))
       (Inl (Err ProofExpired)))))"

definition pr_test_register_proof_expiration_in_past_rejected :: "system test_fn" where
  "pr_test_register_proof_expiration_in_past_rejected = (ShouldPass, seq_m pr_test_setup (
     bind_m (inspect (\<lambda>e _. ledger_timestamp e)) (\<lambda>current_time.
     if 0 < current_time
     then assert_eq (pr_try (\<lambda>e. register_proof test_deps e (bytes 1) (bytes 2) ISSUER_ONE 1 (current_time - 1)))
       (Inl (Err ProofExpired))
     else ret ())))"

definition pr_test_failed_register_proof_schema_zero_leaves_state_unchanged :: "system test_fn" where
  "pr_test_failed_register_proof_schema_zero_leaves_state_unchanged = (ShouldPass, script [
     pr_test_setup,
     assert_false (inspect (\<lambda>_ s. pers s (PrProof (bytes 99)) \<noteq> None)),
     assert_true (panics (pr_client (\<lambda>e. register_proof test_deps e (bytes 99) (bytes 88) ISSUER_ONE 0 2000))),
     assert_false (inspect (\<lambda>_ s. pers s (PrProof (bytes 99)) \<noteq> None))])"

definition pr_test_failed_register_proof_expired_leaves_state_unchanged :: "system test_fn" where
  "pr_test_failed_register_proof_expired_leaves_state_unchanged = (ShouldPass, seq_m pr_test_setup (
     bind_m (inspect (\<lambda>e _. ledger_timestamp e)) (\<lambda>current_time. script [
       assert_true (panics (pr_client (\<lambda>e. register_proof test_deps e (bytes 77) (bytes 66) ISSUER_ONE 1 current_time))),
       assert_false (inspect (\<lambda>_ s. pers s (PrProof (bytes 77)) \<noteq> None))])))"

definition pr_test_contract_version_upgrade_boundaries :: "system test_fn" where
  "pr_test_contract_version_upgrade_boundaries = (ShouldPass, script [
     pr_test_setup,
     assert_eq (pr_client (\<lambda>_. pr_get_contract_version)) 1,
     pr_client (\<lambda>e. pr_approve_upgrade e (bytes 1) 2),
     pr_client (\<lambda>e. pr_upgrade_contract e (bytes 1)),
     assert_eq (pr_client (\<lambda>_. pr_get_contract_version)) 2,
     pr_client (\<lambda>e. pr_approve_upgrade e (bytes 2) u32_MAX),
     pr_client (\<lambda>e. pr_upgrade_contract e (bytes 2)),
     assert_eq (pr_client (\<lambda>_. pr_get_contract_version)) u32_MAX])"

definition pr_test_initialization_writes_exactly_documented_state :: "system test_fn" where
  "pr_test_initialization_writes_exactly_documented_state = (ShouldPass, script [
     mock_all_auths,
     config_client (\<lambda>e. pc_initialize e ADMIN),
     registry_admin_client (\<lambda>e. ir_initialize e ADMIN),
     pr_admin_client (\<lambda>e. pr_initialize e ADMIN IR_ID PC_ID),
     assert_eq (pr_admin_client (\<lambda>_. pr_get_admin)) ADMIN,
     assert_eq (pr_admin_client (\<lambda>_. get_issuer_registry)) IR_ID,
     assert_eq (pr_admin_client (\<lambda>_. get_protocol_config)) PC_ID,
     assert_eq (pr_client (\<lambda>_. pr_get_contract_version)) 1,
     assert_true (inspect (\<lambda>_ s. inst s PrAdmin \<noteq> None)),
     assert_true (inspect (\<lambda>_ s. inst s PrIssuerRegistry \<noteq> None)),
     assert_true (inspect (\<lambda>_ s. inst s PrProtocolConfig \<noteq> None)),
     assert_true (inspect (\<lambda>_ s. inst s PrContractVersion \<noteq> None))])"

definition pr_test_reinitialization_by_same_admin_fails_atomically :: "system test_fn" where
  "pr_test_reinitialization_by_same_admin_fails_atomically = (ShouldPass, seq_m pr_test_setup (
     bind_m (pr_client (\<lambda>_. pr_get_contract_version)) (\<lambda>contract_version_after_first.
     bind_m (pr_admin_client (\<lambda>_. get_issuer_registry)) (\<lambda>issuer_registry_after_first. script [
       assert_true (panics (pr_admin_client (\<lambda>e. pr_initialize e ADMIN IR_ID SECOND_PC_ID))),
       assert_eq (pr_admin_client (\<lambda>_. pr_get_admin)) ADMIN,
       assert_eq (pr_admin_client (\<lambda>_. get_issuer_registry)) issuer_registry_after_first,
       assert_eq (pr_client (\<lambda>_. pr_get_contract_version)) contract_version_after_first]))))"

definition pr_test_reinitialization_with_different_dependencies_fails_atomically :: "system test_fn" where
  "pr_test_reinitialization_with_different_dependencies_fails_atomically = (ShouldPass, seq_m pr_test_setup (
     bind_m (pr_admin_client (\<lambda>_. get_issuer_registry)) (\<lambda>issuer_registry_after_first.
     bind_m (pr_admin_client (\<lambda>_. get_protocol_config)) (\<lambda>protocol_config_after_first. script [
       assert_true (panics (pr_admin_client (\<lambda>e. pr_initialize e ADMIN SECOND_IR_ID SECOND_PC_ID))),
       assert_eq (pr_admin_client (\<lambda>_. get_issuer_registry)) issuer_registry_after_first,
       assert_eq (pr_admin_client (\<lambda>_. get_protocol_config)) protocol_config_after_first]))))"

definition pr_test_reinitialization_by_different_admin_fails :: "system test_fn" where
  "pr_test_reinitialization_by_different_admin_fails = (ShouldPass, seq_m (script [
       mock_all_auths,
       config_client (\<lambda>e. pc_initialize e ADMIN),
       registry_admin_client (\<lambda>e. ir_initialize e ADMIN),
       pr_admin_client (\<lambda>e. pr_initialize e ADMIN IR_ID PC_ID)]) (
     bind_m (pr_admin_client (\<lambda>_. pr_get_admin)) (\<lambda>stored_admin. script [
       assert_true (panics (pr_admin_client (\<lambda>e. pr_initialize e ISSUER_ONE IR_ID PC_ID))),
       assert_eq (pr_admin_client (\<lambda>_. pr_get_admin)) stored_admin])))"

definition pr_test_reinitialization_guard_is_absolute :: "system test_fn" where
  "pr_test_reinitialization_guard_is_absolute = (ShouldPass, seq_m pr_test_setup (
     for_each [1..<4 :: nat] (\<lambda>attempt _. script [
       assert_true (panics (pr_admin_client (\<lambda>e. pr_initialize e ADMIN IR_ID SECOND_PC_ID))),
       assert_eq (pr_admin_client (\<lambda>_. pr_get_admin)) ADMIN]) ()))"

definition pr_test_initialization_state_stable_across_operations :: "system test_fn" where
  "pr_test_initialization_state_stable_across_operations = (ShouldPass, seq_m pr_test_setup (
     bind_m (pr_admin_client (\<lambda>_. get_protocol_config)) (\<lambda>protocol_config_id. script [
       assert_eq (pr_admin_client (\<lambda>_. pr_get_admin)) ADMIN,
       assert_eq (pr_admin_client (\<lambda>_. get_issuer_registry)) IR_ID,
       assert_eq (pr_admin_client (\<lambda>_. get_protocol_config)) protocol_config_id,
       assert_eq (pr_client (\<lambda>_. pr_get_contract_version)) 1,
       pr_client (\<lambda>e. register_proof test_deps e (bytes 1) (bytes 2) ISSUER_ONE 1 2000),
       assert_eq (pr_admin_client (\<lambda>_. pr_get_admin)) ADMIN,
       assert_eq (pr_admin_client (\<lambda>_. get_issuer_registry)) IR_ID,
       assert_eq (pr_admin_client (\<lambda>_. get_protocol_config)) protocol_config_id,
       assert_eq (pr_client (\<lambda>_. pr_get_contract_version)) 1])))"

definition pr_test_proof_registry_initialization_spec_summary :: "system test_fn" where
  "pr_test_proof_registry_initialization_spec_summary = (ShouldPass, script [
     mock_all_auths,
     config_client (\<lambda>e. pc_initialize e ADMIN),
     registry_admin_client (\<lambda>e. ir_initialize e ADMIN),
     pr_admin_client (\<lambda>e. pr_initialize e ADMIN IR_ID PC_ID),
     assert_eq (pr_admin_client (\<lambda>_. pr_get_admin)) ADMIN,
     assert_eq (pr_admin_client (\<lambda>_. get_issuer_registry)) IR_ID,
     assert_eq (pr_admin_client (\<lambda>_. get_protocol_config)) PC_ID,
     assert_eq (pr_client (\<lambda>_. pr_get_contract_version)) 1,
     assert_true (panics (pr_admin_client (\<lambda>e. pr_initialize e ADMIN IR_ID PC_ID)))])"

definition pr_test_cross_contract_initialization_correct_order_succeeds :: "system test_fn" where
  "pr_test_cross_contract_initialization_correct_order_succeeds = (ShouldPass, script [
     mock_all_auths,
     config_client (\<lambda>e. pc_initialize e ADMIN),
     assert_eq (config_client (\<lambda>_. pc_get_admin)) ADMIN,
     assert_eq (config_client (\<lambda>_. pc_get_contract_version)) 1,
     registry_admin_client (\<lambda>e. ir_initialize e ADMIN),
     assert_eq (registry_admin_client (\<lambda>_. ir_get_admin)) ADMIN,
     assert_eq (registry_client (\<lambda>_. ir_get_contract_version)) 1,
     config_client (\<lambda>e. approve_schema_version e 1),
     assert_true (config_client (\<lambda>e. is_schema_version_approved e 1)),
     registry_client (\<lambda>e. register_issuer e (bytes 9) ISSUER_ONE (bytes 8)),
     assert_true (registry_client (\<lambda>e. is_active_address e ISSUER_ONE)),
     pr_admin_client (\<lambda>e. pr_initialize e ADMIN IR_ID PC_ID),
     assert_eq (pr_admin_client (\<lambda>_. pr_get_admin)) ADMIN,
     assert_eq (pr_admin_client (\<lambda>_. get_issuer_registry)) IR_ID,
     assert_eq (pr_admin_client (\<lambda>_. get_protocol_config)) PC_ID,
     assert_eq (pr_client (\<lambda>_. pr_get_contract_version)) 1,
     pr_client (\<lambda>e. register_proof test_deps e (bytes 1) (bytes 2) ISSUER_ONE 1 2000),
     assert_true (pr_client (\<lambda>e. is_valid_proof e (bytes 1)))])"

definition pr_test_proof_registry_init_with_uninitialized_dependencies_defers_validation :: "system test_fn" where
  "pr_test_proof_registry_init_with_uninitialized_dependencies_defers_validation = (ShouldPass, script [
     mock_all_auths,
     pr_admin_client (\<lambda>e. pr_initialize e ADMIN IR_ID PC_ID),
     assert_eq (pr_admin_client (\<lambda>_. pr_get_admin)) ADMIN,
     assert_eq (pr_admin_client (\<lambda>_. get_issuer_registry)) IR_ID,
     assert_eq (pr_admin_client (\<lambda>_. get_protocol_config)) PC_ID,
     assert_true (panics (pr_client (\<lambda>e. register_proof test_deps e (bytes 1) (bytes 2) ISSUER_ONE 1 2000)))])"

definition pr_test_proof_registry_swapped_dependencies_fails_at_runtime :: "system test_fn" where
  "pr_test_proof_registry_swapped_dependencies_fails_at_runtime = (ShouldPass, script [
     mock_all_auths,
     config_client (\<lambda>e. pc_initialize e ADMIN),
     config_client (\<lambda>e. approve_schema_version e 1),
     registry_admin_client (\<lambda>e. ir_initialize e ADMIN),
     registry_client (\<lambda>e. register_issuer e (bytes 9) ISSUER_ONE (bytes 8)),
     pr_admin_client (\<lambda>e. pr_initialize e ADMIN PC_ID IR_ID),
     assert_eq (pr_admin_client (\<lambda>_. get_issuer_registry)) PC_ID,
     assert_eq (pr_admin_client (\<lambda>_. get_protocol_config)) IR_ID,
     assert_true (panics (pr_client (\<lambda>e. register_proof test_deps e (bytes 1) (bytes 2) ISSUER_ONE 1 2000)))])"

definition pr_test_proof_registry_initialized_before_dependencies_fails_at_operations :: "system test_fn" where
  "pr_test_proof_registry_initialized_before_dependencies_fails_at_operations = (ShouldPass, script [
     mock_all_auths,
     pr_admin_client (\<lambda>e. pr_initialize e ADMIN IR_ID PC_ID),
     config_client (\<lambda>e. pc_initialize e ADMIN),
     config_client (\<lambda>e. approve_schema_version e 1),
     registry_admin_client (\<lambda>e. ir_initialize e ADMIN),
     registry_client (\<lambda>e. register_issuer e (bytes 9) ISSUER_ONE (bytes 8)),
     pr_client (\<lambda>e. register_proof test_deps e (bytes 1) (bytes 2) ISSUER_ONE 1 2000),
     assert_true (pr_client (\<lambda>e. is_valid_proof e (bytes 1)))])"

definition pr_test_proof_registry_operations_fail_without_dependency_configuration :: "system test_fn" where
  "pr_test_proof_registry_operations_fail_without_dependency_configuration = (ShouldPass, script [
     mock_all_auths,
     config_client (\<lambda>e. pc_initialize e ADMIN),
     registry_admin_client (\<lambda>e. ir_initialize e ADMIN),
     pr_admin_client (\<lambda>e. pr_initialize e ADMIN IR_ID PC_ID),
     assert_true (panics (pr_client (\<lambda>e. register_proof test_deps e (bytes 1) (bytes 2) ISSUER_ONE 1 2000))),
     config_client (\<lambda>e. approve_schema_version e 1),
     assert_true (panics (pr_client (\<lambda>e. register_proof test_deps e (bytes 2) (bytes 3) ISSUER_ONE 1 2000))),
     registry_client (\<lambda>e. register_issuer e (bytes 9) ISSUER_ONE (bytes 8)),
     pr_client (\<lambda>e. register_proof test_deps e (bytes 3) (bytes 4) ISSUER_ONE 1 2000),
     assert_true (pr_client (\<lambda>e. is_valid_proof e (bytes 3)))])"

definition pr_test_complete_system_initialization_happy_path :: "system test_fn" where
  "pr_test_complete_system_initialization_happy_path = (ShouldPass, script [
     mock_all_auths,
     config_client (\<lambda>e. pc_initialize e ADMIN),
     config_client (\<lambda>e. approve_schema_version e 1),
     assert_true (config_client (\<lambda>e. is_schema_version_approved e 1)),
     registry_admin_client (\<lambda>e. ir_initialize e ADMIN),
     registry_client (\<lambda>e. register_issuer e (bytes 9) ISSUER_ONE (bytes 8)),
     assert_true (registry_client (\<lambda>e. is_active_address e ISSUER_ONE)),
     pr_admin_client (\<lambda>e. pr_initialize e ADMIN IR_ID PC_ID),
     assert_eq (config_client (\<lambda>_. pc_get_admin)) ADMIN,
     assert_eq (registry_admin_client (\<lambda>_. ir_get_admin)) ADMIN,
     assert_eq (pr_admin_client (\<lambda>_. pr_get_admin)) ADMIN,
     assert_true (panics (config_client (\<lambda>e. pc_initialize e OTHER_ADMIN))),
     assert_true (panics (registry_admin_client (\<lambda>e. ir_initialize e OTHER_ADMIN))),
     assert_true (panics (pr_admin_client (\<lambda>e. pr_initialize e OTHER_ADMIN IR_ID PC_ID))),
     pr_client (\<lambda>e. register_proof test_deps e (bytes 1) (bytes 2) ISSUER_ONE 1 2000),
     assert_true (pr_client (\<lambda>e. is_valid_proof e (bytes 1))),
     registry_client (\<lambda>e. register_issuer e (bytes 99) OTHER_ADMIN (bytes 88)),
     assert_true (registry_client (\<lambda>e. is_active_issuer e (bytes 99))),
     config_client pause,
     assert_true (config_client (\<lambda>_. is_paused)),
     config_client unpause,
     assert_false (config_client (\<lambda>_. is_paused))])"

definition pr_suite :: "system test_fn list" where
  "pr_suite = [
     pr_test_registers_and_validates_proof,
     pr_test_issuer_can_revoke_proof,
     pr_test_rejects_expired_proof,
     pr_test_rejects_duplicate_proof_id,
     pr_test_rejects_unapproved_schema_version,
     pr_test_rejects_registration_when_protocol_is_paused,
     pr_test_rejects_inactive_issuer_address,
     pr_test_extends_proof_storage_ttl,
     pr_test_contract_version_initialized_to_one,
     pr_test_approve_and_check_allowlist,
     pr_test_revoke_removes_from_allowlist,
     pr_test_approve_upgrade_rejects_downgrade_version,
     pr_test_upgrade_contract_rejects_non_allowlisted_hash,
     pr_test_upgrade_contract_requires_admin_auth,
     pr_test_upgrade_advances_version_and_consumes_allowlist,
     pr_test_upgrade_hash_cannot_be_replayed,
     pr_test_state_preserved_across_upgrade,
     pr_test_cannot_re_approve_old_version_after_upgrade,
     pr_test_register_proof_schema_version_boundaries,
     pr_test_register_proof_schema_version_zero_rejected,
     pr_test_register_proof_expiration_boundaries,
     pr_test_register_proof_expiration_at_current_time_rejected,
     pr_test_register_proof_expiration_in_past_rejected,
     pr_test_failed_register_proof_schema_zero_leaves_state_unchanged,
     pr_test_failed_register_proof_expired_leaves_state_unchanged,
     pr_test_contract_version_upgrade_boundaries,
     pr_test_initialization_writes_exactly_documented_state,
     pr_test_reinitialization_by_same_admin_fails_atomically,
     pr_test_reinitialization_with_different_dependencies_fails_atomically,
     pr_test_reinitialization_by_different_admin_fails,
     pr_test_reinitialization_guard_is_absolute,
     pr_test_initialization_state_stable_across_operations,
     pr_test_proof_registry_initialization_spec_summary,
     pr_test_cross_contract_initialization_correct_order_succeeds,
     pr_test_proof_registry_init_with_uninitialized_dependencies_defers_validation,
     pr_test_proof_registry_swapped_dependencies_fails_at_runtime,
     pr_test_proof_registry_initialized_before_dependencies_fails_at_operations,
     pr_test_proof_registry_operations_fail_without_dependency_configuration,
     pr_test_complete_system_initialization_happy_path]"

lemmas pr_test_defs =
  pr_test_registers_and_validates_proof_def
  pr_test_issuer_can_revoke_proof_def
  pr_test_rejects_expired_proof_def
  pr_test_rejects_duplicate_proof_id_def
  pr_test_rejects_unapproved_schema_version_def
  pr_test_rejects_registration_when_protocol_is_paused_def
  pr_test_rejects_inactive_issuer_address_def
  pr_test_extends_proof_storage_ttl_def
  pr_test_contract_version_initialized_to_one_def
  pr_test_approve_and_check_allowlist_def
  pr_test_revoke_removes_from_allowlist_def
  pr_test_approve_upgrade_rejects_downgrade_version_def
  pr_test_upgrade_contract_rejects_non_allowlisted_hash_def
  pr_test_upgrade_contract_requires_admin_auth_def
  pr_test_upgrade_advances_version_and_consumes_allowlist_def
  pr_test_upgrade_hash_cannot_be_replayed_def
  pr_test_state_preserved_across_upgrade_def
  pr_test_cannot_re_approve_old_version_after_upgrade_def
  pr_test_register_proof_schema_version_boundaries_def
  pr_test_register_proof_schema_version_zero_rejected_def
  pr_test_register_proof_expiration_boundaries_def
  pr_test_register_proof_expiration_at_current_time_rejected_def
  pr_test_register_proof_expiration_in_past_rejected_def
  pr_test_failed_register_proof_schema_zero_leaves_state_unchanged_def
  pr_test_failed_register_proof_expired_leaves_state_unchanged_def
  pr_test_contract_version_upgrade_boundaries_def
  pr_test_initialization_writes_exactly_documented_state_def
  pr_test_reinitialization_by_same_admin_fails_atomically_def
  pr_test_reinitialization_with_different_dependencies_fails_atomically_def
  pr_test_reinitialization_by_different_admin_fails_def
  pr_test_reinitialization_guard_is_absolute_def
  pr_test_initialization_state_stable_across_operations_def
  pr_test_proof_registry_initialization_spec_summary_def
  pr_test_cross_contract_initialization_correct_order_succeeds_def
  pr_test_proof_registry_init_with_uninitialized_dependencies_defers_validation_def
  pr_test_proof_registry_swapped_dependencies_fails_at_runtime_def
  pr_test_proof_registry_initialized_before_dependencies_fails_at_operations_def
  pr_test_proof_registry_operations_fail_without_dependency_configuration_def
  pr_test_complete_system_initialization_happy_path_def

section \<open>Every test passes\<close>

lemmas pr_test_eval = pr_world_def pr_test_setup_def pr_admin_client_def pr_client_def pr_try_def
  config_client_def registry_admin_client_def registry_client_def at_config_def at_registry_def clear_events_def
  test_deps_def u64_MAX_def test_addresses sys_eval no_contract_def elsewhere_def test_eval run pc_defs ir_defs pr_defs

context test_host
begin

lemma pr_suite_passes: "list_all (passes (pr_world e lu h)) pr_suite"
  unfolding pr_suite_def list.pred_inject
  by (intro conjI TrueI; simp add: pr_test_defs pr_test_eval host_facts)

end

end
