(* ===== verification/Fuzz_Targets.thy ===== *)
theory Fuzz_Targets
  imports Test_Runner
begin

text \<open>
  The fuzz targets (\<open>src/fuzz/fuzz_targets\<close>): the decoders of statuses, issuer records and proof
  records, the parameter parsing of \<open>register_proof\<close> and the mirror of the principal-address
  check. A target is a script on arbitrary bytes; indexing and slicing out of range and failed
  assertions panic, an early \<open>return\<close> is \<open>None\<close>.
\<close>

section \<open>Bytes\<close>

type_synonym 'a fuzz_m = "(unit, 'a) test_m"

definition byte_at :: "u8 list \<Rightarrow> nat \<Rightarrow> u8 fuzz_m" where
  "byte_at data i = expect_some ''index out of bounds'' (if i < length data then Some (data ! i) else None)"

definition slice :: "u8 list \<Rightarrow> nat \<Rightarrow> nat \<Rightarrow> u8 list fuzz_m" where
  "slice data i j = expect_some ''range end index out of range''
     (if i \<le> j \<and> j \<le> length data then Some (take (j - i) (drop i data)) else None)"

text \<open>\<open>BytesN::<32>::try_from(Bytes)\<close> and the length of a \<open>BytesN<32>\<close>.\<close>

definition bytesn_try_from :: "u8 list \<Rightarrow> bytes32 option" where
  "bytesn_try_from xs = (if length xs = 32 then Some (from_array xs) else None)"

definition bytesn_len :: "bytes32 \<Rightarrow> nat" where
  "bytesn_len h = size h div 8"

text \<open>\<open>u32::from_be_bytes\<close> and \<open>u64::from_be_bytes\<close> on the bytes at consecutive indices.\<close>

definition from_be_bytes :: "u8 list \<Rightarrow> 'w::len word" where
  "from_be_bytes xs = fold (\<lambda>b acc. 256 * acc + ucast b) xs 0"

primrec bytes_at :: "u8 list \<Rightarrow> nat list \<Rightarrow> u8 list fuzz_m" where
  "bytes_at data [] = ret []"
| "bytes_at data (i # is) = bind_m (byte_at data i) (\<lambda>b. bind_m (bytes_at data is) (\<lambda>bs. ret (b # bs)))"

section \<open>The targets\<close>

definition decode_issuer_status :: "u8 \<Rightarrow> issuer_status option" where
  "decode_issuer_status discriminant =
     (if discriminant = 0 then Some IssuerActive
      else if discriminant = 1 then Some IssuerSuspended
      else if discriminant = 2 then Some IssuerRevoked
      else None)"

definition fuzz_issuer_status_decode :: "u8 list \<Rightarrow> unit fuzz_m" where
  "fuzz_issuer_status_decode data =
     (if data = [] then ret ()
      else
        bind_m (byte_at data 0) (\<lambda>discriminant.
        case decode_issuer_status discriminant of
          Some s \<Rightarrow>
            let cloned = s in
            seq_m (assert_that (s = cloned))
            (case s of
               IssuerActive \<Rightarrow> assert_that (discriminant = 0)
             | IssuerSuspended \<Rightarrow> assert_that (discriminant = 1)
             | IssuerRevoked \<Rightarrow> assert_that (discriminant = 2))
        | None \<Rightarrow> ret ()))"

definition decode_proof_status :: "u8 \<Rightarrow> proof_status option" where
  "decode_proof_status discriminant =
     (if discriminant = 0 then Some ProofActive
      else if discriminant = 1 then Some ProofRevoked
      else None)"

definition fuzz_proof_status_decode :: "u8 list \<Rightarrow> unit fuzz_m" where
  "fuzz_proof_status_decode data =
     (if data = [] then ret ()
      else
        bind_m (byte_at data 0) (\<lambda>discriminant.
        case decode_proof_status discriminant of
          Some s \<Rightarrow>
            let cloned = s in
            seq_m (assert_that (s = cloned))
            (case s of
               ProofActive \<Rightarrow> assert_that (discriminant = 0)
             | ProofRevoked \<Rightarrow> assert_that (discriminant = 1))
        | None \<Rightarrow> ret ()))"

text \<open>The record targets return the record they construct.\<close>

definition fuzz_issuer_record_decode :: "u8 list \<Rightarrow> issuer_record option fuzz_m" where
  "fuzz_issuer_record_decode data =
     (if 8192 < length data then ret None
      else if length data < 116 then ret None
      else
        bind_m (slice data 0 32) (\<lambda>bs0. case bytesn_try_from bs0 of None \<Rightarrow> ret None | Some issuer_id_hash \<Rightarrow>
        bind_m (slice data 32 64) (\<lambda>bs1. case bytesn_try_from bs1 of None \<Rightarrow> ret None | Some metadata_hash \<Rightarrow>
        let issuer_address = ISSUER_ONE in
        bind_m (if 64 < length data then bind_m (byte_at data 64) (\<lambda>b. ret (b mod 3)) else ret 0)
          (\<lambda>status_discriminant.
        let status = (if status_discriminant = 0 then IssuerActive
                      else if status_discriminant = 1 then IssuerSuspended
                      else IssuerRevoked) in
        bind_m (if 72 < length data
                then bind_m (bytes_at data [65, 66, 67, 68, 69, 70, 71, 72]) (\<lambda>bs. ret (from_be_bytes bs))
                else ret 1000) (\<lambda>created_at.
        bind_m (if 80 < length data
                then bind_m (bytes_at data [73, 74, 75, 76, 77, 78, 79, 80]) (\<lambda>bs. ret (from_be_bytes bs))
                else ret 1000) (\<lambda>updated_at.
        let issuer = \<lparr>ir_issuer_id_hash = issuer_id_hash, ir_issuer_address = issuer_address,
              ir_metadata_hash = metadata_hash, ir_status = status,
              ir_created_at = created_at, ir_updated_at = updated_at\<rparr> in
        seq_m (assert_that (bytesn_len (ir_issuer_id_hash issuer) = 32)) (
        seq_m (assert_that (bytesn_len (ir_metadata_hash issuer) = 32))
        (ret (Some issuer)))))))))"

definition fuzz_proof_record_decode :: "u8 list \<Rightarrow> proof_record option fuzz_m" where
  "fuzz_proof_record_decode data =
     (if 8192 < length data then ret None
      else if length data < 124 then ret None
      else
        bind_m (slice data 0 32) (\<lambda>bs0. case bytesn_try_from bs0 of None \<Rightarrow> ret None | Some proof_id_hash \<Rightarrow>
        bind_m (slice data 32 64) (\<lambda>bs1. case bytesn_try_from bs1 of None \<Rightarrow> ret None | Some commitment_hash \<Rightarrow>
        let dummy_address = ISSUER_ONE in
        bind_m (if 64 < length data then bind_m (byte_at data 64) (\<lambda>b. ret (b mod 2)) else ret 0)
          (\<lambda>status_discriminant.
        let status = (if status_discriminant = 0 then ProofActive else ProofRevoked) in
        bind_m (if 68 < length data
                then bind_m (bytes_at data [65, 66, 67, 68]) (\<lambda>bs. ret (from_be_bytes bs))
                else ret 1) (\<lambda>schema_version.
        bind_m (if 76 < length data
                then bind_m (bytes_at data [69, 70, 71, 72, 73, 74, 75, 76]) (\<lambda>bs. ret (from_be_bytes bs))
                else ret 1000000) (\<lambda>expires_at.
        bind_m (if 84 < length data
                then bind_m (bytes_at data [77, 78, 79, 80, 81, 82, 83, 84]) (\<lambda>bs. ret (from_be_bytes bs))
                else ret 1000) (\<lambda>created_at.
        bind_m (if 92 < length data
                then bind_m (bytes_at data [85, 86, 87, 88, 89, 90, 91, 92]) (\<lambda>bs. ret (from_be_bytes bs))
                else ret 0) (\<lambda>revoked_at.
        let proof = \<lparr>pr_proof_id_hash = proof_id_hash, pr_commitment_hash = commitment_hash,
              pr_issuer_address = dummy_address, pr_status = status, pr_schema_version = schema_version,
              pr_expires_at = expires_at, pr_created_at = created_at, pr_revoked_at = revoked_at\<rparr> in
        seq_m (assert_that (bytesn_len (pr_proof_id_hash proof) = 32)) (
        seq_m (assert_that (bytesn_len (pr_commitment_hash proof) = 32))
        (ret (Some proof)))))))))))"

record register_params =
  rp_proof_id_hash :: bytes32
  rp_commitment_hash :: bytes32
  rp_issuer_address :: address
  rp_schema_version :: u32
  rp_expires_at :: u64

text \<open>
  The target ends with two conditionals on \<open>schema_version\<close> and \<open>expires_at\<close> whose bodies are
  comments; they have no effect, and the definition returns the parsed parameters instead.
\<close>

definition fuzz_entry_point_register_proof :: "u8 list \<Rightarrow> register_params option fuzz_m" where
  "fuzz_entry_point_register_proof data =
     (if 4096 < length data then ret None
      else if length data < 100 then ret None
      else
        let timestamp = 1000000 in
        bind_m (slice data 0 32) (\<lambda>bs0. case bytesn_try_from bs0 of None \<Rightarrow> ret None | Some proof_id_hash \<Rightarrow>
        bind_m (slice data 32 64) (\<lambda>bs1. case bytesn_try_from bs1 of None \<Rightarrow> ret None | Some commitment_hash \<Rightarrow>
        let issuer_address = ISSUER_ONE in
        bind_m (if 67 < length data
                then bind_m (bytes_at data [64, 65, 66, 67]) (\<lambda>bs. ret (from_be_bytes bs))
                else ret 1) (\<lambda>schema_version.
        bind_m (if 75 < length data
                then bind_m (bytes_at data [68, 69, 70, 71, 72, 73, 74, 75]) (\<lambda>bs. ret (from_be_bytes bs))
                else ret (timestamp + 1000)) (\<lambda>expires_at.
        ret (Some \<lparr>rp_proof_id_hash = proof_id_hash, rp_commitment_hash = commitment_hash,
          rp_issuer_address = issuer_address, rp_schema_version = schema_version,
          rp_expires_at = expires_at\<rparr>))))))"

section \<open>Strings from arbitrary bytes\<close>

text \<open>
  \<open>String::from_utf8_lossy\<close>: the first character of a byte string as a code point with the number
  of bytes it takes; a byte sequence that starts no character yields U+FFFD for its longest prefix
  that could still have started one.
\<close>

definition REPLACEMENT :: nat where
  "REPLACEMENT = 0xFFFD"

definition byte_or_0 :: "u8 list \<Rightarrow> nat \<Rightarrow> nat" where
  "byte_or_0 bs i = (if i < length bs then unat (bs ! i) else 0)"

definition continuation :: "nat \<Rightarrow> bool" where
  "continuation b \<longleftrightarrow> 0x80 \<le> b \<and> b \<le> 0xBF"

definition second_of_3 :: "nat \<Rightarrow> nat \<Rightarrow> bool" where
  "second_of_3 b0 b1 \<longleftrightarrow> (b0 = 0xE0 \<and> 0xA0 \<le> b1 \<and> b1 \<le> 0xBF) \<or>
     (0xE1 \<le> b0 \<and> b0 \<le> 0xEC \<and> continuation b1) \<or> (b0 = 0xED \<and> 0x80 \<le> b1 \<and> b1 \<le> 0x9F) \<or>
     (0xEE \<le> b0 \<and> b0 \<le> 0xEF \<and> continuation b1)"

definition second_of_4 :: "nat \<Rightarrow> nat \<Rightarrow> bool" where
  "second_of_4 b0 b1 \<longleftrightarrow> (b0 = 0xF0 \<and> 0x90 \<le> b1 \<and> b1 \<le> 0xBF) \<or>
     (0xF1 \<le> b0 \<and> b0 \<le> 0xF3 \<and> continuation b1) \<or> (b0 = 0xF4 \<and> 0x80 \<le> b1 \<and> b1 \<le> 0x8F)"

definition char_2 :: "nat \<Rightarrow> nat \<Rightarrow> nat" where
  "char_2 b0 b1 = (b0 - 0xC0) * 64 + (b1 - 0x80)"

definition char_3 :: "nat \<Rightarrow> nat \<Rightarrow> nat \<Rightarrow> nat" where
  "char_3 b0 b1 b2 = (b0 - 0xE0) * 4096 + (b1 - 0x80) * 64 + (b2 - 0x80)"

definition char_4 :: "nat \<Rightarrow> nat \<Rightarrow> nat \<Rightarrow> nat \<Rightarrow> nat" where
  "char_4 b0 b1 b2 b3 = (b0 - 0xF0) * 262144 + (b1 - 0x80) * 4096 + (b2 - 0x80) * 64 + (b3 - 0x80)"

definition next_char :: "u8 list \<Rightarrow> nat \<times> nat" where
  "next_char bs =
     (let b0 = byte_or_0 bs 0; b1 = byte_or_0 bs 1; b2 = byte_or_0 bs 2; b3 = byte_or_0 bs 3 in
      if b0 < 0x80 then (b0, 1)
      else if 0xC2 \<le> b0 \<and> b0 \<le> 0xDF then
        if continuation b1 then (char_2 b0 b1, 2) else (REPLACEMENT, 1)
      else if 0xE0 \<le> b0 \<and> b0 \<le> 0xEF then
        if \<not> second_of_3 b0 b1 then (REPLACEMENT, 1)
        else if \<not> continuation b2 then (REPLACEMENT, 2)
        else (char_3 b0 b1 b2, 3)
      else if 0xF0 \<le> b0 \<and> b0 \<le> 0xF4 then
        if \<not> second_of_4 b0 b1 then (REPLACEMENT, 1)
        else if \<not> continuation b2 then (REPLACEMENT, 2)
        else if \<not> continuation b3 then (REPLACEMENT, 3)
        else (char_4 b0 b1 b2 b3, 4)
      else (REPLACEMENT, 1))"

lemma next_char_positive: "0 < snd (next_char bs)"
  by (simp add: next_char_def Let_def)

function utf8_lossy :: "u8 list \<Rightarrow> nat list" where
  "utf8_lossy [] = []"
| "utf8_lossy (b # bs) = (case next_char (b # bs) of (c, n) \<Rightarrow> c # utf8_lossy (drop n (b # bs)))"
  by pat_completeness auto
termination
proof (relation "measure length")
  fix b bs c n
  assume "(c, n) = next_char (b # bs)"
  then have "0 < n"
    using next_char_positive [of "b # bs"] by (metis snd_conv)
  then show "(drop n (b # bs), b # bs) \<in> measure length"
    by (cases n) (simp_all add: less_Suc_eq_le)
qed simp

text \<open>\<open>str::len\<close>: the length of the UTF-8 encoding.\<close>

definition utf8_len :: "nat list \<Rightarrow> nat" where
  "utf8_len s = sum_list (map (\<lambda>c. if c < 0x80 then 1 else if c < 0x800 then 2 else if c < 0x10000 then 3 else 4) s)"

definition base32_char :: "nat \<Rightarrow> bool" where
  "base32_char c \<longleftrightarrow> (65 \<le> c \<and> c \<le> 90) \<or> (50 \<le> c \<and> c \<le> 55)"

definition mirror_valid_principal :: "u8 list \<Rightarrow> bool" where
  "mirror_valid_principal data =
     (let lossy_str = utf8_lossy data in
      utf8_len lossy_str = 56 \<and> lossy_str \<noteq> [] \<and> \<not> list_all (\<lambda>c. c = 65) lossy_str \<and>
      list_all base32_char lossy_str)"

text \<open>\<open>std::panic::catch_unwind\<close>, and an \<open>if\<close> without \<open>else\<close>.\<close>

definition catch_unwind :: "'a fuzz_m \<Rightarrow> 'a option fuzz_m" where
  "catch_unwind m = (\<lambda>w. case m w of (Inl a, w') \<Rightarrow> (Inr None, w') | (Inr x, w') \<Rightarrow> (Inr (Some x), w'))"

definition if_then :: "bool \<Rightarrow> unit fuzz_m \<Rightarrow> unit fuzz_m" where
  "if_then b m = (if b then m else ret ())"

text \<open>
  The target discards the two booleans it computes; the definition returns them. Its last five
  patterns are conditionals on constant strings with empty bodies.
\<close>

definition fuzz_address_validation :: "env \<Rightarrow> u8 list \<Rightarrow> (bool \<times> bool) option fuzz_m" where
  "fuzz_address_validation e data =
     (if 256 < length data then ret None
      else
        bind_m (catch_unwind (ret (mirror_valid_principal data))) (\<lambda>caught.
        let is_valid_principal = (case caught of Some addr_str \<Rightarrow> addr_str | None \<Rightarrow> False);
            addr_all_a = ISSUER_ONE;
            sentinel = is_zero_or_sentinel_address e addr_all_a;
            empty = ([] :: string);
            too_short = ''ABCDEFGHIJKLMNOPQRSTUVWXYZ234567'';
            too_long = replicate 100 CHR ''A'';
            has_invalid = ''GAAAAAAAAAAAAAAAAAAAAAAAAAAAAAAAAAAAAAAAAAAAAAAAAAAAAAAAAA001'';
            zero_sentinel = ''G'' @ replicate 55 CHR ''A'' in
        seq_m (if_then (length empty = 0) (ret ())) (
        seq_m (if_then (length too_short \<noteq> 56) (ret ())) (
        seq_m (if_then (length too_long \<noteq> 56) (ret ())) (
        seq_m (if_then (list_ex (\<lambda>c. \<not> base32_char (of_char c)) has_invalid) (ret ())) (
        seq_m (if_then (length zero_sentinel = 56 \<and> list_all (\<lambda>c. c = CHR ''A'' \<or> c = CHR ''G'') zero_sentinel) (ret ()))
        (ret (Some (is_valid_principal, sentinel)))))))))"

section \<open>What the targets compute\<close>

lemma byte_at_run [run]: "i < length data \<Longrightarrow> bind_m (byte_at data i) k w = k (data ! i) w"
  by (simp add: byte_at_def run)

lemma slice_run [run]:
  "i \<le> j \<Longrightarrow> j \<le> length data \<Longrightarrow> bind_m (slice data i j) k w = k (take (j - i) (drop i data)) w"
  by (simp add: slice_def run)

lemma bytes_at_run [run]:
  "list_all (\<lambda>i. i < length data) is \<Longrightarrow> bind_m (bytes_at data is) k w = k (map ((!) data) is) w"
  by (induction "is" arbitrary: k) (simp_all add: run)

lemma bytesn_len_32 [simp]: "bytesn_len h = 32"
  by (simp add: bytesn_len_def word_size)

text \<open>Bytes read one by one are a field of the data.\<close>

lemma field: "n + m \<le> length data \<Longrightarrow> take m (drop n data) = map ((!) data) [n..<n + m]"
  by (rule nth_equalityI) simp_all

lemma fields:
  "n + 4 \<le> length data \<Longrightarrow> take 4 (drop n data) = [data ! n, data ! (n + 1), data ! (n + 2), data ! (n + 3)]"
  "n + 8 \<le> length data \<Longrightarrow> take 8 (drop n data) = [data ! n, data ! (n + 1), data ! (n + 2), data ! (n + 3),
     data ! (n + 4), data ! (n + 5), data ! (n + 6), data ! (n + 7)]"
  by (simp_all add: field upt_rec numeral_eq_Suc)

lemma fuzz_issuer_record_value:
  "fuzz_issuer_record_decode data w = (Inr (if 116 \<le> length data \<and> length data \<le> 8192
     then Some \<lparr>ir_issuer_id_hash = from_array (take 32 data), ir_issuer_address = ISSUER_ONE,
       ir_metadata_hash = from_array (take 32 (drop 32 data)),
       ir_status = (if data ! 64 mod 3 = 0 then IssuerActive
         else if data ! 64 mod 3 = 1 then IssuerSuspended else IssuerRevoked),
       ir_created_at = from_be_bytes (take 8 (drop 65 data)),
       ir_updated_at = from_be_bytes (take 8 (drop 73 data))\<rparr>
     else None), w)"
  by (simp add: fuzz_issuer_record_decode_def bytesn_try_from_def run Let_def fields)

lemma fuzz_proof_record_value:
  "fuzz_proof_record_decode data w = (Inr (if 124 \<le> length data \<and> length data \<le> 8192
     then Some \<lparr>pr_proof_id_hash = from_array (take 32 data),
       pr_commitment_hash = from_array (take 32 (drop 32 data)), pr_issuer_address = ISSUER_ONE,
       pr_status = (if data ! 64 mod 2 = 0 then ProofActive else ProofRevoked),
       pr_schema_version = from_be_bytes (take 4 (drop 65 data)),
       pr_expires_at = from_be_bytes (take 8 (drop 69 data)),
       pr_created_at = from_be_bytes (take 8 (drop 77 data)),
       pr_revoked_at = from_be_bytes (take 8 (drop 85 data))\<rparr>
     else None), w)"
  by (simp add: fuzz_proof_record_decode_def bytesn_try_from_def run Let_def fields)

lemma fuzz_register_value:
  "fuzz_entry_point_register_proof data w = (Inr (if 100 \<le> length data \<and> length data \<le> 4096
     then Some \<lparr>rp_proof_id_hash = from_array (take 32 data),
       rp_commitment_hash = from_array (take 32 (drop 32 data)), rp_issuer_address = ISSUER_ONE,
       rp_schema_version = from_be_bytes (take 4 (drop 64 data)),
       rp_expires_at = from_be_bytes (take 8 (drop 68 data))\<rparr>
     else None), w)"
  by (simp add: fuzz_entry_point_register_proof_def bytesn_try_from_def run Let_def fields)

lemma if_then_skip [run]: "bind_m (if_then b (ret ())) k w = k () w"
  by (simp add: if_then_def run)

lemma catch_ret [run]: "bind_m (catch_unwind (ret x)) k w = k (Some x) w"
  by (simp add: catch_unwind_def bind_m_def run)

lemma fuzz_address_value:
  "fuzz_address_validation e data w = (Inr (if length data \<le> 256
     then Some (mirror_valid_principal data, is_zero_or_sentinel_address e ISSUER_ONE) else None), w)"
proof (cases "256 < length data")
  case True
  then show ?thesis by (simp add: fuzz_address_validation_def run)
next
  case False
  have "fuzz_address_validation e data w =
      (Inr (Some (mirror_valid_principal data, is_zero_or_sentinel_address e ISSUER_ONE)), w)"
    unfolding fuzz_address_validation_def Let_def
    by (simp only: False if_False run option.case)
  with False show ?thesis by simp
qed

section \<open>Byte layouts\<close>

text \<open>The big-endian bytes of a number, and the layouts the decoders read.\<close>

definition to_be :: "nat \<Rightarrow> nat \<Rightarrow> u8 list" where
  "to_be n x = map (\<lambda>i. of_nat (x div 256 ^ i)) (rev [0..<n])"

definition to_be_bytes :: "'w::len word \<Rightarrow> u8 list" where
  "to_be_bytes w = to_be (size w div 8) (unat w)"

fun issuer_status_byte :: "issuer_status \<Rightarrow> u8" where
  "issuer_status_byte IssuerActive = 0"
| "issuer_status_byte IssuerSuspended = 1"
| "issuer_status_byte IssuerRevoked = 2"

fun proof_status_byte :: "proof_status \<Rightarrow> u8" where
  "proof_status_byte ProofActive = 0"
| "proof_status_byte ProofRevoked = 1"

definition encode_issuer_record :: "issuer_record \<Rightarrow> u8 list" where
  "encode_issuer_record r = to_be_bytes (ir_issuer_id_hash r) @ to_be_bytes (ir_metadata_hash r) @
     [issuer_status_byte (ir_status r)] @ to_be_bytes (ir_created_at r) @ to_be_bytes (ir_updated_at r)"

definition encode_proof_record :: "proof_record \<Rightarrow> u8 list" where
  "encode_proof_record r = to_be_bytes (pr_proof_id_hash r) @ to_be_bytes (pr_commitment_hash r) @
     [proof_status_byte (pr_status r)] @ to_be_bytes (pr_schema_version r) @ to_be_bytes (pr_expires_at r) @
     to_be_bytes (pr_created_at r) @ to_be_bytes (pr_revoked_at r)"

definition encode_register_params :: "register_params \<Rightarrow> u8 list" where
  "encode_register_params p = to_be_bytes (rp_proof_id_hash p) @ to_be_bytes (rp_commitment_hash p) @
     to_be_bytes (rp_schema_version p) @ to_be_bytes (rp_expires_at p)"

lemma length_to_be [simp]: "length (to_be n x) = n"
  by (simp add: to_be_def)

lemma from_be_bytes_shift:
  "fold (\<lambda>b acc. 256 * acc + ucast b) xs a = 256 ^ length xs * a + from_be_bytes xs" for a :: "'w::len word"
proof (induction xs arbitrary: a)
  case (Cons x xs)
  have "from_be_bytes (x # xs) = 256 ^ length xs * ucast x + (from_be_bytes xs :: 'w word)"
    using Cons [of "ucast x"] by (simp add: from_be_bytes_def)
  then show ?case
    using Cons [of "256 * a + ucast x"] by (simp add: algebra_simps)
qed (simp add: from_be_bytes_def)

lemma from_be_bytes_Cons: "from_be_bytes (x # xs) = 256 ^ length xs * ucast x + (from_be_bytes xs :: 'w::len word)"
  using from_be_bytes_shift [of xs "ucast x"] by (simp add: from_be_bytes_def)

lemma from_be_to_be: "from_be_bytes (to_be n x) = (of_nat (x mod 256 ^ n) :: 'w::len word)"
proof (induction n)
  case (Suc n)
  have "ucast (of_nat (x div 256 ^ n) :: u8) = (of_nat (x div 256 ^ n mod 256) :: 'w word)"
    by (simp add: unsigned_of_nat take_bit_eq_mod)
  moreover have "x mod 256 ^ Suc n = 256 ^ n * (x div 256 ^ n mod 256) + x mod 256 ^ n"
    using mod_mult2_eq [of x "256 ^ n" 256] by (simp add: mult.commute)
  moreover have "to_be (Suc n) x = of_nat (x div 256 ^ n) # to_be n x"
    by (simp add: to_be_def)
  ultimately show ?case
    using Suc by (simp add: from_be_bytes_Cons)
qed (simp add: from_be_bytes_def to_be_def)

text \<open>A word whose width is a whole number of bytes is recovered from its bytes.\<close>

lemma from_be_to_be_bytes:
  assumes "LENGTH('w) = 8 * n"
  shows "from_be_bytes (to_be n (unat w)) = (w :: 'w::len word)"
proof -
  have "unat w < 2 ^ LENGTH('w)"
    by (rule unsigned_less)
  then have "unat w < 256 ^ n"
    using assms by (simp add: power_mult)
  then show ?thesis
    by (simp add: from_be_to_be)
qed

lemma to_be_bytes_rt:
  "from_array (to_be_bytes h) = h" "from_be_bytes (to_be_bytes v) = v" "from_be_bytes (to_be_bytes t) = t"
  for h :: bytes32 and v :: u32 and t :: u64
proof -
  have "from_array xs = from_be_bytes xs" for xs
    by (simp add: from_array_def from_be_bytes_def)
  then show "from_array (to_be_bytes h) = h" "from_be_bytes (to_be_bytes v) = v"
      "from_be_bytes (to_be_bytes t) = t"
    by (simp_all add: to_be_bytes_def word_size from_be_to_be_bytes)
qed

lemma length_to_be_bytes [simp]:
  "length (to_be_bytes h) = 32" "length (to_be_bytes v) = 4" "length (to_be_bytes t) = 8"
  for h :: bytes32 and v :: u32 and t :: u64
  by (simp_all add: to_be_bytes_def word_size)

lemma issuer_layout_decodes:
  "fuzz_issuer_record_decode (encode_issuer_record r @ pad) w =
    (Inr (if 35 \<le> length pad \<and> length pad \<le> 8111 then Some (r\<lparr>ir_issuer_address := ISSUER_ONE\<rparr>) else None), w)"
  by (cases "ir_status r") (auto simp: fuzz_issuer_record_value encode_issuer_record_def nth_append to_be_bytes_rt)

lemma proof_layout_decodes:
  "fuzz_proof_record_decode (encode_proof_record r @ pad) w =
    (Inr (if 31 \<le> length pad \<and> length pad \<le> 8099 then Some (r\<lparr>pr_issuer_address := ISSUER_ONE\<rparr>) else None), w)"
  by (cases "pr_status r") (auto simp: fuzz_proof_record_value encode_proof_record_def nth_append to_be_bytes_rt)

lemma register_layout_decodes:
  "fuzz_entry_point_register_proof (encode_register_params p @ pad) w =
    (Inr (if 24 \<le> length pad \<and> length pad \<le> 4020 then Some (p\<lparr>rp_issuer_address := ISSUER_ONE\<rparr>) else None), w)"
  by (auto simp: fuzz_register_value encode_register_params_def nth_append to_be_bytes_rt)

section \<open>The mirror of the address check\<close>

lemma long_char_values:
  "0xC2 \<le> b0 \<Longrightarrow> 128 \<le> char_2 b0 b1"
  "second_of_3 b0 b1 \<Longrightarrow> 128 \<le> char_3 b0 b1 b2"
  "second_of_4 b0 b1 \<Longrightarrow> 128 \<le> char_4 b0 b1 b2 b3"
  unfolding char_2_def char_3_def char_4_def second_of_3_def second_of_4_def by linarith+

lemma next_char_lead: "128 \<le> unat b \<Longrightarrow> 128 \<le> fst (next_char (b # bs))"
  by (simp add: next_char_def byte_or_0_def REPLACEMENT_def Let_def long_char_values)

lemma next_char_of_ascii: "unat b < 128 \<Longrightarrow> next_char (b # bs) = (unat b, 1)"
  by (simp add: next_char_def byte_or_0_def Let_def)

lemma next_char_ascii: "fst (next_char (b # bs)) < 128 \<Longrightarrow> next_char (b # bs) = (unat b, 1)"
  using next_char_lead [of b bs] next_char_of_ascii [of b bs] by (cases "unat b < 128") simp_all

lemma utf8_lossy_of_ascii: "list_all (\<lambda>b. unat b < 128) bs \<Longrightarrow> utf8_lossy bs = map unat bs"
  by (induction bs) (simp_all add: next_char_of_ascii)

lemma utf8_lossy_ascii: "list_all (\<lambda>c. c < 128) (utf8_lossy bs) \<Longrightarrow> utf8_lossy bs = map unat bs"
proof (induction bs rule: utf8_lossy.induct)
  case (2 b bs)
  obtain c n where c: "next_char (b # bs) = (c, n)" by fastforce
  with 2 next_char_ascii [of b bs] have "c = unat b" "n = 1" by simp_all
  with 2 c show ?case by simp
qed simp

lemma mirror_valid_principal_iff:
  "mirror_valid_principal data \<longleftrightarrow>
     length data = 56 \<and> list_all base32_byte data \<and> data \<noteq> replicate 56 65"
proof -
  have b32: "base32_char (unat b) = base32_byte b" for b :: u8
    by (simp add: base32_char_def base32_byte_def word_le_nat_alt)
  have len: "utf8_len (map unat (bs :: u8 list)) = length bs" if "list_all base32_byte bs" for bs
    using that by (induction bs) (auto simp: utf8_len_def base32_byte_def word_le_nat_alt)
  have ascii: "list_all (\<lambda>b. unat b < 128) (bs :: u8 list)" if "list_all base32_byte bs" for bs
    using that by (induction bs) (auto simp: base32_byte_def word_le_nat_alt)
  have all_a: "list_all (\<lambda>c. c = 65) (map unat bs) \<longleftrightarrow> bs = replicate (length bs) 65" for bs :: "u8 list"
    by (induction bs) (auto simp: word_unat_eq_iff)
  show ?thesis
  proof
    assume m: "mirror_valid_principal data"
    then have "list_all (\<lambda>c. c < 128) (utf8_lossy data)"
      by (auto simp: mirror_valid_principal_def Let_def base32_char_def list_all_iff)
    from utf8_lossy_ascii [OF this] m show "length data = 56 \<and> list_all base32_byte data \<and> data \<noteq> replicate 56 65"
      using len [of data] all_a [of data] by (auto simp: mirror_valid_principal_def Let_def list.pred_map comp_def b32)
  next
    assume "length data = 56 \<and> list_all base32_byte data \<and> data \<noteq> replicate 56 65"
    then show "mirror_valid_principal data"
      using utf8_lossy_of_ascii [OF ascii] len [of data] all_a [of data]
      by (auto simp: mirror_valid_principal_def Let_def list.pred_map comp_def b32)
  qed
qed

section \<open>Properties\<close>

lemma decode_status_iff:
  "decode_issuer_status d = Some s \<longleftrightarrow> d = issuer_status_byte s"
  "decode_proof_status d = Some p \<longleftrightarrow> d = proof_status_byte p"
  by (cases s; auto simp: decode_issuer_status_def) (cases p; auto simp: decode_proof_status_def)

lemma status_targets_return:
  "fuzz_issuer_status_decode data w = (Inr (), w)" "fuzz_proof_status_decode data w = (Inr (), w)"
  by (auto simp: fuzz_issuer_status_decode_def fuzz_proof_status_decode_def run Let_def decode_status_iff
      split: option.split issuer_status.split proof_status.split)

text \<open>
  C35: no fuzz target can panic: on every byte string each of the six returns, whatever the length,
  so no index or slice is out of range and no assertion fails; the status decoders accept
  exactly the discriminants of the declared variants, and each decodes to its own variant.
\<close>

theorem fuzz_targets_never_panic:
  "\<not> isl (fst (fuzz_issuer_status_decode data w)) \<and> \<not> isl (fst (fuzz_proof_status_decode data w)) \<and>
   \<not> isl (fst (fuzz_issuer_record_decode data w)) \<and> \<not> isl (fst (fuzz_proof_record_decode data w)) \<and>
   \<not> isl (fst (fuzz_entry_point_register_proof data w)) \<and> \<not> isl (fst (fuzz_address_validation e data w)) \<and>
   (\<forall>d s. decode_issuer_status d = Some s \<longleftrightarrow> d = issuer_status_byte s) \<and>
   (\<forall>d s. decode_proof_status d = Some s \<longleftrightarrow> d = proof_status_byte s)"
  by (simp add: status_targets_return fuzz_issuer_record_value fuzz_proof_record_value fuzz_register_value
      fuzz_address_value decode_status_iff)

text \<open>
  C36: the record and parameter decoders read their layouts back, exactly when the padding fits. An
  issuer record (81 bytes), a proof record (93 bytes) or the parameters of \<open>register_proof\<close> (76
  bytes), written big-endian field by field and followed by any padding, decode to themselves, with
  the address replaced by the fixed one the targets use, if the padding has 35 to 8111, 31 to
  8099, or 24 to 4020 bytes; with less padding, in particular with none, or with more, the targets
  return without decoding.
\<close>

theorem fuzz_layouts_roundtrip:
  "fst (fuzz_issuer_record_decode (encode_issuer_record r @ pad) w) =
      Inr (if 35 \<le> length pad \<and> length pad \<le> 8111 then Some (r\<lparr>ir_issuer_address := ISSUER_ONE\<rparr>) else None) \<and>
    fst (fuzz_proof_record_decode (encode_proof_record p @ pad) w) =
      Inr (if 31 \<le> length pad \<and> length pad \<le> 8099 then Some (p\<lparr>pr_issuer_address := ISSUER_ONE\<rparr>) else None) \<and>
    fst (fuzz_entry_point_register_proof (encode_register_params q @ pad) w) =
      Inr (if 24 \<le> length pad \<and> length pad \<le> 4020 then Some (q\<lparr>rp_issuer_address := ISSUER_ONE\<rparr>) else None)"
  by (simp add: issuer_layout_decodes proof_layout_decodes register_layout_decodes)

text \<open>
  C37: the string check by which the address target mirrors \<open>is_valid_principal_address\<close> agrees with
  it on the printed form of every address but two strings: the mirror accepts the zero-payload
  account key that the real check rejects, and rejects 56 letters A that the real check would
  accept. It is exact on arbitrary bytes, those that are not UTF-8 included: it holds for exactly
  the 56-byte strings of base-32 letters other than 56 letters A.
\<close>

theorem address_mirror_exact:
  "((mirror_valid_principal (addr_string e a) = is_valid_principal_address e a) \<longleftrightarrow>
     addr_string e a \<notin> {ZERO_PAYLOAD_STRKEY, replicate 56 65}) \<and>
   (mirror_valid_principal data \<longleftrightarrow>
     length data = 56 \<and> list_all base32_byte data \<and> data \<noteq> replicate 56 65)"
proof -
  have "hd ZERO_PAYLOAD_STRKEY \<noteq> hd (replicate 56 65)"
    by (simp add: ZERO_PAYLOAD_STRKEY_def ascii_def of_char_Char)
  then have z: "ZERO_PAYLOAD_STRKEY \<noteq> replicate 56 65"
    by metis
  have "length ZERO_PAYLOAD_STRKEY = 56"
    using length_zero_strkey by (simp add: STRKEY_ADDRESS_LEN_def)
  moreover have "list_all base32_byte (replicate 56 65)"
    by (simp add: list_all_iff base32_byte_def)
  ultimately show ?thesis
    using z zero_strkey_base32 by (auto simp: mirror_valid_principal_iff valid_principal_iff)
qed

end
