(* ===== verification/Spec2Isabelle.thy ===== *)
theory Spec2Isabelle
  imports Error_Catalog Protocol_Config Issuer_Registry Proof_Registry Storage_Namespaces System
    Recovery Builds Init_Specs Retries Config_Tests Issuer_Tests Proof_Tests Fuzz_Targets
begin

text \<open>
  \<^bold>\<open>EarnProof contracts: a verification library.\<close>

  The repository holds three Soroban smart contracts and the crate they share. protocol-config keeps
  the administrator, the pause switch and the approved schema versions; issuer-registry keeps the
  issuer records and an index from signing addresses to issuers; proof-registry stores proofs and
  asks the two others, by cross-contract calls, before it accepts one. All three carry the
  same upgrade governance: an allowlist of code hashes with the version each installs.

  \<^bold>\<open>Which theory models which part.\<close>

  \<^item> \<open>Prelude\<close>: machine types, checked addition, and the monad of entry points, a state
    transformer that returns an abort or a value. An abort is an error value, a panic with its
    message, a failed authorization, a decoding error or a host trap, so every \<open>?\<close>, \<open>expect\<close>,
    \<open>panic!\<close> and early return of the source is a branch of the model.
  \<^item> \<open>Host\<close>: the Soroban host as the contracts use it. The record \<open>env\<close> carries what the host decides
    (who authorized the call, the clock, printed addresses, how lifetimes are extended, which code is
    uploaded) and, in \<open>cfg_test\<close>, whether the contracts are the test build, which leaves out the
    statement under \<open>#[cfg(not(test))]\<close> in each \<open>upgrade_contract\<close>; \<open>contract_state\<close> is one contract's instance and persistent storage with lifetimes,
    its events and its code; \<open>invoke\<close> is commit or rollback.
  \<^item> \<open>Shared_Types\<close> (\<open>packages/shared/src/lib.rs\<close>): lifetime constants, the validation of principal
    addresses, the error enums with their codes, issuer and proof records.
  \<^item> \<open>Error_Catalog\<close> (\<open>packages/shared/src/error_catalog.rs\<close>) and \<open>Storage_Namespaces\<close>
    (\<open>packages/shared/src/storage_namespaces.rs\<close>): the published tables, entry by entry, with their
    lookups.
  \<^item> \<open>Contract_Machine\<close>: the interfaces. \<open>contract_machine\<close> is a contract with an invariant,
    \<open>contract_refinement\<close> one that implements an abstract step function, \<open>event_journal\<close> one whose events
    determine its state, \<open>upgrade_governance\<close> the allowlist discipline. What follows for every
    history of invocations is proved once, inside.
  \<^item> \<open>Protocol_Config\<close>, \<open>Issuer_Registry\<close>, \<open>Proof_Registry\<close> (\<open>contracts/*/src/lib.rs\<close>): storage keys and
    events as datatypes, one definition per entry point and private helper in the order of the
    source, \<open>pc_call\<close>, \<open>ir_call\<close> and \<open>pr_call\<close> as the exported interface, well-formed storage, an
    abstract specification (\<open>cf_step\<close>, \<open>rg_step\<close>, \<open>ps_act\<close>) and the interpretations of the interfaces.
    The contracts that proof-registry calls are the parameter \<open>dependencies\<close>, with the locale
    \<open>proof_dependencies\<close> stating what it relies on.
  \<^item> \<open>System\<close>: the three contracts on one ledger, the calls of proof-registry resolved by address to
    the real entry points, histories that interleave calls to all three.
  \<^item> \<open>Recovery\<close>: from which states the system can be brought back to work, and how.
  \<^item> \<open>Builds\<close>: the test build and the deployed build of the three contracts, related call by call and
    over histories.
  \<^item> \<open>Retries\<close>: what the catalog tells a client about a rejected request (\<open>Status\<close>, \<open>Retry\<close>) against all
    histories of the system.
  \<^item> \<open>Init_Specs\<close>: initialization against the structures of the module \<open>test_utils\<close> at the end of
    \<open>packages/shared/src/lib.rs\<close>, with the guard as the interface \<open>initializer\<close>.
  \<^item> \<open>Test_Runner\<close>, \<open>Config_Tests\<close>, \<open>Issuer_Tests\<close>, \<open>Proof_Tests\<close>: the \<open>cfg(test)\<close> modules of the three
    contracts, one definition per \<open>#[test]\<close> function. The locale \<open>test_host\<close> states what the tests
    rely on of the test host; the scripts run the test build.
  \<^item> \<open>Fuzz_Targets\<close> (\<open>fuzz/fuzz_targets/*.rs\<close>): the six fuzz targets as functions on byte strings.

  \<^bold>\<open>What the lemmas show.\<close> For each contract: well-formed storage is kept by every entry point, so no read
  finds a value of another type; every history has exactly the outcomes and the final state of the
  abstract specification, on every branch; the events determine the state (protocol-config,
  issuer-registry); every change needs the administrator. For issuer-registry: the index is exact, and
  revocation is final. For proof-registry: the gate fails closed whatever the called contracts do, a
  proof changes at most once and only by its issuer or the administrator, an invalid proof stays invalid. For the
  system: the gate is exact, every stored proof was admitted by it, a revoked issuer never
  registers again, recorded times are ordered, lifetimes are extended as far as the operator guide needs, and
  unless something irrevocable happened the administrators can always reopen the gate. Initialization
  stores exactly the documented values. The tables are compared with the code they document: the catalog's \<open>Status\<close> is
  exact, and its \<open>Retry\<close> is exact but for five codes. The two builds differ only in the installed code and in
  upgrades to code that is not uploaded. The tests pass on the test build, the fuzz targets never
  panic, and their decoders read their layouts back exactly when the input has the length they accept.

  \<^bold>\<open>Bounds and fuel.\<close> Integers are words of the source's width, \<open>BytesN<32>\<close> a 256-bit word. There is
  no fuel: the contracts have no loops, histories are finite lists, and the one function that is not
  structurally recursive (\<open>utf8_lossy\<close>) has a termination proof. Lifetime results assume that the
  ledger sequence plus 500000 fits 32 bits, as the documented rule of \<open>extend_ttl\<close> does.

  \<^bold>\<open>Not modelled.\<close> The host itself is third-party code: what it does is a parameter with its documented
  behaviour as hypotheses. Archival of expired entries is left out (an archived entry is restored
  before it is read), so lifetimes are numbers the contracts extend. An upgrade records the new code
  hash, the version and the event, but what the new code does is unknown: every history keeps running
  the entry points of this source, so the results hold up to the first upgrade to other code and beyond it only for
  code that behaves the same. Authorization is kept per address
  and invocation, not per argument list, and mocked authorizations of the tests likewise. Metering and resource limits
  are left out. The integration-test crates, scripts, bindings and documents under \<open>tests\<close>, \<open>scripts\<close> and
  \<open>docs\<close> are not translated; where the documents state behaviour, it was compared with the model.
\<close>

section \<open>Effects of the entry points on the installed code\<close>

lemma pc_call_wasm:
  assumes "pc_call e op s = (Inr (), s')" and "wasm s' \<noteq> wasm s"
  shows "op = PcUpgradeContract (wasm s')"
  using assms by (cases op) (auto simp: pc_defs run Let_def split: if_splits option.splits)

lemma ir_call_wasm:
  assumes "ir_call e op s = (Inr (), s')" and "wasm s' \<noteq> wasm s"
  shows "op = IrUpgradeContract (wasm s')"
  using assms
  by (cases op) (auto simp: ir_defs run Let_def split: if_splits option.splits prod.splits issuer_status.splits)

lemma pr_call_wasm:
  assumes "pr_call d e op s = (Inr (), s')" and "wasm s' \<noteq> wasm s"
  shows "op = PrUpgradeContract (wasm s')"
  using assms by (cases op) (auto simp: pr_defs run Let_def split: if_splits option.splits prod.splits)


text \<open>One approved upgrade step: the administrator authorizes it, the hash is on the allowlist for a
  higher version, and the step moves to that version and consumes the entry.\<close>

definition approved_upgrade :: "('s \<Rightarrow> u32) \<Rightarrow> ('s \<Rightarrow> bytes32 \<Rightarrow> u32 option) \<Rightarrow> ('s \<Rightarrow> address option)
    \<Rightarrow> env \<Rightarrow> bytes32 \<Rightarrow> 's \<Rightarrow> 's \<Rightarrow> bool" where
  "approved_upgrade version allowed admin e h s s' \<longleftrightarrow>
     (\<exists>a v. admin s = Some a \<and> authorized e a \<and> allowed s h = Some v \<and> version s < v \<and>
        version s' = v \<and> allowed s' = (allowed s)(h := None))"

lemma pc_wasm_change:
  assumes "pc_wf s" and "pc_call e op s = (Inr (), s')" and "wasm s' \<noteq> wasm s"
  shows "approved_upgrade pc_contract_version pc_allowed pc_admin e (wasm s') s s'"
proof -
  have op: "op = PcUpgradeContract (wasm s')" by (rule pc_call_wasm [OF assms(2,3)])
  have "\<exists>a. pc_admin s = Some a \<and> authorized e a"
    using pc_call_commits [OF assms(1,2)] op by (auto simp: cf_as_admin_def split: if_splits option.splits)
  then show ?thesis
    using pcu.call_installs [OF assms(1,2), of "wasm s'"] op unfolding approved_upgrade_def by (auto simp: pc_installs_def)
qed

lemma ir_wasm_change:
  assumes "ir_wf s" and "ir_call e op s = (Inr (), s')" and "wasm s' \<noteq> wasm s"
  shows "approved_upgrade ir_contract_version ir_allowed ir_admin e (wasm s') s s'"
proof -
  have op: "op = IrUpgradeContract (wasm s')" by (rule ir_call_wasm [OF assms(2,3)])
  have "\<exists>a. ir_admin s = Some a \<and> authorized e a"
    using ir_call_commits [OF assms(1,2)] op by (auto simp: rg_as_admin_def split: if_splits option.splits)
  then show ?thesis
    using iru.call_installs [OF assms(1,2), of "wasm s'"] op unfolding approved_upgrade_def by (auto simp: ir_installs_def)
qed

lemma pr_wasm_change:
  assumes "pr_wf s" and "pr_call d e op s = (Inr (), s')" and "wasm s' \<noteq> wasm s"
  shows "approved_upgrade pr_contract_version pr_allowed pr_admin e (wasm s') s s'"
proof -
  have op: "op = PrUpgradeContract (wasm s')" by (rule pr_call_wasm [OF assms(2,3)])
  have "\<exists>u. pr_setup s = Some u \<and> authorized e (su_admin u)"
    using pr_call_commits [OF assms(1,2)] op by (auto simp: ps_as_admin_def split: if_splits option.splits)
  then have "\<exists>a. pr_admin s = Some a \<and> authorized e a"
    by (auto simp: pr_setup_def)
  moreover have "pr_act d e (PrEntry op) s = (Inr (), s')" using assms(2) by simp
  ultimately show ?thesis
    using pru.call_installs [OF assms(1), of d e "PrEntry op" s' "wasm s'"] op
    unfolding approved_upgrade_def by (auto simp: pr_op_kinds)
qed

lemma wasm_committed:
  assumes "wasm (snd (invoke (m :: (('k, 'v, 'ev, 'z) contract_state_scheme, 'e, unit) contract_m) s)) \<noteq> wasm s"
  shows "m s = (Inr (), snd (invoke m s))"
  using assms by (cases rule: invoke_cases [of m s]) auto

section \<open>Properties across the contracts\<close>

text \<open>
  C21: the installed code of each of the three contracts changes only by an approved upgrade: in every
  reachable state, when an invocation leaves other code installed than before, the stored
  administrator authorized it, the new code's hash was on the allowlist for a version above the
  current one, and the call moved the contract to exactly that version and consumed the entry.
\<close>

theorem code_changes_only_by_approved_upgrade:
  "(wasm (snd (invoke (pc_call e op1) (pc_after h1 l1 w1))) \<noteq> wasm (pc_after h1 l1 w1) \<longrightarrow>
      approved_upgrade pc_contract_version pc_allowed pc_admin e
        (wasm (snd (invoke (pc_call e op1) (pc_after h1 l1 w1)))) (pc_after h1 l1 w1)
        (snd (invoke (pc_call e op1) (pc_after h1 l1 w1)))) \<and>
   (wasm (snd (invoke (ir_call e op2) (ir_after h2 l2 w2))) \<noteq> wasm (ir_after h2 l2 w2) \<longrightarrow>
      approved_upgrade ir_contract_version ir_allowed ir_admin e
        (wasm (snd (invoke (ir_call e op2) (ir_after h2 l2 w2)))) (ir_after h2 l2 w2)
        (snd (invoke (ir_call e op2) (ir_after h2 l2 w2)))) \<and>
   (wasm (snd (invoke (pr_call d e op3) (pr_after d h3 l3 w3 x3))) \<noteq> wasm (pr_after d h3 l3 w3 x3) \<longrightarrow>
      approved_upgrade pr_contract_version pr_allowed pr_admin e
        (wasm (snd (invoke (pr_call d e op3) (pr_after d h3 l3 w3 x3)))) (pr_after d h3 l3 w3 x3)
        (snd (invoke (pr_call d e op3) (pr_after d h3 l3 w3 x3))))"
proof (intro conjI impI)
  show "wasm (snd (invoke (pc_call e op1) (pc_after h1 l1 w1))) \<noteq> wasm (pc_after h1 l1 w1) \<Longrightarrow>
      approved_upgrade pc_contract_version pc_allowed pc_admin e
        (wasm (snd (invoke (pc_call e op1) (pc_after h1 l1 w1)))) (pc_after h1 l1 w1)
        (snd (invoke (pc_call e op1) (pc_after h1 l1 w1)))"
    by (rule pc_wasm_change [OF pc_after_wf], rule wasm_committed)
  show "wasm (snd (invoke (ir_call e op2) (ir_after h2 l2 w2))) \<noteq> wasm (ir_after h2 l2 w2) \<Longrightarrow>
      approved_upgrade ir_contract_version ir_allowed ir_admin e
        (wasm (snd (invoke (ir_call e op2) (ir_after h2 l2 w2)))) (ir_after h2 l2 w2)
        (snd (invoke (ir_call e op2) (ir_after h2 l2 w2)))"
    by (rule ir_wasm_change [OF ir_after_wf], rule wasm_committed)
  show "wasm (snd (invoke (pr_call d e op3) (pr_after d h3 l3 w3 x3))) \<noteq> wasm (pr_after d h3 l3 w3 x3) \<Longrightarrow>
      approved_upgrade pr_contract_version pr_allowed pr_admin e
        (wasm (snd (invoke (pr_call d e op3) (pr_after d h3 l3 w3 x3)))) (pr_after d h3 l3 w3 x3)
        (snd (invoke (pr_call d e op3) (pr_after d h3 l3 w3 x3)))"
    by (rule pr_wasm_change [OF pr_after_wf], rule wasm_committed)
qed

theorem code_changes_only_by_approved_upgrade_witness:
  "wasm (snd (invoke (pc_call sample_env (PcUpgradeContract 7)) (pc_after sample_config 0 0))) = 7 \<and>
   approved_upgrade pc_contract_version pc_allowed pc_admin sample_env 7 (pc_after sample_config 0 0)
     (snd (invoke (pc_call sample_env (PcUpgradeContract 7)) (pc_after sample_config 0 0)))"
proof -
  have new: "wasm (snd (invoke (pc_call sample_env (PcUpgradeContract 7)) (pc_after sample_config 0 0))) = 7"
    and "wasm (pc_after sample_config 0 0) = 0"
    by (simp_all add: sample_config_def pc_eval)
  then show ?thesis
    using code_changes_only_by_approved_upgrade [THEN conjunct1, rule_format,
        of sample_env "PcUpgradeContract 7" sample_config 0 0] by simp
qed

text \<open>
  C22: in each of the three contracts the version counts upgrades: over any further history from a
  reachable state, the version grows by at least one for every committed installation, so it
  never falls and no more installations can follow than the distance to \<open>u32::MAX\<close>.
\<close>

theorem versions_count_upgrades:
  "unat (pc_contract_version (pc_after h1 l1 w1)) + installs_of pc_call pc_installs g1 (pc_after h1 l1 w1)
     \<le> unat (pc_contract_version (run_calls pc_call g1 (pc_after h1 l1 w1))) \<and>
   unat (ir_contract_version (ir_after h2 l2 w2)) + installs_of ir_call ir_installs g2 (ir_after h2 l2 w2)
     \<le> unat (ir_contract_version (run_calls ir_call g2 (ir_after h2 l2 w2))) \<and>
   unat (pr_contract_version (pr_after d h3 l3 w3 x3)) + installs_of (pr_act d) pr_installs g3 (pr_after d h3 l3 w3 x3)
     \<le> unat (pr_contract_version (run_calls (pr_act d) g3 (pr_after d h3 l3 w3 x3)))"
  by (intro conjI pcu.installs_bound [OF pc_after_wf] iru.installs_bound [OF ir_after_wf]
      pru.installs_bound [OF pr_after_wf])

text \<open>
  C25: in all three contracts every check precedes every write: an entry point that returns an error
  code or fails an authorization has changed nothing of its own contract, even before the host
  rolls it back. A proof registration rejected after it asked the other contracts may have
  made them extend lifetimes; only that is left to the rollback.
\<close>

theorem checks_precede_effects:
  assumes "a = Err z \<or> a = AuthFailure y" and "b = Err (c :: u32) \<or> b = AuthFailure y"
  shows "(pc_call e op1 s1 = (Inl a, t1) \<longrightarrow> t1 = s1) \<and> (ir_call e op2 s2 = (Inl b, t2) \<longrightarrow> t2 = s2) \<and>
     (pr_call d e op3 s3 = (Inl b, t3) \<longrightarrow> t3 = s3\<lparr>others := others t3\<rparr>)"
proof (intro conjI impI)
  show "pc_call e op1 s1 = (Inl a, t1) \<Longrightarrow> t1 = s1"
    using assms(1) pc_call_err_state pc_call_auth_state by blast
  show "ir_call e op2 s2 = (Inl b, t2) \<Longrightarrow> t2 = s2"
    using assms(2) ir_call_err_state ir_call_auth_state by blast
  show "pr_call d e op3 s3 = (Inl b, t3) \<Longrightarrow> t3 = s3\<lparr>others := others t3\<rparr>"
    using assms(2) pr_call_err_state [of d e op3 s3 _ t3] pr_call_auth_state [of d e op3 s3 _ t3] by auto
qed

theorem checks_precede_effects_witness:
  "\<exists>t. ir_call sample_env (IrRotateIssuerAddress 21 (Address 103)) (ir_after sample_registry 0 0) =
       (Inl (Err 202), t) \<and> t = ir_after sample_registry 0 0"
proof -
  obtain t where t: "ir_call sample_env (IrRotateIssuerAddress 21 (Address 103)) (ir_after sample_registry 0 0) =
      (Inl (Err 202), t)"
    by (simp add: sample_registry_def ir_eval)
  have "t = ir_after sample_registry 0 0"
    using checks_precede_effects [of "Err InvalidInput" InvalidInput _ "Err 202" 202, THEN conjunct2, THEN conjunct1, rule_format, OF _ _ t]
    by blast
  with t show ?thesis by blast
qed

section \<open>The tests\<close>

text \<open>
  The repository's own test modules pass on the model of the test build, on every host that meets the
  documented assumptions and whatever code is deployed: each of the 110 \<open>#[test]\<close> functions of the three contracts
  ends as its attribute demands, returning where it has none and panicking, with the expected
  message where one is given, where it is marked \<open>should_panic\<close>. With \<open>Builds\<close>, what they observe is also
  what the deployed build does, as long as the code to be installed is uploaded.
\<close>

lemma inline_tests_pass:
  assumes "test_host e"
  shows "list_all (passes (pc_world e lu h)) pc_suite" "list_all (passes (ir_world e lu h)) ir_suite"
    "list_all (passes (pr_world e lu h)) pr_suite"
  by (rule test_host.pc_suite_passes [OF assms] test_host.ir_suite_passes [OF assms] test_host.pr_suite_passes [OF assms])+

lemma inline_tests_complete: "length pc_suite + length ir_suite + length pr_suite = 110"
  by (simp add: pc_suite_def ir_suite_def pr_suite_def)

lemma inline_tests_pass_default:
  "list_all (passes (pc_world default_env 0 0)) pc_suite" "list_all (passes (ir_world default_env 0 0)) ir_suite"
  "list_all (passes (pr_world default_env 0 0)) pr_suite"
  by (rule inline_tests_pass [OF default_host.test_host_axioms])+

end
